(* ===== verification/Prelude.thy ===== *)
theory Prelude
  imports Main "HOL-Library.Word"
begin

text \<open>
  Shared ground of the mcelog development: the C integer types, the character and string
  functions of the C library that the sources call, \<open>printf\<close> formatting, C designated
  initialisers, and the generic lemmas and fact collections that the component theories use.

  Strings are C strings without their terminating NUL. Memory allocation (\<open>xalloc\<close>,
  \<open>xstrdup\<close>, \<open>xasprintf\<close> of \<^verbatim>\<open>src/memutil.c\<close>) either succeeds or ends the process; the
  model follows the runs in which it succeeds.
\<close>

unbundle bit_operations_syntax

type_synonym u8 = "8 word"
type_synonym u16 = "16 word"
type_synonym u32 = "32 word"
type_synonym u64 = "64 word"

named_theorems c_defs \<open>definitions of small C helpers, unfolded in proofs\<close>
named_theorems frame \<open>which parts of the state an operation leaves alone\<close>
named_theorems bits \<open>masks, shifts and bounds on machine words\<close>
named_theorems tables \<open>decoder tables and the decoders that read them\<close>

section \<open>Characters and strings of the C library (C locale)\<close>

definition isspace :: "char \<Rightarrow> bool" where
  "isspace c \<longleftrightarrow> c \<in> {CHR '' '', CHR 0x09, CHR 0x0A, CHR 0x0B, CHR 0x0C, CHR 0x0D}"

definition isdigit :: "char \<Rightarrow> bool" where
  "isdigit c \<longleftrightarrow> 48 \<le> (of_char c :: nat) \<and> (of_char c :: nat) \<le> 57"

definition isupper :: "char \<Rightarrow> bool" where
  "isupper c \<longleftrightarrow> 65 \<le> (of_char c :: nat) \<and> (of_char c :: nat) \<le> 90"

definition islower :: "char \<Rightarrow> bool" where
  "islower c \<longleftrightarrow> 97 \<le> (of_char c :: nat) \<and> (of_char c :: nat) \<le> 122"

definition tolower :: "char \<Rightarrow> char" where
  "tolower c = (if isupper c then char_of ((of_char c :: nat) + 32) else c)"

text \<open>The comparisons are used as tests for equality only: the model returns that test.\<close>

definition strcaseeq :: "string \<Rightarrow> string \<Rightarrow> bool" where
  "strcaseeq s t \<longleftrightarrow> map tolower s = map tolower t"

definition strneq :: "string \<Rightarrow> string \<Rightarrow> nat \<Rightarrow> bool" where
  "strneq s t n \<longleftrightarrow> take n s = take n t"

definition strcspn :: "string \<Rightarrow> char \<Rightarrow> nat" where
  "strcspn s c = length (takeWhile (\<lambda>x. x \<noteq> c) s)"

definition strchr :: "string \<Rightarrow> char \<Rightarrow> nat option" where
  "strchr s c = (if c \<in> set s then Some (strcspn s c) else None)"

definition skipspace :: "string \<Rightarrow> string" where
  "skipspace s = dropWhile isspace s"

lemma skipspace_simps [simp]:
  "skipspace [] = []"
  "skipspace (c # s) = (if isspace c then skipspace s else c # s)"
  by (simp_all add: skipspace_def)

lemma tolower_idem [simp]: "tolower (tolower c) = tolower c"
proof (cases "isupper c")
  case True
  then have "\<not> isupper (char_of ((of_char c :: nat) + 32))"
    by (simp add: isupper_def)
  with True show ?thesis by (simp add: tolower_def)
qed (simp add: tolower_def)

lemma strcspn_le: "strcspn s c \<le> length s"
  by (simp add: strcspn_def length_takeWhile_le)

lemma strcspn_less_iff: "strcspn s c < length s \<longleftrightarrow> c \<in> set s"
proof (induction s)
  case (Cons x xs)
  then show ?case by (auto simp: strcspn_def)
qed (simp add: strcspn_def)

lemma take_strcspn: "take (strcspn s c) s = takeWhile (\<lambda>x. x \<noteq> c) s"
  by (simp add: strcspn_def takeWhile_eq_take [symmetric])

lemma notin_take_strcspn: "c \<notin> set (take (strcspn s c) s)"
  by (auto simp: take_strcspn dest: set_takeWhileD)

lemma nth_strcspn: "c \<in> set s \<Longrightarrow> s ! strcspn s c = c"
  using nth_length_takeWhile [of "\<lambda>x. x \<noteq> c" s] strcspn_less_iff [of s c]
  by (simp add: strcspn_def)

lemma split_strcspn:
  assumes "c \<in> set s"
  shows "s = take (strcspn s c) s @ c # drop (Suc (strcspn s c)) s"
proof -
  have "strcspn s c < length s" using assms by (simp add: strcspn_less_iff)
  then have "s = take (strcspn s c) s @ s ! strcspn s c # drop (Suc (strcspn s c)) s"
    by (rule id_take_nth_drop)
  then show ?thesis using nth_strcspn [OF assms] by simp
qed

section \<open>Numbers as text, printf\<close>

definition digit_char :: "nat \<Rightarrow> char" where
  "digit_char d = (if d < 10 then char_of (48 + d) else char_of (87 + d))"

fun radix :: "nat \<Rightarrow> nat \<Rightarrow> string" where
  "radix b n = (if b < 2 \<or> n < b then [digit_char n] else radix b (n div b) @ [digit_char (n mod b)])"

declare radix.simps [simp del]

definition show_int :: "int \<Rightarrow> string" where
  "show_int i = (if i < 0 then CHR ''-'' # radix 10 (nat (- i)) else radix 10 (nat i))"

text \<open>
  The arguments of a formatted print: \<open>PN\<close> a number (its mathematical value, after the C
  conversion to the argument's type), \<open>PS\<close> a string.
\<close>

datatype parg = PN int | PS string

abbreviation PU :: "'a::len word \<Rightarrow> parg" where
  "PU w \<equiv> PN (uint w)"

definition pad :: "bool \<Rightarrow> nat \<Rightarrow> string \<Rightarrow> string \<Rightarrow> string" where
  "pad zero w pre body =
     (let fill = w - (length pre + length body)
      in if zero then pre @ replicate fill (CHR ''0'') @ body
         else replicate fill (CHR '' '') @ pre @ body)"

fun conv :: "bool \<Rightarrow> bool \<Rightarrow> nat \<Rightarrow> char \<Rightarrow> parg \<Rightarrow> string" where
  "conv alt zero w c (PS s) = pad False w [] s"
| "conv alt zero w c (PN i) =
     (if c = CHR ''x''
      then pad zero w (if alt \<and> i \<noteq> 0 then ''0x'' else []) (radix 16 (nat i))
      else if c = CHR ''c'' then pad False w [] [char_of (nat i)]
      else pad zero w (if i < 0 then ''-'' else []) (radix 10 (nat \<bar>i\<bar>)))"

text \<open>The state of the format scanner: in literal text, or inside a conversion specification
  with the flags and the width read so far. The length modifiers \<open>l\<close> and \<open>ll\<close> are skipped,
  since the argument is already a mathematical value.\<close>

datatype fstate = Txt | Spec bool bool nat

fun fprint :: "fstate \<Rightarrow> string \<Rightarrow> parg list \<Rightarrow> string" where
  "fprint st [] args = []"
| "fprint Txt (c # cs) args =
     (if c = CHR ''%'' then fprint (Spec False False 0) cs args else c # fprint Txt cs args)"
| "fprint (Spec alt zero w) (c # cs) args =
     (if c = CHR ''%'' then c # fprint Txt cs args
      else if c = CHR ''#'' then fprint (Spec True zero w) cs args
      else if c = CHR ''0'' \<and> w = 0 then fprint (Spec alt True w) cs args
      else if isdigit c then fprint (Spec alt zero (10 * w + ((of_char c :: nat) - 48))) cs args
      else if c = CHR ''l'' then fprint (Spec alt zero w) cs args
      else (case args of [] \<Rightarrow> [] | a # as \<Rightarrow> conv alt zero w c a @ fprint Txt cs as))"

definition printf :: "string \<Rightarrow> parg list \<Rightarrow> string" where
  "printf fmt args = fprint Txt fmt args"

lemma fprint_plain: "CHR ''%'' \<notin> set fmt \<Longrightarrow> fprint Txt fmt args = fmt"
  by (induction fmt) auto

lemma printf_plain: "CHR ''%'' \<notin> set fmt \<Longrightarrow> printf fmt args = fmt"
  by (simp add: printf_def fprint_plain)

lemma fprint_append_plain:
  "CHR ''%'' \<notin> set pre \<Longrightarrow> fprint Txt (pre @ fmt) args = pre @ fprint Txt fmt args"
  by (induction pre) auto

lemma radix_nonempty [simp]: "radix b n \<noteq> []"
  by (subst radix.simps) simp

text \<open>The value a digit string denotes, most significant digit first.\<close>

definition digit_val :: "char \<Rightarrow> nat" where
  "digit_val c = (if isdigit c then (of_char c :: nat) - 48 else (of_char c :: nat) - 87)"

definition radix_val :: "nat \<Rightarrow> string \<Rightarrow> nat" where
  "radix_val b s = foldl (\<lambda>a c. a * b + digit_val c) 0 s"

lemma digit_val_char: "d < 16 \<Longrightarrow> digit_val (digit_char d) = d"
  by (simp add: digit_val_def digit_char_def isdigit_def)

lemma radix_val_snoc: "radix_val b (s @ [c]) = radix_val b s * b + digit_val c"
  by (simp add: radix_val_def)

lemma radix_val_radix: "2 \<le> b \<Longrightarrow> b \<le> 16 \<Longrightarrow> radix_val b (radix b n) = n"
proof (induction b n rule: radix.induct)
  case (1 b n)
  show ?case
  proof (cases "n < b")
    case True
    then show ?thesis using "1.prems"
      by (subst radix.simps) (simp add: radix_val_def digit_val_char)
  next
    case False
    then have IH: "radix_val b (radix b (n div b)) = n div b" using 1 by simp
    have "n mod b < 16" using "1.prems" by (meson less_le_trans mod_less_divisor zero_less_numeral)
    then show ?thesis using False "1.prems" IH
      by (subst radix.simps) (simp add: radix_val_snoc digit_val_char)
  qed
qed

lemma isdigit_digit_char: "d < 10 \<Longrightarrow> isdigit (digit_char d)"
  by (simp add: isdigit_def digit_char_def)

lemma radix10_digits: "list_all isdigit (radix 10 n)"
proof (induction "10::nat" n rule: radix.induct)
  case (1 n)
  then show ?case by (subst radix.simps) (simp add: isdigit_digit_char)
qed

section \<open>C arrays from designated initialisers\<close>

text \<open>
  A C array of string pointers written with designated initialisers: the entries not named are
  null pointers (\<open>None\<close>), and without a declared size the array ends at its largest index.
\<close>

definition tbl_n :: "nat \<Rightarrow> (nat \<times> 'a) list \<Rightarrow> 'a option list" where
  "tbl_n n es = map (map_of (rev es)) [0..<n]"

definition tbl :: "(nat \<times> 'a) list \<Rightarrow> 'a option list" where
  "tbl es = tbl_n (Suc (Max (set (0 # map fst es)))) es"

definition tbl_range :: "nat \<Rightarrow> nat \<Rightarrow> 'a \<Rightarrow> (nat \<times> 'a) list" where
  "tbl_range lo hi s = map (\<lambda>i. (i, s)) [lo..<Suc hi]"

lemma length_tbl_n [simp]: "length (tbl_n n es) = n"
  by (simp add: tbl_n_def)

lemma nth_tbl_n [simp]: "i < n \<Longrightarrow> tbl_n n es ! i = map_of (rev es) i"
  by (simp add: tbl_n_def)

section \<open>Words\<close>

lemma and_push_bit_1_eq [bits]: "(x :: 'a::len word) AND push_bit n 1 = 0 \<longleftrightarrow> \<not> bit x n"
  by (simp add: push_bit_of_1 and_exp_eq_0_iff_not_bit)

lemma and_mask_less [bits]: "n < LENGTH('a) \<Longrightarrow> (x::'a::len word) AND mask n < 2 ^ n"
  by (rule and_mask_less')

lemma uint_and_mask [bits]: "uint ((x::'a::len word) AND mask n) < 2 ^ n"
  by (simp add: take_bit_eq_mask [symmetric] unsigned_take_bit_eq)

lemma unat_less: "unat (x :: 'a::len word) < 2 ^ LENGTH('a)"
  by (rule unsigned_less)

lemma unat_ucast_up [simp]:
  assumes "LENGTH('a) \<le> LENGTH('b)"
  shows "unat (ucast (x :: 'a::len word) :: 'b::len word) = unat x"
proof -
  have "unat x < 2 ^ LENGTH('b)"
    using unat_less [of x] assms by (meson less_le_trans one_le_numeral power_increasing)
  then show ?thesis by (simp add: unsigned_ucast_eq take_bit_nat_eq_self)
qed

end
