(* ===== verification/Sscanf.thy ===== *)
theory Sscanf
  imports Prelude Complex_Main
begin

text \<open>
  The part of the C library's \<open>sscanf\<close> that mcelog uses: white space and literal characters in
  the format, and the conversions \<open>%u\<close>, \<open>%d\<close>, \<open>%i\<close>, \<open>%x\<close>, \<open>%lf\<close>, \<open>%s\<close>, \<open>%[...]\<close> and \<open>%n\<close> with an
  optional field width. Only a set of characters occurs with the suppression \<open>%*\<close>. A format is first cut into
  directives, which are then run over the input.
\<close>

datatype directive = DSpace | DLit char | DConv nat char
  | DSet bool nat string   \<comment> \<open>suppressed, width, the text between the brackets\<close>

datatype sval = SN int | SS string | SF rat

datatype sfstate = STxt | SSpec bool nat | SSet bool nat string

fun scanf_fmt :: "sfstate \<Rightarrow> string \<Rightarrow> directive list" where
  "scanf_fmt st [] = []"
| "scanf_fmt STxt (c # cs) =
     (if isspace c then DSpace # scanf_fmt STxt cs
      else if c = CHR ''%'' then scanf_fmt (SSpec False 0) cs
      else DLit c # scanf_fmt STxt cs)"
| "scanf_fmt (SSpec supp w) (c # cs) =
     (if isdigit c then scanf_fmt (SSpec supp (10 * w + ((of_char c :: nat) - 48))) cs
      else if c = CHR ''l'' \<or> c = CHR ''L'' then scanf_fmt (SSpec supp w) cs
      else if c = CHR ''*'' then scanf_fmt (SSpec True w) cs
      else if c = CHR ''['' then scanf_fmt (SSet supp w []) cs
      else DConv w c # scanf_fmt STxt cs)"
| "scanf_fmt (SSet supp w cset) (c # cs) =
     (if c = CHR '']'' then DSet supp w cset # scanf_fmt STxt cs else scanf_fmt (SSet supp w (cset @ [c])) cs)"

definition limit :: "nat \<Rightarrow> string \<Rightarrow> string" where
  "limit w s = (if w = 0 then s else take w s)"

definition isxdigit :: "char \<Rightarrow> bool" where
  "isxdigit c \<longleftrightarrow> isdigit c \<or> (97 \<le> (of_char (tolower c) :: nat) \<and> (of_char (tolower c) :: nat) \<le> 102)"

text \<open>\<open>strtoul\<close> and \<open>strtol\<close> on a sign and a magnitude: both saturate at the ends of the 64-bit
  range, and \<open>strtoul\<close> negates modulo \<open>2^64\<close>.\<close>

definition strtoul_val :: "bool \<Rightarrow> nat \<Rightarrow> int" where
  "strtoul_val neg v =
     (if 2 ^ 64 \<le> int v then 2 ^ 64 - 1 else if neg then (- int v) mod 2 ^ 64 else int v)"

definition strtol_val :: "bool \<Rightarrow> nat \<Rightarrow> int" where
  "strtol_val neg v = (if neg then max (- (2 ^ 63)) (- int v) else min (2 ^ 63 - 1) (int v))"

definition scan_sign :: "string \<Rightarrow> bool \<times> string" where
  "scan_sign s = (case s of [] \<Rightarrow> (False, [])
     | c # cs \<Rightarrow> if c = CHR ''-'' then (True, cs) else if c = CHR ''+'' then (False, cs) else (False, s))"

text \<open>The base of a number: \<open>%i\<close> reads hexadecimal after \<open>0x\<close> and octal after \<open>0\<close>.\<close>

definition hex_prefix :: "string \<Rightarrow> bool" where
  "hex_prefix r \<longleftrightarrow> map tolower (take 2 r) = ''0x''"

definition num_base :: "char \<Rightarrow> string \<Rightarrow> nat" where
  "num_base c r =
     (if c = CHR ''x'' then 16
      else if c = CHR ''i'' then if hex_prefix r then 16 else if take 1 r = ''0'' then 8 else 10
      else 10)"

definition base_digit :: "nat \<Rightarrow> char \<Rightarrow> bool" where
  "base_digit b c \<longleftrightarrow> (if b = 16 then isxdigit c else if b = 8 then isdigit c \<and> (of_char c :: nat) < 56 else isdigit c)"

definition scan_num :: "nat \<Rightarrow> char \<Rightarrow> string \<Rightarrow> (sval \<times> string) option" where
  "scan_num w c s =
     (let (neg, r) = scan_sign (limit w s);
          b = num_base c r;
          r' = (if b = 16 \<and> hex_prefix r then drop 2 r else r);
          ds = takeWhile (base_digit b) r';
          v = radix_val b (map tolower ds);
          used = length (limit w s) - length r' + length ds
      in if ds = [] then None
         else Some (SN (if c = CHR ''d'' \<or> c = CHR ''i'' then strtol_val neg v else strtoul_val neg v), drop used s))"

text \<open>\<open>%lf\<close>: the exact value of a decimal number with an optional fraction and exponent. The hexadecimal form, infinities
  and NaN are not read.\<close>

definition scan_exp :: "string \<Rightarrow> int \<times> string" where
  "scan_exp s =
     (case s of
        [] \<Rightarrow> (0, s)
      | e # es \<Rightarrow>
          if tolower e = CHR ''e''
          then let (neg, r) = scan_sign es; ds = takeWhile isdigit r
               in if ds = [] then (0, s)
                  else (if neg then - int (radix_val 10 ds) else int (radix_val 10 ds), drop (length ds) r)
          else (0, s))"

definition scan_dbl :: "string \<Rightarrow> (sval \<times> string) option" where
  "scan_dbl s =
     (let (neg, r) = scan_sign s;
          a = takeWhile isdigit r;
          r = drop (length a) r;
          f = (if take 1 r = ''.'' then takeWhile isdigit (drop 1 r) else []);
          r = (if take 1 r = ''.'' \<and> (a \<noteq> [] \<or> f \<noteq> []) then drop (1 + length f) r else r)
      in if a = [] \<and> f = [] then None
         else let (e, r) = scan_exp r;
                  v = of_nat (radix_val 10 (a @ f)) * (10 :: rat) powi (e - int (length f))
              in Some (SF (if neg then - v else v), r))"

text \<open>Sets of characters: a leading \<open>^\<close> complements, and \<open>a-b\<close> is a range.\<close>

fun in_cset :: "string \<Rightarrow> char \<Rightarrow> bool" where
  "in_cset (a # CHR 0x2D # b # cs) c \<longleftrightarrow>
     ((of_char a :: nat) \<le> of_char c \<and> (of_char c :: nat) \<le> of_char b) \<or> in_cset cs c"
| "in_cset (a # cs) c \<longleftrightarrow> a = c \<or> in_cset cs c"
| "in_cset [] c \<longleftrightarrow> False"

definition in_set :: "string \<Rightarrow> char \<Rightarrow> bool" where
  "in_set cset c \<longleftrightarrow> (if take 1 cset = ''^'' then \<not> in_cset (drop 1 cset) c else in_cset cset c)"

definition scan_str :: "nat \<Rightarrow> string \<Rightarrow> sval \<times> string" where
  "scan_str w s = (let t = takeWhile (\<lambda>c. \<not> isspace c) (limit w s) in (SS t, drop (length t) s))"

text \<open>
  \<open>scan n ds s k acc\<close> runs the directives \<open>ds\<close> on the rest \<open>s\<close> of an input of length \<open>n\<close>, with
  \<open>k\<close> conversions done and their values in \<open>acc\<close>. The result is \<open>sscanf\<close>'s return value
  (\<open>EOF\<close> is \<open>-1\<close>) and the values assigned. \<open>%n\<close> stores the number of characters read and is not
  counted.
\<close>

fun scan :: "nat \<Rightarrow> directive list \<Rightarrow> string \<Rightarrow> nat \<Rightarrow> sval list \<Rightarrow> int \<times> sval list" where
  "scan n [] s k acc = (int k, acc)"
| "scan n (DSpace # ds) s k acc = scan n ds (skipspace s) k acc"
| "scan n (DLit c # ds) s k acc =
     (case s of [] \<Rightarrow> (if k = 0 then -1 else int k, acc)
      | x # xs \<Rightarrow> if x = c then scan n ds xs k acc else (int k, acc))"
| "scan n (DConv w c # ds) s k acc =
     (if c = CHR ''n'' then scan n ds s k (acc @ [SN (int (n - length s))])
      else if skipspace s = [] then (if k = 0 then -1 else int k, acc)
      else if c = CHR ''s''
           then (let (v, r) = scan_str w (skipspace s) in scan n ds r (Suc k) (acc @ [v]))
      else (case (if c = CHR ''f'' then scan_dbl (skipspace s) else scan_num w c (skipspace s)) of
              None \<Rightarrow> (int k, acc)
            | Some (v, r) \<Rightarrow> scan n ds r (Suc k) (acc @ [v])))"
| "scan n (DSet supp w cset # ds) s k acc =
     (let t = takeWhile (in_set cset) (limit w s)
      in if s = [] then (if k = 0 then -1 else int k, acc)
         else if t = [] then (int k, acc)
         else if supp then scan n ds (drop (length t) s) k acc
         else scan n ds (drop (length t) s) (Suc k) (acc @ [SS t]))"

definition sscanf :: "string \<Rightarrow> string \<Rightarrow> int \<times> sval list" where
  "sscanf s fmt = scan (length s) (scanf_fmt STxt fmt) s 0 []"

lemma limit_0 [simp]: "limit 0 s = s"
  by (simp add: limit_def)

lemma digit_not_space: "isdigit c \<Longrightarrow> \<not> isspace c"
  by (auto simp: isdigit_def isspace_def)

lemma digit_not_sign: "isdigit c \<Longrightarrow> c \<noteq> CHR ''-'' \<and> c \<noteq> CHR ''+''"
  by (auto simp: isdigit_def)

lemma tolower_digit: "isdigit c \<Longrightarrow> tolower c = c"
  by (auto simp: isdigit_def tolower_def isupper_def)

lemma map_tolower_digits: "list_all isdigit ds \<Longrightarrow> map tolower ds = ds"
  by (induction ds) (auto simp: tolower_digit)

lemma radix10_conv: obtains d ds where "radix 10 n = d # ds" "isdigit d"
  using radix10_digits [of n] by (cases "radix 10 n") auto

text \<open>Reading back a printed decimal number, whatever non-digit follows it.\<close>

lemma scan_num_radix:
  assumes rest: "rest = [] \<or> \<not> isdigit (hd rest)" and n: "int n < 2 ^ 64"
    and c: "c \<noteq> CHR ''x''" "c \<noteq> CHR ''d''" "c \<noteq> CHR ''i''"
  shows "scan_num 0 c (radix 10 n @ rest) = Some (SN (int n), rest)"
proof -
  obtain d ds where d: "radix 10 n = d # ds" "isdigit d" by (rule radix10_conv)
  have sign: "scan_sign (radix 10 n @ rest) = (False, radix 10 n @ rest)"
    using d digit_not_sign [of d] by (simp add: scan_sign_def)
  have b: "num_base c r = 10" for r using c by (simp add: num_base_def)
  have "list_all isdigit (radix 10 n)" by (rule radix10_digits)
  then have tw: "takeWhile (base_digit 10) (radix 10 n @ rest) = radix 10 n"
    using rest by (cases rest) (auto simp: takeWhile_append2 list_all_iff base_digit_def)
  have "radix_val 10 (map tolower (radix 10 n)) = n"
    using map_tolower_digits [OF radix10_digits] by (simp add: radix_val_radix)
  then show ?thesis using n c
    by (simp add: scan_num_def Let_def sign b tw strtoul_val_def del: map_map)
qed

lemma skipspace_radix [simp]: "skipspace (radix 10 n @ rest) = radix 10 n @ rest"
proof -
  obtain d ds where d: "radix 10 n = d # ds" "isdigit d" by (rule radix10_conv)
  then show ?thesis using digit_not_space [of d] by (simp add: skipspace_def)
qed

text \<open>Storing a conversion through an \<open>int\<close> pointer.\<close>

fun sval_int :: "sval \<Rightarrow> int" where
  "sval_int (SN i) = sint (word_of_int i :: 32 word)"
| "sval_int (SS s) = 0"
| "sval_int (SF x) = 0"

end
