(* ===== verification/CDouble.thy ===== *)
theory CDouble
  imports Prelude Complex_Main
begin

text \<open>
  The fragment of IEEE double arithmetic that the ageing of a leaky bucket uses: non-negative
  numbers, one division and products, every result rounded to 53 significant bits (to nearest,
  ties to even), and the conversion of the result to \<open>unsigned\<close>. The magnitudes that occur stay
  below \<open>2^103\<close> and above \<open>2^-32\<close>, so the exponent range of a double is never left; a division by
  zero gives a non-finite value (\<open>NonFin\<close> for an infinity or a NaN).
\<close>

fun bitlen :: "nat \<Rightarrow> nat" where
  "bitlen n = (if n = 0 then 0 else Suc (bitlen (n div 2)))"

declare bitlen.simps [simp del]

definition scale2 :: "int \<Rightarrow> rat" where
  "scale2 e = (if 0 \<le> e then 2 ^ nat e else 1 / 2 ^ nat (- e))"

text \<open>The exponent of a positive rational \<open>n / d\<close>: the position of its leading bit.\<close>

definition lead_exp :: "rat \<Rightarrow> int" where
  "lead_exp x =
     (let (n, d) = quotient_of x; k = int (bitlen (nat n)) - int (bitlen (nat d))
      in if scale2 k \<le> x then k else k - 1)"

definition round_even :: "rat \<Rightarrow> int" where
  "round_even y =
     (let f = \<lfloor>y\<rfloor>; r = y - of_int f
      in if r < 1 / 2 then f else if 1 / 2 < r then f + 1 else if even f then f else f + 1)"

definition rnd :: "rat \<Rightarrow> rat" where
  "rnd x = (if x \<le> 0 then 0
            else let e = lead_exp x - 52 in of_int (round_even (x / scale2 e)) * scale2 e)"

datatype dbl = Fin rat | NonFin

definition dbl_of_int :: "int \<Rightarrow> dbl" where
  "dbl_of_int i = Fin (rnd (of_int i))"

fun dbl_div :: "dbl \<Rightarrow> dbl \<Rightarrow> dbl" where
  "dbl_div (Fin x) (Fin y) = (if y = 0 then NonFin else Fin (rnd (x / y)))"
| "dbl_div _ _ = NonFin"

fun dbl_mult :: "dbl \<Rightarrow> dbl \<Rightarrow> dbl" where
  "dbl_mult (Fin x) (Fin y) = Fin (rnd (x * y))"
| "dbl_mult _ _ = NonFin"

text \<open>
  Conversion to \<open>unsigned\<close>. C defines it for values below \<open>2^32\<close> only (truncation). Outside that
  range the model takes what the x86-64 code does: the value is truncated to a signed 64-bit
  integer, of which the low half is kept; a value that does not fit 64 bits gives the integer
  indefinite value \<open>2^63\<close>, whose low half is 0.
\<close>

fun dbl_to_u32 :: "dbl \<Rightarrow> u32" where
  "dbl_to_u32 (Fin x) = (if x < 2 ^ 63 then word_of_int \<lfloor>x\<rfloor> else 0)"
| "dbl_to_u32 NonFin = 0"

section \<open>Rounding keeps small integers and the order relative to them\<close>

lemma scale2_pos [simp]: "0 < scale2 e"
  by (simp add: scale2_def)

lemma scale2_add: "scale2 (a + b) = scale2 a * scale2 b"
proof -
  have "scale2 e = 2 powi e" for e
    by (simp add: scale2_def power_int_def field_simps)
  then show ?thesis by (simp add: power_int_add)
qed

lemma scale2_nat: "scale2 (int n) = 2 ^ n"
  by (simp add: scale2_def)

lemma bitlen_bounds: "0 < n \<Longrightarrow> 2 ^ (bitlen n - 1) \<le> n \<and> n < 2 ^ bitlen n"
proof (induction n rule: bitlen.induct)
  case (1 n)
  show ?case
  proof (cases "n = 1")
    case True
    then show ?thesis by (simp add: bitlen.simps)
  next
    case False
    then have h: "0 < n div 2" using "1.prems" by simp
    have IH: "2 ^ (bitlen (n div 2) - 1) \<le> n div 2 \<and> n div 2 < 2 ^ bitlen (n div 2)"
      using "1.IH" "1.prems" h by blast
    have k: "bitlen (n div 2) = Suc (bitlen (n div 2 div 2))"
      using h by (subst bitlen.simps) simp
    show ?thesis using IH k "1.prems" by (subst (1 2) bitlen.simps) (simp; linarith)
  qed
qed

lemma round_even_ge: "of_int k \<le> y \<Longrightarrow> k \<le> round_even y"
  by (auto simp: round_even_def Let_def le_floor_iff intro: le_floor_iff [THEN iffD2] order_trans)

lemma round_even_le:
  assumes "y \<le> of_int k"
  shows "round_even y \<le> k"
proof (cases "y = of_int k")
  case True
  then show ?thesis by (simp add: round_even_def)
next
  case False
  then have "\<lfloor>y\<rfloor> < k" using assms by (simp add: floor_less_iff)
  then show ?thesis by (simp add: round_even_def Let_def)
qed

lemma lead_exp_bounds:
  assumes "0 < x"
  shows "scale2 (lead_exp x) \<le> x" and "x < scale2 (lead_exp x + 1)"
proof -
  obtain n d where q: "quotient_of x = (n, d)" by (cases "quotient_of x")
  have d: "0 < d" and x: "x = of_int n / of_int d"
    using quotient_of_denom_pos [OF q] quotient_of_div [OF q] by auto
  have n: "0 < n" using assms d x by (simp add: zero_less_divide_iff)
  define a b where "a = bitlen (nat n)" and "b = bitlen (nat d)"
  have ab: "0 < a" "0 < b" using n d by (simp_all add: a_def b_def bitlen.simps)
  have ni: "2 ^ (a - 1) \<le> n" "n < 2 ^ a" and di: "2 ^ (b - 1) \<le> d" "d < 2 ^ b"
    using bitlen_bounds [of "nat n"] bitlen_bounds [of "nat d"] n d
    by (simp_all add: a_def b_def le_nat_iff nat_less_iff)
  have "of_int (2 ^ (a - 1)) \<le> (of_int n :: rat)" "(of_int n :: rat) < of_int (2 ^ a)"
    "of_int (2 ^ (b - 1)) \<le> (of_int d :: rat)" "(of_int d :: rat) < of_int (2 ^ b)"
    using ni di by (simp_all only: of_int_le_iff of_int_less_iff)
  then have nr: "scale2 (int a - 1) \<le> of_int n" "of_int n < scale2 (int a)"
    and dr: "scale2 (int b - 1) \<le> of_int d" "of_int d < scale2 (int b)"
    using ab scale2_nat [of "a - 1"] scale2_nat [of "b - 1"] by (simp_all add: scale2_nat of_nat_diff)
  have dpos: "(0::rat) < of_int d" using d by simp
  have split: "scale2 (int a - 1) = scale2 (int a - int b - 1) * scale2 (int b)"
    "scale2 (int a) = scale2 (int a - int b + 1) * scale2 (int b - 1)"
    by (simp_all flip: scale2_add)
  have lo: "scale2 (int a - int b - 1) < x"
  proof -
    have "scale2 (int a - int b - 1) * of_int d < scale2 (int a - int b - 1) * scale2 (int b)"
      using dr(2) by simp
    also have "\<dots> \<le> of_int n" using nr(1) split(1) by simp
    finally show ?thesis using dpos by (simp add: x pos_less_divide_eq)
  qed
  have hi: "x < scale2 (int a - int b + 1)"
  proof -
    have "of_int n < scale2 (int a - int b + 1) * scale2 (int b - 1)" using nr(2) split(2) by simp
    also have "\<dots> \<le> scale2 (int a - int b + 1) * of_int d" using dr(1) by simp
    finally show ?thesis using dpos by (simp add: x pos_divide_less_eq)
  qed
  have le: "lead_exp x = (if scale2 (int a - int b) \<le> x then int a - int b else int a - int b - 1)"
    by (simp add: lead_exp_def q Let_def a_def b_def)
  show "scale2 (lead_exp x) \<le> x" using lo by (simp add: le)
  show "x < scale2 (lead_exp x + 1)" using hi by (auto simp: le)
qed

lemma scale2_mono:
  assumes "a \<le> b"
  shows "scale2 a \<le> scale2 b"
proof -
  obtain n where n: "b = a + int n" using assms by (metis zle_iff_zadd)
  show ?thesis by (simp add: n scale2_add scale2_nat)
qed

lemma divide_scale2: "e \<le> 0 \<Longrightarrow> y / scale2 e = y * 2 ^ nat (- e)"
  by (simp add: scale2_def)

lemma scale2_cancel: "e \<le> 0 \<Longrightarrow> 2 ^ nat (- e) * scale2 e = 1"
  by (simp add: scale2_def)

lemma divide_scale2_mono: "x \<le> y \<Longrightarrow> x / scale2 e \<le> y / scale2 e"
  by (simp add: divide_right_mono less_imp_le)

lemma of_int_scale2_mono: "i \<le> j \<Longrightarrow> of_int i * scale2 e \<le> of_int j * scale2 e"
  by (simp add: mult_right_mono less_imp_le)

lemma scale2_less_imp: "scale2 a < scale2 b \<Longrightarrow> a < b"
  using scale2_mono [of b a] by linarith

text \<open>A result that is at least a small integer stays so under rounding, and likewise at most.\<close>

lemma rnd_ge:
  assumes "k \<le> 2 ^ 53" and "of_nat k \<le> x"
  shows "of_nat k \<le> rnd x"
proof (cases "0 < x")
  case False
  then show ?thesis using assms by (auto simp: rnd_def)
next
  case True
  define e where "e = lead_exp x - 52"
  have eq: "rnd x = of_int (round_even (x / scale2 e)) * scale2 e"
    using True by (simp add: rnd_def e_def Let_def)
  show ?thesis
  proof (cases "e \<le> 0")
    case True
    have "of_int (int k * 2 ^ nat (- e)) = (of_nat k :: rat) / scale2 e"
      by (simp add: divide_scale2 [OF True])
    also have "\<dots> \<le> x / scale2 e" using assms(2) by (rule divide_scale2_mono)
    finally have "int k * 2 ^ nat (- e) \<le> round_even (x / scale2 e)" by (rule round_even_ge)
    then have "of_int (int k * 2 ^ nat (- e)) * scale2 e \<le> rnd x"
      unfolding eq by (rule of_int_scale2_mono)
    then show ?thesis by (simp add: mult.assoc scale2_cancel [OF True])
  next
    case False
    have "scale2 52 * scale2 e \<le> x"
      using lead_exp_bounds(1) [OF \<open>0 < x\<close>] by (simp add: e_def flip: scale2_add)
    then have "of_int (2 ^ 52) \<le> x / scale2 e"
      by (simp add: pos_le_divide_eq scale2_def)
    then have "2 ^ 52 \<le> round_even (x / scale2 e)" by (rule round_even_ge)
    then have "of_int (2 ^ 52) * scale2 e \<le> rnd x"
      unfolding eq by (rule of_int_scale2_mono)
    moreover have "(2::rat) \<le> scale2 e" using scale2_mono [of 1 e] False by (simp add: scale2_def)
    moreover have "(of_nat k :: rat) \<le> of_nat (2 ^ 53)" using assms(1) by (simp only: of_nat_le_iff)
    ultimately show ?thesis by simp
  qed
qed

lemma rnd_le:
  assumes "k < 2 ^ 53" and "x \<le> of_nat k"
  shows "rnd x \<le> of_nat k"
proof (cases "0 < x")
  case False
  then show ?thesis by (simp add: rnd_def)
next
  case True
  define e where "e = lead_exp x - 52"
  have eq: "rnd x = of_int (round_even (x / scale2 e)) * scale2 e"
    using True by (simp add: rnd_def e_def Let_def)
  have "(of_nat k :: rat) < of_nat (2 ^ 53)" using assms(1) by (simp only: of_nat_less_iff)
  then have "scale2 (lead_exp x) < scale2 53"
    using lead_exp_bounds(1) [OF True] assms(2) by (simp add: scale2_def)
  then have "e \<le> 0" using scale2_less_imp by (fastforce simp: e_def)
  have "x / scale2 e \<le> of_nat k / scale2 e" using assms(2) by (rule divide_scale2_mono)
  also have "\<dots> = of_int (int k * 2 ^ nat (- e))" by (simp add: divide_scale2 [OF \<open>e \<le> 0\<close>])
  finally have "round_even (x / scale2 e) \<le> int k * 2 ^ nat (- e)" by (rule round_even_le)
  then have "rnd x \<le> of_int (int k * 2 ^ nat (- e)) * scale2 e"
    unfolding eq by (rule of_int_scale2_mono)
  then show ?thesis by (simp add: mult.assoc scale2_cancel [OF \<open>e \<le> 0\<close>])
qed

lemma rnd_of_nat [simp]: "k < 2 ^ 53 \<Longrightarrow> rnd (of_nat k) = of_nat k"
  by (intro order_antisym rnd_le rnd_ge) simp_all

lemma rnd_nonneg: "0 \<le> rnd x"
proof (cases "0 < x")
  case True
  then show ?thesis using rnd_ge [of 0 x] by simp
qed (simp add: rnd_def)

text \<open>The relative error of one rounding is far below an eighth.\<close>

lemma rnd_rel: "0 \<le> x \<Longrightarrow> rnd x \<le> 9 / 8 * x"
proof (cases "0 < x")
  case True
  define e where "e = lead_exp x - 52"
  have eq: "rnd x = of_int (round_even (x / scale2 e)) * scale2 e"
    using True by (simp add: rnd_def e_def Let_def)
  have "of_int (round_even y) \<le> y + 1" for y
    by (auto simp: round_even_def Let_def; linarith)
  then have "rnd x \<le> (x / scale2 e + 1) * scale2 e"
    unfolding eq by (intro mult_right_mono) (auto simp: less_imp_le)
  also have "\<dots> = x + scale2 e" by (simp add: distrib_right less_imp_neq [THEN not_sym])
  also have "scale2 e \<le> 1 / 8 * x"
  proof -
    have "scale2 52 * scale2 e \<le> x"
      using lead_exp_bounds(1) [OF True] by (simp add: e_def flip: scale2_add)
    moreover have "8 * scale2 e \<le> scale2 52 * scale2 e"
      by (intro mult_right_mono) (auto simp: scale2_def less_imp_le)
    ultimately have "8 * scale2 e \<le> x" by (rule order_trans [rotated])
    then show ?thesis by simp
  qed
  finally show ?thesis by simp
qed (simp add: rnd_def)

end
