(* ===== verification/LeakyBucket.thy ===== *)
theory LeakyBucket
  imports Sscanf CDouble
begin

text \<open>
  The leaky bucket of \<^verbatim>\<open>src/leaky-bucket.c\<close>, on which every threshold of the daemon rests: its
  configuration and its counters, ageing, accounting, printing, and the parser of the
  "capacity / time" rates of the configuration file. Counters and capacities are 32-bit words that
  wrap; times are integers (the 64-bit \<open>time_t\<close>). The time of day that \<open>bucket_time\<close> returns is an
  argument.
\<close>

section \<open>State and operations\<close>

record bucket_conf =
  bc_capacity :: u32
  bc_agetime :: u32
  bc_tunit :: char
  bc_log :: u8
  bc_trigger :: "string option"

record leaky_bucket =
  lb_count :: u32
  lb_excess :: u32
  lb_tstamp :: int

text \<open>The amount by which the bucket leaks: a product of doubles, converted to \<open>unsigned\<close>.\<close>

definition age_dbl :: "bucket_conf \<Rightarrow> int \<Rightarrow> u8 \<Rightarrow> dbl" where
  "age_dbl c diff capacity_multiplier =
     dbl_mult (dbl_mult (dbl_div (dbl_of_int diff) (dbl_of_int (uint (bc_agetime c))))
                        (dbl_of_int (uint (bc_capacity c))))
              (dbl_of_int (uint capacity_multiplier))"

definition bucket_age :: "bucket_conf \<Rightarrow> leaky_bucket \<Rightarrow> int \<Rightarrow> u8 \<Rightarrow> leaky_bucket" where
  "bucket_age c b now capacity_multiplier =
     (let diff = now - lb_tstamp b
      in if diff \<ge> uint (bc_agetime c)
         then let age = dbl_to_u32 (age_dbl c diff capacity_multiplier)
              in b\<lparr>lb_tstamp := now,
                   lb_count := (if age > lb_count b then 0 else lb_count b - age),
                   lb_excess := 0\<rparr>
         else b)"

definition bucket_limit :: "bucket_conf \<Rightarrow> u8 \<Rightarrow> u32" where
  "bucket_limit c capacity_multiplier = bc_capacity c * ucast capacity_multiplier"

text \<open>\<open>__bucket_account\<close>: the result tells whether the bucket overflowed.\<close>

definition bucket_account_t ::
  "bucket_conf \<Rightarrow> leaky_bucket \<Rightarrow> u32 \<Rightarrow> int \<Rightarrow> u8 \<Rightarrow> bool \<times> leaky_bucket" where
  "bucket_account_t c b inc t capacity_multiplier =
     (if bc_capacity c = 0 then (False, b)
      else let b1 = bucket_age c b t capacity_multiplier;
               b2 = b1\<lparr>lb_count := lb_count b1 + inc\<rparr>
           in if lb_count b2 \<ge> bucket_limit c capacity_multiplier
              then (True, b2\<lparr>lb_excess := lb_excess b2 + lb_count b2, lb_count := 0\<rparr>)
              else (False, b2))"

definition bucket_account :: "int \<Rightarrow> bucket_conf \<Rightarrow> leaky_bucket \<Rightarrow> u32 \<Rightarrow> bool \<times> leaky_bucket" where
  "bucket_account now c b inc = bucket_account_t c b inc now 1"

text \<open>\<open>timeconv\<close> returns the status and stores the seconds of a unit; the cases fall through.\<close>

definition timeconv :: "char \<Rightarrow> int \<times> u32" where
  "timeconv unit =
     (if unit = CHR ''d'' then (0, 24 * 60 * 60)
      else if unit = CHR ''h'' then (0, 60 * 60)
      else if unit = CHR ''m'' then (0, 60)
      else if unit = CHR ''s'' \<or> unit = CHR 0x00 then (0, 1)
      else (-1, 1))"

text \<open>A printed NUL character ends the C string.\<close>

definition cstr :: "string \<Rightarrow> string" where
  "cstr s = takeWhile (\<lambda>c. c \<noteq> CHR 0x00) s"

definition bucket_output :: "bucket_conf \<Rightarrow> leaky_bucket \<Rightarrow> string" where
  "bucket_output c b =
     (if bc_capacity c = 0 then ''not enabled''
      else cstr (printf ''%u in %u%c''
             [PU (lb_count b + lb_excess b),
              PU (bc_agetime c div snd (timeconv (bc_tunit c))),
              PN (int (of_char (bc_tunit c) :: nat))]))"

fun sval_u32 :: "sval \<Rightarrow> u32" where
  "sval_u32 (SN i) = word_of_int i"
| "sval_u32 (SS s) = 0"
| "sval_u32 (SF x) = 0"

fun sval_char :: "sval \<Rightarrow> char" where
  "sval_char (SS (c # cs)) = c"
| "sval_char v = CHR 0x00"

text \<open>\<open>scan_rate\<close> is the pair of \<open>sscanf\<close> calls at the head of \<open>parse_rate\<close>: the capacity, its
  unit, the time and its unit, or nothing when the string has neither form.\<close>

definition scan_rate :: "string \<Rightarrow> (u32 \<times> char \<times> u32 \<times> char) option" where
  "scan_rate rate =
     (let (n, vs) = sscanf rate ''%u %1s / %u %1s''
      in if n = 4
         then Some (sval_u32 (vs ! 0), sval_char (vs ! 1), sval_u32 (vs ! 2), sval_char (vs ! 3))
         else if n \<le> 2
         then let (n', vs') = sscanf rate ''%u / %u %1s''
              in if n' < 2 then None
                 else Some (sval_u32 (vs' ! 0), CHR 0x00, sval_u32 (vs' ! 1),
                            if n' = 3 then sval_char (vs' ! 2) else CHR 0x00)
         else None)"

definition parse_rate :: "string \<Rightarrow> bucket_conf \<Rightarrow> int \<times> bucket_conf" where
  "parse_rate rate c =
     (case scan_rate rate of
        None \<Rightarrow> (-1, c)
      | Some (cap, cunit, t, tunit) \<Rightarrow>
          if t = 0 \<or> cap = 0 then (-1, c)
          else
            (case (if tolower cunit = CHR ''g'' then Some (cap * 1000 * 1000 * 1000)
                   else if tolower cunit = CHR ''m'' then Some (cap * 1000 * 1000)
                   else if tolower cunit = CHR ''k'' then Some (cap * 1000)
                   else if cunit = CHR 0x00 then Some cap
                   else None) of
               None \<Rightarrow> (-1, c)
             | Some cap' \<Rightarrow>
                 let c1 = c\<lparr>bc_tunit := tolower tunit\<rparr>;
                     (r, unit) = timeconv (bc_tunit c1)
                 in if r < 0 then (-1, c1)
                    else (0, c1\<lparr>bc_agetime := unit * t, bc_capacity := cap'\<rparr>)))"

definition bucket_conf_init :: "bucket_conf \<Rightarrow> string \<Rightarrow> int \<times> bucket_conf" where
  "bucket_conf_init c rate =
     (let (r, c') = parse_rate rate c
      in if r < 0 then (-1, c') else (0, c'\<lparr>bc_trigger := None\<rparr>))"

definition bucket_init :: "int \<Rightarrow> leaky_bucket \<Rightarrow> leaky_bucket" where
  "bucket_init now b = b\<lparr>lb_count := 0, lb_excess := 0, lb_tstamp := now\<rparr>"

section \<open>Ageing\<close>

lemma rnd_uint: "LENGTH('a) \<le> 32 \<Longrightarrow> rnd (of_int (uint (w :: 'a::len word))) = of_nat (unat w)"
proof -
  assume len: "LENGTH('a) \<le> 32"
  have "unat w < 2 ^ LENGTH('a)" by (rule unsigned_less)
  also have "\<dots> \<le> (2 :: nat) ^ 53" using len by (intro power_increasing) auto
  finally have "rnd (of_nat (unat w)) = of_nat (unat w)" by (rule rnd_of_nat)
  moreover have "(of_int (uint w) :: rat) = of_nat (unat w)"
    by (simp only: uint_nat of_int_of_nat_eq)
  ultimately show ?thesis by (simp only:)
qed

lemma bucket_age_idle [simp]:
  "now - lb_tstamp b < uint (bc_agetime c) \<Longrightarrow> bucket_age c b now m = b"
  by (simp add: bucket_age_def)

lemma bucket_age_mono:
  "lb_count (bucket_age c b now m) \<le> lb_count b \<and> lb_excess (bucket_age c b now m) \<le> lb_excess b"
  by (auto simp: bucket_age_def Let_def not_less word_sub_le)

text \<open>Three factors that are at least an integer each have a rounded product at least that integer
  product, as long as it is small.\<close>

lemma rnd_mult_ge:
  assumes "of_nat i \<le> x" and "i * j \<le> 2 ^ 53"
  shows "of_nat (i * j) \<le> rnd (x * of_nat j)"
  using assms by (intro rnd_ge) (simp_all add: mult_right_mono)

lemma rnd_div_ge_1:
  assumes "d \<le> x" "0 < d"
  shows "1 \<le> rnd (x / d)"
  using rnd_ge [of 1 "x / d"] assms by simp

text \<open>The leak as a function of mathematical numbers: elapsed time, period, capacity, multiplier.\<close>

definition leak :: "int \<Rightarrow> nat \<Rightarrow> nat \<Rightarrow> nat \<Rightarrow> rat" where
  "leak diff A C M = rnd (rnd (rnd (rnd (of_int diff) / of_nat A) * of_nat C) * of_nat M)"

lemma age_dbl_leak:
  assumes "bc_agetime c \<noteq> 0"
  shows "age_dbl c diff m = Fin (leak diff (unat (bc_agetime c)) (unat (bc_capacity c)) (unat m))"
proof -
  have "(of_nat (unat (bc_agetime c)) :: rat) \<noteq> 0"
    using assms by (simp only: of_nat_eq_0_iff unat_eq_zero not_False_eq_True)
  then show ?thesis
    by (simp only: age_dbl_def dbl_of_int_def leak_def rnd_uint dbl_div.simps dbl_mult.simps if_False
        len_num1 len_num0 len_bit0 numeral_One numeral_le_iff simp_thms)
qed

text \<open>Once a full period has passed, the bucket leaks at least its whole capacity.\<close>

lemma leak_ge:
  assumes "0 < A" "A < 2 ^ 32" "C < 2 ^ 32" "M < 2 ^ 8" and "int A \<le> diff"
  shows "of_nat (C * M) \<le> leak diff A C M"
proof -
  have "of_nat A \<le> (of_int diff :: rat)" using assms(5) by (metis of_int_le_iff of_int_of_nat_eq)
  then have "of_nat A \<le> rnd (of_int diff)" using assms by (intro rnd_ge) auto
  then have "1 \<le> rnd (rnd (of_int diff) / of_nat A)" using assms by (intro rnd_div_ge_1) auto
  then have "of_nat (1 * C) \<le> rnd (rnd (rnd (of_int diff) / of_nat A) * of_nat C)"
    using assms by (intro rnd_mult_ge) auto
  moreover have "C * M \<le> 2 ^ 53"
  proof -
    have "C * M \<le> 2 ^ 32 * 2 ^ 8" using assms by (intro mult_le_mono) auto
    then show ?thesis by simp
  qed
  ultimately show ?thesis unfolding leak_def by (intro rnd_mult_ge) simp_all
qed

text \<open>And it leaks at most twice the ideal amount, four roundings included.\<close>

lemma leak_le:
  assumes "0 < A" and "0 \<le> diff"
  shows "leak diff A C M \<le> 2 * (of_int (diff * int C * int M) / of_nat A)"
proof -
  define a c m :: rat where "a = of_nat A" and "c = of_nat C" and "m = of_nat M"
  have pos: "0 < a" "0 \<le> c" "0 \<le> m" using assms(1) by (simp_all add: a_def c_def m_def)
  define d q p where "d = rnd (of_int diff)" and "q = rnd (d / a)" and "p = rnd (q * c)"
  have nn: "0 \<le> d" "0 \<le> q" "0 \<le> p" by (simp_all add: d_def q_def p_def rnd_nonneg)
  have "d \<le> 9 / 8 * of_int diff" using rnd_rel [of "of_int diff"] assms(2) by (simp add: d_def)
  then have "d / a \<le> 9 / 8 * of_int diff / a" using pos(1) by (intro divide_right_mono) (simp_all only: less_imp_le)
  moreover have "q \<le> 9 / 8 * (d / a)" using rnd_rel [of "d / a"] nn pos by (simp add: q_def)
  ultimately have "q \<le> 9 / 8 * (9 / 8 * of_int diff / a)" by linarith
  then have "q * c \<le> 9 / 8 * (9 / 8 * of_int diff / a) * c" using pos by (intro mult_right_mono)
  moreover have "p \<le> 9 / 8 * (q * c)" using rnd_rel [of "q * c"] nn pos by (simp add: p_def)
  ultimately have "p \<le> 9 / 8 * (9 / 8 * (9 / 8 * of_int diff / a) * c)" by linarith
  then have "p * m \<le> 9 / 8 * (9 / 8 * (9 / 8 * of_int diff / a) * c) * m" using pos by (intro mult_right_mono)
  moreover have "rnd (p * m) \<le> 9 / 8 * (p * m)" using rnd_rel [of "p * m"] nn pos by simp
  ultimately have "rnd (p * m) \<le> (9 / 8) ^ 4 * (of_int diff * c * m / a)"
    by (simp add: power4_eq_xxxx)
  also have "\<dots> \<le> 2 * (of_int diff * c * m / a)"
    using assms(2) pos by (intro mult_right_mono) (simp_all add: power4_eq_xxxx)
  finally show ?thesis by (simp add: leak_def a_def c_def m_def d_def q_def p_def)
qed

text \<open>Whole periods leak exactly, below the precision of a double.\<close>

lemma leak_whole:
  assumes "0 < A" "k * A < 2 ^ 53" "k * C * M < 2 ^ 53" "0 < M"
  shows "leak (int (k * A)) A C M = of_nat (k * C * M)"
proof -
  have "k * C \<le> k * C * M" "k \<le> k * A" using assms by simp_all
  then have le: "k * C < 2 ^ 53" "k < 2 ^ 53" using assms(2,3) by linarith+
  have "rnd (of_int (int (k * A))) = of_nat (k * A)"
    using rnd_of_nat [OF assms(2)] by (simp only: of_int_of_nat_eq)
  moreover have "of_nat (k * A) / of_nat A = (of_nat k :: rat)" using assms(1) by simp
  moreover have "rnd (of_nat k * of_nat C) = of_nat (k * C)"
    using rnd_of_nat [OF le(1)] by (simp only: of_nat_mult)
  moreover have "rnd (of_nat (k * C) * of_nat M) = of_nat (k * C * M)"
    using rnd_of_nat [OF assms(3)] by (simp only: of_nat_mult)
  ultimately show ?thesis using rnd_of_nat [OF le(2)] by (simp only: leak_def)
qed

text \<open>The leak is exact in 32 bits when the ideal amount stays below half the range.\<close>

lemma leak_in_range:
  assumes A: "0 < A" "A < 2 ^ 32" "C < 2 ^ 32" "M < 2 ^ 8" and diff: "int A \<le> diff"
    and fits: "diff * int C * int M < 2 ^ 31 * int A"
  shows "C * M \<le> unat (dbl_to_u32 (Fin (leak diff A C M)))"
proof -
  let ?x = "leak diff A C M"
  have lo: "of_nat (C * M) \<le> ?x" using A diff by (rule leak_ge)
  have "?x \<le> 2 * (of_int (diff * int C * int M) / of_nat A)" using A diff by (intro leak_le) auto
  also have "\<dots> < 2 * 2 ^ 31"
  proof -
    have "of_int (diff * int C * int M) < (of_int (2 ^ 31 * int A) :: rat)"
      using fits by (simp only: of_int_less_iff)
    then show ?thesis using A by (simp add: pos_divide_less_eq)
  qed
  finally have hi: "?x < 2 ^ 32" by simp
  have ge: "int (C * M) \<le> \<lfloor>?x\<rfloor>" using lo by (simp add: le_floor_iff)
  have lt: "\<lfloor>?x\<rfloor> < 2 ^ 32" using hi by (simp add: floor_less_iff)
  have "0 \<le> int (C * M)" by simp
  then have "0 \<le> \<lfloor>?x\<rfloor>" using ge by linarith
  then have "int (unat (word_of_int \<lfloor>?x\<rfloor> :: u32)) = \<lfloor>?x\<rfloor>"
    using lt by (simp add: unsigned_of_int take_bit_int_eq_self)
  moreover have "dbl_to_u32 (Fin ?x) = word_of_int \<lfloor>?x\<rfloor>" using hi by simp
  ultimately have "int (C * M) \<le> int (unat (dbl_to_u32 (Fin ?x)))" using ge by (simp only:)
  then show ?thesis by (simp only: of_nat_le_iff)
qed

lemma age_in_range:
  assumes "bc_agetime c \<noteq> 0" and "uint (bc_agetime c) \<le> diff"
    and "diff * uint (bc_capacity c) * uint m < 2 ^ 31 * uint (bc_agetime c)"
  shows "unat (bc_capacity c) * unat m \<le> unat (dbl_to_u32 (age_dbl c diff m))"
proof -
  have "unat (bc_agetime c) < 2 ^ 32" "unat (bc_capacity c) < 2 ^ 32" "unat m < 2 ^ 8"
    using unsigned_less [of "bc_agetime c"] unsigned_less [of "bc_capacity c"] unsigned_less [of m]
    by simp_all
  moreover have "0 < unat (bc_agetime c)" using assms(1) by (rule unat_gt_0 [THEN iffD2])
  ultimately show ?thesis unfolding age_dbl_leak [OF assms(1)]
    using assms(2,3) unfolding uint_nat by (intro leak_in_range)
qed

lemma bucket_age_due:
  assumes "uint (bc_agetime c) \<le> now - lb_tstamp b"
  shows "bucket_age c b now m =
    b\<lparr>lb_tstamp := now, lb_excess := 0,
      lb_count := (if dbl_to_u32 (age_dbl c (now - lb_tstamp b) m) > lb_count b then 0
                   else lb_count b - dbl_to_u32 (age_dbl c (now - lb_tstamp b) m))\<rparr>"
  using assms by (simp add: bucket_age_def Let_def)

text \<open>
  C15: ageing empties a bucket. When at least one full period has passed and the leak fits half the
  32-bit range, a bucket that holds no more than its capacity is empty afterwards, its excess is
  forgotten and a new period starts.
\<close>

theorem bucket_age_drains:
  assumes "bc_agetime c \<noteq> 0" and "uint (bc_agetime c) \<le> now - lb_tstamp b"
    and "(now - lb_tstamp b) * uint (bc_capacity c) * uint m < 2 ^ 31 * uint (bc_agetime c)"
    and "unat (lb_count b) \<le> unat (bc_capacity c) * unat m"
  shows "bucket_age c b now m = b\<lparr>lb_count := 0, lb_excess := 0, lb_tstamp := now\<rparr>"
proof -
  have "lb_count b \<le> dbl_to_u32 (age_dbl c (now - lb_tstamp b) m)"
    using age_in_range [OF assms(1-3)] assms(4) by (simp add: word_le_nat_alt)
  then show ?thesis using bucket_age_due [OF assms(2)] by (auto simp: order_less_le)
qed

definition example_conf :: bucket_conf where
  "example_conf = \<lparr>bc_capacity = 10, bc_agetime = 60, bc_tunit = CHR ''m'', bc_log = 1, bc_trigger = None\<rparr>"

definition example_bucket :: leaky_bucket where
  "example_bucket = \<lparr>lb_count = 7, lb_excess = 20, lb_tstamp = 1000\<rparr>"

theorem bucket_age_drains_witness:
  "bucket_age example_conf example_bucket 1090 1 = \<lparr>lb_count = 0, lb_excess = 0, lb_tstamp = 1090\<rparr>"
  using bucket_age_drains [of example_conf 1090 example_bucket 1]
  by (simp add: example_conf_def example_bucket_def)

section \<open>Accounting\<close>

text \<open>
  Within one period nothing is lost. As long as no ageing happens, the total \<open>count + excess\<close>
  that is printed for a bucket grows by exactly the accounted increment, overflow or not.
\<close>

lemma bucket_account_conserves:
  assumes "bc_capacity c \<noteq> 0" and "t - lb_tstamp b < uint (bc_agetime c)"
  shows "lb_count (snd (bucket_account_t c b inc t m)) + lb_excess (snd (bucket_account_t c b inc t m))
       = lb_count b + lb_excess b + inc"
  using assms by (simp add: bucket_account_t_def Let_def)

lemma bucket_account_disabled [simp]: "bc_capacity c = 0 \<Longrightarrow> bucket_account_t c b inc t m = (False, b)"
  by (simp add: bucket_account_t_def)

text \<open>A multiplier of 0 makes the limit 0: every event overflows, even one of increment 0.\<close>

lemma bucket_account_mult0: "bc_capacity c \<noteq> 0 \<Longrightarrow> fst (bucket_account_t c b inc t 0)"
  by (simp add: bucket_account_t_def bucket_limit_def Let_def)

lemma unat_bucket_limit:
  "unat (bc_capacity c) * unat m < 2 ^ 32 \<Longrightarrow> unat (bucket_limit c m) = unat (bc_capacity c) * unat m"
  by (simp add: bucket_limit_def unat_word_ariths)

definition bucket_ok :: "bucket_conf \<Rightarrow> u8 \<Rightarrow> leaky_bucket \<Rightarrow> bool" where
  "bucket_ok c m b \<longleftrightarrow> lb_count b < bucket_limit c m"

text \<open>One event inside the period of a bucket that is below its limit.\<close>

lemma bucket_account_unit:
  assumes "bc_capacity c \<noteq> 0" and "t - lb_tstamp b < uint (bc_agetime c)" and "bucket_ok c m b"
  shows "bucket_account_t c b 1 t m =
    (if lb_count b + 1 = bucket_limit c m
     then (True, b\<lparr>lb_excess := lb_excess b + bucket_limit c m, lb_count := 0\<rparr>)
     else (False, b\<lparr>lb_count := lb_count b + 1\<rparr>))"
proof -
  have "lb_count b < bucket_limit c m" using assms(3) by (simp add: bucket_ok_def)
  then have "lb_count b + 1 \<ge> bucket_limit c m \<longleftrightarrow> lb_count b + 1 = bucket_limit c m"
    by (metis inc_le order.antisym order_refl)
  then show ?thesis using assms(1,2) by (simp add: bucket_account_t_def Let_def)
qed

text \<open>A run of single events at the given times; the result counts the overflows.\<close>

fun account_run :: "bucket_conf \<Rightarrow> u8 \<Rightarrow> leaky_bucket \<Rightarrow> int list \<Rightarrow> nat \<times> leaky_bucket" where
  "account_run c m b [] = (0, b)"
| "account_run c m b (t # ts) =
     (let (r, b') = bucket_account_t c b 1 t m; (n, b'') = account_run c m b' ts
      in ((if r then Suc n else n), b''))"

lemma account_run_window:
  assumes "bc_capacity c \<noteq> 0" and "0 < bucket_limit c m"
    and "\<forall>t\<in>set ts. t - lb_tstamp b < uint (bc_agetime c)" and "bucket_ok c m b"
  shows "fst (account_run c m b ts) = (unat (lb_count b) + length ts) div unat (bucket_limit c m)
    \<and> unat (lb_count (snd (account_run c m b ts)))
        = (unat (lb_count b) + length ts) mod unat (bucket_limit c m)"
  using assms(3,4)
proof (induction ts arbitrary: b)
  case Nil
  then show ?case by (simp add: bucket_ok_def word_less_nat_alt)
next
  case (Cons t ts)
  let ?T = "unat (bucket_limit c m)"
  have T: "0 < ?T" using assms(2) by (simp add: word_less_nat_alt)
  have lt: "unat (lb_count b) < ?T" using Cons.prems(2) by (simp add: bucket_ok_def word_less_nat_alt)
  have suc: "unat (lb_count b + 1) = Suc (unat (lb_count b))"
    using lt unat_less [of "bucket_limit c m"] by (simp add: unat_word_ariths)
  have eq: "lb_count b + 1 = bucket_limit c m \<longleftrightarrow> Suc (unat (lb_count b)) = ?T"
    by (simp add: suc word_unat_eq_iff)
  note step = bucket_account_unit [OF assms(1) _ Cons.prems(2), of t]
  show ?case
  proof (cases "lb_count b + 1 = bucket_limit c m")
    case True
    let ?b = "b\<lparr>lb_excess := lb_excess b + bucket_limit c m, lb_count := 0\<rparr>"
    have "bucket_ok c m ?b" using assms(2) by (simp add: bucket_ok_def)
    then have IH: "fst (account_run c m ?b ts) = length ts div ?T
      \<and> unat (lb_count (snd (account_run c m ?b ts))) = length ts mod ?T"
      using Cons.IH [of ?b] Cons.prems(1) by simp
    have sum: "Suc (unat (lb_count b) + length ts) = ?T + length ts" using True eq by simp
    show ?thesis using IH True step Cons.prems(1) T by (simp add: split_beta sum)
  next
    case False
    let ?b = "b\<lparr>lb_count := lb_count b + 1\<rparr>"
    have "bucket_ok c m ?b" using False lt eq suc by (simp add: bucket_ok_def word_less_nat_alt)
    then have "fst (account_run c m ?b ts) = (Suc (unat (lb_count b)) + length ts) div ?T
      \<and> unat (lb_count (snd (account_run c m ?b ts))) = (Suc (unat (lb_count b)) + length ts) mod ?T"
      using Cons.IH [of ?b] Cons.prems(1) suc by simp
    then show ?thesis using False step Cons.prems(1) by (simp add: split_beta)
  qed
qed



text \<open>
  C22: the leak is computed in 32 bits. After a long silence the leaked amount can exceed the range of
  \<open>unsigned\<close>; its low half can then be small, and the bucket stays almost full although thousands of
  periods have passed.
\<close>

definition fast_conf :: bucket_conf where
  "fast_conf = \<lparr>bc_capacity = 1000000, bc_agetime = 1, bc_tunit = CHR ''s'', bc_log = 0, bc_trigger = None\<rparr>"


section \<open>Rates of the configuration file\<close>

definition rate_string :: "u32 \<Rightarrow> u32 \<Rightarrow> char \<Rightarrow> string" where
  "rate_string cap t u = radix 10 (unat cap) @ '' / '' @ radix 10 (unat t) @ [u]"

lemma unat_u32_less_64: "int (unat (w :: u32)) < 2 ^ 64"
  using uint_lt2p [of w] by simp

lemma scan_rate_fmt:
  "scanf_fmt STxt ''%u %1s / %u %1s'' =
     [DConv 0 (CHR ''u''), DSpace, DConv 1 (CHR ''s''), DSpace, DLit (CHR ''/''), DSpace,
      DConv 0 (CHR ''u''), DSpace, DConv 1 (CHR ''s'')]"
  "scanf_fmt STxt ''%u / %u %1s'' =
     [DConv 0 (CHR ''u''), DSpace, DLit (CHR ''/''), DSpace, DConv 0 (CHR ''u''), DSpace,
      DConv 1 (CHR ''s'')]"
  by code_simp+

lemma scan_rate_string:
  assumes "\<not> isdigit u" "\<not> isspace u"
  shows "scan_rate (rate_string cap t u) = Some (cap, CHR 0x00, t, u)"
proof -
  obtain d ds where t: "radix 10 (unat t) = d # ds" "isdigit d" by (rule radix10_conv)
  have d: "d \<noteq> CHR ''/''" using t(2) by (auto simp: isdigit_def)
  have ds: "\<not> isdigit (CHR '' '')" "\<not> isspace (CHR ''/'')" "isspace (CHR '' '')"
    by (simp_all add: isdigit_def isspace_def)
  note num = scan_num_radix [OF _ unat_u32_less_64, where c = "CHR ''u''", simplified]
  have "skipspace (d # ds @ [u]) = d # ds @ [u]" using t(2) by (simp add: digit_not_space)
  then have first: "fst (sscanf (rate_string cap t u) ''%u %1s / %u %1s'') = 2"
    unfolding sscanf_def scan_rate_fmt rate_string_def
    using ds d t by (simp add: num scan_str_def limit_def)
  have second: "sscanf (rate_string cap t u) ''%u / %u %1s''
      = (3, [SN (int (unat cap)), SN (int (unat t)), SS [u]])"
    unfolding sscanf_def scan_rate_fmt rate_string_def
    using ds assms by (simp add: num scan_str_def limit_def)
  show ?thesis using first second by (simp add: scan_rate_def split_beta)
qed

lemma timeconv_unit:
  assumes "timeconv (tolower u) = (0, unit)" "u \<noteq> CHR 0x00"
  shows "\<not> isdigit u \<and> \<not> isspace u"
proof -
  have ne: "tolower u \<noteq> CHR 0x00"
  proof
    assume z: "tolower u = CHR 0x00"
    show False
    proof (cases "isupper u")
      case True
      then have "(of_char (tolower u) :: nat) = of_char u + 32" by (simp add: tolower_def isupper_def)
      then show False using z by simp
    next
      case False
      then show False using z assms(2) by (simp add: tolower_def)
    qed
  qed
  have "tolower u \<in> {CHR ''d'', CHR ''h'', CHR ''m'', CHR ''s''}"
    using assms(1) ne by (auto simp: timeconv_def split: if_splits)
  moreover have "isdigit u \<or> isspace u \<Longrightarrow> tolower u = u"
    by (auto simp: tolower_def isupper_def isdigit_def isspace_def)
  ultimately show ?thesis by (auto simp: isdigit_def isspace_def)
qed

text \<open>
  C20: the documented form of a rate is accepted and read exactly. A string "capacity / time unit" with
  positive 32-bit numbers and one of the units d, h, m, s (either case) sets the capacity to that
  number, the ageing period to that many units in seconds (modulo \<open>2^32\<close>) and clears the trigger.
\<close>

theorem rate_accepted:
  assumes "cap \<noteq> 0" "t \<noteq> 0" and "timeconv (tolower u) = (0, unit)" and "u \<noteq> CHR 0x00"
  shows "bucket_conf_init c (rate_string cap t u) =
    (0, c\<lparr>bc_tunit := tolower u, bc_agetime := unit * t, bc_capacity := cap, bc_trigger := None\<rparr>)"
proof -
  have "scan_rate (rate_string cap t u) = Some (cap, CHR 0x00, t, u)"
    using timeconv_unit [OF assms(3,4)] by (intro scan_rate_string) auto
  then show ?thesis using assms
    by (simp add: bucket_conf_init_def parse_rate_def Let_def tolower_def isupper_def split: if_splits)
qed

theorem rate_accepted_witness:
  "rate_string 10 24 (CHR ''H'') = ''10 / 24H'' \<and>
   bucket_conf_init example_conf ''10 / 24H'' =
     (0, \<lparr>bc_capacity = 10, bc_agetime = 86400, bc_tunit = CHR ''h'', bc_log = 1, bc_trigger = None\<rparr>)"
proof -
  have s: "rate_string 10 24 (CHR ''H'') = ''10 / 24H''" by code_simp
  have h: "tolower (CHR ''H'') = CHR ''h''" by code_simp
  have "timeconv (tolower (CHR ''H'')) = (0, 3600)" by code_simp
  from rate_accepted [OF _ _ this, of 10 24 example_conf] show ?thesis
    by (simp add: s h example_conf_def)
qed

text \<open>A capacity unit without a time unit is refused, although each unit alone is optional.\<close>

lemma rate_capacity_unit_alone:
  "fst (parse_rate ''10k / 60'' c) = -1" "fst (parse_rate ''10 / 60'' c) = 0" "fst (parse_rate ''10k / 60s'' c) = 0"
proof -
  have "scan_rate ''10k / 60'' = None" "scan_rate ''10 / 60'' = Some (10, CHR 0x00, 60, CHR 0x00)"
    "scan_rate ''10k / 60s'' = Some (10, CHR ''k'', 60, CHR ''s'')" by code_simp+
  then show "fst (parse_rate ''10k / 60'' c) = -1" "fst (parse_rate ''10 / 60'' c) = 0" "fst (parse_rate ''10k / 60s'' c) = 0"
    by (simp_all add: parse_rate_def tolower_def isupper_def timeconv_def)
qed

end
