(* ===== verification/World.thy ===== *)
theory World
  imports Prelude
begin

text \<open>
  The process's view of the operating system: the observable events in the order they happen, the
  time of day, and the answers the system gives (whether a file can be opened, the results of the
  coming \<open>fork\<close> calls, the result of a write to sysfs). Each component's state is a record that
  extends this one, so that an operation of a lower component applies unchanged to the state of a
  higher one, as the calls between the C files do.
\<close>

datatype sink = Stdout | Stderr | Logfile string

datatype event =
    ESyslog int string              \<comment> \<open>a message for syslog, with its level\<close>
  | EPrint sink string              \<comment> \<open>text written to a stream\<close>
  | EFlush sink
  | EClose sink
  | ESpawn int string "string list" "string list"
      \<comment> \<open>a child process: its pid, program, arguments and environment\<close>
  | ESysfs string string            \<comment> \<open>a value written to a sysfs file\<close>

record world =
  events :: "event list"
  now :: int                        \<comment> \<open>time(NULL)\<close>
  errno_msg :: string               \<comment> \<open>strerror(errno)\<close>
  os_fopen :: "string \<Rightarrow> bool"     \<comment> \<open>can the file be opened for appending?\<close>
  os_fork :: "int list"             \<comment> \<open>results of the coming fork calls; none left: failure\<close>
  os_access :: "string \<Rightarrow> bool"    \<comment> \<open>access(path, ...) == 0\<close>
  os_sysfs :: "string \<Rightarrow> string \<Rightarrow> int" \<comment> \<open>result of open and write\<close>
  os_env_path :: "string option"    \<comment> \<open>getenv("PATH")\<close>

definition emit :: "event list \<Rightarrow> 'a world_scheme \<Rightarrow> 'a world_scheme" where
  "emit es s = s\<lparr>events := events s @ es\<rparr>"

lemma emit_sel [simp]:
  "events (emit es s) = events s @ es" "now (emit es s) = now s"
  "errno_msg (emit es s) = errno_msg s" "os_fopen (emit es s) = os_fopen s"
  "os_fork (emit es s) = os_fork s" "os_access (emit es s) = os_access s"
  "os_sysfs (emit es s) = os_sysfs s" "os_env_path (emit es s) = os_env_path s"
  "world.more (emit es s) = world.more s"
  by (simp_all add: emit_def)

lemma emit_Nil [simp]: "emit [] s = s"
  by (simp add: emit_def)

lemma emit_emit [simp]: "emit fs (emit es s) = emit (es @ fs) s"
  by (simp add: emit_def)

definition fork :: "'a world_scheme \<Rightarrow> int \<times> 'a world_scheme" where
  "fork s = (case os_fork s of [] \<Rightarrow> (-1, s) | p # ps \<Rightarrow> (p, s\<lparr>os_fork := ps\<rparr>))"

text \<open>
  How a call ends: it returns a value, or the process ends in it (\<open>exit\<close> with a status, or \<open>abort\<close>).
  \<open>andthen\<close> is sequencing: what follows is run only after a return.
\<close>

datatype ('s, 'r) outcome = Ret 'r 's | Exit int 's | Abort 's

fun andthen :: "('s, 'r) outcome \<Rightarrow> ('r \<Rightarrow> 's \<Rightarrow> ('s, 'q) outcome) \<Rightarrow> ('s, 'q) outcome" where
  "andthen (Ret r s) f = f r s"
| "andthen (Exit c s) f = Exit c s"
| "andthen (Abort s) f = Abort s"

lemma andthen_Ret_iff: "andthen m f = Ret q s' \<longleftrightarrow> (\<exists>r s. m = Ret r s \<and> f r s = Ret q s')"
  by (cases m) auto

lemma andthen_assoc: "andthen (andthen m f) g = andthen m (\<lambda>r s. andthen (f r s) g)"
  by (cases m) simp_all

fun returns :: "('s, 'r) outcome \<Rightarrow> bool" where
  "returns (Ret r s) = True"
| "returns (Exit c s) = False"
| "returns (Abort s) = False"

fun final :: "('s, 'r) outcome \<Rightarrow> 's" where
  "final (Ret r s) = s"
| "final (Exit c s) = s"
| "final (Abort s) = s"

end
