(* ===== verification/Msg.thy ===== *)
theory Msg
  imports World
begin

text \<open>
  The logging functions of \<^verbatim>\<open>src/msg.c\<close>: where decoded output, remarks and errors go (syslog,
  the log file, standard output or standard error), the line buffer that cuts decoded output into
  syslog messages, and opening and reopening the log file.
\<close>

section \<open>State and operations\<close>

definition SYSLOG_LOG :: u32 where "SYSLOG_LOG = push_bit 0 1"
definition SYSLOG_REMARK :: u32 where "SYSLOG_REMARK = push_bit 1 1"
definition SYSLOG_ERROR :: u32 where "SYSLOG_ERROR = push_bit 2 1"
definition SYSLOG_ALL :: u32 where "SYSLOG_ALL = SYSLOG_LOG OR SYSLOG_REMARK OR SYSLOG_ERROR"
definition SYSLOG_FORCE :: u32 where "SYSLOG_FORCE = push_bit 3 1"

definition LOG_ERR :: int where "LOG_ERR = 3"
definition LOG_WARNING :: int where "LOG_WARNING = 4"

record msg_state = world +
  syslog_opt :: u32
  syslog_level :: int
  output_fh :: "string option"   \<comment> \<open>the open log file, by its name\<close>
  output_fn :: "string option"
  syslog_opened :: bool
  syslog_line :: string          \<comment> \<open>the static buffer of vlinesyslog\<close>

definition opt_set :: "u32 \<Rightarrow> 'a msg_state_scheme \<Rightarrow> bool" where
  "opt_set m s \<longleftrightarrow> syslog_opt s AND m \<noteq> 0"

definition out_sink :: "sink \<Rightarrow> 'a msg_state_scheme \<Rightarrow> sink" where
  "out_sink dflt s = (case output_fh s of Some fn \<Rightarrow> Logfile fn | None \<Rightarrow> dflt)"

definition need_stdout :: "'a msg_state_scheme \<Rightarrow> bool" where
  "need_stdout s \<longleftrightarrow> output_fh s = None \<and> syslog_opt s = 0"

definition open_logfile :: "string \<Rightarrow> 'a msg_state_scheme \<Rightarrow> int \<times> 'a msg_state_scheme" where
  "open_logfile fn s =
     (if os_fopen s fn then (0, s\<lparr>output_fh := Some fn, output_fn := Some fn\<rparr>)
      else (-1, s\<lparr>output_fh := None\<rparr>))"

definition opensyslog :: "'a msg_state_scheme \<Rightarrow> 'a msg_state_scheme" where
  "opensyslog s = (if syslog_opened s then s else s\<lparr>syslog_opened := True\<rparr>)"

definition Lprintf :: "string \<Rightarrow> parg list \<Rightarrow> 'a msg_state_scheme \<Rightarrow> 'a msg_state_scheme" where
  "Lprintf fmt args s =
     (let s1 = (if opt_set SYSLOG_REMARK s
                then emit [ESyslog LOG_ERR (printf fmt args)] (opensyslog s) else s)
      in if output_fh s1 \<noteq> None \<or> \<not> opt_set SYSLOG_REMARK s1
         then emit [EPrint (out_sink Stdout s1) (printf fmt args)] (opensyslog s1) else s1)"

definition ends_nl :: "string \<Rightarrow> bool" where
  "ends_nl fmt \<longleftrightarrow> fmt \<noteq> [] \<and> last fmt = CHR ''\<newline>''"

definition Eprintf :: "string \<Rightarrow> parg list \<Rightarrow> 'a msg_state_scheme \<Rightarrow> 'a msg_state_scheme" where
  "Eprintf fmt args s =
     (let f = out_sink Stderr s;
          s1 = (if \<not> opt_set SYSLOG_ERROR s \<or> output_fh s \<noteq> None
                then emit ([EPrint f ''mcelog: '', EPrint f (printf fmt args)] @
                           (if fmt \<noteq> [] \<and> \<not> ends_nl fmt then [EPrint f ''\<newline>''] else [])) s
                else s)
      in if opt_set SYSLOG_ERROR s1
         then emit [ESyslog LOG_ERR (printf fmt args)] (opensyslog s1) else s1)"

definition SYSERRprintf :: "string \<Rightarrow> parg list \<Rightarrow> 'a msg_state_scheme \<Rightarrow> 'a msg_state_scheme" where
  "SYSERRprintf fmt args s =
     (let f = out_sink Stderr s;
          s1 = (if \<not> opt_set SYSLOG_ERROR s \<or> output_fh s \<noteq> None
                then emit [EPrint f ''mcelog: '', EPrint f (printf fmt args),
                           EPrint f (printf '': %s\<newline>'' [PS (errno_msg s)])] s
                else s)
      in if opt_set SYSLOG_ERROR s1
         then emit [ESyslog LOG_ERR (printf ''%s: %s'' [PS (printf fmt args), PS (errno_msg s)])]
                (opensyslog s1)
         else s1)"

text \<open>The loop of \<open>vlinesyslog\<close>: cut complete lines off the front of the buffer.\<close>

function drain_lines :: "string \<Rightarrow> string list \<times> string" where
  "drain_lines line =
     (let n = strcspn line (CHR ''\<newline>'')
      in if n < length line
         then let (ls, r) = drain_lines (drop (Suc n) line) in (take n line # ls, r)
         else ([], line))"
  by pat_completeness auto
termination
  by (relation "measure length") auto

declare drain_lines.simps [simp del]

definition LINE_SIZE :: nat where "LINE_SIZE = 200"

text \<open>\<open>vsnprintf\<close> writes at most the room that is left, with its terminating NUL.\<close>

definition vlinesyslog :: "string \<Rightarrow> 'a msg_state_scheme \<Rightarrow> nat \<times> 'a msg_state_scheme" where
  "vlinesyslog t s =
     (let lend = length (syslog_line s);
          line = syslog_line s @ take (LINE_SIZE - lend - 1) t;
          (ls, r) = drain_lines line
      in (length t, emit (map (ESyslog (syslog_level s)) ls) (s\<lparr>syslog_line := r\<rparr>)))"

definition Wprintf :: "string \<Rightarrow> parg list \<Rightarrow> 'a msg_state_scheme \<Rightarrow> nat \<times> 'a msg_state_scheme" where
  "Wprintf fmt args s =
     (let (n, s1) = (if opt_set SYSLOG_LOG s
                     then vlinesyslog (printf fmt args) (opensyslog s) else (0, s))
      in if \<not> opt_set SYSLOG_LOG s1 \<or> output_fh s1 \<noteq> None
         then (length (printf fmt args), emit [EPrint (out_sink Stdout s1) (printf fmt args)] s1)
         else (n, s1))"

definition Gprintf :: "string \<Rightarrow> parg list \<Rightarrow> 'a msg_state_scheme \<Rightarrow> 'a msg_state_scheme" where
  "Gprintf fmt args s =
     (let s1 = (if opt_set (SYSLOG_REMARK OR SYSLOG_LOG) s
                then snd (vlinesyslog (printf fmt args) s) else s)
      in if \<not> opt_set SYSLOG_LOG s1 \<or> output_fh s1 \<noteq> None
         then emit [EPrint (out_sink Stdout s1) (printf fmt args)] s1 else s1)"

definition flushlog :: "'a msg_state_scheme \<Rightarrow> 'a msg_state_scheme" where
  "flushlog s = emit [EFlush (out_sink Stdout s)] s"

definition reopenlog :: "'a msg_state_scheme \<Rightarrow> 'a msg_state_scheme" where
  "reopenlog s =
     (case (output_fn s, output_fh s) of
        (Some fn, Some fh) \<Rightarrow>
          let s1 = (emit [EClose (Logfile fh)] s)\<lparr>output_fh := None\<rparr>;
              (r, s2) = open_logfile fn s1
          in if r < 0 then SYSERRprintf (''Cannot reopen logfile `%s'' @ [CHR 0x27]) [PS fn] s2 else s2
      | _ \<Rightarrow> s)"

section \<open>What the logging functions leave alone\<close>

lemmas msg_defs = Lprintf_def Eprintf_def SYSERRprintf_def vlinesyslog_def Wprintf_def Gprintf_def
  flushlog_def opensyslog_def emit_def Let_def

lemma emit_msg [simp]:
  "syslog_opt (emit es s) = syslog_opt s" "syslog_level (emit es s) = syslog_level s"
  "output_fh (emit es s) = output_fh s" "output_fn (emit es s) = output_fn s"
  "syslog_opened (emit es s) = syslog_opened s" "syslog_line (emit es s) = syslog_line s"
  "opt_set m (emit es s) = opt_set m s"
  by (simp_all add: emit_def opt_set_def)

lemma opensyslog_sel [simp]:
  "syslog_opt (opensyslog s) = syslog_opt s" "syslog_level (opensyslog s) = syslog_level s"
  "output_fh (opensyslog s) = output_fh s" "syslog_line (opensyslog s) = syslog_line s"
  "events (opensyslog s) = events s" "opt_set m (opensyslog s) = opt_set m s"
  by (simp_all add: opensyslog_def opt_set_def)

text \<open>\<open>msg_step s s'\<close>: \<open>s'\<close> is \<open>s\<close> after some output. Only the log of events, which grows, the flag
  that syslog is open and the line buffer may differ. Everything that only prints is proved to be such
  a step, and \<open>msg_frame\<close> then gives each field of a larger state that it leaves alone.\<close>

definition msg_step :: "'a msg_state_scheme \<Rightarrow> 'a msg_state_scheme \<Rightarrow> bool" where
  "msg_step s s' \<longleftrightarrow>
     (\<exists>es p l. s' = s\<lparr>events := events s @ es, syslog_opened := p, syslog_line := l\<rparr>)"

lemma msg_stepI:
  "s' = s\<lparr>events := events s @ es, syslog_opened := p, syslog_line := l\<rparr> \<Longrightarrow> msg_step s s'"
  unfolding msg_step_def by blast

lemma msg_step_refl [frame]: "msg_step s s"
  by (rule msg_stepI [where es = "[]" and p = "syslog_opened s" and l = "syslog_line s"]) simp

lemma msg_step_trans: "msg_step s t \<Longrightarrow> msg_step t u \<Longrightarrow> msg_step s u"
  unfolding msg_step_def by fastforce

lemma msg_step_basic:
  "msg_step s (emit es s)" "msg_step s (opensyslog s)" "msg_step s (snd (vlinesyslog x s))"
proof -
  show "msg_step s (emit es s)"
    by (rule msg_stepI [where es = es and p = "syslog_opened s" and l = "syslog_line s"]) (simp add: emit_def)
  show "msg_step s (opensyslog s)"
    by (rule msg_stepI [where es = "[]" and p = True and l = "syslog_line s"]) (simp add: opensyslog_def)
  let ?d = "drain_lines (syslog_line s @ take (LINE_SIZE - length (syslog_line s) - 1) x)"
  show "msg_step s (snd (vlinesyslog x s))"
    by (rule msg_stepI [where p = "syslog_opened s" and es = "map (ESyslog (syslog_level s)) (fst ?d)"
        and l = "snd ?d"])
       (simp add: vlinesyslog_def Let_def split_beta emit_def)
qed

lemmas msg_step_intros [frame] = msg_step_basic [THEN msg_step_trans [rotated]]

lemma msg_step_if [frame]:
  "(b \<Longrightarrow> msg_step s t) \<Longrightarrow> (\<not> b \<Longrightarrow> msg_step s u) \<Longrightarrow> msg_step s (if b then t else u)"
  by simp

lemma msg_step_printf [frame]:
  assumes "msg_step s t"
  shows "msg_step s (Lprintf f a t)" "msg_step s (Eprintf f a t)" "msg_step s (SYSERRprintf f a t)"
    "msg_step s (Gprintf f a t)" "msg_step s (flushlog t)" "msg_step s (snd (Wprintf f a t))"
proof -
  show "msg_step s (Lprintf f a t)" unfolding Lprintf_def Let_def by (intro frame assms)
  show "msg_step s (Eprintf f a t)" unfolding Eprintf_def Let_def by (intro frame assms)
  show "msg_step s (SYSERRprintf f a t)" unfolding SYSERRprintf_def Let_def by (intro frame assms)
  show "msg_step s (Gprintf f a t)" unfolding Gprintf_def Let_def by (intro frame assms)
  show "msg_step s (flushlog t)" unfolding flushlog_def by (intro frame assms)
  show "msg_step s (snd (Wprintf f a t))"
    unfolding Wprintf_def Let_def split_beta if_distrib [of snd] snd_conv by (intro frame assms)
qed

lemma msg_frame:
  assumes "msg_step s s'" and "\<And>es p l. g (s\<lparr>events := es, syslog_opened := p, syslog_line := l\<rparr>) = g s"
  shows "g s' = g s"
  using assms unfolding msg_step_def by auto

lemma msg_step_events: "msg_step s s' \<Longrightarrow> \<exists>es. events s' = events s @ es"
  unfolding msg_step_def by auto

section \<open>The syslog line buffer\<close>

lemma drain_lines_step:
  assumes "strcspn line (CHR ''\<newline>'') < length line" and "drain_lines line = (ls, r)"
  obtains ls' where "drain_lines (drop (Suc (strcspn line (CHR ''\<newline>''))) line) = (ls', r)"
    and "ls = take (strcspn line (CHR ''\<newline>'')) line # ls'"
  using assms by (auto simp: drain_lines.simps [of line] Let_def split: prod.splits)

lemma drain_lines_done:
  "\<not> strcspn line (CHR ''\<newline>'') < length line \<Longrightarrow> drain_lines line = ([], line)"
  by (simp add: drain_lines.simps [of line] Let_def)

lemma drain_lines_conserves:
  "drain_lines line = (ls, r) \<Longrightarrow> concat (map (\<lambda>l. l @ ''\<newline>'') ls) @ r = line"
proof (induction line arbitrary: ls r rule: drain_lines.induct)
  case (1 line)
  show ?case
  proof (cases "strcspn line (CHR ''\<newline>'') < length line")
    case True
    then obtain ls' where rec: "drain_lines (drop (Suc (strcspn line (CHR ''\<newline>''))) line) = (ls', r)"
      and ls: "ls = take (strcspn line (CHR ''\<newline>'')) line # ls'"
      using "1.prems" by (rule drain_lines_step)
    have "CHR ''\<newline>'' \<in> set line" using True by (simp add: strcspn_less_iff)
    from split_strcspn [OF this] show ?thesis using "1.IH" [OF refl True rec] ls by simp
  next
    case False
    then show ?thesis using "1.prems" by (simp add: drain_lines_done)
  qed
qed

lemma drain_lines_clean:
  "drain_lines line = (ls, r) \<Longrightarrow> CHR ''\<newline>'' \<notin> set r \<and> (\<forall>l\<in>set ls. CHR ''\<newline>'' \<notin> set l)"
proof (induction line arbitrary: ls r rule: drain_lines.induct)
  case (1 line)
  show ?case
  proof (cases "strcspn line (CHR ''\<newline>'') < length line")
    case True
    then obtain ls' where rec: "drain_lines (drop (Suc (strcspn line (CHR ''\<newline>''))) line) = (ls', r)"
      and ls: "ls = take (strcspn line (CHR ''\<newline>'')) line # ls'"
      using "1.prems" by (rule drain_lines_step)
    show ?thesis using "1.IH" [OF refl True rec] ls notin_take_strcspn by auto
  next
    case False
    then show ?thesis using "1.prems" strcspn_less_iff [of line] by (auto simp: drain_lines_done)
  qed
qed

lemma drain_lines_no_nl: "CHR ''\<newline>'' \<notin> set line \<Longrightarrow> drain_lines line = ([], line)"
  using strcspn_less_iff [of line] by (simp add: drain_lines_done)

text \<open>The buffer's invariant: it holds no newline and leaves room for the terminating NUL.\<close>

definition line_ok :: "'a msg_state_scheme \<Rightarrow> bool" where
  "line_ok s \<longleftrightarrow> CHR ''\<newline>'' \<notin> set (syslog_line s) \<and> length (syslog_line s) < LINE_SIZE"

lemma length_drain_lines: "drain_lines line = (ls, r) \<Longrightarrow> length r \<le> length line"
  using drain_lines_conserves [of line ls r] by (metis length_append le_add2)

lemma vlinesyslog_line_ok:
  assumes "line_ok s"
  shows "line_ok (snd (vlinesyslog t s))"
proof -
  let ?line = "syslog_line s @ take (LINE_SIZE - length (syslog_line s) - 1) t"
  obtain ls r where d: "drain_lines ?line = (ls, r)" by fastforce
  have "length ?line < LINE_SIZE" using assms by (auto simp: line_ok_def)
  then have "length r < LINE_SIZE" using length_drain_lines [OF d] by simp
  then show ?thesis using drain_lines_clean [OF d] by (simp add: vlinesyslog_def Let_def d [simplified] line_ok_def emit_def)
qed

text \<open>The messages that one call sends to syslog.\<close>

definition syslog_lines :: "string \<Rightarrow> 'a msg_state_scheme \<Rightarrow> string list" where
  "syslog_lines t s = fst (drain_lines (syslog_line s @ take (LINE_SIZE - length (syslog_line s) - 1) t))"

lemma vlinesyslog_events:
  "events (snd (vlinesyslog t s)) = events s @ map (ESyslog (syslog_level s)) (syslog_lines t s)"
  by (simp add: vlinesyslog_def syslog_lines_def Let_def split_beta)


definition quiet_state :: msg_state where
  "quiet_state = \<lparr>events = [], now = 0, errno_msg = [], os_fopen = (\<lambda>_. False), os_fork = [],
     os_access = (\<lambda>_. False), os_sysfs = (\<lambda>_ _. -1), os_env_path = None,
     syslog_opt = SYSLOG_LOG, syslog_level = LOG_WARNING, output_fh = None, output_fn = None,
     syslog_opened = True, syslog_line = ''CPU 0''\<rparr>"


text \<open>Once the buffer is full without a newline, nothing that is printed can get in or out.\<close>

lemma vlinesyslog_stuck:
  assumes "line_ok s" and "Suc (length (syslog_line s)) = LINE_SIZE"
  shows "vlinesyslog t s = (length t, s)"
proof -
  have "LINE_SIZE - length (syslog_line s) - 1 = 0" using assms(2) by simp
  then show ?thesis using assms(1)
    by (simp add: vlinesyslog_def line_ok_def drain_lines_no_nl)
qed

fun log_run :: "string list \<Rightarrow> 'a msg_state_scheme \<Rightarrow> 'a msg_state_scheme" where
  "log_run [] s = s"
| "log_run (t # ts) s = log_run ts (snd (vlinesyslog t s))"

lemma log_run_stuck:
  "line_ok s \<Longrightarrow> Suc (length (syslog_line s)) = LINE_SIZE \<Longrightarrow> log_run ts s = s"
  by (induction ts) (simp_all add: vlinesyslog_stuck)



end
