(* ===== verification/Bitfield.thy ===== *)
theory Bitfield
  imports Msg
begin

text \<open>
  The table-driven register decoder of \<^verbatim>\<open>src/bitfield.c\<close> and \<^verbatim>\<open>src/bitfield.h\<close>. A field names
  the bits of a register that index a table of strings; a number field prints a range of bits.
\<close>

section \<open>Definitions\<close>

record field =
  start_bit :: nat
  str :: "string option list"   \<comment> \<open>its length is \<open>stringlen\<close>\<close>

record numfield =
  nf_start :: nat
  nf_end :: nat
  nf_name :: string
  nf_fmt :: string
  nf_force :: bool

definition FIELD :: "nat \<Rightarrow> string option list \<Rightarrow> field" where
  "FIELD b name = \<lparr>start_bit = b, str = name\<rparr>"

definition SBITFIELD :: "nat \<Rightarrow> string \<Rightarrow> field" where
  "SBITFIELD b s = \<lparr>start_bit = b, str = [None, Some s]\<rparr>"

definition NUMBER :: "nat \<Rightarrow> nat \<Rightarrow> string \<Rightarrow> numfield" where
  "NUMBER a b name = \<lparr>nf_start = a, nf_end = b, nf_name = name, nf_fmt = ''%llu'', nf_force = False\<rparr>"
definition NUMBERFORCE :: "nat \<Rightarrow> nat \<Rightarrow> string \<Rightarrow> numfield" where
  "NUMBERFORCE a b name = \<lparr>nf_start = a, nf_end = b, nf_name = name, nf_fmt = ''%llu'', nf_force = True\<rparr>"
definition HEXNUMBER :: "nat \<Rightarrow> nat \<Rightarrow> string \<Rightarrow> numfield" where
  "HEXNUMBER a b name = \<lparr>nf_start = a, nf_end = b, nf_name = name, nf_fmt = ''%llx'', nf_force = False\<rparr>"
definition HEXNUMBERFORCE :: "nat \<Rightarrow> nat \<Rightarrow> string \<Rightarrow> numfield" where
  "HEXNUMBERFORCE a b name = \<lparr>nf_start = a, nf_end = b, nf_name = name, nf_fmt = ''%llx'', nf_force = True\<rparr>"

definition reserved_3bits :: "string option list" where "reserved_3bits = replicate 8 None"
definition reserved_1bit :: "string option list" where "reserved_1bit = replicate 2 None"
definition reserved_2bits :: "string option list" where "reserved_2bits = replicate 4 None"

definition MASK :: "nat \<Rightarrow> u64" where
  "MASK x = push_bit (1 + x) 1 - 1"

definition EXTRACT :: "u64 \<Rightarrow> nat \<Rightarrow> nat \<Rightarrow> u64" where
  "EXTRACT v a b = drop_bit a v AND MASK (b - a)"

definition test_prefix :: "nat \<Rightarrow> u32 \<Rightarrow> bool" where
  "test_prefix nr value \<longleftrightarrow> drop_bit nr value = 1"

text \<open>The loop of \<open>bitmask\<close>. It shifts in at most 64 ones, so 64 rounds are enough: see
  \<open>bitmask_ge\<close> below.\<close>

fun bitmask_loop :: "nat \<Rightarrow> u64 \<Rightarrow> u64 \<Rightarrow> u64" where
  "bitmask_loop 0 msk i = msk"
| "bitmask_loop (Suc n) msk i = (if msk < i then bitmask_loop n (push_bit 1 msk OR 1) i else msk)"

definition bitmask :: "u64 \<Rightarrow> u64" where
  "bitmask i = bitmask_loop 64 1 i"

definition field_value :: "u64 \<Rightarrow> field \<Rightarrow> u64" where
  "field_value status f = drop_bit (start_bit f) status AND bitmask (ucast (of_nat (length (str f)) - 1 :: u32))"

text \<open>The string printed for one field, if any: the body of the loop of \<open>decode_bitfield\<close>.\<close>

definition field_text :: "u64 \<Rightarrow> field \<Rightarrow> string option" where
  "field_text status f =
     (let v = field_value status f
      in case (if unat v < length (str f) then str f ! unat v else None) of
           Some s \<Rightarrow> Some s
         | None \<Rightarrow> if v = 0 then None
                   else Some (take 58 (printf ''<%u:%llx>'' [PN (int (start_bit f)), PU v])))"

text \<open>\<open>Wprintf\<close> where its result is not used.\<close>

definition Wput :: "string \<Rightarrow> parg list \<Rightarrow> 'a msg_state_scheme \<Rightarrow> 'a msg_state_scheme" where
  "Wput fmt args s = snd (Wprintf fmt args s)"

fun decode_bitfield_loop ::
  "u64 \<Rightarrow> field list \<Rightarrow> nat \<Rightarrow> string \<Rightarrow> 'a msg_state_scheme \<Rightarrow> 'a msg_state_scheme" where
  "decode_bitfield_loop status [] linelen delim s =
     (if linelen > 0 then Wput ''\<newline>'' [] s else s)"
| "decode_bitfield_loop status (f # fs) linelen delim s =
     (case field_text status f of
        None \<Rightarrow> decode_bitfield_loop status fs linelen delim s
      | Some t \<Rightarrow>
          let wrap = linelen + length t > 75;
              delim' = (if wrap then ''\<newline>'' else delim);
              linelen' = (if wrap then 0 else linelen)
          in decode_bitfield_loop status fs (linelen' + length t + 1) '' ''
               (Wput ''%s%s'' [PS delim', PS t] s))"

definition decode_bitfield :: "u64 \<Rightarrow> field list \<Rightarrow> 'a msg_state_scheme \<Rightarrow> 'a msg_state_scheme" where
  "decode_bitfield status fs s = decode_bitfield_loop status fs 0 [] s"

definition numfield_value :: "u64 \<Rightarrow> numfield \<Rightarrow> u64" where
  "numfield_value status f =
     drop_bit (nf_start f) status AND (push_bit (nf_end f - nf_start f + 1) 1 - 1)"

fun decode_numfield :: "u64 \<Rightarrow> numfield list \<Rightarrow> 'a msg_state_scheme \<Rightarrow> 'a msg_state_scheme" where
  "decode_numfield status [] s = s"
| "decode_numfield status (f # fs) s =
     decode_numfield status fs
       (let v = numfield_value status f
        in if v > 0 \<or> nf_force f
           then Wput (''%s: '' @ nf_fmt f @ ''\<newline>'') [PS (nf_name f), PU v] s else s)"

text \<open>A string of a table that the code indexes itself; the empty string stands for a NULL entry.\<close>

definition tab_at :: "string option list \<Rightarrow> nat \<Rightarrow> string" where
  "tab_at t i = (if i < length t then (case t ! i of Some s \<Rightarrow> s | None \<Rightarrow> []) else [])"

section \<open>Decoding only prints\<close>

lemma msg_step_Wput [frame]: "msg_step s t \<Longrightarrow> msg_step s (Wput fmt args t)"
  unfolding Wput_def by (rule msg_step_printf(6))

lemma msg_step_bitfield_loop:
  "msg_step s t \<Longrightarrow> msg_step s (decode_bitfield_loop status fs linelen delim t)"
proof (induction fs arbitrary: linelen delim t)
  case (Cons f fs)
  then show ?case by (auto simp: Let_def frame split: option.split)
qed (simp add: frame)

lemma msg_step_bitfield [frame]: "msg_step s t \<Longrightarrow> msg_step s (decode_bitfield status fs t)"
  unfolding decode_bitfield_def by (rule msg_step_bitfield_loop)

lemma msg_step_numfield [frame]: "msg_step s t \<Longrightarrow> msg_step s (decode_numfield status fs t)"
proof (induction fs arbitrary: t)
  case (Cons f fs)
  then show ?case by (auto simp: Let_def frame)
qed simp

section \<open>Bit ranges\<close>

lemma MASK_mask: "MASK x = mask (Suc x)"
  by (simp add: MASK_def mask_eq_decr_exp push_bit_of_1)

lemma EXTRACT_take_bit [bits]: "EXTRACT v a b = take_bit (Suc (b - a)) (drop_bit a v)"
  by (simp add: EXTRACT_def MASK_mask take_bit_eq_mask)

lemma EXTRACT_less [bits]: "a \<le> b \<Longrightarrow> b < a + 63 \<Longrightarrow> EXTRACT v a b < 2 ^ Suc (b - a)"
  unfolding EXTRACT_def MASK_mask by (rule and_mask_less) simp

lemma bit_EXTRACT [bits]: "bit (EXTRACT v a b) n \<longleftrightarrow> n \<le> b - a \<and> bit v (a + n)"
  by (auto simp: EXTRACT_take_bit bit_take_bit_iff bit_drop_bit_eq)

section \<open>The index mask\<close>

lemma shift_in_mask: "(mask k :: u64) * 2 OR 1 = mask (Suc k)"
  by (simp add: mask_Suc_double ac_simps)

lemma bitmask_loop_mask:
  assumes "n + k = 65" and "0 < k"
  shows "\<exists>j. bitmask_loop n (mask k) i = mask j \<and> k \<le> j \<and> i \<le> mask j \<and> (k < j \<longrightarrow> mask (j - 1) < i)"
  using assms
proof (induction n arbitrary: k)
  case 0
  then have "(mask k :: u64) = - 1" by (intro bit_word_eqI) (simp add: bit_simps)
  then show ?case by (intro exI [of _ k]) simp
next
  case (Suc n)
  show ?case
  proof (cases "mask k < i")
    case True
    obtain j where "bitmask_loop n (mask (Suc k)) i = mask j" "Suc k \<le> j" "i \<le> mask j"
      "Suc k < j \<longrightarrow> mask (j - 1) < i" using Suc.IH [of "Suc k"] Suc.prems by auto
    moreover from this(2) True have "k < j \<longrightarrow> mask (j - 1) < i"
      using calculation(4) by (cases "Suc k < j") (auto simp: le_less)
    ultimately show ?thesis using True by (intro exI [of _ j]) (auto simp: shift_in_mask)
  next
    case False
    then have "bitmask_loop (Suc n) (mask k) i = mask k" by simp
    with False show ?thesis by (intro exI [of _ k]) (simp add: not_less del: bitmask_loop.simps)
  qed
qed

lemma bitmask_mask: "\<exists>j\<ge>1. bitmask i = mask j \<and> i \<le> mask j \<and> (1 < j \<longrightarrow> mask (j - 1) < i)"
  using bitmask_loop_mask [of 64 1 i] by (auto simp: bitmask_def)

text \<open>Every index of a table survives the mask, and the mask is the smallest that allows it.\<close>

lemma bitmask_ge: "i \<le> bitmask i"
  using bitmask_mask by metis

lemma and_mask_id: "v \<le> mask j \<Longrightarrow> (v :: u64) AND mask j = v"
  using and_mask_lt_2p [of "-1 :: u64" j] by (simp add: mask_eq_iff word_le_def)

lemma and_bitmask_id: "v \<le> i \<Longrightarrow> v AND bitmask i = v"
  using bitmask_mask [of i] and_mask_id order_trans by metis

lemma le_mask_iff: "(i :: u64) \<le> mask j \<longleftrightarrow> uint i < 2 ^ j"
proof
  assume "i \<le> mask j"
  then show "uint i < 2 ^ j" using and_mask_id mask_eq_iff by metis
next
  assume "uint i < 2 ^ j"
  then have "i AND mask j = i" by (simp add: mask_eq_iff)
  then show "i \<le> mask j" by (metis word_and_le1)
qed

text \<open>A table of \<open>2^(w-1) + 1\<close> up to \<open>2^w\<close> strings is indexed by exactly \<open>w\<close> bits.\<close>

lemma bitmask_width:
  assumes "0 < w" and "2 ^ (w - 1) \<le> uint i" "uint i < 2 ^ w"
  shows "bitmask i = mask w"
proof -
  obtain j where j: "1 \<le> j" "bitmask i = mask j" "uint i < 2 ^ j" "1 < j \<longrightarrow> \<not> uint i < 2 ^ (j - 1)"
    using bitmask_mask [of i] by (auto simp: not_le simp flip: le_mask_iff)
  have "\<not> j < w"
  proof
    assume "j < w"
    then have "(2::int) ^ j \<le> 2 ^ (w - 1)" by (intro power_increasing) auto
    then show False using assms(2) j(3) by linarith
  qed
  moreover have "\<not> w < j"
  proof
    assume "w < j"
    then have "(2::int) ^ w \<le> 2 ^ (j - 1)" by (intro power_increasing) auto
    then show False using assms(3) j(4) \<open>w < j\<close> assms(1) by linarith
  qed
  ultimately show ?thesis using j(2) by (simp add: linorder_neq_iff)
qed

lemma uint_table_len:
  assumes "1 < n" "n \<le> 2 ^ 31"
  shows "uint (ucast (of_nat n - 1 :: u32) :: u64) = int n - 1"
proof -
  have eq: "(of_nat n - 1 :: u32) = of_nat (n - 1)" using assms(1) by (simp add: of_nat_diff)
  have "n - 1 < 2 ^ 32" using assms by simp
  then have "uint (of_nat (n - 1) :: u32) = int (n - 1)"
    by (simp only: unsigned_of_nat take_bit_nat_eq_self len_num0 len_num1 len_bit0 len_bit1)
       (simp add: take_bit_nat_eq_self unsigned_of_nat)
  moreover have "uint (ucast x :: u64) = uint x" for x :: u32
    using unat_ucast_up [of x] unfolding uint_nat by simp
  ultimately show ?thesis unfolding eq using assms(1) by (simp only: of_nat_diff [OF less_imp_le] of_nat_1)
qed

lemma index_mask:
  assumes "0 < w" "w < 32" and "2 ^ (w - 1) < n" "n \<le> 2 ^ w"
  shows "bitmask (ucast (of_nat n - 1 :: u32)) = mask w"
proof -
  have "n \<le> 2 ^ 31" using assms(2,4) power_increasing [of w 31 "2::nat"] by linarith
  moreover have "1 < n" using assms(3) one_le_power [of "2::nat" "w - 1"] by linarith
  ultimately have len: "uint (ucast (of_nat n - 1 :: u32) :: u64) = int n - 1"
    by (intro uint_table_len)
  have "int (2 ^ (w - 1)) < int n" "int n \<le> int (2 ^ w)"
    using assms(3,4) by (simp_all only: of_nat_less_iff of_nat_le_iff)
  then have "(2 :: int) ^ (w - 1) \<le> int n - 1" "int n - 1 < 2 ^ w"
    unfolding of_nat_power of_nat_numeral by linarith+
  then show ?thesis using assms(1) unfolding len [symmetric] by (intro bitmask_width)
qed

lemma field_value_width:
  assumes "0 < w" "w < 32" and "2 ^ (w - 1) < length (str f)" "length (str f) \<le> 2 ^ w"
  shows "field_value status f = EXTRACT status (start_bit f) (start_bit f + w - 1)"
  using assms(1) by (simp add: field_value_def index_mask [OF assms] EXTRACT_take_bit take_bit_eq_mask
    del: of_nat_diff)

text \<open>
  C13: the decoder reads exactly the bits of its field. A table of more than \<open>2^(w-1)\<close> and at most
  \<open>2^w\<close> strings is indexed by the \<open>w\<close> register bits from the field's start bit; the entry found there
  is printed, a missing entry is printed as its number, and a missing entry 0 is not printed.
\<close>

theorem field_text_exact:
  assumes "0 < w" "w < 32" and "2 ^ (w - 1) < length (str f)" "length (str f) \<le> 2 ^ w"
    and "i = unat (EXTRACT status (start_bit f) (start_bit f + w - 1))"
  shows "field_text status f =
    (if i < length (str f) \<and> str f ! i \<noteq> None then str f ! i
     else if i = 0 then None
     else Some (take 58 (printf ''<%u:%llx>'' [PN (int (start_bit f)), PN (int i)])))"
  unfolding field_text_def Let_def field_value_width [OF assms(1-4)] assms(5)
  by (auto simp: unat_eq_zero split: option.split)

definition two_bits :: field where "two_bits = FIELD 4 [None, None, Some ''two'', None]"

theorem field_text_exact_witness:
  "field_text 0xA5 two_bits = Some ''two'' \<and> field_text 0xB5 two_bits = Some ''<4:3>''"
proof
  have "field_text 0xA5 two_bits = (if 2 < length (str two_bits) \<and> str two_bits ! 2 \<noteq> None
     then str two_bits ! 2 else if (2 :: nat) = 0 then None
     else Some (take 58 (printf ''<%u:%llx>'' [PN (int (start_bit two_bits)), PN (int 2)])))"
    by (rule field_text_exact [where w = 2]) code_simp+
  also have "\<dots> = Some ''two''" by code_simp
  finally show "field_text 0xA5 two_bits = Some ''two''" .
  have "field_text 0xB5 two_bits = (if 3 < length (str two_bits) \<and> str two_bits ! 3 \<noteq> None
     then str two_bits ! 3 else if (3 :: nat) = 0 then None
     else Some (take 58 (printf ''<%u:%llx>'' [PN (int (start_bit two_bits)), PN (int 3)])))"
    by (rule field_text_exact [where w = 2]) code_simp+
  also have "\<dots> = Some ''<4:3>''" by code_simp
  finally show "field_text 0xB5 two_bits = Some ''<4:3>''" .
qed

end
