(* ===== verification/HashChain.thy ===== *)
theory HashChain
  imports Prelude
begin

text \<open>
  The interface that the hash tables of \<^verbatim>\<open>src/config.c\<close> and \<^verbatim>\<open>src/memdb.c\<close> share: an array of
  chains, a hash function whose value is an index of the array, and a key in every entry. The locale
  gives the laws of a lookup after an entry is linked at either end of its chain or changed in place;
  both components interpret it on their own hash function and entries.
\<close>

locale hash_chains =
  fixes hash :: "'k \<Rightarrow> nat" and size :: nat and key :: "'e \<Rightarrow> 'k"
  assumes hash_less: "hash k < size"
begin

definition placed :: "'e list list \<Rightarrow> bool" where
  "placed tab \<longleftrightarrow> length tab = size \<and> (\<forall>i < size. \<forall>e\<in>set (tab ! i). hash (key e) = i)"

definition lookup :: "'e list list \<Rightarrow> 'k \<Rightarrow> 'e option" where
  "lookup tab k = find (\<lambda>e. key e = k) (tab ! hash k)"

definition entries :: "'e list list \<Rightarrow> nat" where
  "entries tab = sum_list (map length tab)"

lemma placed_empty: "placed (replicate size [])"
  by (simp add: placed_def)

lemma lookup_empty: "lookup (replicate size []) k = None"
  by (simp add: lookup_def hash_less)

lemma lookup_Some: "lookup tab k = Some e \<Longrightarrow> key e = k \<and> e \<in> set (tab ! hash k)"
  by (auto simp: lookup_def find_Some_iff)

lemma placed_append:
  assumes "placed tab"
  shows "placed (tab[hash (key e) := tab ! hash (key e) @ [e]])"
  using assms hash_less by (auto simp: placed_def nth_list_update split: if_splits)

lemma placed_push:
  assumes "placed tab"
  shows "placed (tab[hash (key e) := e # tab ! hash (key e)])"
  using assms hash_less by (auto simp: placed_def nth_list_update split: if_splits)

lemma find_append:
  "find P (xs @ [e]) = (case find P xs of Some x \<Rightarrow> Some x | None \<Rightarrow> if P e then Some e else None)"
  by (induction xs) auto

text \<open>An entry linked at the end of its chain is found only where nothing was found before.\<close>

lemma lookup_append:
  assumes "placed tab"
  shows "lookup (tab[hash (key e) := tab ! hash (key e) @ [e]]) k =
    (case lookup tab k of Some x \<Rightarrow> Some x | None \<Rightarrow> if key e = k then Some e else None)"
proof (cases "hash k = hash (key e)")
  case True
  then show ?thesis using assms hash_less by (simp add: placed_def lookup_def find_append)
next
  case False
  then have "key e \<noteq> k" by auto
  then show ?thesis using False by (simp add: lookup_def split: option.split)
qed

text \<open>An entry linked at the front hides the others with its key.\<close>

lemma lookup_push:
  assumes "placed tab"
  shows "lookup (tab[hash (key e) := e # tab ! hash (key e)]) k = (if key e = k then Some e else lookup tab k)"
  using assms hash_less by (cases "hash k = hash (key e)") (auto simp: placed_def lookup_def)

lemma entries_push:
  assumes "placed tab"
  shows "entries (tab[hash (key e) := e # tab ! hash (key e)]) = Suc (entries tab)"
proof -
  have "hash (key e) < length tab" using assms hash_less by (simp add: placed_def)
  then show ?thesis
    by (simp add: entries_def map_update sum_list_update)
qed

text \<open>All keys, chain by chain.\<close>

definition keys :: "'e list list \<Rightarrow> 'k list" where
  "keys tab = map key (concat tab)"

lemma length_keys: "length (keys tab) = entries tab"
  by (simp add: keys_def entries_def length_concat)

lemma concat_update:
  assumes "i < length tab"
  shows "concat (tab[i := es]) = concat (take i tab) @ es @ concat (drop (Suc i) tab)"
  using assms by (simp add: upd_conv_take_nth_drop)

lemma concat_chain:
  assumes "i < length tab"
  shows "concat tab = concat (take i tab) @ tab ! i @ concat (drop (Suc i) tab)"
  using concat_update [OF assms, of "tab ! i"] by simp

lemma lookup_None_iff:
  assumes "placed tab"
  shows "lookup tab k = None \<longleftrightarrow> k \<notin> set (keys tab)"
proof
  assume none: "lookup tab k = None"
  show "k \<notin> set (keys tab)"
  proof
    assume "k \<in> set (keys tab)"
    then obtain es e where "es \<in> set tab" "e \<in> set es" "key e = k" by (auto simp: keys_def)
    moreover from this(1) obtain i where "i < length tab" "tab ! i = es" by (auto simp: in_set_conv_nth)
    ultimately show False using none assms by (auto simp: lookup_def find_None_iff placed_def)
  qed
next
  assume "k \<notin> set (keys tab)"
  moreover have "tab ! hash k \<in> set tab" using assms hash_less [of k] by (simp add: placed_def)
  then have "set (tab ! hash k) \<subseteq> set (concat tab)" by (simp add: UN_upper)
  ultimately show "lookup tab k = None" by (auto simp: keys_def lookup_def find_None_iff)
qed

lemma distinct_keys_push:
  assumes "placed tab" "distinct (keys tab)" "lookup tab (key e) = None"
  shows "distinct (keys (tab[hash (key e) := e # tab ! hash (key e)]))"
proof -
  have i: "hash (key e) < length tab" using assms(1) hash_less by (simp add: placed_def)
  have "key e \<notin> set (keys tab)" using assms(1,3) by (simp add: lookup_None_iff)
  then show ?thesis using assms(2)
    unfolding keys_def concat_update [OF i] concat_chain [OF i] by auto
qed

text \<open>Changing entries in place without their keys.\<close>

definition change :: "'k \<Rightarrow> ('e \<Rightarrow> 'e) \<Rightarrow> 'e list list \<Rightarrow> 'e list list" where
  "change k f tab = tab[hash k := map (\<lambda>e. if key e = k then f e else e) (tab ! hash k)]"

lemma find_change:
  assumes "\<And>e. key (f e) = key e"
  shows "find (\<lambda>e. key e = k') (map (\<lambda>e. if key e = k then f e else e) es) =
    (if k' = k then map_option f (find (\<lambda>e. key e = k) es) else find (\<lambda>e. key e = k') es)"
  using assms by (induction es) auto

lemma lookup_change:
  assumes "placed tab" and "\<And>e. key (f e) = key e"
  shows "lookup (change k f tab) k' = (if k' = k then map_option f (lookup tab k) else lookup tab k')"
proof (cases "hash k' = hash k")
  case True
  then show ?thesis using assms(1) hash_less
    by (simp add: placed_def lookup_def change_def find_change [OF assms(2)])
next
  case False
  then show ?thesis using assms(1) by (auto simp: lookup_def change_def placed_def)
qed

lemma placed_change:
  assumes "placed tab" and "\<And>e. key (f e) = key e"
  shows "placed (change k f tab)"
  using assms(1) hash_less by (auto simp: placed_def change_def nth_list_update assms(2))

lemma keys_change:
  assumes "placed tab" and "\<And>e. key (f e) = key e"
  shows "keys (change k f tab) = keys tab"
proof -
  have i: "hash k < length tab" using assms(1) hash_less by (simp add: placed_def)
  have "map key (map (\<lambda>e. if key e = k then f e else e) es) = map key es" for es
    using assms(2) by simp
  then show ?thesis unfolding keys_def change_def concat_update [OF i] concat_chain [OF i] map_append by simp
qed

lemma entries_change: "entries (change k f tab) = entries tab"
proof -
  have "map length (change k f tab) = map length tab"
    by (cases "hash k < length tab") (simp_all add: change_def map_update list_update_same_conv list_update_beyond)
  then show ?thesis by (simp add: entries_def)
qed

end

end
