(* ===== verification/Config.thy ===== *)
theory Config
  imports Msg HashChain Sscanf
begin

text \<open>
  The configuration file of \<^verbatim>\<open>src/config.c\<close>: the line parser that fills a list of headers, each with
  a hash table of options, and the typed readers on top of the lookup. A parse error ends the process
  as in the code. The options that configure triggers are in theory \<open>Trigger\<close>, since they call
  \<^verbatim>\<open>src/trigger.c\<close>.
\<close>

section \<open>State\<close>

record opt =
  o_name :: string
  o_val :: string

definition SHASH :: nat where "SHASH = 11"

text \<open>A chain's \<open>optslast\<close> pointer is the end of its list.\<close>

record header =
  h_name :: string
  h_opts :: "opt list list"

record config_state = msg_state +
  hlist :: "header list"
  os_read :: "string \<Rightarrow> string option"       \<comment> \<open>the contents of a readable file\<close>
  os_getpwnam :: "string \<Rightarrow> u32 option"
  os_getgrnam :: "string \<Rightarrow> u32 option"

fun djb :: "u32 \<Rightarrow> string \<Rightarrow> u32" where
  "djb h [] = h"
| "djb h (c # cs) = djb (h * 32 + h + of_char c) cs"

definition hash :: "string \<Rightarrow> nat" where
  "hash s = unat (djb 5381 s mod 11)"

definition new_header :: "string \<Rightarrow> header" where
  "new_header name = \<lparr>h_name = name, h_opts = replicate SHASH []\<rparr>"

definition empty :: "string \<Rightarrow> bool" where
  "empty s \<longleftrightarrow> skipspace s = []"

definition parse_error ::
  "int \<Rightarrow> string \<Rightarrow> 'a config_state_scheme \<Rightarrow> ('a config_state_scheme, 'r) outcome" where
  "parse_error line msg s = Exit 1 (Eprintf ''config file line %d: %s\<newline>'' [PN line, PS msg] s)"

definition unparseable ::
  "string \<Rightarrow> string \<Rightarrow> string \<Rightarrow> 'a config_state_scheme \<Rightarrow> ('a config_state_scheme, 'r) outcome" where
  "unparseable desc header name s =
     (let field = (if header = ''global'' then printf ''%s'' [PS name]
                   else printf ''[%s] %s'' [PS header, PS name])
      in Exit 1 (Eprintf (''%s config option `%s'' @ CHR 0x27 # '' unparseable\<newline>'')
                   [PS desc, PS field] s))"

definition strstrip :: "string \<Rightarrow> string" where
  "strstrip s = rev (skipspace (rev (skipspace s)))"

section \<open>Parsing the file\<close>

text \<open>What one line is, after its comment is cut off. The code looks for \<open>=\<close> from the start of the
  line, which differs from the stripped line only in leading white space.\<close>

datatype cline = LBlank | LHeader string | LOpt string string | LError string

definition parse_line :: "string \<Rightarrow> cline" where
  "parse_line l =
     (let line = takeWhile (\<lambda>c. c \<noteq> CHR 0x00) l;
          s = strstrip (takeWhile (\<lambda>c. c \<noteq> CHR ''#'') line)
      in if s \<noteq> [] \<and> hd s = CHR ''[''
         then (case strchr s (CHR '']'') of
                 None \<Rightarrow> LError ''Header without ending ]''
               | Some n \<Rightarrow> if empty (drop (Suc n) s) then LHeader (drop 1 (take n s))
                           else LError ''left over characters at end of line'')
         else (case strchr s (CHR ''='') of
                 Some n \<Rightarrow> LOpt (strstrip (take n s)) (strstrip (drop (Suc n) s))
               | None \<Rightarrow> if empty s then LBlank
                         else LError ''config file line not field nor header''))"

text \<open>\<open>hs\<close> are the headers made so far by this call; \<open>hdr\<close> of the code is the last of them.\<close>

definition add_opt :: "string \<Rightarrow> string \<Rightarrow> header list \<Rightarrow> header list" where
  "add_opt name val hs =
     (let hs = (if hs = [] then [new_header ''global''] else hs);
          hdr = last hs;
          h = hash name
      in butlast hs @
           [hdr\<lparr>h_opts := (h_opts hdr)[h := h_opts hdr ! h @ [\<lparr>o_name = name, o_val = val\<rparr>]]\<rparr>])"

fun parse_lines ::
  "int \<Rightarrow> string list \<Rightarrow> header list \<Rightarrow> 'a config_state_scheme \<Rightarrow>
     ('a config_state_scheme, header list) outcome" where
  "parse_lines lineno [] hs s = Ret hs s"
| "parse_lines lineno (l # ls) hs s =
     (case parse_line l of
        LHeader name \<Rightarrow> parse_lines (lineno + 1) ls (hs @ [new_header name]) s
      | LOpt name val \<Rightarrow> parse_lines (lineno + 1) ls (add_opt name val hs) s
      | LBlank \<Rightarrow> parse_lines (lineno + 1) ls hs s
      | LError msg \<Rightarrow> parse_error lineno msg s)"

text \<open>\<open>getline\<close> delivers the lines with their newlines, and a last one without if there is any.\<close>

definition getlines :: "string \<Rightarrow> string list" where
  "getlines content = (let (ls, r) = drain_lines content
     in map (\<lambda>l. l @ ''\<newline>'') ls @ (if r = [] then [] else [r]))"

text \<open>The first header of a call replaces the list of an earlier one.\<close>

definition parse_config_file :: "string \<Rightarrow> 'a config_state_scheme \<Rightarrow> ('a config_state_scheme, int) outcome" where
  "parse_config_file fn s =
     (case os_read s fn of
        None \<Rightarrow> Ret (-1) s
      | Some content \<Rightarrow>
          andthen (parse_lines 1 (getlines content) [] s)
            (\<lambda>hs s. Ret 0 (if hs = [] then s else s\<lparr>hlist := hs\<rparr>)))"

section \<open>Reading options\<close>

fun find_opt :: "string \<Rightarrow> opt list \<Rightarrow> string option" where
  "find_opt name [] = None"
| "find_opt name (p # os) = (if o_name p = name then Some (o_val p) else find_opt name os)"

fun find_in_headers :: "string \<Rightarrow> string \<Rightarrow> header list \<Rightarrow> string option" where
  "find_in_headers header name [] = None"
| "find_in_headers header name (hdr # hs) =
     (if h_name hdr = header
      then (case find_opt name (h_opts hdr ! hash name) of
              Some v \<Rightarrow> Some v | None \<Rightarrow> find_in_headers header name hs)
      else find_in_headers header name hs)"

definition config_string :: "string \<Rightarrow> string \<Rightarrow> 'a config_state_scheme \<Rightarrow> string option" where
  "config_string header name s =
     (case find_in_headers header name (hlist s) of
        Some v \<Rightarrow> Some v
      | None \<Rightarrow> if header \<noteq> ''global'' then find_in_headers ''global'' name (hlist s) else None)"

text \<open>The value read is the first conversion of the format; \<open>None\<close> is the result \<open>-1\<close> of an
  option that is not set.\<close>

definition config_number ::
  "string \<Rightarrow> string \<Rightarrow> string \<Rightarrow> 'a config_state_scheme \<Rightarrow> ('a config_state_scheme, sval option) outcome" where
  "config_number header name fmt s =
     (case config_string header name s of
        None \<Rightarrow> Ret None s
      | Some str \<Rightarrow> (case sscanf str fmt of (n, vals) \<Rightarrow>
          if n \<noteq> 1 then unparseable ''numerical'' header name s else Ret (Some (hd vals)) s))"

type_synonym config_choice_t = "(string \<times> int) list"

fun find_choice :: "string \<Rightarrow> config_choice_t \<Rightarrow> int option" where
  "find_choice str [] = None"
| "find_choice str ((n, v) # cs) = (if strcaseeq str n then Some v else find_choice str cs)"

definition config_choice ::
  "string \<Rightarrow> string \<Rightarrow> config_choice_t \<Rightarrow> 'a config_state_scheme \<Rightarrow> ('a config_state_scheme, int) outcome" where
  "config_choice header name c s =
     (case config_string header name s of
        None \<Rightarrow> Ret (-1) s
      | Some str \<Rightarrow> (case find_choice str c of
          Some v \<Rightarrow> Ret v s | None \<Rightarrow> unparseable ''choice'' header name s))"

definition bool_choices :: config_choice_t where
  "bool_choices = [(''yes'', 1), (''true'', 1), (''1'', 1), (''on'', 1),
                   (''no'', 0), (''false'', 0), (''0'', 0), (''off'', 0)]"

definition config_bool :: "string \<Rightarrow> string \<Rightarrow> 'a config_state_scheme \<Rightarrow> ('a config_state_scheme, int) outcome" where
  "config_bool header name s = config_choice header name bool_choices s"

section \<open>The command line and the options of the file\<close>

text \<open>\<open>NULL\<close> is \<open>None\<close>. \<open>usage\<close> is the function of \<^verbatim>\<open>src/mcelog.c\<close> that prints the help text. It returns, and with a missing
  file name the argument then counts as one that does not match.\<close>

definition match_arg :: "('s \<Rightarrow> 's) \<Rightarrow> string list \<Rightarrow> string \<Rightarrow> 's \<Rightarrow> string option \<times> 's" where
  "match_arg usage av arg s =
     (let a = hd av; len = length arg
      in if strneq a arg len
         then if drop len a \<noteq> [] \<and> a ! len = CHR ''='' then (Some (drop (len + 1) a), s)
              else (case tl av of [] \<Rightarrow> (None, usage s) | v # _ \<Rightarrow> (Some v, s))
         else (None, s))"

fun config_file_loop :: "('s \<Rightarrow> 's) \<Rightarrow> string list \<Rightarrow> 's \<Rightarrow> string option \<times> 's" where
  "config_file_loop usage [] s = (None, s)"
| "config_file_loop usage (a # av) s =
     (if a = ''--'' then (None, s)
      else case match_arg usage (a # av) ''--conf'' s of
             (Some r, s) \<Rightarrow> (Some r, s)
           | (None, s) \<Rightarrow> config_file_loop usage av s)"

text \<open>The file named on the command line; \<open>None\<close> is the pointer \<open>deffn\<close>, with which the caller compares the result. The program's name
  is skipped.\<close>

definition config_file :: "('s \<Rightarrow> 's) \<Rightarrow> string list \<Rightarrow> 's \<Rightarrow> string option \<times> 's" where
  "config_file usage av s = config_file_loop usage (tl av) s"

record option_t =
  opt_name :: string
  has_arg :: bool
  opt_flag :: "string option"   \<comment> \<open>the C variable that is set, by its name\<close>
  opt_val :: int

text \<open>\<open>func\<close> gets the option's value and the argument; \<open>setflag\<close> is the store to a flag variable.\<close>

fun config_options ::
  "option_t list \<Rightarrow> (int \<Rightarrow> string option \<Rightarrow> 'a config_state_scheme \<Rightarrow> ('a config_state_scheme, int) outcome) \<Rightarrow>
   (string \<Rightarrow> int \<Rightarrow> 'a config_state_scheme \<Rightarrow> 'a config_state_scheme) \<Rightarrow> string option \<Rightarrow>
   'a config_state_scheme \<Rightarrow> ('a config_state_scheme, string option) outcome" where
  "config_options [] func setflag optarg s = Ret optarg s"
| "config_options (p # ps) func setflag optarg s =
     (if \<not> has_arg p
      then andthen (config_bool ''global'' (opt_name p) s)
        (\<lambda>b s. if b \<noteq> 1 then config_options ps func setflag optarg s
               else case opt_flag p of
                      Some v \<Rightarrow> config_options ps func setflag optarg (setflag v (opt_val p) s)
                    | None \<Rightarrow> andthen (func (opt_val p) optarg s)
                                (\<lambda>_ s. config_options ps func setflag optarg s))
      else case config_string ''global'' (opt_name p) s of
             None \<Rightarrow> config_options ps func setflag optarg s
           | Some v \<Rightarrow> andthen (func (opt_val p) (Some v) s)
                        (\<lambda>_ s. config_options ps func setflag (Some v) s))"

record config_cred_t =
  cred_uid :: u32
  cred_gid :: u32

definition config_cred :: "string \<Rightarrow> string \<Rightarrow> config_cred_t \<Rightarrow> 'a config_state_scheme \<Rightarrow>
    config_cred_t \<times> 'a config_state_scheme" where
  "config_cred header base cred s =
     (let name = base @ ''-user'';
          (cred, s) = (case config_string header name s of
             None \<Rightarrow> (cred, s)
           | Some u \<Rightarrow>
               if u = ''*'' then (cred\<lparr>cred_uid := - 1\<rparr>, s)
               else (case os_getpwnam s u of
                       None \<Rightarrow> (cred, Eprintf (''Unknown user `%s'' @ CHR 0x27 # '' in %s:%s config entry\<newline>'')
                                        [PS u, PS header, PS name] s)
                     | Some uid \<Rightarrow> (cred\<lparr>cred_uid := uid\<rparr>, s)));
          name = base @ ''-group''
      in case config_string header name s of
           None \<Rightarrow> (cred, s)
         | Some g \<Rightarrow>
             if g = ''*'' then (cred\<lparr>cred_gid := - 1\<rparr>, s)
             else (case os_getgrnam s g of
                     None \<Rightarrow> (cred, Eprintf (''Unknown group `%s'' @ CHR 0x27 # '' in %s:%s config entry\<newline>'')
                                      [PS g, PS header, PS name] s)
                   | Some gid \<Rightarrow> (cred\<lparr>cred_gid := gid\<rparr>, s)))"

section \<open>The option table is a hash table\<close>

lemma hash_less: "hash k < SHASH"
  by (simp add: hash_def SHASH_def unat_mod)

interpretation opts: hash_chains hash SHASH o_name
  by unfold_locales (rule hash_less)

lemma find_opt_lookup: "find_opt name (tab ! hash name) = map_option o_val (opts.lookup tab name)"
proof -
  have "find_opt name os = map_option o_val (find (\<lambda>e. o_name e = name) os)" for os
    by (induction os) auto
  then show ?thesis by (simp add: opts.lookup_def)
qed

definition headers_ok :: "header list \<Rightarrow> bool" where
  "headers_ok hs \<longleftrightarrow> (\<forall>h\<in>set hs. opts.placed (h_opts h))"

lemma placed_new_header: "opts.placed (h_opts (new_header name))"
  by (simp add: new_header_def opts.placed_empty)

lemma add_opt_Nil: "add_opt name val [] = add_opt name val [new_header ''global'']"
  by (simp add: add_opt_def)

lemma add_opt_snoc:
  "add_opt name val (hs @ [h]) = hs @
     [h\<lparr>h_opts := (h_opts h)[hash name := h_opts h ! hash name @ [\<lparr>o_name = name, o_val = val\<rparr>]]\<rparr>]"
  by (simp add: add_opt_def Let_def)

lemma headers_ok_add_opt: "headers_ok hs \<Longrightarrow> headers_ok (add_opt name val hs)"
proof (induction hs rule: rev_induct)
  case Nil
  show ?case
    using opts.placed_append [of "h_opts (new_header ''global'')" "\<lparr>o_name = name, o_val = val\<rparr>"]
      placed_new_header
    by (simp add: add_opt_def headers_ok_def Let_def)
next
  case (snoc h hs)
  then show ?case using opts.placed_append [of "h_opts h" "\<lparr>o_name = name, o_val = val\<rparr>"]
    by (auto simp: headers_ok_def add_opt_snoc)
qed

section \<open>The file as a list of assignments\<close>

text \<open>What a configuration file means: its assignments in order, each with its section. The ones
  before the first header belong to the section \<open>global\<close>. A lookup takes the first assignment of the
  option in the section, and falls back to the section \<open>global\<close>.\<close>

fun assigns :: "string \<Rightarrow> cline list \<Rightarrow> ((string \<times> string) \<times> string) list" where
  "assigns sec [] = []"
| "assigns sec (LHeader n # ls) = assigns n ls"
| "assigns sec (LOpt n v # ls) = ((sec, n), v) # assigns sec ls"
| "assigns sec (LBlank # ls) = assigns sec ls"
| "assigns sec (LError m # ls) = assigns sec ls"

definition spec_lookup :: "((string \<times> string) \<times> string) list \<Rightarrow> string \<Rightarrow> string \<Rightarrow> string option" where
  "spec_lookup as header name =
     (case map_of as (header, name) of Some v \<Rightarrow> Some v | None \<Rightarrow> map_of as (''global'', name))"

lemma find_in_headers_append:
  "find_in_headers header name (hs @ hs') =
     (case find_in_headers header name hs of Some v \<Rightarrow> Some v | None \<Rightarrow> find_in_headers header name hs')"
  by (induction hs) (auto split: option.splits)

lemma find_in_new_header [simp]: "find_in_headers header name [new_header n] = None"
  by (simp add: find_opt_lookup new_header_def opts.lookup_empty)

lemma find_in_add_opt_last:
  assumes "opts.placed (h_opts h)"
  shows "find_in_headers header n
      [h\<lparr>h_opts := (h_opts h)[hash name := h_opts h ! hash name @ [\<lparr>o_name = name, o_val = val\<rparr>]]\<rparr>] =
    (case find_in_headers header n [h] of Some v \<Rightarrow> Some v
     | None \<Rightarrow> if h_name h = header \<and> name = n then Some val else None)"
  using opts.lookup_append [OF assms, of "\<lparr>o_name = name, o_val = val\<rparr>" n]
  by (auto simp: find_opt_lookup split: option.splits)

definition section_of :: "header list \<Rightarrow> string" where
  "section_of hs = (if hs = [] then ''global'' else h_name (last hs))"

lemma find_in_add_opt:
  assumes "headers_ok hs"
  shows "find_in_headers header n (add_opt name val hs) =
    (case find_in_headers header n hs of Some v \<Rightarrow> Some v
     | None \<Rightarrow> if section_of hs = header \<and> name = n then Some val else None)"
proof (cases hs rule: rev_cases)
  case Nil
  have "find_in_headers header n (add_opt name val ([] @ [new_header ''global''])) =
      (if h_name (new_header ''global'') = header \<and> name = n then Some val else None)"
    by (subst add_opt_snoc, subst append_Nil, subst find_in_add_opt_last [OF placed_new_header],
          subst find_in_new_header) simp
  then show ?thesis using Nil by (simp add: section_of_def add_opt_Nil new_header_def del: find_in_headers.simps(2))
next
  case (snoc hs' h)
  then have "opts.placed (h_opts h)" using assms by (simp add: headers_ok_def)
  then show ?thesis
    unfolding snoc add_opt_snoc find_in_headers_append find_in_add_opt_last [OF \<open>opts.placed (h_opts h)\<close>]
    by (simp add: section_of_def split: option.split del: find_in_headers.simps)
qed

lemma section_of_add_opt: "section_of (add_opt name val hs) = section_of hs"
  by (cases hs rule: rev_cases) (simp_all add: section_of_def add_opt_def Let_def new_header_def)

lemma map_of_snoc:
  "map_of (xs @ [(k, v)]) k' = (case map_of xs k' of Some w \<Rightarrow> Some w | None \<Rightarrow> if k = k' then Some v else None)"
  by (simp add: map_add_def split: option.split)

lemma parse_lines_find:
  assumes "parse_lines lineno ls hs s = Ret hs' s'" and "headers_ok hs"
    and "\<And>header n. find_in_headers header n hs = map_of as (header, n)"
  shows "find_in_headers header n hs' = map_of (as @ assigns (section_of hs) (map parse_line ls)) (header, n)"
  using assms
proof (induction ls arbitrary: lineno hs as)
  case (Cons l ls)
  show ?case
  proof (cases "parse_line l")
    case (LHeader nm)
    have "find_in_headers h' m (hs @ [new_header nm]) = map_of as (h', m)" for h' m
      by (simp add: find_in_headers_append Cons.prems(3) split: option.split del: find_in_headers.simps)
    moreover have "headers_ok (hs @ [new_header nm])"
      using Cons.prems(2) placed_new_header by (simp add: headers_ok_def)
    ultimately show ?thesis using Cons.IH [of "lineno + 1" "hs @ [new_header nm]" as] Cons.prems(1) LHeader
      by (simp add: section_of_def new_header_def)
  next
    case (LOpt nm v)
    have "find_in_headers h' m (add_opt nm v hs) = map_of (as @ [((section_of hs, nm), v)]) (h', m)" for h' m
      unfolding map_of_snoc by (simp add: find_in_add_opt [OF Cons.prems(2)] Cons.prems(3) split: option.split)
    from Cons.IH [OF _ headers_ok_add_opt [OF Cons.prems(2)] this]
    show ?thesis using Cons.prems(1) LOpt by (simp add: section_of_add_opt)
  next
    case LBlank
    then show ?thesis using Cons.IH [of "lineno + 1" hs as] Cons.prems by simp
  next
    case (LError m)
    then show ?thesis using Cons.prems(1) by (simp add: parse_error_def)
  qed
qed simp

lemma parse_lines_frame: "parse_lines lineno ls hs s = Ret hs' s' \<Longrightarrow> s' = s"
  by (induction ls arbitrary: lineno hs) (auto simp: parse_error_def split: cline.splits)

text \<open>
  C8: the parsed configuration means what the file says. After a file has been read without an error,
  looking an option up through the hash chains gives the value of its first assignment in the section
  asked for, in the order of the file, and otherwise that of the first assignment in \<open>global\<close>.
\<close>

theorem config_string_first_match:
  assumes "hlist s = []" and "os_read s fn = Some content" and "parse_config_file fn s = Ret r s'"
  shows "config_string header name s' =
    spec_lookup (assigns ''global'' (map parse_line (getlines content))) header name"
proof -
  let ?as = "assigns ''global'' (map parse_line (getlines content))"
  obtain hs s1 where p: "parse_lines 1 (getlines content) [] s = Ret hs s1"
    and s': "s' = (if hs = [] then s1 else s1\<lparr>hlist := hs\<rparr>)"
    using assms(2,3) by (auto simp: parse_config_file_def andthen_Ret_iff split: if_splits)
  have "hlist s' = hs" using s' parse_lines_frame [OF p] assms(1) by simp
  moreover have "find_in_headers h n hs = map_of ?as (h, n)" for h n
    using parse_lines_find [OF p, of "[]"] by (simp add: headers_ok_def section_of_def)
  ultimately show ?thesis unfolding config_string_def spec_lookup_def by (simp split: option.split)
qed

definition example_config :: config_state where
  "example_config = msg_state.extend quiet_state (config_state.fields []
     (\<lambda>fn. if fn = ''mcelog.conf''
           then Some ''daemon = yes\<newline>[dimm]\<newline>size = 4 # note\<newline>size = 5\<newline>[page]\<newline>size=6\<newline>'' else None)
     (\<lambda>_. None) (\<lambda>_. None))"

theorem config_string_first_match_witness:
  "config_string ''dimm'' ''size'' (final (parse_config_file ''mcelog.conf'' example_config)) = Some ''4''
   \<and> config_string ''page'' ''daemon'' (final (parse_config_file ''mcelog.conf'' example_config)) = Some ''yes''"
proof -
  have "returns (parse_config_file ''mcelog.conf'' example_config)" by code_simp
  then obtain r s' where p: "parse_config_file ''mcelog.conf'' example_config = Ret r s'"
    by (cases "parse_config_file ''mcelog.conf'' example_config") auto
  define content where "content = ''daemon = yes\<newline>[dimm]\<newline>size = 4 # note\<newline>size = 5\<newline>[page]\<newline>size=6\<newline>''"
  have "hlist example_config = []" "os_read example_config ''mcelog.conf'' = Some content"
    by (simp_all add: example_config_def quiet_state_def msg_state.defs config_state.defs content_def)
  note m = config_string_first_match [OF this p]
  have "spec_lookup (assigns ''global'' (map parse_line (getlines content))) ''dimm'' ''size'' = Some ''4''"
    "spec_lookup (assigns ''global'' (map parse_line (getlines content))) ''page'' ''daemon'' = Some ''yes''"
    unfolding content_def by code_simp+
  then show ?thesis using m by (simp add: p)
qed

section \<open>Reading one line\<close>

definition trimmed :: "string \<Rightarrow> bool" where
  "trimmed s \<longleftrightarrow> s = [] \<or> \<not> isspace (hd s) \<and> \<not> isspace (last s)"

lemma skipspace_append: "\<forall>c\<in>set a. isspace c \<Longrightarrow> skipspace (a @ s) = skipspace s"
  by (simp add: skipspace_def)

lemma skipspace_id: "s = [] \<or> \<not> isspace (hd s) \<Longrightarrow> skipspace s = s"
  by (cases s) auto

lemma strstrip_pad:
  assumes "trimmed s" and "\<forall>c\<in>set a. isspace c" "\<forall>c\<in>set b. isspace c"
  shows "strstrip (a @ s @ b) = s"
proof (cases "s = []")
  case True
  have "skipspace (a @ b) = []" using assms(2,3) by (simp add: skipspace_def dropWhile_eq_Nil_conv)
  then show ?thesis using True by (simp add: strstrip_def)
next
  case False
  then have "skipspace (a @ s @ b) = s @ b"
    using assms by (simp add: skipspace_append skipspace_id trimmed_def)
  moreover have "skipspace (rev b @ rev s) = rev s"
    using False assms by (simp add: skipspace_append skipspace_id trimmed_def hd_rev)
  ultimately show ?thesis by (simp add: strstrip_def)
qed

lemma strchr_first: "c \<notin> set a \<Longrightarrow> strchr (a @ c # b) c = Some (length a)"
  by (simp add: strchr_def strcspn_def takeWhile_tail) (metis (mono_tags, lifting) takeWhile_eq_all_conv)

lemma takeWhile_cut:
  "c \<notin> set l \<Longrightarrow> r = [] \<or> hd r = c \<Longrightarrow> takeWhile (\<lambda>x. x \<noteq> c) (l @ r) = l"
  by (cases r) (auto simp: takeWhile_append2 takeWhile_tail)

lemma cut_line:
  assumes "CHR 0x00 \<notin> set body" "CHR ''#'' \<notin> set body" and "comment = [] \<or> hd comment = CHR ''#''"
  shows "takeWhile (\<lambda>c. c \<noteq> CHR ''#'') (takeWhile (\<lambda>c. c \<noteq> CHR 0x00) (body @ comment)) = body"
proof -
  have "takeWhile (\<lambda>c. c \<noteq> CHR 0x00) (body @ comment) = body @ takeWhile (\<lambda>c. c \<noteq> CHR 0x00) comment"
    by (rule takeWhile_append2) (use assms(1) in auto)
  moreover have "takeWhile (\<lambda>c. c \<noteq> CHR 0x00) comment = [] \<or>
      hd (takeWhile (\<lambda>c. c \<noteq> CHR 0x00) comment) = CHR ''#''"
    using assms(3) by (cases comment) auto
  ultimately show ?thesis using takeWhile_cut [OF assms(2)] by simp
qed

definition spaces :: "string \<Rightarrow> bool" where
  "spaces w \<longleftrightarrow> (\<forall>c\<in>set w. isspace c)"

lemma spaces_chars:
  "spaces w \<Longrightarrow> CHR ''='' \<notin> set w" "spaces w \<Longrightarrow> CHR ''#'' \<notin> set w" "spaces w \<Longrightarrow> CHR 0x00 \<notin> set w"
proof -
  have "\<not> isspace (CHR ''='')" "\<not> isspace (CHR ''#'')" "\<not> isspace (CHR 0x00)"
    by (simp_all add: isspace_def)
  then show "spaces w \<Longrightarrow> CHR ''='' \<notin> set w" "spaces w \<Longrightarrow> CHR ''#'' \<notin> set w"
      "spaces w \<Longrightarrow> CHR 0x00 \<notin> set w"
    unfolding spaces_def by blast+
qed

lemma strip_option:
  assumes "name \<noteq> []" "trimmed name" "trimmed val" "spaces w0" "spaces w2" "spaces w3"
  shows "strstrip (w0 @ name @ w1 @ CHR ''='' # w2 @ val @ w3) =
    name @ w1 @ CHR ''='' # (if val = [] then [] else w2 @ val)"
proof -
  let ?b = "name @ w1 @ CHR ''='' # (if val = [] then [] else w2 @ val)"
  have "trimmed ?b" using assms(1-3) by (auto simp: trimmed_def isspace_def)
  then have "strstrip (w0 @ ?b @ (if val = [] then w2 @ w3 else w3)) = ?b"
    using assms(4-6) by (intro strstrip_pad) (auto simp: spaces_def)
  then show ?thesis by (auto split: if_splits)
qed

text \<open>
  C19: an option line is read back exactly. Whatever white space surrounds the name, the equal sign and
  the value, and whatever comment follows, the line assigns the value to the name.
\<close>

theorem option_line_read:
  assumes "name \<noteq> []" "trimmed name" "hd name \<noteq> CHR ''[''"
    and "set name \<inter> {CHR ''='', CHR ''#'', CHR 0x00} = {}"
    and "trimmed val" "set val \<inter> {CHR ''#'', CHR 0x00} = {}"
    and "spaces w0" "spaces w1" "spaces w2" "spaces w3"
    and "comment = [] \<or> hd comment = CHR ''#''"
  shows "parse_line (w0 @ name @ w1 @ CHR ''='' # w2 @ val @ w3 @ comment) = LOpt name val"
proof -
  let ?body = "w0 @ name @ w1 @ CHR ''='' # w2 @ val @ w3"
  let ?r = "if val = [] then [] else w2 @ val"
  let ?s = "name @ w1 @ CHR ''='' # ?r"
  have "CHR 0x00 \<notin> set ?body" "CHR ''#'' \<notin> set ?body"
    using assms(4,6-10) by (simp_all add: spaces_chars)
  from cut_line [OF this assms(11)]
  have cut: "takeWhile (\<lambda>c. c \<noteq> CHR ''#'') (takeWhile (\<lambda>c. c \<noteq> CHR 0x00) (?body @ comment)) = ?body" .
  have strip: "strstrip ?body = ?s" using assms(1,2,5,7,9,10) by (rule strip_option)
  have "CHR ''='' \<notin> set (name @ w1)" using assms(4,8) by (simp add: spaces_chars)
  from strchr_first [OF this, of ?r] have eq: "strchr ?s (CHR ''='') = Some (length (name @ w1))" by simp
  have "strstrip (take (length (name @ w1)) ?s) = name"
    using strstrip_pad [of name "[]" w1] assms(2,8) by (simp add: spaces_def)
  moreover have "strstrip (drop (Suc (length (name @ w1))) ?s) = val"
    using strstrip_pad [of val w2 "[]"] strstrip_pad [of "[]" "[]" "[]"] assms(5,9)
    by (simp add: spaces_def trimmed_def)
  moreover have "?s \<noteq> []" "hd ?s \<noteq> CHR ''[''" using assms(1,3) by simp_all
  ultimately have "parse_line (?body @ comment) = LOpt name val"
    unfolding parse_line_def Let_def cut strip eq by simp
  then show ?thesis by simp
qed

theorem option_line_read_witness:
  "parse_line ''  cache-threshold-log = yes  # log it'' = LOpt ''cache-threshold-log'' ''yes''"
  using option_line_read [of "''cache-threshold-log''" "''yes''" "''  ''" "'' ''" "'' ''" "''  ''" "''# log it''"]
  by (simp add: trimmed_def isspace_def spaces_def)

section \<open>The name of the configuration file\<close>

text \<open>
  \<open>--config-file=FILE\<close> reads another file. The test for the option compares only its first six
  characters and then expects the equal sign right behind them, so the long form takes the next
  argument of the command line as the file name, and without one prints the help text and reads the default file.
\<close>

lemma config_file_equals_form:
  "config_file usage (prog # (''--config-file='' @ fn) # av) s = (case av of [] \<Rightarrow> (None, usage s) | a # _ \<Rightarrow> (Some a, s))"
  by (simp add: config_file_def match_arg_def strneq_def split: list.split)

text \<open>The forms that work.\<close>

lemma config_file_separate:
  "config_file usage (prog # ''--config-file'' # fn # av) s = (Some fn, s)"
  by (simp add: config_file_def match_arg_def strneq_def)

lemma config_file_short_equals: "config_file usage (prog # (''--conf='' @ fn) # av) s = (Some fn, s)"
  by (simp add: config_file_def match_arg_def strneq_def)

end
