(* ===== verification/Trigger.thy ===== *)
theory Trigger
  imports Config LeakyBucket
begin

text \<open>
  Trigger processes, \<^verbatim>\<open>src/trigger.c\<close>: starting a trigger with a limit on the number of running
  children, collecting finished children, and the configuration of a trigger with its threshold
  (\<open>config_trigger\<close> of \<^verbatim>\<open>src/config.c\<close>). The theory closes with the life of the children as a
  step relation over the process and the kernel's table of its children.
\<close>

section \<open>State and operations\<close>

record child =
  c_child :: int
  c_name :: string

record trigger_state = config_state +
  childlist :: "child list"
  num_children :: int
  children_max :: int
  trigger_dir :: "string option"
  os_waitpid :: "int \<Rightarrow> int \<times> u32"      \<comment> \<open>waitpid(pid, &status, WNOHANG): result and status\<close>
  os_reap :: "(int \<times> u32) list"         \<comment> \<open>results of the coming waitpid(-1, ...); none left: 0\<close>
  os_strsignal :: "u32 \<Rightarrow> string"

text \<open>\<open>fork\<close> is the call in the parent. What the child does, \<open>chdir\<close> and \<open>execve\<close>, is recorded as
  the event \<open>ESpawn\<close> by \<open>run_trigger\<close>.\<close>

definition mcelog_fork :: "string \<Rightarrow> 'a trigger_state_scheme \<Rightarrow> int \<times> 'a trigger_state_scheme" where
  "mcelog_fork name s =
     (let (child, s) = fork s
      in if child \<le> 0 then (child, s)
         else (child, s\<lparr>num_children := num_children s + 1,
                        childlist := childlist s @ [\<lparr>c_child = child, c_name = name\<rparr>]\<rparr>))"

text \<open>The code ignores the argument \<open>sync\<close>.\<close>

definition run_trigger ::
  "string \<Rightarrow> string list option \<Rightarrow> string list \<Rightarrow> bool \<Rightarrow> string \<Rightarrow>
   'a trigger_state_scheme \<Rightarrow> 'a trigger_state_scheme" where
  "run_trigger trigger argv env sync reporter s =
     (let fallback_argv = [trigger];
          args = (case argv of None \<Rightarrow> fallback_argv | Some a \<Rightarrow> a);
          s = Lprintf (''Running trigger `%s'' @ CHR 0x27 # '' (reporter: %s)\<newline>'') [PS trigger, PS reporter] s
      in if children_max s > 0 \<and> num_children s \<ge> children_max s
         then Eprintf ''Too many trigger children running already\<newline>'' [] s
         else let (child, s) = mcelog_fork trigger s
              in if child < 0 then SYSERRprintf ''Cannot create process for trigger'' [] s
                 else emit [ESpawn child trigger args env] s)"

definition WIFEXITED :: "u32 \<Rightarrow> bool" where
  "WIFEXITED status \<longleftrightarrow> status AND 0x7F = 0"
definition WEXITSTATUS :: "u32 \<Rightarrow> u32" where
  "WEXITSTATUS status = drop_bit 8 (status AND 0xFF00)"
definition WTERMSIG :: "u32 \<Rightarrow> u32" where
  "WTERMSIG status = status AND 0x7F"
definition WIFSIGNALED :: "u32 \<Rightarrow> bool" where
  "WIFSIGNALED status \<longleftrightarrow> status AND 0x7F \<noteq> 0 \<and> status AND 0x7F \<noteq> 0x7F"

text \<open>The first child in the list with the pid is reported and unlinked.\<close>

fun del_child :: "int \<Rightarrow> child list \<Rightarrow> child list" where
  "del_child pid [] = []"
| "del_child pid (c # cs) = (if c_child c = pid then cs else c # del_child pid cs)"

definition report_child :: "child \<Rightarrow> u32 \<Rightarrow> 'a trigger_state_scheme \<Rightarrow> 'a trigger_state_scheme" where
  "report_child c status s =
     (if WIFEXITED status \<and> WEXITSTATUS status \<noteq> 0
      then Eprintf (''Trigger `%s'' @ CHR 0x27 # '' exited with status %d\<newline>'')
             [PS (c_name c), PU (WEXITSTATUS status)] s
      else if WIFSIGNALED status
      then Eprintf (''Trigger `%s'' @ CHR 0x27 # '' died with signal %s\<newline>'')
             [PS (c_name c), PS (os_strsignal s (WTERMSIG status))] s
      else s)"

definition finish_child :: "int \<Rightarrow> u32 \<Rightarrow> 'a trigger_state_scheme \<Rightarrow> ('a trigger_state_scheme, unit) outcome" where
  "finish_child child status s =
     (case find (\<lambda>c. c_child c = child) (childlist s) of
        None \<Rightarrow> Abort s
      | Some c \<Rightarrow>
          let s = report_child c status s
          in Ret () (s\<lparr>childlist := del_child child (childlist s), num_children := num_children s - 1\<rparr>))"

text \<open>The loop over \<open>waitpid(-1, ...)\<close>, which ends with the first result that is not positive.\<close>

fun reap_loop :: "(int \<times> u32) list \<Rightarrow> 'a trigger_state_scheme \<Rightarrow> ('a trigger_state_scheme, unit) outcome" where
  "reap_loop [] s = Ret () (s\<lparr>os_reap := []\<rparr>)"
| "reap_loop ((pid, status) # rs) s =
     (if pid > 0 then andthen (finish_child pid status s) (\<lambda>_ s. reap_loop rs s)
      else Ret () (s\<lparr>os_reap := rs\<rparr>))"

definition child_handler :: "int \<Rightarrow> 'a trigger_state_scheme \<Rightarrow> ('a trigger_state_scheme, unit) outcome" where
  "child_handler si_pid s =
     (let (r, status) = os_waitpid s si_pid
      in if r < 0 then Ret () (SYSERRprintf ''Cannot collect child %d'' [PN si_pid] s)
         else andthen (finish_child si_pid status s) (\<lambda>_ s. reap_loop (os_reap s) s))"

definition trigger_wait :: "'a trigger_state_scheme \<Rightarrow> ('a trigger_state_scheme, unit) outcome" where
  "trigger_wait s = reap_loop (os_reap s) s"

definition trigger_setup :: "'a trigger_state_scheme \<Rightarrow> ('a trigger_state_scheme, unit) outcome" where
  "trigger_setup s =
     andthen (config_number ''trigger'' ''children-max'' ''%d'' s)
       (\<lambda>n s. let s = (case n of None \<Rightarrow> s | Some v \<Rightarrow> s\<lparr>children_max := sval_int v\<rparr>)
              in case config_string ''trigger'' ''directory'' s of
                   None \<Rightarrow> Ret () s
                 | Some d \<Rightarrow>
                     let s = (if os_access s d then s
                              else SYSERRprintf (''Cannot access trigger directory `%s'' @ [CHR 0x27]) [PS d] s)
                     in Ret () (s\<lparr>trigger_dir := Some d\<rparr>))"

definition trigger_check :: "string \<Rightarrow> 'a trigger_state_scheme \<Rightarrow> int" where
  "trigger_check name s =
     (let path = (case trigger_dir s of Some d \<Rightarrow> printf ''%s/%s'' [PS d, PS name] | None \<Rightarrow> name)
      in if os_access s path then 0 else -1)"

definition config_trigger ::
  "string \<Rightarrow> string \<Rightarrow> bucket_conf \<Rightarrow> 'a trigger_state_scheme \<Rightarrow> ('a trigger_state_scheme, bucket_conf) outcome" where
  "config_trigger header base bc s =
     (let name = base @ ''-threshold'';
          thr = (case config_string header name s of
                   None \<Rightarrow> Ret bc s
                 | Some v \<Rightarrow> let (r, bc) = bucket_conf_init bc v
                             in if r < 0 then unparseable ''trigger'' header name s else Ret bc s)
      in andthen thr (\<lambda>bc s.
           let name = base @ ''-trigger'';
               trg = (case config_string header name s of
                        None \<Rightarrow> Ret bc s
                      | Some v \<Rightarrow>
                          if trigger_check v s \<noteq> 0
                          then Exit 1 (SYSERRprintf (''Trigger `%s'' @ CHR 0x27 # '' not executable'') [PS v] s)
                          else Ret (bc\<lparr>bc_trigger := Some v\<rparr>) s)
           in andthen trg (\<lambda>bc s.
                andthen (config_bool header (base @ ''-log'') s)
                  (\<lambda>n s. Ret (if n \<ge> 0 then bc\<lparr>bc_log := of_int n\<rparr> else bc\<lparr>bc_log := 0\<rparr>) s))))"

section \<open>What the operations leave alone\<close>

lemma msg_trigger_frame:
  assumes "msg_step s s'"
  shows "childlist s' = childlist s" "num_children s' = num_children s" "children_max s' = children_max s"
    "os_fork s' = os_fork s" "os_reap s' = os_reap s"
  by (rule msg_frame [OF assms], simp)+

lemmas printf_trigger_frame [frame, simp] =
  msg_step_basic(1) [THEN msg_trigger_frame(1)] msg_step_basic(1) [THEN msg_trigger_frame(2)]
  msg_step_basic(1) [THEN msg_trigger_frame(3)] msg_step_basic(1) [THEN msg_trigger_frame(4)]
  msg_step_printf [OF msg_step_refl, THEN msg_trigger_frame(1)]
  msg_step_printf [OF msg_step_refl, THEN msg_trigger_frame(2)]
  msg_step_printf [OF msg_step_refl, THEN msg_trigger_frame(3)]
  msg_step_printf [OF msg_step_refl, THEN msg_trigger_frame(4)]

text \<open>\<open>trig_step s s'\<close>: \<open>s'\<close> is \<open>s\<close> after some output and some triggers. It is to \<open>run_trigger\<close>
  what \<open>msg_step\<close> is to the printing functions.\<close>

definition trig_step :: "'a trigger_state_scheme \<Rightarrow> 'a trigger_state_scheme \<Rightarrow> bool" where
  "trig_step s s' \<longleftrightarrow>
     (\<exists>es p l f c n. s' = s\<lparr>events := events s @ es, syslog_opened := p, syslog_line := l,
        os_fork := f, childlist := c, num_children := n\<rparr>)"

lemma trig_step_refl [frame]: "trig_step s s"
  unfolding trig_step_def
  by (intro exI [of _ "[]"] exI [of _ "syslog_opened s"] exI [of _ "syslog_line s"] exI [of _ "os_fork s"]
      exI [of _ "childlist s"] exI [of _ "num_children s"]) simp

lemma trig_step_trans: "trig_step s t \<Longrightarrow> trig_step t u \<Longrightarrow> trig_step s u"
  unfolding trig_step_def by (elim exE) (hypsubst, simp, blast)

lemma msg_trig_step: "msg_step s s' \<Longrightarrow> trig_step s s'"
  unfolding msg_step_def trig_step_def
proof (elim exE)
  fix es p l
  assume "s' = s\<lparr>events := events s @ es, syslog_opened := p, syslog_line := l\<rparr>"
  then show "\<exists>es p l f c n. s' = s\<lparr>events := events s @ es, syslog_opened := p, syslog_line := l,
        os_fork := f, childlist := c, num_children := n\<rparr>"
    by (intro exI [of _ es] exI [of _ p] exI [of _ l] exI [of _ "os_fork s"]
      exI [of _ "childlist s"] exI [of _ "num_children s"]) simp
qed

lemmas msg_steps_trig [frame] = msg_step_printf [OF msg_step_refl, THEN msg_trig_step, THEN trig_step_trans [rotated]]
  msg_step_basic(1) [THEN msg_trig_step, THEN trig_step_trans [rotated]]

lemma trig_step_fork [frame]: "trig_step s t \<Longrightarrow> trig_step s (snd (mcelog_fork name t))"
proof (erule trig_step_trans)
  let ?u = "snd (mcelog_fork name t)"
  have "?u = t\<lparr>events := events t @ [], syslog_opened := syslog_opened t, syslog_line := syslog_line t,
     os_fork := os_fork ?u, childlist := childlist ?u, num_children := num_children ?u\<rparr>"
    by (simp add: mcelog_fork_def fork_def split: list.split)
  then show "trig_step t ?u" unfolding trig_step_def by blast
qed

lemma trig_step_run [frame]: "trig_step s t \<Longrightarrow> trig_step s (run_trigger trigger argv env sync reporter t)"
  unfolding run_trigger_def Let_def split_beta by (simp; intro conjI impI frame; assumption)

lemma trig_frame:
  assumes "trig_step s s'"
    and "\<And>es p l f c n. g (s\<lparr>events := es, syslog_opened := p, syslog_line := l,
        os_fork := f, childlist := c, num_children := n\<rparr>) = g s"
  shows "g s' = g s"
  using assms unfolding trig_step_def by auto

section \<open>Children are counted\<close>

text \<open>The invariant of the child list: the counter is its length, and no pid occurs twice.\<close>

definition pids :: "'a trigger_state_scheme \<Rightarrow> int list" where
  "pids s = map c_child (childlist s)"

definition trig_ok :: "'a trigger_state_scheme \<Rightarrow> bool" where
  "trig_ok s \<longleftrightarrow> num_children s = int (length (childlist s)) \<and> distinct (pids s)"

lemma pids_msg: "msg_step s s' \<Longrightarrow> pids s' = pids s"
  by (simp add: pids_def msg_trigger_frame)

lemma trig_ok_msg: "msg_step s s' \<Longrightarrow> trig_ok s' = trig_ok s"
  by (simp add: trig_ok_def pids_msg msg_trigger_frame)

text \<open>What a call of \<open>run_trigger\<close> does to the children: nothing when the limit is reached or
  \<open>fork\<close> fails, otherwise one more child.\<close>

definition may_run :: "'a trigger_state_scheme \<Rightarrow> bool" where
  "may_run s \<longleftrightarrow> \<not> (children_max s > 0 \<and> num_children s \<ge> children_max s)"

lemma run_trigger_children:
  "childlist (run_trigger trigger argv env sync reporter s) =
     (if may_run s \<and> os_fork s \<noteq> [] \<and> hd (os_fork s) > 0
      then childlist s @ [\<lparr>c_child = hd (os_fork s), c_name = trigger\<rparr>] else childlist s)"
  "num_children (run_trigger trigger argv env sync reporter s) =
     num_children s + (if may_run s \<and> os_fork s \<noteq> [] \<and> hd (os_fork s) > 0 then 1 else 0)"
  "children_max (run_trigger trigger argv env sync reporter s) = children_max s"
  "os_fork (run_trigger trigger argv env sync reporter s) = (if may_run s then tl (os_fork s) else os_fork s)"
  by (auto simp: run_trigger_def Let_def mcelog_fork_def fork_def may_run_def split: list.split)

lemma run_trigger_ok:
  assumes "trig_ok s" and "os_fork s \<noteq> [] \<Longrightarrow> hd (os_fork s) \<notin> set (pids s)"
  shows "trig_ok (run_trigger trigger argv env sync reporter s)"
  using assms by (auto simp: trig_ok_def pids_def run_trigger_children)

lemma run_trigger_limit:
  assumes "children_max s > 0" and "num_children s \<le> children_max s"
  shows "num_children (run_trigger trigger argv env sync reporter s) \<le> children_max s"
  using assms by (simp add: run_trigger_children may_run_def)

lemma find_child: "find (\<lambda>c. c_child c = p) cs = None \<longleftrightarrow> p \<notin> c_child ` set cs"
  by (auto simp: find_None_iff)

lemma del_child_pids: "map c_child (del_child p cs) = remove1 p (map c_child cs)"
  by (induction cs) auto

lemma finish_child_unknown: "p \<notin> set (pids s) \<Longrightarrow> finish_child p st s = Abort s"
  by (simp add: finish_child_def pids_def find_child [THEN iffD2])

lemma report_child_frame [frame]: "msg_step s t \<Longrightarrow> msg_step s (report_child c st t)"
  unfolding report_child_def by (intro frame) simp_all

lemma finish_child_known:
  assumes "p \<in> set (pids s)"
  shows "\<exists>s'. finish_child p st s = Ret () s' \<and> pids s' = remove1 p (pids s)
    \<and> num_children s' = num_children s - 1 \<and> children_max s' = children_max s \<and> os_reap s' = os_reap s"
proof -
  obtain c where c: "find (\<lambda>c. c_child c = p) (childlist s) = Some c"
    using assms find_child [of p "childlist s"] by (cases "find (\<lambda>c. c_child c = p) (childlist s)") (auto simp: pids_def)
  note r = report_child_frame [OF msg_step_refl, of s c st, THEN msg_trigger_frame(1)]
    report_child_frame [OF msg_step_refl, of s c st, THEN msg_trigger_frame(2)]
    report_child_frame [OF msg_step_refl, of s c st, THEN msg_trigger_frame(3)]
    report_child_frame [OF msg_step_refl, of s c st, THEN msg_trigger_frame(5)]
  show ?thesis by (simp add: finish_child_def c Let_def pids_def del_child_pids r)
qed

text \<open>The children that the loop over \<open>waitpid\<close> collects.\<close>

definition reaped :: "(int \<times> u32) list \<Rightarrow> int list" where
  "reaped rs = takeWhile (\<lambda>p. p > 0) (map fst rs)"

lemma reap_loop_children:
  assumes "distinct (reaped rs)" "set (reaped rs) \<subseteq> set (pids s)" "distinct (pids s)"
  shows "\<exists>s'. reap_loop rs s = Ret () s' \<and> distinct (pids s') \<and> set (pids s') = set (pids s) - set (reaped rs)
    \<and> num_children s' = num_children s - int (length (reaped rs)) \<and> children_max s' = children_max s"
  using assms
proof (induction rs arbitrary: s)
  case Nil
  show ?case using Nil.prems by (simp add: reaped_def pids_def)
next
  case (Cons r rs)
  obtain p st where r: "r = (p, st)" by fastforce
  show ?case
  proof (cases "p > 0")
    case False
    then show ?thesis using Cons.prems by (simp add: r reaped_def pids_def)
  next
    case True
    then have rp: "reaped ((p, st) # rs) = p # reaped rs" by (simp add: reaped_def)
    then have "p \<in> set (pids s)" using Cons.prems(2) by (simp add: r)
    then obtain s1 where s1: "finish_child p st s = Ret () s1" "pids s1 = remove1 p (pids s)"
      "num_children s1 = num_children s - 1" "children_max s1 = children_max s"
      using finish_child_known by blast
    then have "set (pids s1) = set (pids s) - {p}" "distinct (pids s1)"
      using Cons.prems(3) by simp_all
    moreover have "distinct (reaped rs)" "set (reaped rs) \<subseteq> set (pids s) - {p}"
      using Cons.prems(1,2) by (auto simp: r rp)
    ultimately obtain s' where "reap_loop rs s1 = Ret () s'" "distinct (pids s')"
      "set (pids s') = set (pids s) - {p} - set (reaped rs)" "children_max s' = children_max s"
      "num_children s' = num_children s - 1 - int (length (reaped rs))"
      using Cons.IH [of s1] s1 by auto
    then show ?thesis using True s1(1) by (intro exI [of _ s']) (auto simp: r rp)
  qed
qed

section \<open>The life of the children\<close>

text \<open>
  The process together with the kernel's table \<open>kids\<close> of its children that have not been collected.
  A step starts a trigger, handles a SIGCHLD, prints, or lets the kernel choose its next answers. The
  kernel hands out pids that are not in use; \<open>waitpid\<close> for the pid of a signal collects that child
  or fails if it has been collected before; \<open>waitpid(-1)\<close> delivers children that are still there.
\<close>

definition kernel_reaps :: "int \<Rightarrow> 'a trigger_state_scheme \<Rightarrow> int set \<Rightarrow> bool" where
  "kernel_reaps p s kids \<longleftrightarrow>
     (if fst (os_waitpid s p) < 0 then True
      else p \<in> kids \<and> distinct (reaped (os_reap s)) \<and> set (reaped (os_reap s)) \<subseteq> kids - {p})"

inductive life :: "'a trigger_state_scheme \<Rightarrow> ('a trigger_state_scheme, unit) outcome \<Rightarrow> int set \<Rightarrow> bool"
  for s0 :: "'a trigger_state_scheme" where
  start: "life s0 (Ret () s0) {}"
| kernel: "life s0 (Ret () s) kids \<Longrightarrow>
    life s0 (Ret () (s\<lparr>os_waitpid := w, os_reap := q, os_fork := f\<rparr>)) kids"
| prints: "life s0 (Ret () s) kids \<Longrightarrow> msg_step s s' \<Longrightarrow> life s0 (Ret () s') kids"
| refused: "life s0 (Ret () s) kids \<Longrightarrow> \<not> may_run s \<or> os_fork s = [] \<or> hd (os_fork s) < 0 \<Longrightarrow>
    life s0 (Ret () (run_trigger trigger argv env sync reporter s)) kids"
| spawned: "life s0 (Ret () s) kids \<Longrightarrow> may_run s \<Longrightarrow> os_fork s = p # ps \<Longrightarrow> p > 0 \<Longrightarrow> p \<notin> kids \<Longrightarrow>
    life s0 (Ret () (run_trigger trigger argv env sync reporter s)) (insert p kids)"
| sigchld: "life s0 (Ret () s) kids \<Longrightarrow> kernel_reaps p s kids \<Longrightarrow>
    life s0 (child_handler p s)
      (if fst (os_waitpid s p) < 0 then kids else kids - {p} - set (reaped (os_reap s)))"

inductive_cases life_AbortE: "life s0 (Abort s) kids"

definition kids_ok :: "int \<Rightarrow> 'a trigger_state_scheme \<Rightarrow> int set \<Rightarrow> bool" where
  "kids_ok mx s kids \<longleftrightarrow> trig_ok s \<and> set (pids s) = kids \<and> children_max s = mx
     \<and> (mx > 0 \<longrightarrow> num_children s \<le> mx)"

lemma kids_ok_msg: "kids_ok mx s kids \<Longrightarrow> msg_step s s' \<Longrightarrow> kids_ok mx s' kids"
  by (simp add: kids_ok_def trig_ok_msg pids_msg msg_trigger_frame)

lemma kids_ok_sigchld:
  assumes "kids_ok mx s kids" and "kernel_reaps p s kids"
  shows "\<exists>s'. child_handler p s = Ret () s' \<and> kids_ok mx s'
    (if fst (os_waitpid s p) < 0 then kids else kids - {p} - set (reaped (os_reap s)))"
proof (cases "fst (os_waitpid s p) < 0")
  case True
  then show ?thesis using assms(1) kids_ok_msg [OF assms(1) msg_step_printf(3) [OF msg_step_refl]]
    by (simp add: child_handler_def split_beta)
next
  case False
  then have k: "p \<in> set (pids s)" "distinct (reaped (os_reap s))" "distinct (pids s)"
    "set (reaped (os_reap s)) \<subseteq> set (pids s) - {p}"
    using assms by (auto simp: kids_ok_def trig_ok_def kernel_reaps_def)
  then obtain s1 where s1: "finish_child p (snd (os_waitpid s p)) s = Ret () s1" "os_reap s1 = os_reap s"
    "pids s1 = remove1 p (pids s)" "num_children s1 = num_children s - 1" "children_max s1 = children_max s"
    using finish_child_known [of p s] by blast
  then have p1: "set (pids s1) = set (pids s) - {p}" "distinct (pids s1)" using k(3) by simp_all
  from reap_loop_children [of "os_reap s" s1] obtain s2 where s2: "reap_loop (os_reap s) s1 = Ret () s2"
    "distinct (pids s2)" "set (pids s2) = set (pids s1) - set (reaped (os_reap s))"
    "num_children s2 = num_children s1 - int (length (reaped (os_reap s)))" "children_max s2 = children_max s1"
    using k p1 by auto
  have "num_children s = int (length (pids s))" using assms(1) by (simp add: kids_ok_def trig_ok_def pids_def)
  moreover have "length (pids s1) + 1 = length (pids s)"
    using s1(3) k(1) length_pos_if_in_set [OF k(1)] by (simp add: length_remove1)
  moreover have "length (pids s2) + length (reaped (os_reap s)) = length (pids s1)"
    using s2(2,3) p1 k(2,4) by (simp flip: distinct_card add: card_Diff_subset card_mono)
  ultimately have "num_children s2 = int (length (pids s2))" using s1(4) s2(4) by linarith
  then have "kids_ok mx s2 (kids - {p} - set (reaped (os_reap s)))"
    using assms(1) s1 s2 p1 by (auto simp: kids_ok_def trig_ok_def pids_def)
  then show ?thesis using False s1(1,2) s2(1) by (simp add: child_handler_def split_beta)
qed

lemma life_inv:
  assumes "life s0 m kids" and "kids_ok mx s0 {}"
  shows "\<exists>s. m = Ret () s \<and> kids_ok mx s kids"
  using assms(1)
proof induction
  case start
  then show ?case using assms(2) by simp
next
  case (kernel s kids w q f)
  then show ?case by (auto simp: kids_ok_def trig_ok_def pids_def)
next
  case (prints s kids s')
  then show ?case using kids_ok_msg by auto
next
  case (refused s kids trigger argv env sync reporter)
  then show ?case by (auto simp: kids_ok_def trig_ok_def pids_def run_trigger_children)
next
  case (spawned s kids p ps trigger argv env sync reporter)
  then show ?case by (auto simp: kids_ok_def trig_ok_def pids_def run_trigger_children may_run_def)
next
  case (sigchld s kids p)
  then show ?case using kids_ok_sigchld [of mx s kids p] by auto
qed


definition example_trigger :: trigger_state where
  "example_trigger = config_state.extend example_config (trigger_state.fields [] 0 4 None
     (\<lambda>p. if p = 7 then (7, 0x100) else (-1, 0)) [(9, 0)] (\<lambda>_. []))"

lemma example_life:
  defines "s1 \<equiv> example_trigger\<lparr>os_fork := [7, 9]\<rparr>"
  defines "s2 \<equiv> run_trigger ''t'' None [] False ''r'' s1"
  defines "s3 \<equiv> run_trigger ''u'' None [] False ''r'' s2"
  shows "life s1 (child_handler 7 s3) {}"
proof -
  have f: "childlist s1 = []" "os_fork s1 = [7, 9]" "num_children s1 = 0" "children_max s1 = 4"
    by (simp_all add: s1_def example_trigger_def config_state.defs trigger_state.defs example_config_def
        msg_state.defs quiet_state_def)
  have "life s1 (Ret () s2) (insert 7 {})" unfolding s2_def
    by (rule spawned [OF start]) (simp_all add: f may_run_def)
  then have "life s1 (Ret () s3) (insert 9 {7})" unfolding s3_def
    by (rule spawned) (simp_all add: f may_run_def s2_def run_trigger_children)
  moreover have w: "os_waitpid s3 7 = (7, 0x100)" "os_reap s3 = [(9, 0)]" unfolding s3_def s2_def s1_def by code_simp+
  ultimately show ?thesis
    using sigchld [of s1 s3 "insert 9 {7}" 7] by (simp add: kernel_reaps_def w reaped_def insert_Diff_if)
qed


end
