(* ===== verification/Mce.thy ===== *)
theory Mce
  imports Bitfield
begin

text \<open>
  The kernel's machine check record and the register bits of \<^verbatim>\<open>src/mcelog.h\<close>, the processor types
  of \<^verbatim>\<open>src/cputype.table\<close>, and the CPUID signature that selects them.
\<close>

section \<open>The record\<close>

record mce =
  m_status :: u64
  m_misc :: u64
  m_addr :: u64
  m_mcgstatus :: u64
  m_ip :: u64
  m_tsc :: u64
  m_time :: u64
  m_cpuvendor :: u8
  m_pad1 :: u8
  m_pad2 :: u16
  m_cpuid :: u32
  m_cs :: u8
  m_bank :: u8
  m_cpu :: u8
  m_finished :: u8
  m_extcpu :: u32
  m_socketid :: u32
  m_apicid :: u32
  m_mcgcap :: u64
  m_synd :: u64
  m_ipid :: u64
  m_ppin :: u64
  m_microcode :: u32
  m_kflags :: u64

text \<open>The C layout: every field is aligned to its own size. \<open>endof_field\<close> is the offset behind a
  field, which the code compares with the record length that the kernel reports.\<close>

definition mce_fields :: "(string \<times> nat) list" where
  "mce_fields =
    [(''status'', 8),
     (''misc'', 8),
     (''addr'', 8),
     (''mcgstatus'', 8),
     (''ip'', 8),
     (''tsc'', 8),
     (''time'', 8),
     (''cpuvendor'', 1),
     (''pad1'', 1),
     (''pad2'', 2),
     (''cpuid'', 4),
     (''cs'', 1),
     (''bank'', 1),
     (''cpu'', 1),
     (''finished'', 1),
     (''extcpu'', 4),
     (''socketid'', 4),
     (''apicid'', 4),
     (''mcgcap'', 8),
     (''synd'', 8),
     (''ipid'', 8),
     (''ppin'', 8),
     (''microcode'', 4),
     (''kflags'', 8)]"

fun field_ends :: "nat \<Rightarrow> (string \<times> nat) list \<Rightarrow> (string \<times> nat) list" where
  "field_ends off [] = []"
| "field_ends off ((f, n) # fs) =
     (let e = (off + n - 1) div n * n + n in (f, e) # field_ends e fs)"

definition endof_field :: "string \<Rightarrow> nat" where
  "endof_field f = (case map_of (field_ends 0 mce_fields) f of Some e \<Rightarrow> e | None \<Rightarrow> 0)"

definition sizeof_mce :: nat where
  "sizeof_mce = 128"

lemma mce_offsets:
  "endof_field ''bank'' = 66" "endof_field ''cpu'' = 67" "endof_field ''extcpu'' = 72"
  "endof_field ''socketid'' = 76" "endof_field ''apicid'' = 80" "endof_field ''mcgcap'' = 88"
  "endof_field ''ppin'' = 112" "endof_field ''microcode'' = 116" "endof_field ''kflags'' = sizeof_mce"
  by code_simp+

section \<open>Register bits\<close>

definition MCI_THRESHOLD_OVER :: u64 where "MCI_THRESHOLD_OVER = push_bit 48 1"
definition MCI_STATUS_VAL :: u64 where "MCI_STATUS_VAL = push_bit 63 1"
definition MCI_STATUS_OVER :: u64 where "MCI_STATUS_OVER = push_bit 62 1"
definition MCI_STATUS_UC :: u64 where "MCI_STATUS_UC = push_bit 61 1"
definition MCI_STATUS_EN :: u64 where "MCI_STATUS_EN = push_bit 60 1"
definition MCI_STATUS_MISCV :: u64 where "MCI_STATUS_MISCV = push_bit 59 1"
definition MCI_STATUS_ADDRV :: u64 where "MCI_STATUS_ADDRV = push_bit 58 1"
definition MCI_STATUS_PCC :: u64 where "MCI_STATUS_PCC = push_bit 57 1"
definition MCI_STATUS_S :: u64 where "MCI_STATUS_S = push_bit 56 1"
definition MCI_STATUS_AR :: u64 where "MCI_STATUS_AR = push_bit 55 1"
definition MCI_STATUS_FWST :: u64 where "MCI_STATUS_FWST = push_bit 37 1"
definition MCG_STATUS_RIPV :: u64 where "MCG_STATUS_RIPV = push_bit 0 1"
definition MCG_STATUS_EIPV :: u64 where "MCG_STATUS_EIPV = push_bit 1 1"
definition MCG_STATUS_MCIP :: u64 where "MCG_STATUS_MCIP = push_bit 2 1"
definition MCG_STATUS_LMCES :: u64 where "MCG_STATUS_LMCES = push_bit 3 1"
definition MCG_CMCI_P :: u64 where "MCG_CMCI_P = push_bit 10 1"
definition MCG_TES_P :: u64 where "MCG_TES_P = push_bit 11 1"
definition MCG_SER_P :: u64 where "MCG_SER_P = push_bit 24 1"
definition MCG_ELOG_P :: u64 where "MCG_ELOG_P = push_bit 26 1"
definition MCG_LMCE_P :: u64 where "MCG_LMCE_P = push_bit 27 1"

definition MCE_EXTENDED_BANK :: nat where "MCE_EXTENDED_BANK = 128"
definition MCE_THERMAL_BANK :: nat where "MCE_THERMAL_BANK = MCE_EXTENDED_BANK + 0"
definition MCE_TIMEOUT_BANK :: nat where "MCE_TIMEOUT_BANK = MCE_EXTENDED_BANK + 90"
definition MCE_APEI_BANK :: nat where "MCE_APEI_BANK = 255"

lemmas mci_defs [c_defs] =MCI_THRESHOLD_OVER_def MCI_STATUS_VAL_def MCI_STATUS_OVER_def MCI_STATUS_UC_def MCI_STATUS_EN_def MCI_STATUS_MISCV_def MCI_STATUS_ADDRV_def MCI_STATUS_PCC_def MCI_STATUS_S_def MCI_STATUS_AR_def MCI_STATUS_FWST_def MCG_STATUS_RIPV_def MCG_STATUS_EIPV_def MCG_STATUS_MCIP_def MCG_STATUS_LMCES_def MCG_CMCI_P_def MCG_TES_P_def MCG_SER_P_def MCG_ELOG_P_def MCG_LMCE_P_def

text \<open>\<open>has status m\<close>: the C test \<open>status & m\<close>.\<close>

definition has :: "u64 \<Rightarrow> u64 \<Rightarrow> bool" where
  "has status m \<longleftrightarrow> status AND m \<noteq> 0"

lemma has_bit [bits]: "n < 64 \<Longrightarrow> has status (push_bit n 1) \<longleftrightarrow> bit status n"
  unfolding has_def by (simp only: and_push_bit_1_eq not_not)

section \<open>Processor types\<close>

text \<open>The build generates this enumeration and its two functions from the table.\<close>

datatype cputype =
    CPU_GENERIC
  | CPU_K8
  | CPU_ZHAOXIN
  | CPU_ZHAOXIN_KH40000
  | CPU_ZHAOXIN_KH50000
  | CPU_INTEL
  | CPU_P4
  | CPU_TULSA
  | CPU_ALDERLAKE
  | CPU_ARROWLAKE
  | CPU_ATOM
  | CPU_BROADWELL
  | CPU_BROADWELL_DE
  | CPU_BROADWELL_EPEX
  | CPU_CLEARWATERFOREST
  | CPU_COMETLAKE
  | CPU_CORE2
  | CPU_DENVERTON
  | CPU_DIAMONDRAPIDS
  | CPU_DUNNINGTON
  | CPU_EMERALDRAPIDS
  | CPU_GRANDRIDGE
  | CPU_GRANITERAPIDS
  | CPU_HASWELL
  | CPU_HASWELL_EPEX
  | CPU_ICELAKE
  | CPU_ICELAKE_DE
  | CPU_ICELAKE_XEON
  | CPU_IVY_BRIDGE
  | CPU_IVY_BRIDGE_EPEX
  | CPU_KABYLAKE
  | CPU_KNIGHTS_LANDING
  | CPU_KNIGHTS_MILL
  | CPU_LAKEFIELD
  | CPU_LUNARLAKE
  | CPU_METEORLAKE
  | CPU_NEHALEM
  | CPU_NOVALAKE
  | CPU_P6OLD
  | CPU_PANTHERLAKE
  | CPU_RAPTORLAKE
  | CPU_ROCKETLAKE
  | CPU_SANDY_BRIDGE
  | CPU_SANDY_BRIDGE_EP
  | CPU_SAPPHIRERAPIDS
  | CPU_SIERRAFOREST
  | CPU_SKYLAKE
  | CPU_SKYLAKE_XEON
  | CPU_TIGERLAKE
  | CPU_TREMONT_D
  | CPU_WILDCATLAKE
  | CPU_XEON75XX

definition intel_models :: "(int list \<times> cputype) list" where
  "intel_models =
    [([0x97, 0x9A, 0xBE], CPU_ALDERLAKE),
     ([0xB5, 0xC5, 0xC6], CPU_ARROWLAKE),
     ([0x1C, 0x26, 0x27, 0x35, 0x36, 0x37, 0x4A, 0x4C, 0x4D, 0x5A, 0x5D], CPU_ATOM),
     ([0x3D, 0x47], CPU_BROADWELL),
     ([0x56], CPU_BROADWELL_DE),
     ([0x4F], CPU_BROADWELL_EPEX),
     ([0xDD], CPU_CLEARWATERFOREST),
     ([0xA5, 0xA6], CPU_COMETLAKE),
     ([0xF, 0x17], CPU_CORE2),
     ([0x5F], CPU_DENVERTON),
     ([0x1301], CPU_DIAMONDRAPIDS),
     ([0x1D], CPU_DUNNINGTON),
     ([0xCF], CPU_EMERALDRAPIDS),
     ([0xB6], CPU_GRANDRIDGE),
     ([0xAD, 0xAE], CPU_GRANITERAPIDS),
     ([0x3C, 0x45, 0x46], CPU_HASWELL),
     ([0x3F], CPU_HASWELL_EPEX),
     ([0x7D, 0x7E, 0x9D], CPU_ICELAKE),
     ([0x6C], CPU_ICELAKE_DE),
     ([0x6A], CPU_ICELAKE_XEON),
     ([0x3A], CPU_IVY_BRIDGE),
     ([0x3E], CPU_IVY_BRIDGE_EPEX),
     ([0x8E, 0x9E], CPU_KABYLAKE),
     ([0x57], CPU_KNIGHTS_LANDING),
     ([0x85], CPU_KNIGHTS_MILL),
     ([0x8A], CPU_LAKEFIELD),
     ([0xBD], CPU_LUNARLAKE),
     ([0xAC, 0xAA], CPU_METEORLAKE),
     ([0x1A, 0x2C, 0x1E, 0x25], CPU_NEHALEM),
     ([0x1201, 0x1203], CPU_NOVALAKE),
     ([0x0, 0x1, 0x2, 0x3, 0x4, 0x5, 0x6, 0x7, 0x8, 0x9, 0xA, 0xB, 0xC, 0xD, 0xE], CPU_P6OLD),
     ([0xCC], CPU_PANTHERLAKE),
     ([0xB7, 0xBA, 0xBF], CPU_RAPTORLAKE),
     ([0xA7], CPU_ROCKETLAKE),
     ([0x2A], CPU_SANDY_BRIDGE),
     ([0x2D], CPU_SANDY_BRIDGE_EP),
     ([0x8F], CPU_SAPPHIRERAPIDS),
     ([0xAF], CPU_SIERRAFOREST),
     ([0x4E, 0x5E], CPU_SKYLAKE),
     ([0x55], CPU_SKYLAKE_XEON),
     ([0x8C, 0x8D], CPU_TIGERLAKE),
     ([0x86], CPU_TREMONT_D),
     ([0xD5], CPU_WILDCATLAKE),
     ([0x2E, 0x2F], CPU_XEON75XX)]"

text \<open>A \<open>switch\<close> over the models; \<open>None\<close> is the default \<open>-1\<close>.\<close>

definition lookup_intel_cputype :: "int \<Rightarrow> cputype option" where
  "lookup_intel_cputype model = map_option snd (find (\<lambda>e. model \<in> set (fst e)) intel_models)"

fun cputype_name :: "cputype \<Rightarrow> string" where
  "cputype_name CPU_GENERIC = ''generic CPU''"
| "cputype_name CPU_K8 = ''AMD K8 and derivates''"
| "cputype_name CPU_ZHAOXIN = ''Zhaoxin generic CPU''"
| "cputype_name CPU_ZHAOXIN_KH40000 = ''Zhaoxin KH-40000 server''"
| "cputype_name CPU_ZHAOXIN_KH50000 = ''Zhaoxin KH-50000 server''"
| "cputype_name CPU_INTEL = ''Intel generic architectural MCA''"
| "cputype_name CPU_P4 = ''Intel P4''"
| "cputype_name CPU_TULSA = ''Intel Xeon 7100 series''"
| "cputype_name CPU_ALDERLAKE = ''Alderlake''"
| "cputype_name CPU_ARROWLAKE = ''Arrowlake''"
| "cputype_name CPU_ATOM = ''ATOM''"
| "cputype_name CPU_BROADWELL = ''Broadwell''"
| "cputype_name CPU_BROADWELL_DE = ''Intel Xeon (Broadwell) D family''"
| "cputype_name CPU_BROADWELL_EPEX = ''Intel Xeon v4 (Broadwell) EP/EX''"
| "cputype_name CPU_CLEARWATERFOREST = ''Clearwaterforest''"
| "cputype_name CPU_COMETLAKE = ''Cometlake''"
| "cputype_name CPU_CORE2 = ''Intel Core''"
| "cputype_name CPU_DENVERTON = ''Denverton''"
| "cputype_name CPU_DIAMONDRAPIDS = ''Diamond Rapids''"
| "cputype_name CPU_DUNNINGTON = ''Intel Xeon 7400 series''"
| "cputype_name CPU_EMERALDRAPIDS = ''Emeraldrapids server''"
| "cputype_name CPU_GRANDRIDGE = ''Grandridge''"
| "cputype_name CPU_GRANITERAPIDS = ''Graniterapids''"
| "cputype_name CPU_HASWELL = ''Intel Xeon v3 (Haswell) EP/EX''"
| "cputype_name CPU_HASWELL_EPEX = ''Haswell''"
| "cputype_name CPU_ICELAKE = ''Icelake server D Family''"
| "cputype_name CPU_ICELAKE_DE = ''Icelake''"
| "cputype_name CPU_ICELAKE_XEON = ''Icelake server''"
| "cputype_name CPU_IVY_BRIDGE = ''Intel Xeon v2 (Ivy Bridge) EP/EX''"
| "cputype_name CPU_IVY_BRIDGE_EPEX = ''Ivy Bridge''"
| "cputype_name CPU_KABYLAKE = ''Kabylake''"
| "cputype_name CPU_KNIGHTS_LANDING = ''Knights Landing''"
| "cputype_name CPU_KNIGHTS_MILL = ''Knights Mill''"
| "cputype_name CPU_LAKEFIELD = ''Lakefield''"
| "cputype_name CPU_LUNARLAKE = ''Lunarlake''"
| "cputype_name CPU_METEORLAKE = ''Meteorlake''"
| "cputype_name CPU_NEHALEM = (''Intel Xeon 5500 series / Core i3/5/7 ('' @ CHR 0x22 # ''Nehalem/Westmere'' @ CHR 0x22 # '')'')"
| "cputype_name CPU_NOVALAKE = ''Novalake''"
| "cputype_name CPU_P6OLD = ''Intel PPro/P2/P3/old Xeon''"
| "cputype_name CPU_PANTHERLAKE = ''Pantherlake''"
| "cputype_name CPU_RAPTORLAKE = ''Raptorlake''"
| "cputype_name CPU_ROCKETLAKE = ''Rocketlake''"
| "cputype_name CPU_SANDY_BRIDGE = ''Sandy Bridge EP''"
| "cputype_name CPU_SANDY_BRIDGE_EP = ''Sandy Bridge''"
| "cputype_name CPU_SAPPHIRERAPIDS = ''Sapphirerapids server''"
| "cputype_name CPU_SIERRAFOREST = ''Sierraforest''"
| "cputype_name CPU_SKYLAKE = ''Skylake''"
| "cputype_name CPU_SKYLAKE_XEON = ''Skylake server''"
| "cputype_name CPU_TIGERLAKE = ''Tigerlake''"
| "cputype_name CPU_TREMONT_D = ''Tremont microserver''"
| "cputype_name CPU_WILDCATLAKE = ''Wildcatlake''"
| "cputype_name CPU_XEON75XX = ''Intel Xeon 7500 series''"

definition cpu_choices :: "(string \<times> cputype) list" where
  "cpu_choices =
    [(''generic'', CPU_GENERIC),
     (''k8'', CPU_K8),
     (''zhaoxin'', CPU_ZHAOXIN),
     (''kh-40000'', CPU_ZHAOXIN_KH40000),
     (''kh-50000'', CPU_ZHAOXIN_KH50000),
     (''intel'', CPU_INTEL),
     (''p4'', CPU_P4),
     (''xeon5000'', CPU_P4),
     (''xeon7100'', CPU_P4),
     (''tulsa'', CPU_TULSA),
     (''xeon7100'', CPU_TULSA),
     (''xeon71xx'', CPU_TULSA),
     (''alderlake'', CPU_ALDERLAKE),
     (''arrowlake'', CPU_ARROWLAKE),
     (''atom'', CPU_ATOM),
     (''broadwell'', CPU_BROADWELL),
     (''broadwell-d'', CPU_BROADWELL_DE),
     (''broadwell-ep'', CPU_BROADWELL_EPEX),
     (''broadwell-ex'', CPU_BROADWELL_EPEX),
     (''xeon-v4'', CPU_BROADWELL_EPEX),
     (''clearwaterforest'', CPU_CLEARWATERFOREST),
     (''cometlake'', CPU_COMETLAKE),
     (''core2'', CPU_CORE2),
     (''xeon3100'', CPU_CORE2),
     (''xeon3200'', CPU_CORE2),
     (''xeon5100'', CPU_CORE2),
     (''xeon5200'', CPU_CORE2),
     (''xeon7200'', CPU_CORE2),
     (''denverton'', CPU_DENVERTON),
     (''diamond_rapids'', CPU_DIAMONDRAPIDS),
     (''dunnington'', CPU_DUNNINGTON),
     (''xeon7400'', CPU_DUNNINGTON),
     (''xeon74xx'', CPU_DUNNINGTON),
     (''emeraldrapids_server'', CPU_EMERALDRAPIDS),
     (''grandridge'', CPU_GRANDRIDGE),
     (''graniterapids'', CPU_GRANITERAPIDS),
     (''haswell-ep'', CPU_HASWELL),
     (''haswell-ex'', CPU_HASWELL),
     (''xeon-v3'', CPU_HASWELL),
     (''haswell'', CPU_HASWELL_EPEX),
     (''icelake'', CPU_ICELAKE),
     (''icelake-d'', CPU_ICELAKE_DE),
     (''icelake_server'', CPU_ICELAKE_XEON),
     (''ivybridge-ep'', CPU_IVY_BRIDGE),
     (''ivybridge-ex'', CPU_IVY_BRIDGE),
     (''xeon-v2'', CPU_IVY_BRIDGE),
     (''ivybridge'', CPU_IVY_BRIDGE_EPEX),
     (''kabylake'', CPU_KABYLAKE),
     (''knightslanding'', CPU_KNIGHTS_LANDING),
     (''knightsmill'', CPU_KNIGHTS_MILL),
     (''lakefield'', CPU_LAKEFIELD),
     (''lunarlake'', CPU_LUNARLAKE),
     (''meteorlake'', CPU_METEORLAKE),
     (''core_i3'', CPU_NEHALEM),
     (''core_i5'', CPU_NEHALEM),
     (''core_i7'', CPU_NEHALEM),
     (''nehalem'', CPU_NEHALEM),
     (''westmere'', CPU_NEHALEM),
     (''xeon5500'', CPU_NEHALEM),
     (''novalake'', CPU_NOVALAKE),
     (''p6old'', CPU_P6OLD),
     (''pantherlake'', CPU_PANTHERLAKE),
     (''raptorlake'', CPU_RAPTORLAKE),
     (''rocketlake'', CPU_ROCKETLAKE),
     (''sandybridge'', CPU_SANDY_BRIDGE),
     (''sandybridge-ep'', CPU_SANDY_BRIDGE_EP),
     (''sapphirerapids_server'', CPU_SAPPHIRERAPIDS),
     (''sierraforest'', CPU_SIERRAFOREST),
     (''skylake'', CPU_SKYLAKE),
     (''cascadelake_server'', CPU_SKYLAKE_XEON),
     (''skylake_server'', CPU_SKYLAKE_XEON),
     (''tigerlake'', CPU_TIGERLAKE),
     (''snowridge'', CPU_TREMONT_D),
     (''wildcatlake'', CPU_WILDCATLAKE),
     (''xeon7500'', CPU_XEON75XX),
     (''xeon75xx'', CPU_XEON75XX)]"

section \<open>The CPUID signature\<close>

text \<open>The bit fields of \<open>struct cpuid1\<close>, low bits first: stepping 4, model 4, family 4, type 2,
  reserved 2, extended model 4, extended family 8, reserved 4.\<close>

definition cpuid_field :: "nat \<Rightarrow> nat \<Rightarrow> u32 \<Rightarrow> u32" where
  "cpuid_field off len v = take_bit len (drop_bit off v)"

definition cpuid_store :: "nat \<Rightarrow> nat \<Rightarrow> u32 \<Rightarrow> u32 \<Rightarrow> u32" where
  "cpuid_store off len x v =
     (v AND NOT (push_bit off (mask len))) OR push_bit off (take_bit len x)"

definition parse_cpuid :: "u32 \<Rightarrow> u32 \<times> u32 \<times> u32" where
  "parse_cpuid cpuid =
     (let family = cpuid_field 8 4 cpuid;
          family = (if cpuid_field 8 4 cpuid = 0xF then family + cpuid_field 20 8 cpuid else family);
          model = cpuid_field 4 4 cpuid;
          model = (if 0x6 \<le> family then model + push_bit 4 (cpuid_field 16 4 cpuid) else model)
      in (family, model, cpuid_field 0 4 cpuid))"

definition unparse_cpuid :: "u32 \<Rightarrow> u32 \<Rightarrow> u32" where
  "unparse_cpuid family model =
     (let v = cpuid_store 8 4 family 0;
          v = (if 0xF \<le> family then cpuid_store 20 8 (family - 0xF) (cpuid_store 8 4 0xF v) else v);
          v = cpuid_store 4 4 (model AND 0xF) v
      in if 0x6 \<le> family then cpuid_store 16 4 (drop_bit 4 model) v else v)"

lemma bit_cpuid_store [bits]:
  "bit (cpuid_store off len x v) n \<longleftrightarrow>
     n < 32 \<and> (if off \<le> n \<and> n < off + len then bit x (n - off) else bit v n)"
  by (auto simp: cpuid_store_def bit_simps)

lemma field_store_same: "off + len \<le> 32 \<Longrightarrow> cpuid_field off len (cpuid_store off len x v) = take_bit len x"
  by (rule bit_word_eqI) (auto simp: cpuid_field_def bits bit_simps)

lemma field_store_other:
  "off + len \<le> off' \<or> off' + len' \<le> off \<Longrightarrow>
   cpuid_field off len (cpuid_store off' len' x v) = cpuid_field off len v"
  by (rule bit_word_eqI) (auto simp: cpuid_field_def bits bit_simps dest: bit_imp_le_length)

lemma field_zero: "cpuid_field off len 0 = 0"
  by (simp add: cpuid_field_def)

lemma take_bit_word_less: "(x :: u32) < 2 ^ n \<Longrightarrow> take_bit n x = x"
  using less_mask_eq [of x n] by (simp add: take_bit_eq_mask)

lemma and_nibble: "(m :: u32) AND 0xF = take_bit 4 m"
  by (simp add: take_bit_eq_mask mask_eq_exp_minus_1)

lemma nibbles: "(m :: u32) < 256 \<Longrightarrow> take_bit 4 (m AND 0xF) + push_bit 4 (take_bit 4 (drop_bit 4 m)) = m"
proof -
  assume m: "m < 256"
  have "m AND 0xF = take_bit 4 m" by (rule and_nibble)
  moreover have "take_bit 4 (drop_bit 4 m) = drop_bit 4 (take_bit 8 m)"
    by (rule bit_word_eqI) (auto simp: bit_simps)
  moreover have "take_bit 8 m = m" using m by (intro take_bit_word_less) simp
  moreover have "take_bit 4 m AND push_bit 4 (drop_bit 4 m) = 0"
    by (rule bit_word_eqI) (auto simp: bit_simps)
  moreover have "take_bit 4 m OR push_bit 4 (drop_bit 4 m) = m"
  proof (rule bit_word_eqI)
    fix n
    show "bit (take_bit 4 m OR push_bit 4 (drop_bit 4 m)) n = bit m n" if "n < LENGTH(32)"
      using that by (cases "n < 4") (auto simp: bit_simps)
  qed
  ultimately show ?thesis by (simp add: disjunctive_add_eq_or)
qed

lemmas cpuid_fields = field_store_same field_store_other field_zero

text \<open>
  A family and a model survive the CPUID signature. Every family up to \<open>0xF + 0xFF\<close> with a model
  that its signature can hold (8 bits from family 6 on, 4 bits below) is read back from the signature
  that \<open>unparse_cpuid\<close> makes of it.
\<close>

lemma cpuid_roundtrip:
  assumes "family \<le> 0x10E" and "model < 256" and "family < 6 \<Longrightarrow> model < 16"
  shows "parse_cpuid (unparse_cpuid family model) = (family, model, 0)"
proof -
  let ?v = "unparse_cpuid family model"
  have f: "cpuid_field 8 4 ?v = (if 0xF \<le> family then 0xF else family)"
  proof -
    have "take_bit 4 family = family" if "family < 0xF"
      using that order_less_trans [of family "0xF" "2 ^ 4"] by (intro take_bit_word_less) simp
    then show ?thesis by (auto simp: unparse_cpuid_def Let_def cpuid_fields not_le)
  qed
  have e: "cpuid_field 20 8 ?v = (if 0xF \<le> family then family - 0xF else 0)"
  proof -
    have "take_bit 8 (family - 0xF) = family - 0xF" if "0xF \<le> family"
      using that assms(1) by (intro take_bit_word_less) (simp add: word_less_nat_alt word_le_nat_alt unat_sub)
    then show ?thesis by (auto simp: unparse_cpuid_def Let_def cpuid_fields)
  qed
  have m: "cpuid_field 4 4 ?v = take_bit 4 (model AND 0xF)"
    by (simp add: unparse_cpuid_def Let_def cpuid_fields)
  have x: "cpuid_field 16 4 ?v = (if 6 \<le> family then take_bit 4 (drop_bit 4 model) else 0)"
    by (simp add: unparse_cpuid_def Let_def cpuid_fields)
  have s: "cpuid_field 0 4 ?v = 0" by (simp add: unparse_cpuid_def Let_def cpuid_fields)
  have "family < 6 \<Longrightarrow> take_bit 4 (model AND 0xF) = model"
    using assms(3) by (simp add: and_nibble take_bit_word_less)
  then show ?thesis unfolding parse_cpuid_def Let_def f e m x s
    using nibbles [OF assms(2)] by (auto simp: not_le)
qed

end
