(* ===== verification/MemDb.thy ===== *)
theory MemDb
  imports Trigger Mce
begin

text \<open>
  The in-memory error database of \<^verbatim>\<open>src/memdb.c\<close>: DIMMs in a hash table, their error counters and
  leaky buckets, the triggers with their environment, the report, and the table's prefill from DMI
  data. A \<open>struct memdimm\<close> is named by its socket, channel and DIMM number, which stand for the
  pointer to it.
\<close>

section \<open>The key of a DIMM, ordered as the report sorts\<close>

datatype dimm_key = Key (k_socket: int) (k_channel: int) (k_dimm: int)

instantiation dimm_key :: linorder
begin

fun less_eq_dimm_key :: "dimm_key \<Rightarrow> dimm_key \<Rightarrow> bool" where
  "less_eq_dimm_key (Key s c d) (Key s' c' d') =
     (if s \<noteq> s' then s < s' else if c \<noteq> c' then c < c' else d \<le> d')"

definition less_dimm_key :: "dimm_key \<Rightarrow> dimm_key \<Rightarrow> bool" where
  "less_dimm_key a b \<longleftrightarrow> a \<le> b \<and> \<not> b \<le> (a :: dimm_key)"

instance
proof
  fix x y z :: dimm_key
  show "x < y \<longleftrightarrow> x \<le> y \<and> \<not> y \<le> x" by (simp add: less_dimm_key_def)
  show "x \<le> x" by (cases x) simp
  show "x \<le> y \<Longrightarrow> y \<le> z \<Longrightarrow> x \<le> z" by (cases x; cases y; cases z) (auto split: if_splits)
  show "x \<le> y \<Longrightarrow> y \<le> x \<Longrightarrow> x = y" by (cases x; cases y) (auto split: if_splits)
  show "x \<le> y \<or> y \<le> x" by (cases x; cases y) auto
qed

end

section \<open>State\<close>

record err_type =
  et_bucket :: leaky_bucket
  et_count :: u32

record memdimm =
  md_channel :: int                 \<comment> \<open>-1: unknown\<close>
  md_dimm :: int                    \<comment> \<open>-1: unknown\<close>
  md_socketid :: int
  md_ce :: err_type
  md_uc :: err_type
  md_name :: "string option"
  md_location :: "string option"
  md_memdev :: "nat option"         \<comment> \<open>the DMI device, by its index\<close>

record err_triggers =
  ce_bucket_conf :: bucket_conf
  uc_bucket_conf :: bucket_conf
  tr_type :: string

text \<open>One DMI memory device: the strings of its bank locator and its device locator.\<close>

type_synonym dmi_dev = "string option \<times> string"

record memdb_state = trigger_state +
  md_numdimms :: int
  md_dimms :: "memdimm list list"
  dimms :: err_triggers
  sockets :: err_triggers
  memdb_enabled :: bool
  sockdb_enabled :: bool
  memory_error_support :: bool      \<comment> \<open>of intel.c\<close>
  me_warned :: bool
  prefill_initialized :: bool
  prefill_warned :: bool
  os_dmi :: "dmi_dev list option"   \<comment> \<open>what opendmi finds; None: it fails\<close>

definition MD_SHASH :: nat where "MD_SHASH = 17"
definition FNV32_OFFSET :: u32 where "FNV32_OFFSET = 2166136261"
definition FNV32_PRIME :: u32 where "FNV32_PRIME = 0x01000193"

definition dimmhash :: "u32 \<Rightarrow> u32 \<Rightarrow> u32 \<Rightarrow> nat" where
  "dimmhash socket dimm ch =
     (let step = (\<lambda>h b. (h XOR (b AND 0xFF)) * FNV32_PRIME);
          h = step FNV32_OFFSET socket;
          h = step h (drop_bit 8 socket);
          h = step h dimm;
          h = step h ch
      in unat (h mod 17))"

definition md_key :: "memdimm \<Rightarrow> dimm_key" where
  "md_key md = Key (md_socketid md) (md_channel md) (md_dimm md)"

definition key_hash :: "dimm_key \<Rightarrow> nat" where
  "key_hash k = dimmhash (of_int (k_socket k)) (of_int (k_dimm k)) (of_int (k_channel k))"

definition zero_errors :: "int \<Rightarrow> err_type" where
  "zero_errors t = \<lparr>et_bucket = bucket_init t \<lparr>lb_count = 0, lb_excess = 0, lb_tstamp = 0\<rparr>, et_count = 0\<rparr>"

section \<open>Finding and adding a DIMM\<close>

definition get_memdimm ::
  "int \<Rightarrow> int \<Rightarrow> int \<Rightarrow> bool \<Rightarrow> 'a memdb_state_scheme \<Rightarrow> dimm_key option \<times> 'a memdb_state_scheme" where
  "get_memdimm socketid channel dimm ins s =
     (let h = key_hash (Key socketid channel dimm);
          md = find (\<lambda>md. md_socketid md = socketid \<and> md_channel md = channel \<and> md_dimm md = dimm)
                 (md_dimms s ! h)
      in if md \<noteq> None \<or> \<not> ins then (map_option md_key md, s)
         else let md = \<lparr>md_channel = channel, md_dimm = dimm, md_socketid = socketid,
                        md_ce = zero_errors (now s), md_uc = zero_errors (now s),
                        md_name = None, md_location = None, md_memdev = None\<rparr>
              in (Some (Key socketid channel dimm),
                  s\<lparr>md_dimms := (md_dimms s)[h := md # md_dimms s ! h],
                    md_numdimms := md_numdimms s + 1\<rparr>))"

text \<open>Reading and writing through a pointer to a DIMM.\<close>

definition md_at :: "dimm_key \<Rightarrow> 'a memdb_state_scheme \<Rightarrow> memdimm option" where
  "md_at k s = find (\<lambda>md. md_key md = k) (md_dimms s ! key_hash k)"

definition md_update :: "dimm_key \<Rightarrow> (memdimm \<Rightarrow> memdimm) \<Rightarrow> 'a memdb_state_scheme \<Rightarrow> 'a memdb_state_scheme" where
  "md_update k f s = s\<lparr>md_dimms := (md_dimms s)[key_hash k :=
     map (\<lambda>md. if md_key md = k then f md else md) (md_dimms s ! key_hash k)]\<rparr>"

section \<open>Triggers\<close>

definition format_location :: "memdimm \<Rightarrow> string" where
  "format_location md = printf ''SOCKET:%d CHANNEL:%s DIMM:%s [%s%s%s]''
     [PN (md_socketid md),
      PS (if md_channel md = -1 then ''?'' else show_int (md_channel md)),
      PS (if md_dimm md = -1 then ''?'' else show_int (md_dimm md)),
      PS (case md_location md of Some l \<Rightarrow> l | None \<Rightarrow> []),
      PS (if md_location md \<noteq> None \<and> md_name md \<noteq> None then '' '' else []),
      PS (case md_name md of Some n \<Rightarrow> n | None \<Rightarrow> [])]"

definition MAX_ENV :: nat where "MAX_ENV = 20"

definition memdb_env :: "string \<Rightarrow> string \<Rightarrow> memdimm \<Rightarrow> int \<Rightarrow> err_type \<Rightarrow> bucket_conf \<Rightarrow>
    'a memdb_state_scheme \<Rightarrow> string list" where
  "memdb_env out thresh md t et bc s =
     [printf ''PATH=%s'' [PS (case os_env_path s of Some p \<Rightarrow> p | None \<Rightarrow> ''/sbin:/usr/sbin:/bin:/usr/bin'')],
      printf ''THRESHOLD=%s'' [PS thresh],
      printf ''TOTALCOUNT=%u'' [PU (et_count et)],
      printf ''LOCATION=%s'' [PS (format_location md)]] @
     (case md_location md of Some l \<Rightarrow> [printf ''DMI_LOCATION=%s'' [PS l]] | None \<Rightarrow> []) @
     (case md_name md of Some n \<Rightarrow> [printf ''DMI_NAME=%s'' [PS n]] | None \<Rightarrow> []) @
     (if md_dimm md \<noteq> -1 then [printf ''DIMM=%d'' [PN (md_dimm md)]] else []) @
     (if md_channel md \<noteq> -1 then [printf ''CHANNEL=%d'' [PN (md_channel md)]] else []) @
     [printf ''SOCKETID=%d'' [PN (md_socketid md)],
      printf ''CECOUNT=%u'' [PU (et_count (md_ce md))],
      printf ''UCCOUNT=%u'' [PU (et_count (md_uc md))]] @
     (if t \<noteq> 0 then [printf ''LASTEVENT=%ld'' [PN t]] else []) @
     [printf ''AGETIME=%u'' [PU (bc_agetime bc)],
      printf ''MESSAGE=%s'' [PS out],
      printf ''THRESHOLD_COUNT=%u'' [PU (lb_count (et_bucket et) + lb_excess (et_bucket et))]]"

definition memdb_trigger :: "string \<Rightarrow> memdimm \<Rightarrow> int \<Rightarrow> err_type \<Rightarrow> bucket_conf \<Rightarrow> string list option \<Rightarrow>
    bool \<Rightarrow> string \<Rightarrow> 'a memdb_state_scheme \<Rightarrow> 'a memdb_state_scheme" where
  "memdb_trigger msg md t et bc args sync reporter s =
     (let location = format_location md;
          thresh = bucket_output bc (et_bucket et);
          out = printf ''%s: %s'' [PS msg, PS thresh];
          s = (if bc_log bc \<noteq> 0
               then Gprintf ''Location %s\<newline>'' [PS location] (Gprintf ''%s\<newline>'' [PS out] s) else s)
      in case bc_trigger bc of
           None \<Rightarrow> s
         | Some trigger \<Rightarrow> run_trigger trigger args (memdb_env out thresh md t et bc s) sync reporter s)"

section \<open>Accounting\<close>

text \<open>\<open>err_at uc md\<close> and \<open>err_update uc f\<close> are the counter and bucket of one kind of error. An
  account adds to both and runs the trigger when the bucket overflows.\<close>

definition err_at :: "bool \<Rightarrow> memdimm \<Rightarrow> err_type" where
  "err_at uc md = (if uc then md_uc md else md_ce md)"

definition err_update :: "bool \<Rightarrow> (err_type \<Rightarrow> err_type) \<Rightarrow> memdimm \<Rightarrow> memdimm" where
  "err_update uc f md = (if uc then md\<lparr>md_uc := f (md_uc md)\<rparr> else md\<lparr>md_ce := f (md_ce md)\<rparr>)"

definition account_err :: "bool \<Rightarrow> bucket_conf \<Rightarrow> u32 \<Rightarrow> int \<Rightarrow> string \<Rightarrow> int \<Rightarrow> string \<Rightarrow> dimm_key \<Rightarrow>
    'a memdb_state_scheme \<Rightarrow> 'a memdb_state_scheme" where
  "account_err uc bc n t msg trigger_time reporter k s =
     (case md_at k s of
        None \<Rightarrow> s
      | Some md \<Rightarrow>
          let e = err_at uc md;
              (over, b) = bucket_account_t bc (et_bucket e) n t 1;
              e' = e\<lparr>et_count := et_count e + n, et_bucket := b\<rparr>;
              md' = err_update uc (\<lambda>_. e') md;
              s = md_update k (err_update uc (\<lambda>_. e')) s
          in if over then memdb_trigger msg md' trigger_time e' bc None False reporter s else s)"

definition account_over :: "err_triggers \<Rightarrow> dimm_key \<Rightarrow> mce \<Rightarrow> u32 \<Rightarrow> string \<Rightarrow>
    'a memdb_state_scheme \<Rightarrow> 'a memdb_state_scheme" where
  "account_over t k m corr_err_cnt reporter s =
     (if corr_err_cnt \<noteq> 0 \<and> corr_err_cnt - 1 > 0
      then account_err False (ce_bucket_conf t) (corr_err_cnt - 1) (sint (m_time m))
             (printf ''Fallback %s memory error count %d exceeded threshold''
                [PS (tr_type t), PN (sint (corr_err_cnt - 1))]) 0 reporter k s
      else s)"

definition account_memdb :: "err_triggers \<Rightarrow> dimm_key \<Rightarrow> mce \<Rightarrow> string \<Rightarrow>
    'a memdb_state_scheme \<Rightarrow> 'a memdb_state_scheme" where
  "account_memdb t k m reporter s =
     (let uc = has (m_status m) MCI_STATUS_UC;
          msg = printf ''%scorrected %s memory error count exceeded threshold''
                  [PS (if uc then ''Un'' else []), PS (tr_type t)]
      in if uc
         then account_err True (uc_bucket_conf t) 1 (sint (m_time m)) msg (sint (m_time m)) reporter k s
         else account_err False (ce_bucket_conf t) 1 (sint (m_time m)) msg (sint (m_time m)) reporter k s)"

definition memory_error :: "mce \<Rightarrow> int \<Rightarrow> int \<Rightarrow> u32 \<Rightarrow> nat \<Rightarrow> 'a memdb_state_scheme \<Rightarrow> 'a memdb_state_scheme" where
  "memory_error m ch dimm corr_err_cnt recordlen s =
     (if recordlen < endof_field ''socketid''
      then if me_warned s then s
           else (Eprintf ''Cannot account memory errors because kernel does not report socketid'' [] s)
                  \<lparr>me_warned := True\<rparr>
      else
        let sock = sint (m_socketid m);
            s = (if memdb_enabled s \<and> (ch \<noteq> -1 \<or> dimm \<noteq> -1)
                 then let (md, s) = get_memdimm sock ch dimm True s
                      in account_memdb (dimms s) (the md) m ''memdb'' s
                 else s)
        in if sockdb_enabled s
           then let (md, s) = get_memdimm sock (-1) (-1) True s;
                    s = account_over (sockets s) (the md) m corr_err_cnt ''sockdb_fallback'' s
                in account_memdb (sockets s) (the md) m ''sockdb_memdb'' s
           else s)"

section \<open>The report\<close>

definition DUMP_ALL :: u32 where "DUMP_ALL = push_bit 0 1"
definition DUMP_BIOS :: u32 where "DUMP_BIOS = push_bit 1 1"

text \<open>The comparison that \<open>qsort\<close> is given, in C's 32-bit \<open>int\<close>.\<close>

definition cmp_dimm :: "memdimm \<Rightarrow> memdimm \<Rightarrow> int" where
  "cmp_dimm a b =
     (let minus = (\<lambda>x y. sint (of_int (x - y) :: u32))
      in if md_socketid a \<noteq> md_socketid b then minus (md_socketid a) (md_socketid b)
         else if md_channel a \<noteq> md_channel b then minus (md_channel a) (md_channel b)
         else minus (md_dimm a) (md_dimm b))"

text \<open>Each printing function returns the text; \<open>dump_errtype\<close> also ages the bucket it prints.\<close>

definition dump_errtype :: "string \<Rightarrow> err_type \<Rightarrow> u32 \<Rightarrow> bucket_conf \<Rightarrow> int \<Rightarrow> string \<times> err_type" where
  "dump_errtype name e flags bc t =
     (let all = (flags AND DUMP_ALL \<noteq> 0);
          e = e\<lparr>et_bucket := bucket_age bc (et_bucket e) t 1\<rparr>
      in ((if et_count e \<noteq> 0 \<or> lb_count (et_bucket e) \<noteq> 0 \<or> all then printf ''%s:\<newline>'' [PS name] else []) @
          (if et_count e \<noteq> 0 \<or> all then printf (CHR 0x09 # ''%u total\<newline>'') [PU (et_count e)] else []) @
          (if bc_capacity bc \<noteq> 0 \<and> (lb_count (et_bucket e) \<noteq> 0 \<or> all)
           then printf (CHR 0x09 # ''%s\<newline>'') [PS (bucket_output bc (et_bucket e))] else []),
          e))"

definition dump_bios :: "memdimm \<Rightarrow> string" where
  "dump_bios md =
     (let a = (case md_name md of Some n \<Rightarrow> printf (''DMI_NAME '' @ CHR 0x22 # ''%s'' @ [CHR 0x22]) [PS n] | None \<Rightarrow> []);
          b = (case md_location md of
                 Some l \<Rightarrow> (if a \<noteq> [] then '' '' else []) @ printf (''DMI_LOCATION '' @ CHR 0x22 # ''%s'' @ [CHR 0x22]) [PS l] | None \<Rightarrow> [])
      in a @ b @ (if a @ b \<noteq> [] then ''\<newline>'' else []))"

definition dump_dimm :: "memdimm \<Rightarrow> u32 \<Rightarrow> 'a memdb_state_scheme \<Rightarrow> string \<times> memdimm" where
  "dump_dimm md flags s =
     (if et_count (md_ce md) + et_count (md_uc md) > 0 \<or> flags AND DUMP_ALL \<noteq> 0
      then let (c, ce) = dump_errtype ''corrected memory errors'' (md_ce md) flags (ce_bucket_conf (dimms s)) (now s);
               (u, uc) = dump_errtype ''uncorrected memory errors'' (md_uc md) flags (uc_bucket_conf (dimms s)) (now s)
           in (printf ''SOCKET %u'' [PU (of_int (md_socketid md) :: u32)] @
               (if md_channel md = -1 then '' CHANNEL any'' else printf '' CHANNEL %d'' [PN (md_channel md)]) @
               (if md_dimm md = -1 then '' DIMM any'' else printf '' DIMM %d'' [PN (md_dimm md)]) @ ''\<newline>'' @
               (if flags AND DUMP_BIOS \<noteq> 0 then dump_bios md else []) @ c @ u,
               md\<lparr>md_ce := ce, md_uc := uc\<rparr>)
      else ([], md))"

text \<open>The array that \<open>dump_memory_errors\<close> fills and sorts.\<close>

definition sorted_dimms :: "'a memdb_state_scheme \<Rightarrow> memdimm list" where
  "sorted_dimms s = sort_key md_key (concat (md_dimms s))"

fun dump_loop :: "bool \<Rightarrow> memdimm list \<Rightarrow> u32 \<Rightarrow> 'a memdb_state_scheme \<Rightarrow> string \<times> 'a memdb_state_scheme" where
  "dump_loop first [] flags s = ([], s)"
| "dump_loop first (md # mds) flags s =
     (let (t, md') = dump_dimm md flags s;
          (r, s') = dump_loop False mds flags (md_update (md_key md) (\<lambda>_. md') s)
      in ((if first then ''Memory errors\<newline>'' else ''\<newline>'') @ t @ r, s'))"

definition dump_memory_errors :: "u32 \<Rightarrow> 'a memdb_state_scheme \<Rightarrow> string \<times> 'a memdb_state_scheme" where
  "dump_memory_errors flags s = dump_loop True (sorted_dimms s) flags s"

section \<open>Configuration and prefill\<close>

definition memdb_config :: "'a memdb_state_scheme \<Rightarrow> ('a memdb_state_scheme, unit) outcome" where
  "memdb_config s =
     andthen (config_bool ''dimm'' ''dimm-tracking-enabled'' s) (\<lambda>n s.
     let s = s\<lparr>memdb_enabled := (if n < 0 then memory_error_support s else n \<noteq> 0)\<rparr> in
     andthen (config_trigger ''dimm'' ''ce-error'' (ce_bucket_conf (dimms s)) s) (\<lambda>bc s.
     let s = s\<lparr>dimms := (dimms s)\<lparr>ce_bucket_conf := bc\<rparr>\<rparr> in
     andthen (config_trigger ''dimm'' ''uc-error'' (uc_bucket_conf (dimms s)) s) (\<lambda>bc s.
     let s = s\<lparr>dimms := (dimms s)\<lparr>uc_bucket_conf := bc\<rparr>\<rparr> in
     andthen (config_bool ''socket'' ''socket-tracking-enabled'' s) (\<lambda>n s.
     let s = s\<lparr>sockdb_enabled := (if n < 0 then memory_error_support s else n \<noteq> 0)\<rparr> in
     andthen (config_trigger ''socket'' ''mem-ce-error'' (ce_bucket_conf (sockets s)) s) (\<lambda>bc s.
     let s = s\<lparr>sockets := (sockets s)\<lparr>ce_bucket_conf := bc\<rparr>\<rparr> in
     andthen (config_trigger ''socket'' ''mem-uc-error'' (uc_bucket_conf (sockets s)) s) (\<lambda>bc s.
     Ret () (s\<lparr>sockets := (sockets s)\<lparr>uc_bucket_conf := bc\<rparr>\<rparr>)))))))"

text \<open>The variables that the locator is scanned into: socket, channel and DIMM. A scan that fails
  half-way has still stored the numbers before the mismatch, and the formats for AMI boards do not
  store a channel.\<close>

type_synonym dimm_vars = "u32 \<times> u32 \<times> u32"

fun store_scd :: "sval list \<Rightarrow> dimm_vars \<Rightarrow> dimm_vars" where
  "store_scd [] v = v"
| "store_scd [a] (s, c, d) = (sval_u32 a, c, d)"
| "store_scd [a, b] (s, c, d) = (sval_u32 a, sval_u32 b, d)"
| "store_scd (a # b # e # r) (s, c, d) = (sval_u32 a, sval_u32 b, sval_u32 e)"

fun store_sd :: "sval list \<Rightarrow> dimm_vars \<Rightarrow> dimm_vars" where
  "store_sd [] v = v"
| "store_sd [a] (s, c, d) = (sval_u32 a, c, d)"
| "store_sd (a # b # r) (s, c, d) = (sval_u32 a, c, sval_u32 b)"

definition parse_dimm_addr :: "string option \<Rightarrow> dimm_vars \<Rightarrow> bool \<times> dimm_vars" where
  "parse_dimm_addr bl v =
     (case bl of
        None \<Rightarrow> (False, v)
      | Some bl \<Rightarrow>
          let (n1, v1) = sscanf (drop (strcspn bl (CHR ''_'')) bl) ''_Node%u_Channel%u_Dimm%u'';
              v = store_scd v1 v
          in if n1 = 3 then (True, v) else
          let (n2, v2) = sscanf bl ''NODE %u CHANNEL %u DIMM %u'';
              v = store_scd v2 v
          in if n2 = 3 then (True, v) else
          let (n3, v3) = sscanf bl ''Node%u_Bank%u'';
              v = store_sd v3 v
          in if n3 = 2 then (True, v) else
          let (n4, v4) = sscanf bl ''A%u_BANK%u'';
              v = store_sd v4 v
          in (n4 = 2, v))"

text \<open>The loop over the DMI devices: \<open>i\<close> is the index, \<open>v\<close> the scanned variables, which keep their
  values from one device to the next, and the count of devices that were missed.\<close>

fun prefill_loop :: "nat \<Rightarrow> dmi_dev list \<Rightarrow> dimm_vars \<Rightarrow> nat \<Rightarrow> 'a memdb_state_scheme \<Rightarrow> nat \<times> 'a memdb_state_scheme" where
  "prefill_loop i [] v missed s = (missed, s)"
| "prefill_loop i ((bl, dl) # ds) v missed s =
     (case parse_dimm_addr bl v of
        (False, v) \<Rightarrow> prefill_loop (i + 1) ds v (missed + 1) s
      | (True, v) \<Rightarrow>
          (case v of (socketid, channel, dimm) \<Rightarrow>
           case get_memdimm (sint socketid) (sint channel) (sint dimm) True s of (md, s) \<Rightarrow>
           case md_at (the md) s of
             None \<Rightarrow> prefill_loop (i + 1) ds v missed s
           | Some d \<Rightarrow>
               if md_memdev d \<noteq> None then prefill_loop (i + 1) ds v (missed + 1) s
               else prefill_loop (i + 1) ds v missed
                      (md_update (the md)
                        (\<lambda>d. d\<lparr>md_memdev := Some i, md_location := bl, md_name := Some dl\<rparr>) s)))"

text \<open>\<open>junk\<close>: what the uninitialised variables hold at first.\<close>

definition prefill_memdb :: "bool \<Rightarrow> dimm_vars \<Rightarrow> 'a memdb_state_scheme \<Rightarrow> ('a memdb_state_scheme, unit) outcome" where
  "prefill_memdb do_dmi junk s =
     (if prefill_initialized s then Ret () s
      else andthen (memdb_config s) (\<lambda>_ s.
        if \<not> memdb_enabled s then Ret () s
        else let s = s\<lparr>prefill_initialized := True\<rparr>
             in andthen (config_bool ''dimm'' ''dmi-prepopulate'' s) (\<lambda>n s.
                  if n = 0 \<or> \<not> do_dmi then Ret () s
                  else case os_dmi s of
                         None \<Rightarrow> Ret () s
                       | Some ds \<Rightarrow>
                           let (missed, s) = prefill_loop 0 ds junk 0 s
                           in if missed > 0 \<and> \<not> prefill_warned s
                              then Ret () ((Eprintf ''failed to prefill DIMM database from DMI data'' [] s)
                                             \<lparr>prefill_warned := True\<rparr>)
                              else Ret () s)))"

section \<open>The DIMM table is a hash table\<close>

lemma key_hash_less: "key_hash k < MD_SHASH"
  by (simp add: key_hash_def dimmhash_def Let_def MD_SHASH_def unat_mod)

interpretation dimm: hash_chains key_hash MD_SHASH md_key
  by unfold_locales (rule key_hash_less)

lemma md_at_lookup: "md_at k s = dimm.lookup (md_dimms s) k"
  by (simp add: md_at_def dimm.lookup_def)

lemma md_update_change: "md_update k f s = s\<lparr>md_dimms := dimm.change k f (md_dimms s)\<rparr>"
  by (simp add: md_update_def dimm.change_def)

text \<open>The invariant of the database: every DIMM hangs in the chain of its hash, no DIMM occurs twice,
  and \<open>md_numdimms\<close>, which sizes the report's array, is the number of DIMMs.\<close>

definition db_ok :: "'a memdb_state_scheme \<Rightarrow> bool" where
  "db_ok s \<longleftrightarrow> dimm.placed (md_dimms s) \<and> distinct (dimm.keys (md_dimms s))
     \<and> md_numdimms s = int (dimm.entries (md_dimms s))"

definition same_conf :: "'a memdb_state_scheme \<Rightarrow> 'a memdb_state_scheme \<Rightarrow> bool" where
  "same_conf s s' \<longleftrightarrow> dimms s' = dimms s \<and> sockets s' = sockets s \<and>
     memdb_enabled s' = memdb_enabled s \<and> sockdb_enabled s' = sockdb_enabled s"

lemma trig_memdb_frame:
  assumes "trig_step s s'"
  shows "md_dimms s' = md_dimms s" "md_numdimms s' = md_numdimms s" "same_conf s s'"
proof -
  show "md_dimms s' = md_dimms s" "md_numdimms s' = md_numdimms s" by (rule trig_frame [OF assms], simp)+
  have "dimms s' = dimms s" "sockets s' = sockets s" "memdb_enabled s' = memdb_enabled s"
    "sockdb_enabled s' = sockdb_enabled s" by (rule trig_frame [OF assms], simp)+
  then show "same_conf s s'" by (simp add: same_conf_def)
qed

lemma memdb_trigger_frame [frame]:
  "trig_step s (memdb_trigger msg md t et bc args sync reporter s)"
proof -
  have g: "trig_step s (Gprintf f a (Gprintf f' a' s))" for f a f' a' by (intro frame)
  show ?thesis
    unfolding memdb_trigger_def Let_def by (simp add: trig_step_refl g trig_step_run split: option.split)
qed

lemma get_memdimm_find:
  "find (\<lambda>md. md_socketid md = so \<and> md_channel md = ch \<and> md_dimm md = d) mds
     = find (\<lambda>md. md_key md = Key so ch d) mds"
  by (rule find_cong) (auto simp: md_key_def)

lemma get_memdimm_found:
  "md_at (Key so ch d) s = Some md \<Longrightarrow> get_memdimm so ch d ins s = (Some (Key so ch d), s)"
  by (auto simp: get_memdimm_def Let_def get_memdimm_find md_at_def find_Some_iff)

definition fresh_dimm :: "int \<Rightarrow> int \<Rightarrow> int \<Rightarrow> int \<Rightarrow> memdimm" where
  "fresh_dimm so ch d t = \<lparr>md_channel = ch, md_dimm = d, md_socketid = so, md_ce = zero_errors t,
     md_uc = zero_errors t, md_name = None, md_location = None, md_memdev = None\<rparr>"

lemma fresh_dimm_key [simp]: "md_key (fresh_dimm so ch d t) = Key so ch d"
  by (simp add: fresh_dimm_def md_key_def)

lemma get_memdimm_new:
  assumes "md_at (Key so ch d) s = None"
  shows "get_memdimm so ch d True s = (Some (Key so ch d),
    s\<lparr>md_dimms := (md_dimms s)[key_hash (Key so ch d) :=
         fresh_dimm so ch d (now s) # md_dimms s ! key_hash (Key so ch d)],
       md_numdimms := md_numdimms s + 1\<rparr>)"
  using assms by (simp add: get_memdimm_def Let_def get_memdimm_find md_at_def fresh_dimm_def)

text \<open>Looking a DIMM up with insertion: it is there afterwards, new ones are blank, the others are
  as before and the invariant holds.\<close>

lemma get_memdimm_insert:
  assumes "db_ok s"
  obtains s' where "get_memdimm so ch d True s = (Some (Key so ch d), s')" "db_ok s'" "same_conf s s'"
    "\<And>k. md_at k s' = (if k = Key so ch d \<and> md_at k s = None then Some (fresh_dimm so ch d (now s)) else md_at k s)"
proof (cases "md_at (Key so ch d) s")
  case None
  let ?e = "fresh_dimm so ch d (now s)"
  let ?t = "(md_dimms s)[key_hash (md_key ?e) := ?e # md_dimms s ! key_hash (md_key ?e)]"
  have ok: "dimm.placed (md_dimms s)" "distinct (dimm.keys (md_dimms s))"
    "md_numdimms s = int (dimm.entries (md_dimms s))" using assms by (simp_all add: db_ok_def)
  have "dimm.lookup (md_dimms s) (md_key ?e) = None" using None by (simp add: md_at_lookup)
  then have "db_ok (s\<lparr>md_dimms := ?t, md_numdimms := md_numdimms s + 1\<rparr>)"
    using ok dimm.placed_push [OF ok(1), of ?e] dimm.distinct_keys_push [OF ok(1,2), of ?e]
      dimm.entries_push [OF ok(1), of ?e] by (simp add: db_ok_def)
  moreover have "md_at k (s\<lparr>md_dimms := ?t, md_numdimms := md_numdimms s + 1\<rparr>) =
      (if k = Key so ch d \<and> md_at k s = None then Some ?e else md_at k s)" for k
    using dimm.lookup_push [OF ok(1), of ?e k] None by (auto simp: md_at_lookup)
  ultimately show thesis using that get_memdimm_new [OF None] by (simp add: same_conf_def)
next
  case (Some md)
  then show thesis using assms by (intro that [of s]) (auto simp: get_memdimm_found same_conf_def)
qed

lemma err_update_key [simp]: "md_key (err_update uc f md) = md_key md"
  by (simp add: err_update_def md_key_def)

lemma md_update_ok:
  assumes "db_ok s" and "\<And>md. md_key (f md) = md_key md"
  shows "db_ok (md_update k f s)" and "same_conf s (md_update k f s)"
    and "md_at k' (md_update k f s) = (if k' = k then map_option f (md_at k s) else md_at k' s)"
proof -
  have p: "dimm.placed (md_dimms s)" using assms(1) by (simp add: db_ok_def)
  show "db_ok (md_update k f s)"
    using assms(1) dimm.placed_change [OF p assms(2)] dimm.keys_change [OF p assms(2)]
    by (simp add: db_ok_def md_update_change dimm.entries_change)
  show "same_conf s (md_update k f s)" by (simp add: same_conf_def md_update_change)
  show "md_at k' (md_update k f s) = (if k' = k then map_option f (md_at k s) else md_at k' s)"
    using dimm.lookup_change [OF p assms(2)] by (simp add: md_at_lookup md_update_change)
qed

lemma db_ok_trig: "trig_step s s' \<Longrightarrow> db_ok s' = db_ok s"
  by (simp add: db_ok_def trig_memdb_frame)

lemma md_at_trig: "trig_step s s' \<Longrightarrow> md_at k s' = md_at k s"
  by (simp add: md_at_def trig_memdb_frame)

lemma same_conf_trans: "same_conf s t \<Longrightarrow> same_conf t u \<Longrightarrow> same_conf s u"
  by (simp add: same_conf_def)

section \<open>Accounting refines counting\<close>

text \<open>What the database promises about totals, without tables, buckets or triggers: a pair of 32-bit
  counters, corrected and uncorrected, per DIMM, zero for one that was never seen.\<close>

type_synonym counters = "dimm_key \<Rightarrow> u32 \<times> u32"

definition counts :: "'a memdb_state_scheme \<Rightarrow> counters" where
  "counts s k = (case md_at k s of None \<Rightarrow> (0, 0) | Some md \<Rightarrow> (et_count (md_ce md), et_count (md_uc md)))"

definition bump :: "bool \<Rightarrow> u32 \<Rightarrow> dimm_key \<Rightarrow> counters \<Rightarrow> counters" where
  "bump uc n k c = c(k := (if uc then (fst (c k), snd (c k) + n) else (fst (c k) + n, snd (c k))))"

definition spec_memory_error :: "bool \<Rightarrow> bool \<Rightarrow> int \<Rightarrow> int \<Rightarrow> int \<Rightarrow> bool \<Rightarrow> u32 \<Rightarrow> counters \<Rightarrow> counters" where
  "spec_memory_error per_dimm per_socket sock ch dimm uc lost c =
     (let c = (if per_dimm \<and> (ch \<noteq> -1 \<or> dimm \<noteq> -1) then bump uc 1 (Key sock ch dimm) c else c)
      in if per_socket
         then bump uc 1 (Key sock (-1) (-1)) (bump False (if lost = 0 then 0 else lost - 1) (Key sock (-1) (-1)) c)
         else c)"

text \<open>\<open>acc_step k uc n s s'\<close>: \<open>s'\<close> is \<open>s\<close> with \<open>n\<close> errors added to the DIMM \<open>k\<close>.\<close>

definition acc_step :: "dimm_key \<Rightarrow> bool \<Rightarrow> u32 \<Rightarrow> 'a memdb_state_scheme \<Rightarrow> 'a memdb_state_scheme \<Rightarrow> bool" where
  "acc_step k uc n s s' \<longleftrightarrow> db_ok s' \<and> same_conf s s' \<and> counts s' = bump uc n k (counts s)
     \<and> md_at k s' \<noteq> None"

lemma acc_step_trig:
  assumes "acc_step k uc n s t" and "trig_step t u"
  shows "acc_step k uc n s u"
proof -
  have "counts u = counts t" by (simp add: counts_def md_at_trig [OF assms(2)] fun_eq_iff)
  then show ?thesis
    using assms(1) db_ok_trig [OF assms(2)] md_at_trig [OF assms(2)]
      same_conf_trans [OF _ trig_memdb_frame(3) [OF assms(2)], of s] by (simp add: acc_step_def)
qed

lemma account_err_step:
  assumes "db_ok s" and "md_at k s = Some md"
  shows "acc_step k uc n s (account_err uc bc n t msg tt reporter k s)"
proof -
  let ?e = "err_at uc md"
  obtain over b where o: "bucket_account_t bc (et_bucket ?e) n t 1 = (over, b)" by fastforce
  let ?e' = "?e\<lparr>et_count := et_count ?e + n, et_bucket := b\<rparr>"
  let ?s = "md_update k (err_update uc (\<lambda>_. ?e')) s"
  have at: "md_at k' ?s = (if k' = k then Some (err_update uc (\<lambda>_. ?e') md) else md_at k' s)" for k'
    using md_update_ok(3) [OF assms(1), of "err_update uc (\<lambda>_. ?e')" k' k] assms(2) by simp
  have "counts ?s = bump uc n k (counts s)"
    by (rule ext, unfold counts_def bump_def at) (simp add: assms(2) err_update_def err_at_def)
  then have st: "acc_step k uc n s ?s"
    using md_update_ok(1,2) [OF assms(1), of "err_update uc (\<lambda>_. ?e')" k] at [of k]
    by (simp add: acc_step_def)
  have "trig_step ?s (memdb_trigger msg md' tt e bc None False reporter ?s)" for md' e
    by (rule memdb_trigger_frame)
  then have "acc_step k uc n s (memdb_trigger msg md' tt e bc None False reporter ?s)" for md' e
    using st acc_step_trig by blast
  then show ?thesis using st by (simp add: account_err_def assms(2) o Let_def)
qed

lemma account_memdb_step:
  assumes "db_ok s" and "md_at k s \<noteq> None"
  shows "acc_step k (has (m_status m) MCI_STATUS_UC) 1 s (account_memdb t k m reporter s)"
  using assms account_err_step [OF assms(1)] by (auto simp: account_memdb_def Let_def)

lemma bump_zero [simp]: "bump uc 0 k c = c"
  by (auto simp: bump_def)

lemma account_over_step:
  assumes "db_ok s" and "md_at k s \<noteq> None"
  shows "acc_step k False (if n = 0 then 0 else n - 1) s (account_over t k m n reporter s)"
proof (cases "n \<noteq> 0 \<and> n - 1 > 0")
  case True
  then show ?thesis using assms account_err_step [OF assms(1)] by (auto simp: account_over_def)
next
  case False
  then have "n = 0 \<or> n - 1 = 0" by (auto simp: word_gt_0)
  then show ?thesis using assms False by (auto simp: account_over_def acc_step_def same_conf_def)
qed

lemma get_counts:
  assumes "\<And>k. md_at k s' = (if k = key \<and> md_at k s = None then Some (fresh_dimm so ch d t) else md_at k s)"
  shows "counts s' = counts s"
  by (rule ext) (auto simp: counts_def assms fresh_dimm_def zero_errors_def split: option.split)

lemma get_account_step:
  assumes "db_ok s"
  shows "\<exists>s'. get_memdimm so ch d True s = (Some (Key so ch d), s') \<and> db_ok s' \<and> same_conf s s'
    \<and> counts s' = counts s \<and> md_at (Key so ch d) s' \<noteq> None"
proof -
  obtain s' where s': "get_memdimm so ch d True s = (Some (Key so ch d), s')" "db_ok s'" "same_conf s s'"
    "\<And>k. md_at k s' = (if k = Key so ch d \<and> md_at k s = None then Some (fresh_dimm so ch d (now s)) else md_at k s)"
    using get_memdimm_insert [OF assms] by blast
  then show ?thesis using get_counts [OF s'(4)] by auto
qed

lemma memory_error_step:
  assumes "db_ok s" and "endof_field ''socketid'' \<le> recordlen"
  shows "db_ok (memory_error m ch dimm n recordlen s) \<and> same_conf s (memory_error m ch dimm n recordlen s) \<and>
    counts (memory_error m ch dimm n recordlen s) =
      spec_memory_error (memdb_enabled s) (sockdb_enabled s) (sint (m_socketid m)) ch dimm
        (has (m_status m) MCI_STATUS_UC) n (counts s)"
proof -
  let ?so = "sint (m_socketid m)" and ?uc = "has (m_status m) MCI_STATUS_UC"
  let ?per_dimm = "memdb_enabled s \<and> (ch \<noteq> -1 \<or> dimm \<noteq> -1)"
  let ?s1 = "if ?per_dimm then let (md, s) = get_memdimm ?so ch dimm True s
     in account_memdb (dimms s) (the md) m ''memdb'' s else s"
  obtain sd where sd: "get_memdimm ?so ch dimm True s = (Some (Key ?so ch dimm), sd)" "db_ok sd"
    "same_conf s sd" "counts sd = counts s" "md_at (Key ?so ch dimm) sd \<noteq> None"
    using get_account_step [OF assms(1)] by blast
  have one: "db_ok ?s1" "same_conf s ?s1"
    "counts ?s1 = (if ?per_dimm then bump ?uc 1 (Key ?so ch dimm) (counts s) else counts s)"
    using account_memdb_step [OF sd(2,5), of m "dimms sd" "''memdb''"] sd assms(1)
    by (auto simp: acc_step_def same_conf_def)
  obtain s2 where s2: "get_memdimm ?so (-1) (-1) True ?s1 = (Some (Key ?so (-1) (-1)), s2)" "db_ok s2"
    "same_conf ?s1 s2" "counts s2 = counts ?s1" "md_at (Key ?so (-1) (-1)) s2 \<noteq> None"
    using get_account_step [OF one(1)] by blast
  let ?s3 = "account_over (sockets s2) (Key ?so (-1) (-1)) m n ''sockdb_fallback'' s2"
  have st3: "acc_step (Key ?so (-1) (-1)) False (if n = 0 then 0 else n - 1) s2 ?s3"
    by (rule account_over_step [OF s2(2,5)])
  then have st4: "acc_step (Key ?so (-1) (-1)) ?uc 1 ?s3
      (account_memdb (sockets ?s3) (Key ?so (-1) (-1)) m ''sockdb_memdb'' ?s3)"
    by (intro account_memdb_step) (simp_all add: acc_step_def)
  have e: "memory_error m ch dimm n recordlen s = (if sockdb_enabled s
      then account_memdb (sockets ?s3) (Key ?so (-1) (-1)) m ''sockdb_memdb'' ?s3 else ?s1)"
    using assms(2) one(2) s2(1) by (simp add: memory_error_def Let_def same_conf_def not_less del: if_split)
  have "same_conf s (account_memdb (sockets ?s3) (Key ?so (-1) (-1)) m ''sockdb_memdb'' ?s3)"
    using same_conf_trans [OF same_conf_trans [OF same_conf_trans [OF one(2) s2(3)]]] st3 st4 unfolding acc_step_def by blast
  then have "same_conf s (memory_error m ch dimm n recordlen s)" using one(2) unfolding e by simp
  then show ?thesis using st3 st4 one s2(4) e
    by (simp add: acc_step_def spec_memory_error_def Let_def)
qed

text \<open>
  C4: accounting a memory error is counting. On a database that satisfies its invariant, and with a
  record that carries a socket id, \<open>memory_error\<close> keeps the invariant and changes the totals exactly as
  the specification says: one error for the DIMM if it is known and DIMMs are tracked, one for the
  socket if sockets are tracked, together with the errors that the hardware counted but did not log,
  and nothing for any other DIMM. Neither the hash table nor the buckets nor a trigger interferes.
\<close>

theorem memory_error_counts:
  assumes "db_ok s" and "endof_field ''socketid'' \<le> recordlen"
  shows "db_ok (memory_error m ch dimm n recordlen s) \<and>
    counts (memory_error m ch dimm n recordlen s) =
      spec_memory_error (memdb_enabled s) (sockdb_enabled s) (sint (m_socketid m)) ch dimm
        (has (m_status m) MCI_STATUS_UC) n (counts s)"
  using memory_error_step [OF assms] by blast

text \<open>\<open>keeps_db\<close>: no error is counted; new DIMMs may have been entered with blank counters.\<close>

definition keeps_db :: "'a memdb_state_scheme \<Rightarrow> 'a memdb_state_scheme \<Rightarrow> bool" where
  "keeps_db s s' \<longleftrightarrow> (db_ok s \<longrightarrow> db_ok s' \<and> same_conf s s' \<and> counts s' = counts s)"

lemma keeps_db_refl [frame]: "keeps_db s s"
  by (simp add: keeps_db_def same_conf_def)

lemma keeps_db_trans: "keeps_db s t \<Longrightarrow> keeps_db t u \<Longrightarrow> keeps_db s u"
  by (auto simp: keeps_db_def same_conf_def)

lemma keeps_db_trig: "trig_step s s' \<Longrightarrow> keeps_db s s'"
  by (simp add: keeps_db_def db_ok_trig trig_memdb_frame counts_def md_at_trig fun_eq_iff)

lemma keeps_db_memdimm: "keeps_db s (snd (get_memdimm so ch d True s))"
  using get_account_step [of s so ch d] by (auto simp: keeps_db_def)

lemma keeps_db_if [frame]: "(b \<Longrightarrow> keeps_db s t) \<Longrightarrow> (\<not> b \<Longrightarrow> keeps_db s u) \<Longrightarrow> keeps_db s (if b then t else u)"
  by simp

lemma keeps_db_same:
  "md_dimms s' = md_dimms s \<Longrightarrow> md_numdimms s' = md_numdimms s \<Longrightarrow> same_conf s s' \<Longrightarrow> keeps_db s s'"
  by (simp add: keeps_db_def db_ok_def counts_def md_at_def fun_eq_iff)

definition no_conf :: bucket_conf where
  "no_conf = \<lparr>bc_capacity = 0, bc_agetime = 0, bc_tunit = CHR 0x00, bc_log = 0, bc_trigger = None\<rparr>"

definition empty_db :: "bool \<Rightarrow> bool \<Rightarrow> memdb_state" where
  "empty_db per_dimm per_socket = trigger_state.extend example_trigger (memdb_state.fields 0
     (replicate MD_SHASH []) \<lparr>ce_bucket_conf = no_conf, uc_bucket_conf = no_conf, tr_type = ''DIMM''\<rparr>
     \<lparr>ce_bucket_conf = no_conf, uc_bucket_conf = no_conf, tr_type = ''Socket''\<rparr> per_dimm per_socket True
     False False False None)"

definition blank_mce :: mce where
  "blank_mce = \<lparr>m_status = 0, m_misc = 0, m_addr = 0, m_mcgstatus = 0, m_ip = 0, m_tsc = 0, m_time = 0,
     m_cpuvendor = 0, m_pad1 = 0, m_pad2 = 0, m_cpuid = 0, m_cs = 0, m_bank = 0, m_cpu = 0, m_finished = 0,
     m_extcpu = 0, m_socketid = 0, m_apicid = 0, m_mcgcap = 0, m_synd = 0, m_ipid = 0, m_ppin = 0,
     m_microcode = 0, m_kflags = 0\<rparr>"

lemma empty_db_sel:
  "md_dimms (empty_db a b) = replicate MD_SHASH []" "md_numdimms (empty_db a b) = 0"
  "memdb_enabled (empty_db a b) = a" "sockdb_enabled (empty_db a b) = b"
  by (simp_all add: empty_db_def trigger_state.defs memdb_state.defs example_trigger_def config_state.defs
      example_config_def msg_state.defs quiet_state_def)

lemma empty_db_ok: "db_ok (empty_db a b)"
  by (simp add: db_ok_def empty_db_sel dimm.placed_empty dimm.keys_def dimm.entries_def)

lemma empty_db_counts: "counts (empty_db a b) = (\<lambda>k. (0, 0))"
  by (rule ext) (simp add: counts_def md_at_lookup empty_db_sel dimm.lookup_empty)

theorem memory_error_counts_witness:
  "counts (memory_error blank_mce 1 0 5 128 (empty_db True True)) (Key 0 1 0) = (1, 0)
   \<and> counts (memory_error blank_mce 1 0 5 128 (empty_db True True)) (Key 0 (-1) (-1)) = (5, 0)
   \<and> counts (memory_error blank_mce 1 0 5 128 (empty_db True True)) (Key 1 1 0) = (0, 0)"
  using memory_error_counts [of "empty_db True True" 128 blank_mce 1 0 5]
  by (simp add: empty_db_ok empty_db_counts empty_db_sel mce_offsets spec_memory_error_def bump_def blank_mce_def has_def)


section \<open>The report is sorted\<close>

text \<open>\<open>qsort\<close> may be handed any comparison; this one is the order of the keys, as long as no
  difference of two numbers leaves the range of an \<open>int\<close>.\<close>

definition small_key :: "memdimm \<Rightarrow> bool" where
  "small_key md \<longleftrightarrow> (\<forall>x\<in>{md_socketid md, md_channel md, md_dimm md}. - (2 ^ 30) \<le> x \<and> x < 2 ^ 30)"

lemma sint_diff_small:
  assumes "- (2 ^ 30) \<le> x" "x < 2 ^ 30" "- (2 ^ 30) \<le> y" "y < (2 ^ 30 :: int)"
  shows "sint (of_int (x - y) :: u32) = x - y"
proof -
  have "signed_take_bit 31 (x - y) = x - y" using assms by (intro signed_take_bit_int_eq_self) simp_all
  then show ?thesis by (simp only: sint_sbintrunc' len_num1 len_bit0 len_num0) simp
qed

lemma cmp_dimm_order:
  assumes "small_key a" "small_key b"
  shows "cmp_dimm a b < 0 \<longleftrightarrow> md_key a < md_key b" and "cmp_dimm a b = 0 \<longleftrightarrow> md_key a = md_key b"
  using assms by (auto simp: cmp_dimm_def Let_def md_key_def less_dimm_key_def small_key_def sint_diff_small
      simp del: of_int_diff)

lemma dimm_in_table: "db_ok s \<Longrightarrow> md \<in> set (md_dimms s ! key_hash k) \<Longrightarrow> md \<in> set (concat (md_dimms s))"
proof -
  assume "db_ok s" and md: "md \<in> set (md_dimms s ! key_hash k)"
  then have "md_dimms s ! key_hash k \<in> set (md_dimms s)"
    using key_hash_less [of k] by (simp add: db_ok_def dimm.placed_def)
  then show ?thesis using md by auto
qed

lemma md_at_in_table:
  assumes "db_ok s" "md \<in> set (concat (md_dimms s))"
  shows "md_at (md_key md) s = Some md"
proof -
  have "dimm.lookup (md_dimms s) (md_key md) \<noteq> None"
    using assms by (simp add: db_ok_def dimm.lookup_None_iff dimm.keys_def)
  then obtain md' where l: "dimm.lookup (md_dimms s) (md_key md) = Some md'" by blast
  then have "md' \<in> set (concat (md_dimms s))" "md_key md' = md_key md"
    using dimm_in_table [OF assms(1)] dimm.lookup_Some [OF l] by auto
  moreover have "inj_on md_key (set (concat (md_dimms s)))"
    using assms(1) by (simp only: db_ok_def dimm.keys_def distinct_map)
  ultimately have "md' = md" using assms(2) by (blast dest: inj_onD)
  then show ?thesis using l by (simp add: md_at_lookup)
qed

lemma sorted_dimms_keys: "db_ok s \<Longrightarrow> distinct (map md_key (sorted_dimms s))"
  by (simp add: db_ok_def sorted_dimms_def dimm.keys_def distinct_map)

lemma dump_dimm_counts: "et_count (md_ce (snd (dump_dimm md flags s))) = et_count (md_ce md)"
  "et_count (md_uc (snd (dump_dimm md flags s))) = et_count (md_uc md)"
  "md_key (snd (dump_dimm md flags s)) = md_key md"
  by (simp_all add: dump_dimm_def dump_errtype_def split_beta Let_def md_key_def)

text \<open>The report ages the buckets and leaves the counters alone.\<close>

lemma dump_loop_counts:
  assumes "db_ok s" "distinct (map md_key mds)" "\<And>md. md \<in> set mds \<Longrightarrow> md_at (md_key md) s = Some md"
  shows "db_ok (snd (dump_loop first mds flags s)) \<and> same_conf s (snd (dump_loop first mds flags s)) \<and>
    counts (snd (dump_loop first mds flags s)) = counts s"
  using assms
proof (induction mds arbitrary: s first)
  case Nil
  then show ?case by (simp add: same_conf_def)
next
  case (Cons md mds)
  define md' where "md' = snd (dump_dimm md flags s)"
  define f where "f x = (if md_key x = md_key md then md' else x)" for x
  have k: "md_key (f x) = md_key x" for x by (simp add: f_def md'_def dump_dimm_counts)
  define s1 where "s1 = md_update (md_key md) (\<lambda>_. md') s"
  have s1: "s1 = md_update (md_key md) f s" by (simp add: s1_def md_update_def f_def cong: if_cong)
  have at: "md_at k' s1 = (if k' = md_key md then Some md' else md_at k' s)" for k'
    using md_update_ok(3) [OF Cons.prems(1), of f] k Cons.prems(3) [of md] by (simp add: s1 f_def)
  have ok: "db_ok s1" "same_conf s s1" using md_update_ok(1,2) [OF Cons.prems(1), of f] k by (simp_all add: s1)
  have "counts s1 = counts s"
    using Cons.prems(3) [of md] by (auto simp: fun_eq_iff counts_def at md'_def dump_dimm_counts)
  moreover have "md_at (md_key x) s1 = Some x" if "x \<in> set mds" for x
    using that Cons.prems(2,3) by (auto simp: at dest: sym)
  ultimately show ?case
    using Cons.IH [OF ok(1), of False] Cons.prems(2) ok(2) same_conf_trans
    by (auto simp: split_beta Let_def s1_def [symmetric] md'_def [symmetric])
qed

lemma keeps_db_dump: "keeps_db s (snd (dump_memory_errors flags s))"
proof -
  have at: "md_at (md_key md) s = Some md" if "db_ok s" "md \<in> set (sorted_dimms s)" for md
    using that md_at_in_table by (simp add: sorted_dimms_def)
  show ?thesis
    using dump_loop_counts [OF _ sorted_dimms_keys at] by (auto simp: keeps_db_def dump_memory_errors_def)
qed


lemma get_memdimm_ok: "db_ok s \<Longrightarrow> db_ok (snd (get_memdimm so ch d True s))"
  using get_account_step [of s so ch d] by auto

definition two_dimms :: memdb_state where
  "two_dimms = snd (get_memdimm 0 1 2 True (snd (get_memdimm 1 0 0 True (empty_db True True))))"


section \<open>Bank locators\<close>

lemma locator_fmts:
  "scanf_fmt STxt ''_Node%u_Channel%u_Dimm%u'' =
     map DLit ''_Node'' @ DConv 0 (CHR ''u'') # map DLit ''_Channel'' @ DConv 0 (CHR ''u'') #
     map DLit ''_Dimm'' @ [DConv 0 (CHR ''u'')]"
  "scanf_fmt STxt ''NODE %u CHANNEL %u DIMM %u'' =
     map DLit ''NODE'' @ DSpace # DConv 0 (CHR ''u'') # DSpace # map DLit ''CHANNEL'' @ DSpace #
     DConv 0 (CHR ''u'') # DSpace # map DLit ''DIMM'' @ [DSpace, DConv 0 (CHR ''u'')]"
  "scanf_fmt STxt ''Node%u_Bank%u'' =
     map DLit ''Node'' @ DConv 0 (CHR ''u'') # map DLit ''_Bank'' @ [DConv 0 (CHR ''u'')]"
  by code_simp+

lemma scan_lits [simp]: "scan n (map DLit l @ ds) (l @ s) k acc = scan n ds s k acc"
  by (induction l) simp_all

lemma scan_number:
  assumes "rest = [] \<or> \<not> isdigit (hd rest)"
  shows "scan n (DConv 0 (CHR ''u'') # ds) (radix 10 (unat (w :: u32)) @ rest) k acc =
    scan n ds rest (Suc k) (acc @ [SN (uint w)])"
proof -
  obtain d r where d: "radix 10 (unat w) = d # r" "isdigit d" by (rule radix10_conv)
  have lt: "int (unat w) < 2 ^ 64" using uint_lt2p [of w] by simp
  then show ?thesis using scan_num_radix [OF assms lt, of "CHR ''u''"] d digit_not_space by simp
qed

lemma scan_last_number:
  "scan n (DConv 0 (CHR ''u'') # ds) (radix 10 (unat (w :: u32))) k acc = scan n ds [] (Suc k) (acc @ [SN (uint w)])"
  using scan_number [of "[]"] by simp

definition node_locator :: "string \<Rightarrow> u32 \<Rightarrow> u32 \<Rightarrow> u32 \<Rightarrow> string" where
  "node_locator board so ch d = board @ ''_Node'' @ radix 10 (unat so) @ ''_Channel'' @ radix 10 (unat ch)
     @ ''_Dimm'' @ radix 10 (unat d)"



definition ami_locator :: "u32 \<Rightarrow> u32 \<Rightarrow> string" where
  "ami_locator so d = ''Node'' @ radix 10 (unat so) @ ''_Bank'' @ radix 10 (unat d)"

text \<open>
  A locator without a channel keeps the channel of the device before it. The format of AMI boards
  names only the node and the bank; the channel under which the DIMM is filed is whatever the variable
  held, which is the channel of the previous device, or an uninitialised value for the first.
\<close>

lemma ami_locator_stale_channel:
  "parse_dimm_addr (Some (ami_locator so d)) (so', ch', d') = (True, (so, ch', d))"
proof -
  have "CHR ''_'' \<notin> set (radix 10 n)" for n
    using radix10_digits [of n] by (auto simp: list_all_iff isdigit_def)
  then have "drop (strcspn (ami_locator so d) (CHR ''_'')) (ami_locator so d) = ''_Bank'' @ radix 10 (unat d)"
    by (simp add: ami_locator_def strcspn_def takeWhile_cut)
  moreover have "sscanf (''_Bank'' @ x) ''_Node%u_Channel%u_Dimm%u'' = (0, [])" for x
    unfolding sscanf_def locator_fmts by simp
  moreover have "sscanf (ami_locator so d) ''NODE %u CHANNEL %u DIMM %u'' = (0, [])"
    unfolding sscanf_def locator_fmts ami_locator_def by simp
  moreover have "sscanf (ami_locator so d) ''Node%u_Bank%u'' = (2, [SN (uint so), SN (uint d)])"
    unfolding sscanf_def locator_fmts ami_locator_def
    by (simp add: scan_number scan_last_number isdigit_def del: scan.simps(4) list.map append_Cons append.simps)
  ultimately show ?thesis by (simp add: parse_dimm_addr_def)
qed

end
