(* ===== verification/Report.thy ===== *)
theory Report
  imports MemDb
begin

text \<open>
  The triggers that report single events: large numbers of corrected cache errors
  (\<^verbatim>\<open>src/yellow.c\<close>, with the list of processors that share the cache from \<^verbatim>\<open>src/cache.c\<close>), bus and
  IO errors (\<^verbatim>\<open>src/bus.c\<close>) and unknown errors (\<^verbatim>\<open>src/unknown.c\<close>).
\<close>

section \<open>Which processors share a cache\<close>

definition INSTR :: nat where "INSTR = 0"
definition DATA :: nat where "DATA = 1"
definition UNIFIED :: nat where "UNIFIED = 2"

record cache =
  ca_level :: u32
  ca_type :: nat
  ca_cpumap :: "u32 list option"     \<comment> \<open>None: NULL, which ends a list of caches\<close>

record report_state = memdb_state +
  caches :: "cache list option list option"  \<comment> \<open>by processor; None: not read yet\<close>
  os_caches :: "cache list option list option option"  \<comment> \<open>what read_caches finds; None: it fails\<close>
  yellow_trigger :: "string option"
  yellow_log :: bool
  bus_trigger :: "string option"
  iomca_trigger :: "string option"
  unknown_trigger :: "string option"
  cpu_type :: cputype                        \<comment> \<open>the global cputype of mcelog.c\<close>

definition BITS_PER_INT :: nat where "BITS_PER_INT = 32"

definition round_up :: "nat \<Rightarrow> nat \<Rightarrow> nat" where
  "round_up x y = nat ((int x + int y - 1) AND NOT (int y - 1))"

text \<open>The length in bytes of a mask in sysfs, groups of hexadecimal digits separated by commas. The
  loop also handles the terminating NUL, which closes the last group.\<close>

fun cpumap_len_loop :: "string \<Rightarrow> nat \<Rightarrow> nat \<Rightarrow> nat" where
  "cpumap_len_loop [] len width = len + round_up (width * 4) BITS_PER_INT div 8"
| "cpumap_len_loop (c # s) len width =
     (if isxdigit c then cpumap_len_loop s len (width + 1)
      else cpumap_len_loop s (len + round_up (width * 4) BITS_PER_INT div 8) 0)"

definition cpumap_len :: "string \<Rightarrow> nat" where
  "cpumap_len s = cpumap_len_loop s 0 0"

text \<open>\<open>strtoul(s, NULL, 16)\<close>, stored in an \<open>unsigned\<close>.\<close>

definition strtoul16 :: "string \<Rightarrow> u32" where
  "strtoul16 s = (case scan_num 0 (CHR ''x'') (skipspace s) of
     Some (SN v, r) \<Rightarrow> word_of_int v | _ \<Rightarrow> 0)"

fun comma_groups :: "string \<Rightarrow> string list" where
  "comma_groups [] = [[]]"
| "comma_groups (c # s) =
     (if c = CHR '','' then [] # comma_groups s
      else case comma_groups s of g # gs \<Rightarrow> (c # g) # gs | [] \<Rightarrow> [[c]])"

text \<open>The groups from the last to the first; \<open>strtoul\<close> stops at the comma that ends a group. The
  result is the buffer, or \<open>None\<close> when the assertion on its length fails.\<close>

definition parse_cpumap :: "string \<Rightarrow> nat \<Rightarrow> u32 list option" where
  "parse_cpumap m len =
     (let buf = rev (map strtoul16 (comma_groups m))
      in if len = length buf * 4 then Some buf else None)"

fun find_cache :: "u32 \<Rightarrow> u32 \<Rightarrow> cache list \<Rightarrow> u32 list option" where
  "find_cache level type [] = None"
| "find_cache level type (c # cs) =
     (case ca_cpumap c of
        None \<Rightarrow> None
      | Some cpumap \<Rightarrow>
          if ca_level c = level \<and> (of_nat (ca_type c) = type \<or> ca_type c = UNIFIED) then Some cpumap
          else find_cache level type cs)"

definition cache_to_cpus :: "int \<Rightarrow> u32 \<Rightarrow> u32 \<Rightarrow> 'a report_state_scheme \<Rightarrow> u32 list option \<times> 'a report_state_scheme" where
  "cache_to_cpus cpu level type s =
     (let (fail, s) =
            (case caches s of
               Some _ \<Rightarrow> (False, s)
             | None \<Rightarrow>
                 (case os_caches s of
                    None \<Rightarrow> (True, Wput ''Cannot read cache topology from %s'' [PS ''/sys/devices/system/cpu''] s)
                  | Some None \<Rightarrow> (True, Wput ''No caches found in sysfs'' [] s)
                  | Some (Some cs) \<Rightarrow> (False, s\<lparr>caches := Some cs\<rparr>)))
      in if fail then (None, s)
         else let cs = the (caches s)
              in if cpu < 0 \<or> nat cpu \<ge> length cs
                 then (None, Wput ''Cannot find sysfs cache for CPU %d'' [PN cpu] s)
                 else (case (case cs ! nat cpu of None \<Rightarrow> None | Some l \<Rightarrow> find_cache level type l) of
                         Some m \<Rightarrow> (Some m, s)
                       | None \<Rightarrow> (None, Wput ''Cannot find sysfs cache for CPU %d'' [PN cpu] s)))"

section \<open>The cache trigger\<close>

definition mask_bit :: "nat \<Rightarrow> u32 list \<Rightarrow> bool" where
  "mask_bit i a \<longleftrightarrow> bit (a ! (i div 32)) (i mod 32)"

definition mask_cpus :: "u32 list \<Rightarrow> nat list" where
  "mask_cpus a = filter (\<lambda>i. mask_bit i a) [0..<length a * 32]"

fun join :: "string \<Rightarrow> string list \<Rightarrow> string" where
  "join sep [] = []"
| "join sep [x] = x"
| "join sep (x # y # r) = x @ sep @ join sep (y # r)"

definition cpulist :: "string \<Rightarrow> u32 list \<Rightarrow> string" where
  "cpulist prefix cpumask = prefix @ join '' '' (map (\<lambda>i. printf ''%u'' [PN (int i)]) (mask_cpus cpumask))"

definition location_text :: "int \<Rightarrow> int \<Rightarrow> string" where
  "location_text cpu socket =
     (if socket \<ge> 0 then printf ''CPU %d on socket %d'' [PN cpu, PN socket] else printf ''CPU %d'' [PN cpu])"

definition socket_env :: "int \<Rightarrow> string list" where
  "socket_env socket = (if socket \<ge> 0 then [printf ''SOCKETID=%d'' [PN socket]] else [])"

definition run_yellow_trigger :: "int \<Rightarrow> int \<Rightarrow> int \<Rightarrow> string \<Rightarrow> string \<Rightarrow> int \<Rightarrow>
    'a report_state_scheme \<Rightarrow> 'a report_state_scheme" where
  "run_yellow_trigger cpu tnum lnum ts ls socket s =
     (let msg = printf ''%s has large number of corrected cache errors in %s %s''
                  [PS (location_text cpu socket), PS ls, PS ts];
          s = (if yellow_log s
               then Lprintf ''System operating correctly, but might lead to uncorrected cache errors soon\<newline>'' []
                      (Lprintf ''%s\<newline>'' [PS msg] s)
               else s)
      in case yellow_trigger s of
           None \<Rightarrow> s
         | Some trigger \<Rightarrow>
             let (cpumask, s) = cache_to_cpus cpu (of_int lnum) (of_int tnum) s;
                 env = socket_env socket @
                   [printf ''MESSAGE=%s'' [PS msg], printf ''CPU=%d'' [PN cpu],
                    if lnum \<le> 3 then printf ''LEVEL=%d'' [PN lnum] else ''LEVEL=Generic'',
                    printf ''TYPE=%s'' [PS ts],
                    case cpumask of Some m \<Rightarrow> cpulist ''AFFECTED_CPUS='' m | None \<Rightarrow> ''AFFECTED_CPUS=unknown'']
             in run_trigger trigger None env False ''yellow'' s)"

definition check_trigger :: "string option \<Rightarrow> string \<Rightarrow> 'a report_state_scheme \<Rightarrow>
    ('a report_state_scheme, unit) outcome" where
  "check_trigger trigger what s =
     (case trigger of
        None \<Rightarrow> Ret () s
      | Some t \<Rightarrow> if trigger_check t s < 0
                  then Exit 1 (SYSERRprintf (''Cannot access '' @ what @ '' trigger `%s'' @ [CHR 0x27]) [PS t] s)
                  else Ret () s)"

definition yellow_setup :: "'a report_state_scheme \<Rightarrow> ('a report_state_scheme, unit) outcome" where
  "yellow_setup s =
     (let s = s\<lparr>yellow_trigger := config_string ''cache'' ''cache-threshold-trigger'' s\<rparr>
      in andthen (check_trigger (yellow_trigger s) ''cache threshold'' s) (\<lambda>_ s.
         andthen (config_bool ''cache'' ''cache-threshold-log'' s) (\<lambda>n s.
           Ret () (if n \<ge> 0 then s\<lparr>yellow_log := (n \<noteq> 0)\<rparr> else s))))"

section \<open>Bus, IO and unknown errors\<close>

definition bus_setup :: "'a report_state_scheme \<Rightarrow> ('a report_state_scheme, unit) outcome" where
  "bus_setup s =
     (let s = s\<lparr>bus_trigger := config_string ''socket'' ''bus-uc-threshold-trigger'' s\<rparr>
      in andthen (check_trigger (bus_trigger s) ''bus threshold'' s) (\<lambda>_ s.
           let s = s\<lparr>iomca_trigger := config_string ''socket'' ''iomca-threshold-trigger'' s\<rparr>
           in check_trigger (iomca_trigger s) ''iomca threshold'' s))"

definition run_bus_trigger :: "int \<Rightarrow> int \<Rightarrow> string \<Rightarrow> string \<Rightarrow> string \<Rightarrow> string \<Rightarrow> string \<Rightarrow>
    'a report_state_scheme \<Rightarrow> 'a report_state_scheme" where
  "run_bus_trigger socket cpu level pp rrrr ii timeout s =
     (case bus_trigger s of
        None \<Rightarrow> s
      | Some trigger \<Rightarrow>
          let location = location_text cpu socket;
              msg = printf ''%s received Bus and Interconnect Errors in %s'' [PS location, PS ii];
              env = printf ''LOCATION=%s'' [PS location] # socket_env socket @
                [printf ''MESSAGE=%s'' [PS msg], printf ''CPU=%d'' [PN cpu], printf ''LEVEL=%s'' [PS level],
                 printf ''PARTICIPATION=%s'' [PS pp], printf ''REQUEST=%s'' [PS rrrr],
                 printf ''ORIGIN=%s'' [PS ii], printf ''TIMEOUT=%s'' [PS timeout]]
          in run_trigger trigger None env False ''bus'' s)"

definition run_iomca_trigger :: "int \<Rightarrow> int \<Rightarrow> u32 \<Rightarrow> u32 \<Rightarrow> u32 \<Rightarrow> u32 \<Rightarrow>
    'a report_state_scheme \<Rightarrow> 'a report_state_scheme" where
  "run_iomca_trigger socket cpu seg bus dev fn s =
     (case iomca_trigger s of
        None \<Rightarrow> s
      | Some trigger \<Rightarrow>
          let location = location_text cpu socket;
              msg = printf ''%s received IO MCA Errors from %x:%02x:%02x.%x''
                      [PS location, PU seg, PU bus, PU dev, PU fn];
              env = printf ''LOCATION=%s'' [PS location] # socket_env socket @
                [printf ''MESSAGE=%s'' [PS msg], printf ''CPU=%d'' [PN cpu], printf ''SEG=%x'' [PU seg],
                 printf ''BUS=%02x'' [PU bus], printf ''DEVICE=%02x'' [PU dev], printf ''FUNCTION=%x'' [PU fn]]
          in run_trigger trigger None env False ''iomca'' s)"

definition unknown_setup :: "'a report_state_scheme \<Rightarrow> ('a report_state_scheme, unit) outcome" where
  "unknown_setup s =
     (let s = s\<lparr>unknown_trigger := config_string ''socket'' ''unknown-threshold-trigger'' s\<rparr>
      in check_trigger (unknown_trigger s) ''unknown threshold'' s)"

definition run_unknown_trigger :: "int \<Rightarrow> int \<Rightarrow> mce \<Rightarrow> 'a report_state_scheme \<Rightarrow> 'a report_state_scheme" where
  "run_unknown_trigger socket cpu m s =
     (case unknown_trigger s of
        None \<Rightarrow> s
      | Some trigger \<Rightarrow>
          let location = location_text cpu socket;
              msg = printf ''%s received unknown error'' [PS location];
              env = printf ''LOCATION=%s'' [PS location] # socket_env socket @
                [printf ''MESSAGE=%s'' [PS msg], printf ''CPU=%d'' [PN cpu],
                 printf ''STATUS=%llx'' [PU (m_status m)], printf ''MISC=%llx'' [PU (m_misc m)],
                 printf ''ADDR=%llx'' [PU (m_addr m)], printf ''MCGSTATUS=%llx'' [PU (m_mcgstatus m)],
                 printf ''MCGCAP=%llx'' [PU (m_mcgcap m)]]
          in run_trigger trigger None env False ''unknown'' s)"

section \<open>Frames\<close>

text \<open>\<open>rep_step\<close>: some output, some triggers, and possibly the cache table read for the first time.\<close>

definition rep_step :: "'a report_state_scheme \<Rightarrow> 'a report_state_scheme \<Rightarrow> bool" where
  "rep_step s s' \<longleftrightarrow> (\<exists>t c. trig_step s t \<and> s' = t\<lparr>caches := c\<rparr>)"

lemma trig_step_caches: "trig_step s t \<Longrightarrow> trig_step (s\<lparr>caches := c\<rparr>) (t\<lparr>caches := c\<rparr>)"
proof -
  assume "trig_step s t"
  then obtain es p l f k n where "t = s\<lparr>events := events s @ es, syslog_opened := p, syslog_line := l,
      os_fork := f, childlist := k, num_children := n\<rparr>" unfolding trig_step_def by blast
  then show ?thesis unfolding trig_step_def
    by (intro exI [of _ es] exI [of _ p] exI [of _ l] exI [of _ f] exI [of _ k] exI [of _ n]) simp
qed

lemma rep_step_trig: "trig_step s t \<Longrightarrow> rep_step s t"
  unfolding rep_step_def by (intro exI [of _ t] exI [of _ "caches t"]) simp

lemma rep_step_refl [frame]: "rep_step s s"
  by (rule rep_step_trig) (rule trig_step_refl)

lemma rep_step_trans: "rep_step s t \<Longrightarrow> rep_step t u \<Longrightarrow> rep_step s u"
proof -
  assume "rep_step s t" "rep_step t u"
  then obtain t1 c u1 d where 1: "trig_step s t1" "t = t1\<lparr>caches := c\<rparr>" "trig_step t u1" "u = u1\<lparr>caches := d\<rparr>"
    unfolding rep_step_def by blast
  then have "trig_step t1 (u1\<lparr>caches := caches t1\<rparr>)"
    using trig_step_caches [OF 1(3), of "caches t1"] by simp
  from trig_step_trans [OF 1(1) this] show ?thesis
    unfolding rep_step_def 1(4) by (intro exI [of _ "u1\<lparr>caches := caches t1\<rparr>"] exI [of _ d]) simp
qed

lemma rep_step_msg: "msg_step s t \<Longrightarrow> rep_step s t"
  by (intro rep_step_trig msg_trig_step)

lemma rep_step_caches: "rep_step s (s\<lparr>caches := c\<rparr>)"
  unfolding rep_step_def using trig_step_refl by blast

lemma rep_step_if [frame]:
  "(b \<Longrightarrow> rep_step s t) \<Longrightarrow> (\<not> b \<Longrightarrow> rep_step s u) \<Longrightarrow> rep_step s (if b then t else u)"
  by simp

lemmas rep_step_prints [frame] =
  msg_step_printf [OF msg_step_refl, THEN rep_step_msg, THEN rep_step_trans [rotated]]
  msg_step_Wput [OF msg_step_refl, THEN rep_step_msg, THEN rep_step_trans [rotated]]
  msg_step_bitfield [OF msg_step_refl, THEN rep_step_msg, THEN rep_step_trans [rotated]]
  msg_step_numfield [OF msg_step_refl, THEN rep_step_msg, THEN rep_step_trans [rotated]]

lemma rep_step_run [frame]: "rep_step s t \<Longrightarrow> rep_step s (run_trigger trigger argv env sync reporter t)"
  by (erule rep_step_trans) (rule rep_step_trig [OF trig_step_run [OF trig_step_refl]])

lemma cache_to_cpus_frame [frame]: "rep_step s t \<Longrightarrow> rep_step s (snd (cache_to_cpus cpu level type t))"
proof (erule rep_step_trans)
  have w: "rep_step (t\<lparr>caches := c\<rparr>) (Wput f a (t\<lparr>caches := c\<rparr>))" for c f a by (intro frame)
  have "rep_step t (t\<lparr>caches := c\<rparr>)" "rep_step t (Wput f a (t\<lparr>caches := c\<rparr>))" "rep_step t (Wput f a t)" for c f a
    using rep_step_caches [of t c] rep_step_trans [OF rep_step_caches w] rep_step_prints(7) [OF rep_step_refl] by auto
  then show "rep_step t (snd (cache_to_cpus cpu level type t))"
    by (auto simp: cache_to_cpus_def Let_def rep_step_refl split: option.split)
qed

lemma run_bus_frame [frame]: "rep_step s t \<Longrightarrow> rep_step s (run_bus_trigger socket cpu level pp rrrr ii timeout t)"
  unfolding run_bus_trigger_def Let_def by (auto split: option.split intro: rep_step_run)

lemma run_iomca_frame [frame]: "rep_step s t \<Longrightarrow> rep_step s (run_iomca_trigger socket cpu seg bus dev fn t)"
  unfolding run_iomca_trigger_def Let_def by (auto split: option.split intro: rep_step_run)

lemma run_unknown_frame [frame]: "rep_step s t \<Longrightarrow> rep_step s (run_unknown_trigger socket cpu m t)"
  unfolding run_unknown_trigger_def Let_def by (auto split: option.split intro: rep_step_run)

lemma run_yellow_frame [frame]: "rep_step s t \<Longrightarrow> rep_step s (run_yellow_trigger cpu tnum lnum ts ls socket t)"
proof (erule rep_step_trans)
  have "rep_step t (if yellow_log t then Lprintf f a (Lprintf f' a' t) else t)" for f a f' a' by (intro frame)
  then show "rep_step t (run_yellow_trigger cpu tnum lnum ts ls socket t)"
    unfolding run_yellow_trigger_def Let_def split_beta
    by (auto split: option.split intro!: rep_step_run cache_to_cpus_frame frame)
qed

lemma rep_memdb_frame:
  assumes "rep_step s s'"
  shows "md_dimms s' = md_dimms s" "md_numdimms s' = md_numdimms s" "same_conf s s'" "md_at k s' = md_at k s"
proof -
  obtain t c where t: "trig_step s t" "s' = t\<lparr>caches := c\<rparr>" using assms unfolding rep_step_def by blast
  show "md_dimms s' = md_dimms s" "md_numdimms s' = md_numdimms s" "same_conf s s'"
    using trig_memdb_frame [OF t(1)] by (simp_all add: t(2) same_conf_def)
  then show "md_at k s' = md_at k s" by (simp add: md_at_def)
qed

section \<open>Processor masks\<close>

definition hex_group :: "string \<Rightarrow> bool" where
  "hex_group g \<longleftrightarrow> g \<noteq> [] \<and> length g \<le> 8 \<and> list_all isxdigit g"

lemma comma_not_hex: "\<not> isxdigit (CHR '','')"
  by (simp add: isxdigit_def isdigit_def tolower_def isupper_def)

lemma comma_groups_hex:
  "list_all isxdigit g \<Longrightarrow> comma_groups (g @ CHR '','' # r) = g # comma_groups r"
  "list_all isxdigit g \<Longrightarrow> comma_groups g = [g]"
  by (induction g) (use comma_not_hex in auto)

lemma comma_groups_join:
  "gs \<noteq> [] \<Longrightarrow> list_all hex_group gs \<Longrightarrow> comma_groups (join '','' gs) = gs"
proof (induction gs)
  case (Cons g gs)
  then show ?case by (cases gs) (auto simp: hex_group_def comma_groups_hex)
qed simp

lemma cpumap_len_hex:
  "list_all isxdigit g \<Longrightarrow> cpumap_len_loop (g @ r) len w = cpumap_len_loop r len (w + length g)"
  by (induction g arbitrary: w) auto

lemma group_bytes: "hex_group g \<Longrightarrow> round_up (length g * 4) BITS_PER_INT div 8 = 4"
proof -
  assume "hex_group g"
  then have "1 \<le> length g" "length g \<le> 8" by (auto simp: hex_group_def Suc_leI)
  then have "length g \<in> {1, 2, 3, 4, 5, 6, 7, 8}" by auto
  then show ?thesis by (auto simp: round_up_def BITS_PER_INT_def)
qed

lemma cpumap_len_join:
  "gs \<noteq> [] \<Longrightarrow> list_all hex_group gs \<Longrightarrow> cpumap_len_loop (join '','' gs) len 0 = len + 4 * length gs"
proof (induction gs arbitrary: len)
  case (Cons g gs)
  then have g: "hex_group g" "list_all isxdigit g" by (simp_all add: hex_group_def)
  show ?case
  proof (cases gs)
    case Nil
    then show ?thesis using cpumap_len_hex [OF g(2), of "[]"] group_bytes [OF g(1)] by simp
  next
    case (Cons h hs)
    then show ?thesis
      using Cons.IH [of "len + 4"] Cons.prems cpumap_len_hex [OF g(2)] group_bytes [OF g(1)] comma_not_hex
      by simp
  qed
qed simp

text \<open>
  The mask of processors that share a cache is read without tripping the assertion. A mask as the
  kernel prints it, any number of groups of one to eight hexadecimal digits separated by commas, fills
  the buffer that was sized for it exactly, the last group first.
\<close>

lemma cpumap_read:
  assumes "gs \<noteq> []" and "list_all hex_group gs"
  shows "parse_cpumap (join '','' gs) (cpumap_len (join '','' gs)) = Some (rev (map strtoul16 gs))"
  using comma_groups_join [OF assms] cpumap_len_join [OF assms, of 0]
  by (simp add: parse_cpumap_def cpumap_len_def)

end
