(* ===== verification/Sysfs.thy ===== *)
theory Sysfs
  imports Config
begin

text \<open>
  Access to sysfs, \<^verbatim>\<open>src/sysfs.c\<close>. Reading a file is the answer \<open>os_read\<close>, opening and writing one the answer
  \<open>os_sysfs\<close>, a negative number when it fails.
\<close>

text \<open>At most 4096 bytes are read; the result ends at the first newline, as a C string at the first NUL.\<close>

definition read_field :: "string \<Rightarrow> string \<Rightarrow> 'a config_state_scheme \<Rightarrow> string \<times> 'a config_state_scheme" where
  "read_field base name s =
     (case os_read s (printf ''%s/%s'' [PS base, PS name]) of
        None \<Rightarrow> ([], SYSERRprintf ''Cannot read sysfs field %s/%s'' [PS base, PS name] s)
      | Some content \<Rightarrow> (takeWhile (\<lambda>c. c \<noteq> CHR ''\<newline>'' \<and> c \<noteq> CHR 0x00) (take 4096 content), s))"

definition read_field_num :: "string \<Rightarrow> string \<Rightarrow> 'a config_state_scheme \<Rightarrow> u32 \<times> 'a config_state_scheme" where
  "read_field_num base name s =
     (let (val, s) = read_field base name s
      in case sscanf val ''%u'' of
           (n, v # _) \<Rightarrow> if n = 1 then (of_int (sval_int v), s)
                        else (0, Eprintf ''Cannot parse number in sysfs field %s/%s\<newline>'' [PS base, PS name] s)
         | (n, []) \<Rightarrow> (0, Eprintf ''Cannot parse number in sysfs field %s/%s\<newline>'' [PS base, PS name] s))"

definition read_field_map :: "string \<Rightarrow> string \<Rightarrow> (string \<times> int) list \<Rightarrow> 'a config_state_scheme \<Rightarrow>
    u32 \<times> 'a config_state_scheme" where
  "read_field_map base name m s =
     (let (val, s) = read_field base name s
      in case map_of m val of
           Some v \<Rightarrow> (of_int v, s)
         | None \<Rightarrow> (-1, Eprintf (''sysfs field %s/%s has unknown string value `%s'' @ CHR 0x27 # ''\<newline>'')
                          [PS base, PS name, PS val] s))"

definition sysfs_write :: "string \<Rightarrow> string \<Rightarrow> parg list \<Rightarrow> 'a config_state_scheme \<Rightarrow> int \<times> 'a config_state_scheme" where
  "sysfs_write name fmt args s =
     (let n = os_sysfs s name (printf fmt args)
      in (n, if n < 0 then s else emit [ESysfs name (printf fmt args)] s))"

definition sysfs_available :: "string \<Rightarrow> 'a config_state_scheme \<Rightarrow> bool" where
  "sysfs_available name s = os_access s name"

lemma sysfs_write_frame [frame]: "msg_step s t \<Longrightarrow> msg_step s (snd (sysfs_write name fmt args t))"
  by (simp add: sysfs_write_def Let_def msg_step_intros)

end
