(* ===== verification/Caches.thy ===== *)
theory Caches
  imports Report Sysfs
begin

text \<open>
  The cache topology, the second part of \<^verbatim>\<open>src/cache.c\<close>: the walk over the directories of sysfs that finds the caches of every processor. Its result is the answer
  \<open>os_caches\<close> that \<open>cache_to_cpus\<close> of \<open>Report\<close> starts from.
\<close>

section \<open>Operations\<close>

definition CPU_PREFIX :: string where "CPU_PREFIX = ''/sys/devices/system/cpu''"
definition MIN_CPUS :: u32 where "MIN_CPUS = 8"
definition MIN_INDEX :: int where "MIN_INDEX = 4"

definition type_map :: "(string \<times> int) list" where
  "type_map = [(''Instruction'', int INSTR), (''Data'', int DATA), (''Unified'', int UNIFIED)]"

text \<open>The table \<open>caches\<close>, of length \<open>cachelen\<close>, is made longer. \<open>None\<close>: the length wraps around and is not longer.\<close>

definition more_cpus :: "u32 \<Rightarrow> cache list option list \<Rightarrow> cache list option list option" where
  "more_cpus cpu cs =
     (let old = (of_nat (length cs) :: u32);
          len = (if old = 0 then MIN_CPUS div 2 else old);
          len = (if len < cpu then cpu + 1 else len);
          len = len * 2
      in if unat len < length cs then None else Some (cs @ replicate (unat len - length cs) None))"

text \<open>The mask of a cache; the assertion of \<open>parse_cpumap\<close> may fail.\<close>

definition read_cpu_map :: "string \<Rightarrow> 'a config_state_scheme \<Rightarrow> ('a config_state_scheme, u32 list option) outcome" where
  "read_cpu_map cfn s =
     (let (m, s) = read_field cfn ''shared_cpu_map'' s
      in if m = [] then Ret None s
         else case parse_cpumap m (cpumap_len m) of None \<Rightarrow> Abort s | Some a \<Rightarrow> Ret (Some a) s)"

definition read_cache :: "string \<Rightarrow> 'a config_state_scheme \<Rightarrow> ('a config_state_scheme, cache) outcome" where
  "read_cache cfn s =
     (let (t, s) = read_field_map cfn ''type'' type_map s;
          (l, s) = read_field_num cfn ''level'' s
      in andthen (read_cpu_map cfn s) (\<lambda>m s. Ret \<lparr>ca_level = l, ca_type = unat t, ca_cpumap = m\<rparr> s))"

fun read_indexes :: "string \<Rightarrow> nat list \<Rightarrow> 'a config_state_scheme \<Rightarrow> ('a config_state_scheme, cache list) outcome" where
  "read_indexes fn [] s = Ret [] s"
| "read_indexes fn (i # is) s =
     andthen (read_cache (printf ''%s/index%d'' [PS fn, PN (int i)]) s) (\<lambda>c s.
     andthen (read_indexes fn is s) (\<lambda>cs s. Ret (c # cs) s))"

text \<open>One entry of the directory. \<open>nlink\<close> is what \<open>stat\<close> says, or \<open>None\<close> if it fails. The array of a processor ends with an entry that is zero, here with the end of the list.\<close>

definition read_cpu :: "(string \<Rightarrow> int option) \<Rightarrow> string \<Rightarrow> cache list option list \<Rightarrow> 'a config_state_scheme \<Rightarrow>
    ('a config_state_scheme, cache list option list) outcome" where
  "read_cpu nlink name cs s =
     (case sscanf name ''cpu%u'' of
        (_, [v]) \<Rightarrow>
          let cpu = (of_int (sval_int v) :: u32); fn = printf ''%s/%s/cache'' [PS CPU_PREFIX, PS name]
          in (case nlink fn of
                None \<Rightarrow> Ret cs s
              | Some n \<Rightarrow>
                  let numindex = (if n - 2 < 0 then MIN_INDEX else n - 2)
                  in case (if unat cpu \<ge> length cs then more_cpus cpu cs else Some cs) of
                       None \<Rightarrow> Abort s
                     | Some cs \<Rightarrow>
                         if \<not> unat cpu < length cs then Abort s
                         else andthen (read_indexes fn [0..<nat numindex] s) (\<lambda>c s. Ret (cs[unat cpu := Some c]) s))
      | _ \<Rightarrow> Ret cs s)"

fun read_cpus :: "(string \<Rightarrow> int option) \<Rightarrow> string list \<Rightarrow> cache list option list \<Rightarrow> 'a config_state_scheme \<Rightarrow>
    ('a config_state_scheme, cache list option list) outcome" where
  "read_cpus nlink [] cs s = Ret cs s"
| "read_cpus nlink (name # names) cs s = andthen (read_cpu nlink name cs s) (\<lambda>cs s. read_cpus nlink names cs s)"

text \<open>\<open>entries\<close> are the names in the directory, \<open>None\<close> if it cannot be opened. The result is as in \<open>os_caches\<close>: a table that was never made longer is \<open>NULL\<close>.\<close>

definition read_caches :: "string list option \<Rightarrow> (string \<Rightarrow> int option) \<Rightarrow> 'a config_state_scheme \<Rightarrow>
    ('a config_state_scheme, cache list option list option option) outcome" where
  "read_caches entries nlink s =
     (case entries of
        None \<Rightarrow> Ret None (Wput ''Cannot read cache topology from %s'' [PS CPU_PREFIX] s)
      | Some names \<Rightarrow> andthen (read_cpus nlink names [] s) (\<lambda>cs s. Ret (Some (if cs = [] then None else Some cs)) s))"

section \<open>The assertions hold\<close>

text \<open>The new length covers the processor, so that the assertion after \<open>more_cpus\<close> holds, up to a billion processors.\<close>

lemma more_cpus_covers:
  assumes "length cs \<le> unat cpu" "unat cpu < 2 ^ 30"
  shows "\<exists>ds. more_cpus cpu cs = Some (cs @ ds) \<and> unat cpu < length (cs @ ds)"
proof -
  define old where "old = (of_nat (length cs) :: u32)"
  define len where "len = (if (if old = 0 then MIN_CPUS div 2 else old) < cpu then cpu + 1 else if old = 0 then MIN_CPUS div 2 else old)"
  define k where "k = length cs"
  have o: "unat old = k" "k \<le> unat cpu" unfolding k_def using assms by (simp_all add: old_def unat_of_nat)
  have c1: "unat (cpu + 1) = unat cpu + 1" using assms(2) by (simp add: unat_plus_simple [THEN iffD1] word_le_nat_alt unat_word_ariths)
  have "unat len = (if max k (if k = 0 then 4 else 0) < unat cpu then unat cpu + 1 else max k (if k = 0 then 4 else 0))"
    using o(1) c1 by (auto simp: len_def word_less_nat_alt MIN_CPUS_def max_def unat_eq_0 unat_gt_0 split: if_splits)
  then have "unat len \<le> 2 ^ 30 + 4" "unat cpu < 2 * unat len" "length cs \<le> unat len"
    unfolding k_def [symmetric] using assms(2) o(2) by (auto simp: max_def split: if_splits)
  moreover from this(1) have "unat (len * 2) = 2 * unat len" by (simp add: unat_word_ariths)
  ultimately have "more_cpus cpu cs = Some (cs @ replicate (unat (len * 2) - length cs) None)" "unat cpu < unat (len * 2)" "length cs \<le> unat (len * 2)"
    by (simp_all add: more_cpus_def old_def [symmetric] len_def [symmetric] Let_def)
  then show ?thesis by (intro exI [of _ "replicate (unat (len * 2) - length cs) None"]) simp
qed

text \<open>Masks as the kernel prints them.\<close>

definition mask_ok :: "string \<Rightarrow> bool" where
  "mask_ok m \<longleftrightarrow> m = [] \<or> (\<exists>gs. gs \<noteq> [] \<and> list_all hex_group gs \<and> m = join '','' gs)"

definition masks_ok :: "'a config_state_scheme \<Rightarrow> bool" where
  "masks_ok s \<longleftrightarrow> (\<forall>cfn. mask_ok (fst (read_field cfn ''shared_cpu_map'' s)))"

lemma read_field_same: "os_read s' = os_read s \<Longrightarrow> fst (read_field b n s') = fst (read_field b n s)"
  by (simp add: read_field_def split: option.split)

lemma read_field_os_read: "os_read (snd (read_field b n s)) = os_read s"
proof -
  have "msg_step s (snd (read_field b n s))" by (auto simp: read_field_def split: option.split intro!: frame)
  then show ?thesis by (rule msg_frame) simp
qed

lemma read_cache_returns:
  assumes "masks_ok s"
  shows "\<exists>c s'. read_cache cfn s = Ret c s' \<and> os_read s' = os_read s"
proof -
  have e: "os_read (Eprintf f a t) = os_read t" for f a and t :: "'a config_state_scheme"
    by (rule msg_frame [of t]) (auto intro!: frame)
  define s1 s2 s3 where "s1 = snd (read_field_map cfn ''type'' type_map s)" and "s2 = snd (read_field_num cfn ''level'' s1)"
    and "s3 = snd (read_field cfn ''shared_cpu_map'' s2)"
  have 1: "os_read s1 = os_read s" using e by (auto simp: s1_def read_field_map_def split_beta read_field_os_read split: option.split)
  have 2: "os_read s2 = os_read s" using e 1 by (auto simp: s2_def read_field_num_def split_beta read_field_os_read split: prod.split list.split)
  have 3: "os_read s3 = os_read s" using 2 by (simp add: s3_def read_field_os_read)
  define m where "m = fst (read_field cfn ''shared_cpu_map'' s2)"
  have "mask_ok m" using assms read_field_same [OF 2] by (simp add: m_def masks_ok_def)
  then have "\<exists>a. read_cpu_map cfn s2 = Ret a s3"
    using cpumap_read by (auto simp: read_cpu_map_def split_beta m_def [symmetric] s3_def [symmetric] mask_ok_def)
  then show ?thesis using 3 by (auto simp: read_cache_def split_beta s1_def [symmetric] s2_def [symmetric])
qed

lemma read_indexes_returns:
  "masks_ok s \<Longrightarrow> \<exists>cs s'. read_indexes fn is s = Ret cs s' \<and> os_read s' = os_read s"
proof (induction "is" arbitrary: s)
  case (Cons i "is")
  from read_cache_returns [OF Cons.prems] obtain c s1 where
    1: "read_cache (printf ''%s/index%d'' [PS fn, PN (int i)]) s = Ret c s1" "os_read s1 = os_read s" by blast
  have "masks_ok s1" using Cons.prems read_field_same [OF 1(2)] by (simp add: masks_ok_def)
  from Cons.IH [OF this] 1 show ?case by auto
qed simp

text \<open>
  The walk always ends without a failed assertion. Whatever files are missing or damaged, as long as masks have the kernel's form and no processor number reaches a billion,
  \<open>read_caches\<close> returns.
\<close>

lemma read_caches_returns:
  assumes "masks_ok s" and small: "\<And>name n v. sscanf name ''cpu%u'' = (n, [v]) \<Longrightarrow> name \<in> set names \<Longrightarrow> unat (of_int (sval_int v) :: u32) < 2 ^ 30"
  shows "\<exists>r s'. read_caches (Some names) nlink s = Ret r s'"
proof -
  have cpu: "\<exists>cs' s'. read_cpu nlink name cs t = Ret cs' s' \<and> os_read s' = os_read t"
    if t: "masks_ok t" and nm: "name \<in> set names" for name cs and t :: "'a config_state_scheme"
  proof (cases "\<exists>n v. sscanf name ''cpu%u'' = (n, [v]) \<and> nlink (printf ''%s/%s/cache'' [PS CPU_PREFIX, PS name]) \<noteq> None")
    case False
    then show ?thesis by (auto simp: read_cpu_def Let_def split: prod.split list.split option.split)
  next
    case True
    then obtain n v l where v: "sscanf name ''cpu%u'' = (n, [v])" "nlink (printf ''%s/%s/cache'' [PS CPU_PREFIX, PS name]) = Some l" by auto
    define c where "c = (of_int (sval_int v) :: u32)"
    have "unat c < 2 ^ 30" using small [OF v(1) nm] by (simp add: c_def)
    then obtain ds where ds: "(if unat c \<ge> length cs then more_cpus c cs else Some cs) = Some ds" "unat c < length ds"
      using more_cpus_covers [of cs c] by (cases "unat c \<ge> length cs") auto
    define ixs where "ixs = [0..<nat (if l - 2 < 0 then MIN_INDEX else l - 2)]"
    obtain cl t' where "read_indexes (printf ''%s/%s/cache'' [PS CPU_PREFIX, PS name]) ixs t = Ret cl t'" "os_read t' = os_read t"
      using read_indexes_returns [OF t] by blast
    moreover have "read_cpu nlink name cs t =
        andthen (read_indexes (printf ''%s/%s/cache'' [PS CPU_PREFIX, PS name]) ixs t) (\<lambda>cl s. Ret (ds[unat c := Some cl]) s)"
      unfolding read_cpu_def v(1) prod.case list.case Let_def v(2) option.case c_def [symmetric] ds(1) ixs_def [symmetric] using ds(2) by simp
    ultimately show ?thesis by simp
  qed
  have "\<exists>r s'. read_cpus nlink ns cs t = Ret r s'" if "set ns \<subseteq> set names" "masks_ok t" for ns cs and t :: "'a config_state_scheme"
    using that
  proof (induction ns arbitrary: cs t)
    case (Cons name ns)
    from cpu [OF Cons.prems(2), of name cs] Cons.prems(1) obtain cs' t' where
      1: "read_cpu nlink name cs t = Ret cs' t'" "os_read t' = os_read t" by auto
    have "masks_ok t'" using Cons.prems(2) read_field_same [OF 1(2)] by (simp add: masks_ok_def)
    with Cons 1 show ?case by simp
  qed simp
  from this [of names s "[]"] assms(1) show ?thesis by (auto simp: read_caches_def)
qed

end
