(* ===== verification/DecodeOld.thy ===== *)
theory DecodeOld
  imports Mce
begin

text \<open>
  The model-specific decoders of the older Intel processors: \<^verbatim>\<open>src/core2.c\<close>, \<^verbatim>\<open>src/tulsa.c\<close>,
  \<^verbatim>\<open>src/dunnington.c\<close> and \<^verbatim>\<open>src/nehalem.c\<close>. The tables carry the name of their file as a prefix. Every
  decoder only prints (\<open>msg_step\<close>).
\<close>

section \<open>Core 2 and P6\<close>

definition p6_bus_queue_req_type :: "string option list" where
  "p6_bus_queue_req_type = tbl
    [(0, ''BQ_DCU_READ_TYPE''),
     (2, ''BQ_IFU_DEMAND_TYPE''),
     (3, ''BQ_IFU_DEMAND_NC_TYPE''),
     (4, ''BQ_DCU_RFO_TYPE''),
     (5, ''BQ_DCU_RFO_LOCK_TYPE''),
     (6, ''BQ_DCU_ITOM_TYPE''),
     (8, ''BQ_DCU_WB_TYPE''),
     (10, ''BC_DCU_WCEVICT_TYPE''),
     (11, ''BQ_DCU_WCLINE_TYPE''),
     (12, ''BQ_DCU_BTM_TYPE''),
     (13, ''BQ_DCU_INTACK_TYPE''),
     (14, ''BQ_DCU_INVALL2_TYPE''),
     (15, ''BQ_DCU_FLUSHL2_TYPE''),
     (16, ''BQ_DCU_PART_RD_TYPE''),
     (18, ''BQ_DCU_PART_WR_TYPE''),
     (20, ''BQ_DCU_SPEC_CYC_TYPE''),
     (24, ''BQ_DCU_IO_RD_TYPE''),
     (25, ''BQ_DCU_IO_WR_TYPE''),
     (28, ''BQ_DCU_LOCK_RD_TYPE''),
     (30, ''BQ_DCU_SPLOCK_RD_TYPE''),
     (29, ''BQ_DCU_LOCK_WR_TYPE'')]"

definition p6_bus_queue_error_type :: "string option list" where
  "p6_bus_queue_error_type = tbl
    [(0, ''BQ_ERR_HARD_TYPE''),
     (1, ''BQ_ERR_DOUBLE_TYPE''),
     (2, ''BQ_ERR_AERR2_TYPE''),
     (4, ''BQ_ERR_SINGLE_TYPE''),
     (5, ''BQ_ERR_AERR1_TYPE'')]"

definition p6_shared_status :: "field list" where
  "p6_shared_status =
    [FIELD 16 reserved_3bits,
     FIELD 19 p6_bus_queue_req_type,
     FIELD 25 p6_bus_queue_error_type,
     FIELD 25 p6_bus_queue_error_type,
     SBITFIELD 30 ''internal BINIT'',
     SBITFIELD 36 ''received parity error on response transaction'',
     SBITFIELD 38 ''timeout BINIT (ROB timeout). No micro-instruction retired for some time'',
     FIELD 39 reserved_3bits,
     SBITFIELD 42 ''bus transaction received hard error response'',
     SBITFIELD 43 ''failure that caused IERR'',
     SBITFIELD 44 ''two failing bus transactions with address parity error (AERR)'',
     SBITFIELD 45 ''uncorrectable ECC error'',
     SBITFIELD 46 ''correctable ECC error'',
     FIELD 55 reserved_2bits]"

definition p6_p6old_status :: "field list" where
  "p6_p6old_status =
    [SBITFIELD 28 ''FRC error'',
     SBITFIELD 29 ''BERR on this CPU'',
     FIELD 31 reserved_1bit,
     FIELD 32 reserved_3bits,
     SBITFIELD 35 ''BINIT received from external bus'',
     SBITFIELD 37 ''Received hard error response on split transaction (Bus BINIT)'']"

definition p6_core2_status :: "field list" where
  "p6_core2_status =
    [SBITFIELD 28 ''MCE driven'',
     SBITFIELD 29 ''MCE is observed'',
     SBITFIELD 31 ''BINIT observed'',
     FIELD 32 reserved_2bits,
     SBITFIELD 34 ''PIC or FSB data parity error'',
     FIELD 35 reserved_1bit,
     SBITFIELD 37 ''FSB address parity error detected'']"

definition p6_p6old_status_numbers :: "numfield list" where
  "p6_p6old_status_numbers =
    [HEXNUMBER 47 54 ''ECC syndrome'']"

definition core2_decode_model :: "u64 \<Rightarrow>
    'a msg_state_scheme \<Rightarrow> 'a msg_state_scheme" where
  "core2_decode_model status s =
    (let s = decode_bitfield status p6_shared_status s in
     let s = decode_bitfield status p6_core2_status s in
     decode_numfield status p6_p6old_status_numbers s)"

definition p6old_decode_model :: "u64 \<Rightarrow>
    'a msg_state_scheme \<Rightarrow> 'a msg_state_scheme" where
  "p6old_decode_model status s =
    (let s = decode_bitfield status p6_shared_status s in
     let s = decode_bitfield status p6_p6old_status s in
     decode_numfield status p6_p6old_status_numbers s)"

lemma core2_decode_model_frame [frame]: "msg_step s t \<Longrightarrow> msg_step s (core2_decode_model status t)"
  unfolding core2_decode_model_def Let_def by (intro frame)

lemma p6old_decode_model_frame [frame]: "msg_step s t \<Longrightarrow> msg_step s (p6old_decode_model status t)"
  unfolding p6old_decode_model_def Let_def by (intro frame)

section \<open>Tulsa\<close>

definition tls_corr_numbers :: "numfield list" where
  "tls_corr_numbers =
    [NUMBER 32 39 ''Corrected events'']"

definition tls_ecc_numbers :: "numfield list" where
  "tls_ecc_numbers =
    [HEXNUMBER 44 51 ''ECC syndrome'']"

definition tls_bus_status :: "field list" where
  "tls_bus_status =
    [SBITFIELD 16 ''Parity error detected during FSB request phase'',
     SBITFIELD 17 (''Partity error detected on Core 0 request'' @ [CHR 0x27] @ ''s address field''),
     SBITFIELD 18 (''Partity error detected on Core 1 request'' @ [CHR 0x27] @ ''s address field''),
     FIELD 19 reserved_1bit,
     SBITFIELD 20 ''Parity error on FSB response field detected'',
     SBITFIELD 21 ''FSB data parity error on inbound date detected'',
     SBITFIELD 22 ''Data parity error on data received from Core 0 detected'',
     SBITFIELD 23 ''Data parity error on data received from Core 1 detected'',
     SBITFIELD 24 ''Detected an Enhanced Defer parity error phase A or phase B'',
     SBITFIELD 25 ''Data ECC event to error on inbound data correctable or uncorrectable'',
     SBITFIELD 26 ''Pad logic detected a data strobe glitch or sequencing error'',
     SBITFIELD 27 ''Pad logic detected a request strobe glitch or sequencing error'',
     FIELD 28 reserved_3bits,
     FIELD 31 reserved_1bit]"

definition tls_front_error :: "string option list" where
  "tls_front_error = tbl_n 0xF
    [(0x1, ''Inclusion error from core 0''),
     (0x2, ''Inclusion error from core 1''),
     (0x3, ''Write Exclusive error from core 0''),
     (0x4, ''Write Exclusive error from core 1''),
     (0x5, ''Inclusion error from FSB''),
     (0x6, ''SNP stall error from FSB''),
     (0x7, ''Write stall error from FSB''),
     (0x8, ''FSB Arbiter Timeout error''),
     (0x9, ''CBC OOD Queue Underflow/overflow'')]"

definition tls_int_error :: "string option list" where
  "tls_int_error = tbl_n 0xF
    [(0x1, ''Enhanced Intel SpeedStep Technology TM1-TM2 Error''),
     (0x2, ''Internal timeout error''),
     (0x3, ''Internal timeout error''),
     (0x4, ''Intel Cache Safe Technology Queue full error\<newline>or disabled ways in a set overflow'')]"

definition tls_int_status :: "field list" where
  "tls_int_status =
    [FIELD 8 tls_int_error]"

definition tls_front_status :: "field list" where
  "tls_front_status =
    [FIELD 0 tls_front_error]"

definition tls_cecc :: "field list" where
  "tls_cecc =
    [SBITFIELD 0 ''Correctable ECC event on outgoing FSB data'',
     SBITFIELD 1 ''Correctable ECC event on outgoing core 0 data'',
     SBITFIELD 2 ''Correctable ECC event on outgoing core 1 data'']"

definition tls_uecc :: "field list" where
  "tls_uecc =
    [SBITFIELD 0 ''Uncorrectable ECC event on outgoing FSB data'',
     SBITFIELD 1 ''Uncorrectable ECC event on outgoing core 0 data'',
     SBITFIELD 2 ''Uncorrectable ECC event on outgoing core 1 data'']"

definition tulsa_decode_bus :: "u64 \<Rightarrow>
    'a msg_state_scheme \<Rightarrow> 'a msg_state_scheme" where
  "tulsa_decode_bus status s =
    (decode_bitfield status tls_bus_status s)"

definition tulsa_decode_internal :: "u64 \<Rightarrow>
    'a msg_state_scheme \<Rightarrow> 'a msg_state_scheme" where
  "tulsa_decode_internal status s =
    (let mca = (ucast ((drop_bit 16 status) AND 0xFFFF) :: u32) in
     if (mca AND 0xFFF0) = 0 then decode_bitfield (ucast mca) tls_front_status s else if (mca AND 0xF0FF) = 0 then decode_bitfield (ucast mca) tls_int_status s else if (mca AND 0xFFF0) = 0xC000 then decode_bitfield (ucast mca) tls_cecc s else if (mca AND 0xFFF0) = 0xE000 then decode_bitfield (ucast mca) tls_uecc s else s)"

definition tulsa_decode_model :: "u64 \<Rightarrow> u64 \<Rightarrow>
    'a msg_state_scheme \<Rightarrow> 'a msg_state_scheme" where
  "tulsa_decode_model status misc s =
    (let s = decode_numfield status tls_corr_numbers s in
     let s = (if (status AND (push_bit 52 1)) \<noteq> 0 then decode_numfield status tls_ecc_numbers s else s) in
     let s = (if (status AND MCI_STATUS_MISCV) \<noteq> 0 then Wput ''MISC format %llx value %llx\<newline>'' [PU ((drop_bit 40 status) AND 3), PU misc] s else s) in
     if (status AND 0xFFFF) = 0xE0F then tulsa_decode_bus status s else if (status AND 0xFFFF) = (push_bit 10 1) then tulsa_decode_internal status s else s)"

lemma tulsa_decode_bus_frame [frame]: "msg_step s t \<Longrightarrow> msg_step s (tulsa_decode_bus status t)"
  unfolding tulsa_decode_bus_def Let_def by (intro frame)

lemma tulsa_decode_internal_frame [frame]: "msg_step s t \<Longrightarrow> msg_step s (tulsa_decode_internal status t)"
  unfolding tulsa_decode_internal_def Let_def by (intro frame)

lemma tulsa_decode_model_frame [frame]: "msg_step s t \<Longrightarrow> msg_step s (tulsa_decode_model status misc t)"
  unfolding tulsa_decode_model_def Let_def by (intro frame)

section \<open>Dunnington\<close>

definition dnt_dunnington_bus_status :: "field list" where
  "dnt_dunnington_bus_status =
    [SBITFIELD 16 ''Parity error detected during FSB request phase'',
     FIELD 17 reserved_3bits,
     SBITFIELD 20 ''Hard Failure response received for a local transaction'',
     SBITFIELD 21 ''Parity error on FSB response field detected'',
     SBITFIELD 22 ''Parity data error on inbound data detected'',
     FIELD 23 reserved_3bits,
     FIELD 25 reserved_3bits,
     FIELD 28 reserved_3bits,
     FIELD 31 reserved_1bit]"

definition dnt_front_error :: "string option list" where
  "dnt_front_error = tbl_n 0xF
    [(0x1, ''Inclusion error from core 0''),
     (0x2, ''Inclusion error from core 1''),
     (0x3, ''Write Exclusive error from core 0''),
     (0x4, ''Write Exclusive error from core 1''),
     (0x5, ''Inclusion error from FSB''),
     (0x6, ''SNP stall error from FSB''),
     (0x7, ''Write stall error from FSB''),
     (0x8, ''FSB Arbiter Timeout error''),
     (0xA, ''Inclusion error from core 2''),
     (0xB, ''Write exclusive error from core 2'')]"

definition dnt_int_error :: "string option list" where
  "dnt_int_error = tbl_n 0xF
    [(0x2, ''Internal timeout error''),
     (0x3, ''Internal timeout error''),
     (0x4, ''Intel Cache Safe Technology Queue full error\<newline>or disabled ways in a set overflow''),
     (0x5, ''Quiet cycle timeout error (correctable)'')]"

definition dnt_int_status :: "field list" where
  "dnt_int_status =
    [FIELD 8 dnt_int_error]"

definition dnt_front_status :: "field list" where
  "dnt_front_status =
    [FIELD 0 dnt_front_error]"

definition dnt_cecc :: "field list" where
  "dnt_cecc =
    [SBITFIELD 1 ''Correctable ECC event on outgoing core 0 data'',
     SBITFIELD 2 ''Correctable ECC event on outgoing core 1 data'',
     SBITFIELD 3 ''Correctable ECC event on outgoing core 2 data'']"

definition dnt_uecc :: "field list" where
  "dnt_uecc =
    [SBITFIELD 1 ''Uncorrectable ECC event on outgoing core 0 data'',
     SBITFIELD 2 ''Uncorrectable ECC event on outgoing core 1 data'',
     SBITFIELD 3 ''Uncorrectable ECC event on outgoing core 2 data'']"

definition dunnington_decode_bus :: "u64 \<Rightarrow>
    'a msg_state_scheme \<Rightarrow> 'a msg_state_scheme" where
  "dunnington_decode_bus status s =
    (decode_bitfield status dnt_dunnington_bus_status s)"

definition dunnington_decode_internal :: "u64 \<Rightarrow>
    'a msg_state_scheme \<Rightarrow> 'a msg_state_scheme" where
  "dunnington_decode_internal status s =
    (let mca = (ucast ((drop_bit 16 status) AND 0xFFFF) :: u32) in
     if (mca AND 0xFFF0) = 0 then decode_bitfield (ucast mca) dnt_front_status s else if (mca AND 0xF0FF) = 0 then decode_bitfield (ucast mca) dnt_int_status s else if (mca AND 0xFFF0) = 0xC000 then decode_bitfield (ucast mca) dnt_cecc s else if (mca AND 0xFFF0) = 0xE000 then decode_bitfield (ucast mca) dnt_uecc s else s)"

definition dunnington_decode_model :: "u64 \<Rightarrow>
    'a msg_state_scheme \<Rightarrow> 'a msg_state_scheme" where
  "dunnington_decode_model status s =
    (if (status AND 0xFFFF) = 0xE0F then dunnington_decode_bus status s else if (status AND 0xFFFF) = (push_bit 10 1) then dunnington_decode_internal status s else s)"

lemma dunnington_decode_bus_frame [frame]: "msg_step s t \<Longrightarrow> msg_step s (dunnington_decode_bus status t)"
  unfolding dunnington_decode_bus_def Let_def by (intro frame)

lemma dunnington_decode_internal_frame [frame]: "msg_step s t \<Longrightarrow> msg_step s (dunnington_decode_internal status t)"
  unfolding dunnington_decode_internal_def Let_def by (intro frame)

lemma dunnington_decode_model_frame [frame]: "msg_step s t \<Longrightarrow> msg_step s (dunnington_decode_model status t)"
  unfolding dunnington_decode_model_def Let_def by (intro frame)

section \<open>Nehalem and Xeon 75xx\<close>

definition nhm_qpi_status :: "field list" where
  "nhm_qpi_status =
    [SBITFIELD 16 ''QPI header had bad parity'',
     SBITFIELD 17 ''QPI Data packet had bad parity'',
     SBITFIELD 18 ''Number of QPI retries exceeded'',
     SBITFIELD 19 ''Received QPI data packet that was poisoned by sender'',
     SBITFIELD 20 ''QPI reserved 20'',
     SBITFIELD 21 ''QPI reserved 21'',
     SBITFIELD 22 ''QPI received unsupported message encoding'',
     SBITFIELD 23 ''QPI credit type is not supported'',
     SBITFIELD 24 ''Sender sent too many QPI flits to the receiver'',
     SBITFIELD 25 ''QPI Sender sent a failed response to receiver'',
     SBITFIELD 26 ''Clock jitter detected in internal QPI clocking'']"

definition nhm_qpi_misc :: "field list" where
  "nhm_qpi_misc =
    [SBITFIELD 14 ''QPI misc reserved 14'',
     SBITFIELD 15 ''QPI misc reserved 15'',
     SBITFIELD 24 ''QPI Interleave/Head Indication Bit (IIB)'']"

definition nhm_qpi_numbers :: "numfield list" where
  "nhm_qpi_numbers =
    [HEXNUMBER 0 7 ''QPI class and opcode of packet with error'',
     HEXNUMBER 8 13 ''QPI Request Transaction ID'',
     NUMBERFORCE 16 18 ''QPI Requestor/Home Node ID (RHNID)'',
     HEXNUMBER 19 23 ''QPI miscreserved 19-23'']"

definition nhm_memory_status :: "field list" where
  "nhm_memory_status =
    [SBITFIELD 16 ''Memory read ECC error'',
     SBITFIELD 17 ''Memory ECC error occurred during scrub'',
     SBITFIELD 18 ''Memory write parity error'',
     SBITFIELD 19 ''Memory error in half of redundant memory'',
     SBITFIELD 20 ''Memory reserved 20'',
     SBITFIELD 21 ''Memory access out of range'',
     SBITFIELD 22 ''Memory internal RTID invalid'',
     SBITFIELD 23 ''Memory address parity error'',
     SBITFIELD 24 ''Memory byte enable parity error'']"

definition nhm_memory_status_numbers :: "numfield list" where
  "nhm_memory_status_numbers =
    [HEXNUMBER 25 37 ''Memory MISC reserved 25..37'',
     NUMBERFORCE 38 52 ''Memory corrected error count (CORE_ERR_CNT)'',
     HEXNUMBER 53 56 ''Memory MISC reserved 53..56'']"

definition nhm_memory_misc_numbers :: "numfield list" where
  "nhm_memory_misc_numbers =
    [HEXNUMBERFORCE 0 7 ''Memory transaction Tracker ID (RTId)'',
     NUMBERFORCE 16 17 ''Memory DIMM ID of error'',
     NUMBERFORCE 18 19 ''Memory channel ID of error'',
     HEXNUMBERFORCE 32 63 ''Memory ECC syndrome'']"

definition nhm_internal_errors :: "string option list" where
  "nhm_internal_errors = tbl
    [(0x0, ''No Error''),
     (0x3, ''Reset firmware did not complete''),
     (0x8, ''Received an invalid CMPD''),
     (0xA, ''Invalid Power Management Request''),
     (0xD, ''Invalid S-state transition''),
     (0x11, ''VID controller does not match POC controller selected''),
     (0x1A, ''MSID from POC does not match CPU MSID'')]"

definition nhm_internal_error_status :: "field list" where
  "nhm_internal_error_status =
    [FIELD 24 nhm_internal_errors]"

definition nhm_internal_error_numbers :: "numfield list" where
  "nhm_internal_error_numbers =
    [HEXNUMBER 16 23 ''Internal machine check status reserved 16..23'',
     HEXNUMBER 32 56 ''Internal machine check status reserved 32..56'']"

definition nhm_mmm_mnemonic :: "string option list" where
  "nhm_mmm_mnemonic = tbl
    [(0, ''GEN''),
     (1, ''RD''),
     (2, ''WR''),
     (3, ''AC''),
     (4, ''MS''),
     (5, ''RES5''),
     (6, ''RES6''),
     (7, ''RES7'')]"

definition nhm_mmm_desc :: "string option list" where
  "nhm_mmm_desc = tbl
    [(0, ''Generic undefined request''),
     (1, ''Memory read error''),
     (2, ''Memory write error''),
     (3, ''Address/Command error''),
     (4, ''Memory scrubbing error''),
     (5, ''Reserved 5''),
     (6, ''Reserved 6''),
     (7, ''Reserved 7'')]"

definition nehalem_decode_model :: "u64 \<Rightarrow> u64 \<Rightarrow>
    'a msg_state_scheme \<Rightarrow> 'a msg_state_scheme" where
  "nehalem_decode_model status misc s =
    (let mca = (ucast (status AND 0xFFFF) :: u32) in
     if (drop_bit 11 mca) = 1 then (let s = decode_bitfield status nhm_qpi_status s in
           if (status AND MCI_STATUS_MISCV) \<noteq> 0 then (let s = decode_numfield misc nhm_qpi_numbers s in
                 decode_bitfield misc nhm_qpi_misc s) else s) else if mca = 0x1 then (let s = decode_bitfield status nhm_internal_error_status s in
                 decode_numfield status nhm_internal_error_numbers s) else if (drop_bit 7 mca) = 1 then (let s = decode_bitfield status nhm_memory_status s in
                       let s = decode_numfield status nhm_memory_status_numbers s in
                       if (status AND MCI_STATUS_MISCV) \<noteq> 0 then decode_numfield misc nhm_memory_misc_numbers s else s) else s)"

definition xeon75xx_decode_model :: "mce \<Rightarrow> 'a msg_state_scheme \<Rightarrow> 'a msg_state_scheme" where
  "xeon75xx_decode_model m s =
    (let status = m_status m; mca = (ucast status :: u32) AND 0xFFFF
     in if mca = 0x1
        then decode_numfield status nhm_internal_error_numbers (decode_bitfield status nhm_internal_error_status s)
        else s)"

text \<open>The architectural memory controller encoding; \<open>knights\<close> tells whether the processor is a Knights
  Landing or Knights Mill.\<close>

definition decode_memory_controller :: "cputype \<Rightarrow> u32 \<Rightarrow> u8 \<Rightarrow> 'a msg_state_scheme \<Rightarrow> 'a msg_state_scheme" where
  "decode_memory_controller cpu status bank s =
    (let channel = (if status AND 0xF = 0xF then ''unspecified''
                    else if cpu = CPU_KNIGHTS_LANDING \<or> cpu = CPU_KNIGHTS_MILL
                    then printf ''%u'' [PU ((status AND 0xF) + 3 * (if bank = 15 then 1 else 0))]
                    else printf ''%u'' [PU (status AND 0xF)]);
         i = unat (drop_bit 4 status AND 7);
         s = Wput ''MEMORY CONTROLLER %s_CHANNEL%s_ERR\<newline>'' [PS (tab_at nhm_mmm_mnemonic i), PS channel] s
     in Wput ''Transaction: %s\<newline>'' [PS (tab_at nhm_mmm_desc i)] s)"

lemma memory_controller_frame [frame]:
  "msg_step s t \<Longrightarrow> msg_step s (decode_memory_controller cpu status bank t)"
  unfolding decode_memory_controller_def Let_def by (intro frame)

lemma xeon75xx_frame [frame]: "msg_step s t \<Longrightarrow> msg_step s (xeon75xx_decode_model m t)"
  unfolding xeon75xx_decode_model_def Let_def by (intro frame)

lemma nehalem_decode_model_frame [frame]: "msg_step s t \<Longrightarrow> msg_step s (nehalem_decode_model status misc t)"
  unfolding nehalem_decode_model_def Let_def by (intro frame)


end
