(* ===== verification/DecodeXeon.thy ===== *)
theory DecodeXeon
  imports Mce
begin

text \<open>
  The model-specific decoders of the Xeon generations from Sandy Bridge to Skylake:
  \<^verbatim>\<open>src/sandy-bridge.c\<close>, \<^verbatim>\<open>src/ivy-bridge.c\<close>, \<^verbatim>\<open>src/haswell.c\<close>, \<^verbatim>\<open>src/broadwell_de.c\<close>,
  \<^verbatim>\<open>src/broadwell_epex.c\<close>, \<^verbatim>\<open>src/denverton.c\<close> and \<^verbatim>\<open>src/skylake_xeon.c\<close>.
\<close>

section \<open>Sandy Bridge\<close>

definition snb_pcu_1 :: "string option list" where
  "snb_pcu_1 = tbl
    [(0, ''No error''),
     (1, ''Non_IMem_Sel''),
     (2, ''I_Parity_Error''),
     (3, ''Bad_OpCode''),
     (4, ''I_Stack_Underflow''),
     (5, ''I_Stack_Overflow''),
     (6, ''D_Stack_Underflow''),
     (7, ''D_Stack_Overflow''),
     (8, ''Non-DMem_Sel''),
     (9, ''D_Parity_Error'')]"

definition snb_pcu_2 :: "string option list" where
  "snb_pcu_2 = tbl
    [(0x0, ''No Error''),
     (0xD, ''MC_IMC_FORCE_SR_S3_TIMEOUT''),
     (0xE, ''MC_MC_CPD_UNCPD_ST_TIMEOUT''),
     (0xF, ''MC_PKGS_SAFE_WP_TIMEOUT''),
     (0x43, ''MC_PECI_MAILBOX_QUIESCE_TIMEOUT''),
     (0x5C, ''MC_MORE_THAN_ONE_LT_AGENT''),
     (0x60, ''MC_INVALID_PKGS_REQ_PCH''),
     (0x61, ''MC_INVALID_PKGS_REQ_QPI''),
     (0x62, ''MC_INVALID_PKGS_RES_QPI''),
     (0x63, ''MC_INVALID_PKGC_RES_PCH''),
     (0x64, ''MC_INVALID_PKG_STATE_CONFIG''),
     (0x70, ''MC_WATCHDG_TIMEOUT_PKGC_SECONDARY''),
     (0x71, ''MC_WATCHDG_TIMEOUT_PKGC_MAIN''),
     (0x72, ''MC_WATCHDG_TIMEOUT_PKGS_MAIN''),
     (0x7A, ''MC_HA_FAILSTS_CHANGE_DETECTED''),
     (0x81, ''MC_RECOVERABLE_DIE_THERMAL_TOO_HOT'')]"

definition snb_pcu_mc4 :: "field list" where
  "snb_pcu_mc4 =
    [FIELD 16 snb_pcu_1,
     FIELD 24 snb_pcu_2]"

definition snb_memctrl_mc8 :: "field list" where
  "snb_memctrl_mc8 =
    [SBITFIELD 16 ''Address parity error'',
     SBITFIELD 17 ''HA Wrt buffer Data parity error'',
     SBITFIELD 18 ''HA Wrt byte enable parity error'',
     SBITFIELD 19 ''Corrected patrol scrub error'',
     SBITFIELD 20 ''Uncorrected patrol scrub error'',
     SBITFIELD 21 ''Corrected spare error'',
     SBITFIELD 22 ''Uncorrected spare error'']"

definition snb_decode_model :: "cputype \<Rightarrow> nat \<Rightarrow> u64 \<Rightarrow> u64 \<Rightarrow>
    'a msg_state_scheme \<Rightarrow> 'a msg_state_scheme" where
  "snb_decode_model cputype bank status misc s =
    (let v5 = bank in
         if v5 = 4 then (let s = Wput ''PCU: '' [] s in
           let s = decode_bitfield status snb_pcu_mc4 s in
           Wput ''\<newline>'' [] s)
         else if v5 \<in> {6, 7} then (if cputype = CPU_SANDY_BRIDGE_EP then Wput ''QPI\<newline>'' [] s else s)
         else if v5 \<in> {8, 9, 10, 11} then (let s = Wput ''MemCtrl: '' [] s in
           let s = decode_bitfield status snb_memctrl_mc8 s in
           Wput ''\<newline>'' [] s)
         else s)"

lemma snb_decode_model_frame [frame]: "msg_step s t \<Longrightarrow> msg_step s (snb_decode_model cputype bank status misc t)"
  unfolding snb_decode_model_def Let_def by (intro frame)

section \<open>Ivy Bridge\<close>

definition ivb_pcu_1 :: "string option list" where
  "ivb_pcu_1 = tbl
    [(0, ''No error''),
     (1, ''Non_IMem_Sel''),
     (2, ''I_Parity_Error''),
     (3, ''Bad_OpCode''),
     (4, ''I_Stack_Underflow''),
     (5, ''I_Stack_Overflow''),
     (6, ''D_Stack_Underflow''),
     (7, ''D_Stack_Overflow''),
     (8, ''Non-DMem_Sel''),
     (9, ''D_Parity_Error'')]"

definition ivb_pcu_2 :: "string option list" where
  "ivb_pcu_2 = tbl
    [(0x0, ''No Error''),
     (0xD, ''MC_IMC_FORCE_SR_S3_TIMEOUT''),
     (0xE, ''MC_MC_CPD_UNCPD_ST_TIMEOUT''),
     (0xF, ''MC_PKGS_SAFE_WP_TIMEOUT''),
     (0x43, ''MC_PECI_MAILBOX_QUIESCE_TIMEOUT''),
     (0x44, ''MC_CRITICAL_VR_FAILED''),
     (0x45, ''MC_ICC_MAX-NOTSUPPORTED''),
     (0x5C, ''MC_MORE_THAN_ONE_LT_AGENT''),
     (0x60, ''MC_INVALID_PKGS_REQ_PCH''),
     (0x61, ''MC_INVALID_PKGS_REQ_QPI''),
     (0x62, ''MC_INVALID_PKGS_RES_QPI''),
     (0x63, ''MC_INVALID_PKGC_RES_PCH''),
     (0x64, ''MC_INVALID_PKG_STATE_CONFIG''),
     (0x70, ''MC_WATCHDG_TIMEOUT_PKGC_SECONDARY''),
     (0x71, ''MC_WATCHDG_TIMEOUT_PKGC_MAIN''),
     (0x72, ''MC_WATCHDG_TIMEOUT_PKGS_MAIN''),
     (0x7A, ''MC_HA_FAILSTS_CHANGE_DETECTED''),
     (0x7B, ''MC_PCIE_R2PCIE-RW_BLOCK_ACK_TIMEOUT''),
     (0x81, ''MC_RECOVERABLE_DIE_THERMAL_TOO_HOT'')]"

definition ivb_pcu_mc4 :: "field list" where
  "ivb_pcu_mc4 =
    [FIELD 16 ivb_pcu_1,
     FIELD 24 ivb_pcu_2]"

definition ivb_memctrl_mc9 :: "field list" where
  "ivb_memctrl_mc9 =
    [SBITFIELD 16 ''Address parity error'',
     SBITFIELD 17 ''HA Wrt buffer Data parity error'',
     SBITFIELD 18 ''HA Wrt byte enable parity error'',
     SBITFIELD 19 ''Corrected patrol scrub error'',
     SBITFIELD 20 ''Uncorrected patrol scrub error'',
     SBITFIELD 21 ''Corrected spare error'',
     SBITFIELD 22 ''Uncorrected spare error'',
     SBITFIELD 23 ''Corrected memory read error'',
     SBITFIELD 24 ''iMC, WDB, parity errors'']"

definition ivb_decode_model :: "cputype \<Rightarrow> nat \<Rightarrow> u64 \<Rightarrow> u64 \<Rightarrow>
    'a msg_state_scheme \<Rightarrow> 'a msg_state_scheme" where
  "ivb_decode_model cputype bank status misc s =
    (let v5 = bank in
         if v5 = 4 then (let s = Wput ''PCU: '' [] s in
           let s = decode_bitfield status ivb_pcu_mc4 s in
           Wput ''\<newline>'' [] s)
         else if v5 = 5 then (if cputype = CPU_IVY_BRIDGE_EPEX then Wput ''QPI\<newline>'' [] s else s)
         else if 9 \<le> v5 \<and> v5 \<le> 16 then (let s = Wput ''MemCtrl: '' [] s in
           let s = decode_bitfield status ivb_memctrl_mc9 s in
           Wput ''\<newline>'' [] s)
         else s)"

lemma ivb_decode_model_frame [frame]: "msg_step s t \<Longrightarrow> msg_step s (ivb_decode_model cputype bank status misc t)"
  unfolding ivb_decode_model_def Let_def by (intro frame)

section \<open>Haswell\<close>

definition hsw_pcu_1 :: "string option list" where
  "hsw_pcu_1 = tbl
    [(0x0, ''No Error''),
     (0x9, ''MC_MESSAGE_CHANNEL_TIMEOUT''),
     (0xD, ''MC_IMC_FORCE_SR_S3_TIMEOUT''),
     (0xE, ''MC_CPD_UNCPD_SD_TIMEOUT''),
     (0x13, ''MC_DMI_TRAINING_TIMEOUT''),
     (0x15, ''MC_DMI_CPU_RESET_ACK_TIMEOUT''),
     (0x1E, ''MC_VR_ICC_MAX_LT_FUSED_ICC_MAX''),
     (0x25, ''MC_SVID_COMMAN_TIMEOUT''),
     (0x29, ''MC_VR_VOUT_MAC_LT_FUSED_SVID''),
     (0x2B, ''MC_PKGC_WATCHDOG_HANG_CBZ_DOWN''),
     (0x2C, ''MC_PKGC_WATCHDOG_HANG_CBZ_UP''),
     (0x39, ''MC_PKGC_WATCHDOG_HANG_C3_UP_SF''),
     (0x44, ''MC_CRITICAL_VR_FAILED''),
     (0x45, ''MC_ICC_MAX_NOTSUPPORTED''),
     (0x46, ''MC_VID_RAMP_DOWN_FAILED''),
     (0x47, ''MC_EXCL_MODE_NO_PMREQ_CMP''),
     (0x48, ''MC_SVID_READ_REG_ICC_MAX_FAILED''),
     (0x49, ''MC_SVID_WRITE_REG_VOUT_MAX_FAILED''),
     (0x4B, ''MC_BOOT_VID_TIMEOUT_DRAM_0''),
     (0x4C, ''MC_BOOT_VID_TIMEOUT_DRAM_1''),
     (0x4D, ''MC_BOOT_VID_TIMEOUT_DRAM_2''),
     (0x4E, ''MC_BOOT_VID_TIMEOUT_DRAM_3''),
     (0x4F, ''MC_SVID_COMMAND_ERROR''),
     (0x52, ''MC_FIVR_CATAS_OVERVOL_FAULT''),
     (0x53, ''MC_FIVR_CATAS_OVERCUR_FAULT''),
     (0x57, ''MC_SVID_PKGC_REQUEST_FAILED''),
     (0x58, ''MC_SVID_IMON_REQUEST_FAILED''),
     (0x59, ''MC_SVID_ALERT_REQUEST_FAILED''),
     (0x60, ''MC_INVALID_PKGS_REQ_PCH''),
     (0x61, ''MC_INVALID_PKGS_REQ_QPI''),
     (0x62, ''MC_INVALID_PKGS_RSP_QPI''),
     (0x63, ''MC_INVALID_PKGS_RSP_PCH''),
     (0x64, ''MC_INVALID_PKG_STATE_CONFIG''),
     (0x67, ''MC_HA_IMC_RW_BLOCK_ACK_TIMEOUT''),
     (0x68, ''MC_IMC_RW_SMBUS_TIMEOUT''),
     (0x69, ''MC_HA_FAILSTS_CHANGE_DETECTED''),
     (0x6A, ''MC_MSGCH_PMREQ_CMP_TIMEOUT''),
     (0x70, ''MC_WATCHDOG_TIMEOUT_PKGC_SECONDARY''),
     (0x71, ''MC_WATCHDOG_TIMEOUT_PKGC_MAIN''),
     (0x72, ''MC_WATCHDOG_TIMEOUT_PKGS_MAIN''),
     (0x7C, ''MC_BIOS_RST_CPL_INVALID_SEQ''),
     (0x7D, ''MC_MORE_THAN_ONE_TXT_AGENT''),
     (0x81, ''MC_RECOVERABLE_DIE_THERMAL_TOO_HOT'')]"

definition hsw_pcu_mc4 :: "field list" where
  "hsw_pcu_mc4 =
    [FIELD 24 hsw_pcu_1]"

definition hsw_qpi :: "string option list" where
  "hsw_qpi = tbl
    [(0x2, ''Intel QPI physical layer detected drift buffer alarm''),
     (0x3, ''Intel QPI physical layer detected latency buffer rollover''),
     (0x10, ''Intel QPI link layer detected control error from R3QPI''),
     (0x11, ''Rx entered LLR abort state on CRC error''),
     (0x12, ''Unsupported or undefined packet''),
     (0x13, ''Intel QPI link layer control error''),
     (0x15, ''RBT used un-initialized value''),
     (0x20, ''Intel QPI physical layer detected a QPI in-band reset but aborted initialization''),
     (0x21, ''Link failover data self healing''),
     (0x22, ''Phy detected in-band reset (no width change)''),
     (0x23, ''Link failover clock failover''),
     (0x30, ''Rx detected CRC error - successful LLR after Phy re-init''),
     (0x31, ''Rx detected CRC error - successful LLR without Phy re-init'')]"

definition hsw_qpi_mc :: "field list" where
  "hsw_qpi_mc =
    [FIELD 16 hsw_qpi]"

definition hsw_memctrl_mc9 :: "field list" where
  "hsw_memctrl_mc9 =
    [SBITFIELD 16 ''DDR3 address parity error'',
     SBITFIELD 17 ''Uncorrected HA write data error'',
     SBITFIELD 18 ''Uncorrected HA data byte enable error'',
     SBITFIELD 19 ''Corrected patrol scrub error'',
     SBITFIELD 20 ''Uncorrected patrol scrub error'',
     SBITFIELD 21 ''Corrected spare error'',
     SBITFIELD 22 ''Uncorrected spare error'',
     SBITFIELD 23 ''Corrected memory read error'',
     SBITFIELD 24 ''iMC write data buffer parity error'',
     SBITFIELD 25 ''DDR4 command address parity error'']"

definition hsw_decode_model :: "cputype \<Rightarrow> nat \<Rightarrow> u64 \<Rightarrow> u64 \<Rightarrow>
    'a msg_state_scheme \<Rightarrow> 'a msg_state_scheme" where
  "hsw_decode_model cputype bank status misc s =
    (let v5 = bank in
         if v5 = 4 then (let s = Wput ''PCU: '' [] s in
           let s = (let v11 = (EXTRACT status 0 15) AND (NOT (push_bit 12 1)) in
               if v11 \<in> {0x402, 0x403} then Wput ''Internal errors '' [] s
               else if v11 = 0x406 then Wput ''Intel TXT errors '' [] s
               else if v11 = 0x407 then Wput ''Other UBOX Internal errors '' [] s
               else s) in
           let s = (if (EXTRACT status 16 19) \<noteq> 0 then Wput ''PCU internal error '' [] s else s) in
           decode_bitfield status hsw_pcu_mc4 s)
         else if v5 \<in> {5, 20, 21} then (let s = Wput ''QPI: '' [] s in
           decode_bitfield status hsw_qpi_mc s)
         else if 9 \<le> v5 \<and> v5 \<le> 16 then (let s = Wput ''MemCtrl: '' [] s in
           decode_bitfield status hsw_memctrl_mc9 s)
         else s)"

lemma hsw_decode_model_frame [frame]: "msg_step s t \<Longrightarrow> msg_step s (hsw_decode_model cputype bank status misc t)"
  unfolding hsw_decode_model_def Let_def by (intro frame)

section \<open>Broadwell DE\<close>

definition bdwde_pcu_1 :: "string option list" where
  "bdwde_pcu_1 = tbl
    [(0x0, ''No Error''),
     (0x9, ''MC_MESSAGE_CHANNEL_TIMEOUT''),
     (0x13, ''MC_DMI_TRAINING_TIMEOUT''),
     (0x15, ''MC_DMI_CPU_RESET_ACK_TIMEOUT''),
     (0x1E, ''MC_VR_ICC_MAX_LT_FUSED_ICC_MAX''),
     (0x25, ''MC_SVID_COMMAN_TIMEOUT''),
     (0x26, ''MCA_PKGC_DIRECT_WAKE_RING_TIMEOUT''),
     (0x29, ''MC_VR_VOUT_MAC_LT_FUSED_SVID''),
     (0x2B, ''MC_PKGC_WATCHDOG_HANG_CBZ_DOWN''),
     (0x2C, ''MC_PKGC_WATCHDOG_HANG_CBZ_UP''),
     (0x44, ''MC_CRITICAL_VR_FAILED''),
     (0x46, ''MC_VID_RAMP_DOWN_FAILED''),
     (0x49, ''MC_SVID_WRITE_REG_VOUT_MAX_FAILED''),
     (0x4B, ''MC_BOOT_VID_TIMEOUT_DRAM_0''),
     (0x4F, ''MC_SVID_COMMAND_ERROR''),
     (0x52, ''MC_FIVR_CATAS_OVERVOL_FAULT''),
     (0x53, ''MC_FIVR_CATAS_OVERCUR_FAULT''),
     (0x57, ''MC_SVID_PKGC_REQUEST_FAILED''),
     (0x58, ''MC_SVID_IMON_REQUEST_FAILED''),
     (0x59, ''MC_SVID_ALERT_REQUEST_FAILED''),
     (0x62, ''MC_INVALID_PKGS_RSP_QPI''),
     (0x64, ''MC_INVALID_PKG_STATE_CONFIG''),
     (0x67, ''MC_HA_IMC_RW_BLOCK_ACK_TIMEOUT''),
     (0x6A, ''MC_MSGCH_PMREQ_CMP_TIMEOUT''),
     (0x72, ''MC_WATCHDOG_TIMEOUT_PKGS_MAIN''),
     (0x81, ''MC_RECOVERABLE_DIE_THERMAL_TOO_HOT'')]"

definition bdwde_pcu_mc4 :: "field list" where
  "bdwde_pcu_mc4 =
    [FIELD 24 bdwde_pcu_1]"

definition bdwde_memctrl_mc9 :: "field list" where
  "bdwde_memctrl_mc9 =
    [SBITFIELD 16 ''Address parity error'',
     SBITFIELD 17 ''HA Wrt buffer Data parity error'',
     SBITFIELD 18 ''HA Wrt byte enable parity error'',
     SBITFIELD 19 ''Corrected patrol scrub error'',
     SBITFIELD 20 ''Uncorrected patrol scrub error'',
     SBITFIELD 21 ''Corrected spare error'',
     SBITFIELD 22 ''Uncorrected spare error'',
     SBITFIELD 23 ''Corrected memory read error'',
     SBITFIELD 24 ''iMC, WDB, parity errors'']"

definition bdw_de_decode_model :: "cputype \<Rightarrow> nat \<Rightarrow> u64 \<Rightarrow> u64 \<Rightarrow>
    'a msg_state_scheme \<Rightarrow> 'a msg_state_scheme" where
  "bdw_de_decode_model cputype bank status misc s =
    (let v5 = bank in
         if v5 = 4 then (let s = Wput ''PCU: '' [] s in
           let s = (let v11 = (EXTRACT status 0 15) AND (NOT (push_bit 12 1)) in
               if v11 \<in> {0x402, 0x403} then Wput ''Internal errors '' [] s
               else if v11 = 0x406 then Wput ''Intel TXT errors '' [] s
               else if v11 = 0x407 then Wput ''Other UBOX Internal errors '' [] s
               else s) in
           let s = (if ((EXTRACT status 16 19) AND 3) \<noteq> 0 then Wput ''PCU internal error '' [] s else s) in
           let s = (if ((EXTRACT status 20 23) AND 4) \<noteq> 0 then Wput ''Ubox error '' [] s else s) in
           decode_bitfield status bdwde_pcu_mc4 s)
         else if v5 \<in> {9, 10} then (let s = Wput ''MemCtrl: '' [] s in
           decode_bitfield status bdwde_memctrl_mc9 s)
         else s)"

lemma bdw_de_decode_model_frame [frame]: "msg_step s t \<Longrightarrow> msg_step s (bdw_de_decode_model cputype bank status misc t)"
  unfolding bdw_de_decode_model_def Let_def by (intro frame)

section \<open>Broadwell EP and EX\<close>

definition bdwepex_pcu_1 :: "string option list" where
  "bdwepex_pcu_1 = tbl
    [(0x0, ''No Error''),
     (0x9, ''MC_MESSAGE_CHANNEL_TIMEOUT''),
     (0xD, ''MC_IMC_FORCE_SR_S3_TIMEOUT''),
     (0xE, ''MC_CPD_UNCPD_SD_TIMEOUT''),
     (0x13, ''MC_DMI_TRAINING_TIMEOUT''),
     (0x15, ''MC_DMI_CPU_RESET_ACK_TIMEOUT''),
     (0x1E, ''MC_VR_ICC_MAX_LT_FUSED_ICC_MAX''),
     (0x25, ''MC_SVID_COMMAN_TIMEOUT''),
     (0x29, ''MC_VR_VOUT_MAC_LT_FUSED_SVID''),
     (0x2B, ''MC_PKGC_WATCHDOG_HANG_CBZ_DOWN''),
     (0x2C, ''MC_PKGC_WATCHDOG_HANG_CBZ_UP''),
     (0x39, ''MC_PKGC_WATCHDOG_HANG_C3_UP_SF''),
     (0x44, ''MC_CRITICAL_VR_FAILED''),
     (0x45, ''MC_ICC_MAX_NOTSUPPORTED''),
     (0x46, ''MC_VID_RAMP_DOWN_FAILED''),
     (0x47, ''MC_EXCL_MODE_NO_PMREQ_CMP''),
     (0x48, ''MC_SVID_READ_REG_ICC_MAX_FAILED''),
     (0x49, ''MC_SVID_WRITE_REG_VOUT_MAX_FAILED''),
     (0x4B, ''MC_BOOT_VID_TIMEOUT_DRAM_0''),
     (0x4C, ''MC_BOOT_VID_TIMEOUT_DRAM_1''),
     (0x4D, ''MC_BOOT_VID_TIMEOUT_DRAM_2''),
     (0x4E, ''MC_BOOT_VID_TIMEOUT_DRAM_3''),
     (0x4F, ''MC_SVID_COMMAND_ERROR''),
     (0x52, ''MC_FIVR_CATAS_OVERVOL_FAULT''),
     (0x53, ''MC_FIVR_CATAS_OVERCUR_FAULT''),
     (0x57, ''MC_SVID_PKGC_REQUEST_FAILED''),
     (0x58, ''MC_SVID_IMON_REQUEST_FAILED''),
     (0x59, ''MC_SVID_ALERT_REQUEST_FAILED''),
     (0x60, ''MC_INVALID_PKGS_REQ_PCH''),
     (0x61, ''MC_INVALID_PKGS_REQ_QPI''),
     (0x62, ''MC_INVALID_PKGS_RSP_QPI''),
     (0x63, ''MC_INVALID_PKGS_RSP_PCH''),
     (0x64, ''MC_INVALID_PKG_STATE_CONFIG''),
     (0x67, ''MC_HA_IMC_RW_BLOCK_ACK_TIMEOUT''),
     (0x68, ''MC_IMC_RW_SMBUS_TIMEOUT''),
     (0x69, ''MC_HA_FAILSTS_CHANGE_DETECTED''),
     (0x6A, ''MC_MSGCH_PMREQ_CMP_TIMEOUT''),
     (0x70, ''MC_WATCHDOG_TIMEOUT_PKGC_SECONDARY''),
     (0x71, ''MC_WATCHDOG_TIMEOUT_PKGC_MAIN''),
     (0x72, ''MC_WATCHDOG_TIMEOUT_PKGS_MAIN''),
     (0x7C, ''MC_BIOS_RST_CPL_INVALID_SEQ''),
     (0x7D, ''MC_MORE_THAN_ONE_TXT_AGENT''),
     (0x81, ''MC_RECOVERABLE_DIE_THERMAL_TOO_HOT'')]"

definition bdwepex_pcu_mc4 :: "field list" where
  "bdwepex_pcu_mc4 =
    [FIELD 24 bdwepex_pcu_1]"

definition bdwepex_qpi :: "string option list" where
  "bdwepex_qpi = tbl
    [(0x2, ''Intel QPI physical layer detected drift buffer alarm''),
     (0x3, ''Intel QPI physical layer detected latency buffer rollover''),
     (0x10, ''Intel QPI link layer detected control error from R3QPI''),
     (0x11, ''Rx entered LLR abort state on CRC error''),
     (0x12, ''Unsupported or undefined packet''),
     (0x13, ''Intel QPI link layer control error''),
     (0x15, ''RBT used un-initialized value''),
     (0x20, ''Intel QPI physical layer detected a QPI in-band reset but aborted initialization''),
     (0x21, ''Link failover data self healing''),
     (0x22, ''Phy detected in-band reset (no width change)''),
     (0x23, ''Link failover clock failover''),
     (0x30, ''Rx detected CRC error - successful LLR after Phy re-init''),
     (0x31, ''Rx detected CRC error - successful LLR without Phy re-init'')]"

definition bdwepex_qpi_mc :: "field list" where
  "bdwepex_qpi_mc =
    [FIELD 16 bdwepex_qpi]"

definition bdwepex_memctrl_mc9 :: "field list" where
  "bdwepex_memctrl_mc9 =
    [SBITFIELD 16 ''DDR3 address parity error'',
     SBITFIELD 17 ''Uncorrected HA write data error'',
     SBITFIELD 18 ''Uncorrected HA data byte enable error'',
     SBITFIELD 19 ''Corrected patrol scrub error'',
     SBITFIELD 20 ''Uncorrected patrol scrub error'',
     SBITFIELD 21 ''Corrected spare error'',
     SBITFIELD 22 ''Uncorrected spare error'',
     SBITFIELD 24 ''iMC write data buffer parity error'',
     SBITFIELD 25 ''DDR4 command address parity error'']"

definition bdw_epex_decode_model :: "cputype \<Rightarrow> nat \<Rightarrow> u64 \<Rightarrow> u64 \<Rightarrow>
    'a msg_state_scheme \<Rightarrow> 'a msg_state_scheme" where
  "bdw_epex_decode_model cputype bank status misc s =
    (let v5 = bank in
         if v5 = 4 then (let s = Wput ''PCU: '' [] s in
           let s = (let v11 = (EXTRACT status 0 15) AND (NOT (push_bit 12 1)) in
               if v11 \<in> {0x402, 0x403} then Wput ''Internal errors '' [] s
               else if v11 = 0x406 then Wput ''Intel TXT errors '' [] s
               else if v11 = 0x407 then Wput ''Other UBOX Internal errors '' [] s
               else s) in
           let s = (if (EXTRACT status 16 19) \<noteq> 0 then Wput ''PCU internal error '' [] s else s) in
           decode_bitfield status bdwepex_pcu_mc4 s)
         else if v5 \<in> {5, 20, 21} then (let s = Wput ''QPI: '' [] s in
           decode_bitfield status bdwepex_qpi_mc s)
         else if 9 \<le> v5 \<and> v5 \<le> 16 then (let s = Wput ''MemCtrl: '' [] s in
           decode_bitfield status bdwepex_memctrl_mc9 s)
         else s)"

definition BDW_MCI_MISC_FO :: u64 where "BDW_MCI_MISC_FO = push_bit 41 1"
definition BDW_MCI_MISC_MC :: u64 where "BDW_MCI_MISC_MC = push_bit 42 1"

text \<open>0: corrected by ECC, 1: by mirroring with channel failover, 2: by mirroring with a scrub of the
  primary channel.\<close>

definition bdw_epex_ce_type :: "nat \<Rightarrow> u64 \<Rightarrow> u64 \<Rightarrow> nat" where
  "bdw_epex_ce_type bank status misc =
    (if bank \<notin> {7, 8} then 0
     else if status AND MCI_STATUS_MISCV \<noteq> 0
     then if misc AND BDW_MCI_MISC_FO \<noteq> 0 then 1 else if misc AND BDW_MCI_MISC_MC \<noteq> 0 then 2 else 0
     else 0)"

lemma bdw_epex_decode_model_frame [frame]: "msg_step s t \<Longrightarrow> msg_step s (bdw_epex_decode_model cputype bank status misc t)"
  unfolding bdw_epex_decode_model_def Let_def by (intro frame)

section \<open>Denverton\<close>

definition dnv_mc_bits :: "field list" where
  "dnv_mc_bits =
    [SBITFIELD 16 ''Cmd/Addr parity'',
     SBITFIELD 17 ''Corrected Demand/Patrol Scrub Error'',
     SBITFIELD 18 ''Uncorrected patrol scrub error'',
     SBITFIELD 19 ''Uncorrected demand read error'',
     SBITFIELD 20 ''WDB read ECC'']"

definition denverton_decode_model :: "cputype \<Rightarrow> nat \<Rightarrow> u64 \<Rightarrow> u64 \<Rightarrow>
    'a msg_state_scheme \<Rightarrow> 'a msg_state_scheme" where
  "denverton_decode_model cputype bank status misc s =
    (let v5 = bank in
         if v5 \<in> {6, 7} then (let s = Wput ''MemCtrl: '' [] s in
           decode_bitfield status dnv_mc_bits s)
         else s)"

lemma denverton_decode_model_frame [frame]: "msg_step s t \<Longrightarrow> msg_step s (denverton_decode_model cputype bank status misc t)"
  unfolding denverton_decode_model_def Let_def by (intro frame)

section \<open>Skylake server\<close>

definition skx_pcu_1 :: "string option list" where
  "skx_pcu_1 = tbl
    [(0x0, ''No Error''),
     (0xD, ''MCA_DMI_TRAINING_TIMEOUT''),
     (0xF, ''MCA_DMI_CPU_RESET_ACK_TIMEOUT''),
     (0x10, ''MCA_MORE_THAN_ONE_LT_AGENT''),
     (0x1E, ''MCA_BIOS_RST_CPL_INVALID_SEQ''),
     (0x1F, ''MCA_BIOS_INVALID_PKG_STATE_CONFIG''),
     (0x25, ''MCA_MESSAGE_CHANNEL_TIMEOUT''),
     (0x27, ''MCA_MSGCH_PMREQ_CMP_TIMEOUT''),
     (0x30, ''MCA_PKGC_DIRECT_WAKE_RING_TIMEOUT''),
     (0x31, ''MCA_PKGC_INVALID_RSP_PCH''),
     (0x33, ''MCA_PKGC_WATCHDOG_HANG_CBZ_DOWN''),
     (0x34, ''MCA_PKGC_WATCHDOG_HANG_CBZ_UP''),
     (0x38, ''MCA_PKGC_WATCHDOG_HANG_C3_UP_SF''),
     (0x40, ''MCA_SVID_VCCIN_VR_ICC_MAX_FAILURE''),
     (0x41, ''MCA_SVID_COMMAND_TIMEOUT''),
     (0x42, ''MCA_SVID_VCCIN_VR_VOUT_FAILURE''),
     (0x43, ''MCA_SVID_CPU_VR_CAPABILITY_ERROR''),
     (0x44, ''MCA_SVID_CRITICAL_VR_FAILED''),
     (0x45, ''MCA_SVID_SA_ITD_ERROR''),
     (0x46, ''MCA_SVID_READ_REG_FAILED''),
     (0x47, ''MCA_SVID_WRITE_REG_FAILED''),
     (0x48, ''MCA_SVID_PKGC_INIT_FAILED''),
     (0x49, ''MCA_SVID_PKGC_CONFIG_FAILED''),
     (0x4A, ''MCA_SVID_PKGC_REQUEST_FAILED''),
     (0x4B, ''MCA_SVID_IMON_REQUEST_FAILED''),
     (0x4C, ''MCA_SVID_ALERT_REQUEST_FAILED''),
     (0x4D, ''MCA_SVID_MCP_VR_ABSENT_OR_RAMP_ERROR''),
     (0x4E, ''MCA_SVID_UNEXPECTED_MCP_VR_DETECTED''),
     (0x51, ''MCA_FIVR_CATAS_OVERVOL_FAULT''),
     (0x52, ''MCA_FIVR_CATAS_OVERCUR_FAULT''),
     (0x58, ''MCA_WATCHDOG_TIMEOUT_PKGC_SECONDARY''),
     (0x59, ''MCA_WATCHDOG_TIMEOUT_PKGC_MAIN''),
     (0x5A, ''MCA_WATCHDOG_TIMEOUT_PKGS_MAIN''),
     (0x61, ''MCA_PKGS_CPD_UNCPD_TIMEOUT''),
     (0x63, ''MCA_PKGS_INVALID_REQ_PCH''),
     (0x64, ''MCA_PKGS_INVALID_REQ_INTERNAL''),
     (0x65, ''MCA_PKGS_INVALID_RSP_INTERNAL''),
     (0x6B, ''MCA_PKGS_SMBUS_VPP_PAUSE_TIMEOUT''),
     (0x81, ''MCA_RECOVERABLE_DIE_THERMAL_TOO_HOT'')]"

definition skx_pcu_mc4 :: "field list" where
  "skx_pcu_mc4 =
    [FIELD 24 skx_pcu_1]"

definition skx_upi :: "string option list" where
  "skx_upi = tbl
    [(0x0, ''UC Phy Initialization Failure''),
     (0x1, ''UC Phy detected drift buffer alarm''),
     (0x2, ''UC Phy detected latency buffer rollover''),
     (0x10, ''UC LL Rx detected CRC error: unsuccessful LLR: entered abort state''),
     (0x11, ''UC LL Rx unsupported or undefined packet''),
     (0x12, ''UC LL or Phy control error''),
     (0x13, ''UC LL Rx parameter exchange exception''),
     (0x1F, ''UC LL detected control error from the link-mesh interface''),
     (0x20, ''COR Phy initialization abort''),
     (0x21, ''COR Phy reset''),
     (0x22, ''COR Phy lane failure, recovery in x8 width''),
     (0x23, ''COR Phy L0c error corrected without Phy reset''),
     (0x24, ''COR Phy L0c error triggering Phy Reset''),
     (0x25, ''COR Phy L0p exit error corrected with Phy reset''),
     (0x30, ''COR LL Rx detected CRC error - successful LLR without Phy Reinit''),
     (0x31, ''COR LL Rx detected CRC error - successful LLR with Phy Reinit'')]"

definition skx_upi_mc :: "field list" where
  "skx_upi_mc =
    [FIELD 16 skx_upi]"

definition skx_upi_0x12 :: "field list" where
  "skx_upi_0x12 =
    [SBITFIELD 22 ''Phy Control Error'',
     SBITFIELD 23 ''Unexpected Retry.Ack flit'',
     SBITFIELD 24 ''Unexpected Retry.Req flit'',
     SBITFIELD 25 ''RF parity error'',
     SBITFIELD 26 ''Routeback Table error'',
     SBITFIELD 27 ''unexpected Tx Protocol flit (EOP, Header or Data)'',
     SBITFIELD 28 ''Rx Header-or-Credit BGF credit overflow/underflow'',
     SBITFIELD 29 ''Link Layer Reset still in progress when Phy enters L0'',
     SBITFIELD 30 ''Link Layer reset initiated while protocol traffic not idle'',
     SBITFIELD 31 ''Link Layer Tx Parity Error'']"

definition skx_mc_bits :: "field list" where
  "skx_mc_bits =
    [SBITFIELD 16 ''Address parity error'',
     SBITFIELD 17 ''HA write data parity error'',
     SBITFIELD 18 ''HA write byte enable parity error'',
     SBITFIELD 19 ''Corrected patrol scrub error'',
     SBITFIELD 20 ''Uncorrected patrol scrub error'',
     SBITFIELD 21 ''Corrected spare error'',
     SBITFIELD 22 ''Uncorrected spare error'',
     SBITFIELD 23 ''Any HA read error'',
     SBITFIELD 24 ''WDB read parity error'',
     SBITFIELD 25 ''DDR4 command address parity error'',
     SBITFIELD 26 ''Uncorrected address parity error'']"

definition skx_mc_0x8xx :: "string option list" where
  "skx_mc_0x8xx = tbl
    [(0x0, ''Unrecognized request type''),
     (0x1, ''Read response to an invalid scoreboard entry''),
     (0x2, ''Unexpected read response''),
     (0x3, ''DDR4 completion to an invalid scoreboard entry''),
     (0x4, ''Completion to an invalid scoreboard entry''),
     (0x5, ''Completion FIFO overflow''),
     (0x6, ''Correctable parity error''),
     (0x7, ''Uncorrectable error''),
     (0x8, ''Interrupt received while outstanding interrupt was not ACKed''),
     (0x9, ''ERID FIFO overflow''),
     (0xA, ''Error on Write credits''),
     (0xB, ''Error on Read credits''),
     (0xC, ''Scheduler error''),
     (0xD, ''Error event'')]"

definition skx_memctrl_mc13 :: "field list" where
  "skx_memctrl_mc13 =
    [FIELD 16 skx_mc_0x8xx]"

definition skx_m2m :: "field list" where
  "skx_m2m =
    [SBITFIELD 16 ''MscodDataRdErr'',
     SBITFIELD 17 ''Reserved'',
     SBITFIELD 18 ''MscodPtlWrErr'',
     SBITFIELD 19 ''MscodFullWrErr'',
     SBITFIELD 20 ''MscodBgfErr'',
     SBITFIELD 21 ''MscodTimeout'',
     SBITFIELD 22 ''MscodParErr'',
     SBITFIELD 23 ''MscodBucket1Err'']"

definition skylake_s_decode_model :: "cputype \<Rightarrow> nat \<Rightarrow> u64 \<Rightarrow> u64 \<Rightarrow>
    'a msg_state_scheme \<Rightarrow> 'a msg_state_scheme" where
  "skylake_s_decode_model cputype bank status misc s =
    (let v5 = bank in
         if v5 = 4 then (let s = Wput ''PCU: '' [] s in
           let s = (let v11 = (EXTRACT status 0 15) AND (NOT (push_bit 12 1)) in
               if v11 \<in> {0x402, 0x403} then Wput ''Internal errors '' [] s
               else if v11 = 0x406 then Wput ''Intel TXT errors '' [] s
               else if v11 = 0x407 then Wput ''Other UBOX Internal errors '' [] s
               else s) in
           let s = (if (EXTRACT status 16 19) \<noteq> 0 then Wput ''PCU internal error '' [] s else s) in
           decode_bitfield status skx_pcu_mc4 s)
         else if v5 \<in> {5, 12, 19} then (let s = Wput ''UPI: '' [] s in
           let s = decode_bitfield status skx_upi_mc s in
           if (EXTRACT status 16 21) = 0x12 then decode_bitfield status skx_upi_0x12 s else s)
         else if v5 \<in> {7, 8} then (let s = Wput ''M2M: '' [] s in
           decode_bitfield status skx_m2m s)
         else if 13 \<le> v5 \<and> v5 \<le> 18 then (let s = Wput ''MemCtrl: '' [] s in
           if (EXTRACT status 27 27) \<noteq> 0 then decode_bitfield status skx_memctrl_mc13 s else decode_bitfield status skx_mc_bits s)
         else s)"

definition SKX_MCI_MISC_FO :: u64 where "SKX_MCI_MISC_FO = push_bit 63 1"
definition SKX_MCI_MISC_MC :: u64 where "SKX_MCI_MISC_MC = push_bit 62 1"

text \<open>0: corrected by ECC, 1: by mirroring with channel failover, 2: by mirroring with a scrub of the
  primary channel.\<close>

definition skylake_s_ce_type :: "nat \<Rightarrow> u64 \<Rightarrow> u64 \<Rightarrow> nat" where
  "skylake_s_ce_type bank status misc =
    (if bank \<notin> {7, 8} then 0
     else if status AND MCI_STATUS_MISCV \<noteq> 0
     then if misc AND SKX_MCI_MISC_FO \<noteq> 0 then 1 else if misc AND SKX_MCI_MISC_MC \<noteq> 0 then 2 else 0
     else 0)"

lemma skylake_s_decode_model_frame [frame]: "msg_step s t \<Longrightarrow> msg_step s (skylake_s_decode_model cputype bank status misc t)"
  unfolding skylake_s_decode_model_def Let_def by (intro frame)


end
