(* ===== verification/DecodeScalable.thy ===== *)
theory DecodeScalable
  imports Mce
begin

text \<open>
  The model-specific decoders of the newer server processors: \<^verbatim>\<open>src/i10nm.c\<close>, \<^verbatim>\<open>src/sapphire.c\<close>,
  \<^verbatim>\<open>src/granite.c\<close> and \<^verbatim>\<open>src/diamond.c\<close>.
\<close>

datatype banktype = BT_UNKNOWN | BT_PCU | BT_UPI | BT_M2M | BT_IMC | BT_HBMM2M | BT_HBMIMC

text \<open>An entry that the initialiser of a bank table does not name is 0, that is \<open>BT_UNKNOWN\<close>.\<close>

definition bank_at :: "banktype option list \<Rightarrow> nat \<Rightarrow> banktype option" where
  "bank_at t bank = (if bank < length t then Some (case t ! bank of Some b \<Rightarrow> b | None \<Rightarrow> BT_UNKNOWN) else None)"

section \<open>Ice Lake and Tremont\<close>

definition i10_pcu_1 :: "string option list" where
  "i10_pcu_1 = tbl
    ([(0xD, ''MCA_LLC_BIST_ACTIVE_TIMEOUT''),
     (0xE, ''MCA_DMI_TRAINING_TIMEOUT''),
     (0xF, ''MCA_DMI_STRAP_SET_ARRIVAL_TIMEOUT''),
     (0x10, ''MCA_DMI_CPU_RESET_ACK_TIMEOUT''),
     (0x11, ''MCA_MORE_THAN_ONE_LT_AGENT''),
     (0x14, ''MCA_INCOMPATIBLE_PCH_TYPE''),
     (0x1E, ''MCA_BIOS_RST_CPL_INVALID_SEQ''),
     (0x1F, ''MCA_BIOS_INVALID_PKG_STATE_CONFIG''),
     (0x2D, ''MCA_PCU_PMAX_CALIB_ERROR''),
     (0x2E, ''MCA_TSC100_SYNC_TIMEOUT''),
     (0x3A, ''MCA_GPSB_TIMEOUT''),
     (0x3B, ''MCA_PMSB_TIMEOUT''),
     (0x3E, ''MCA_IOSFSB_PMREQ_CMP_TIMEOUT''),
     (0x40, ''MCA_SVID_VCCIN_VR_ICC_MAX_FAILURE''),
     (0x42, ''MCA_SVID_VCCIN_VR_VOUT_FAILURE''),
     (0x43, ''MCA_SVID_CPU_VR_CAPABILITY_ERROR''),
     (0x44, ''MCA_SVID_CRITICAL_VR_FAILED''),
     (0x45, ''MCA_SVID_SA_ITD_ERROR''),
     (0x46, ''MCA_SVID_READ_REG_FAILED''),
     (0x47, ''MCA_SVID_WRITE_REG_FAILED''),
     (0x4A, ''MCA_SVID_PKGC_REQUEST_FAILED''),
     (0x4B, ''MCA_SVID_IMON_REQUEST_FAILED''),
     (0x4C, ''MCA_SVID_ALERT_REQUEST_FAILED''),
     (0x4D, ''MCA_SVID_MCP_VR_RAMP_ERROR''),
     (0x56, ''MCA_FIVR_PD_HARDERR''),
     (0x58, ''MCA_WATCHDOG_TIMEOUT_PKGC_SECONDARY''),
     (0x59, ''MCA_WATCHDOG_TIMEOUT_PKGC_MAIN''),
     (0x5A, ''MCA_WATCHDOG_TIMEOUT_PKGS_MAIN''),
     (0x5B, ''MCA_WATCHDOG_TIMEOUT_MSG_CH_FSM''),
     (0x5C, ''MCA_WATCHDOG_TIMEOUT_BULK_CR_FSM''),
     (0x5D, ''MCA_WATCHDOG_TIMEOUT_IOSFSB_FSM''),
     (0x60, ''MCA_PKGS_SAFE_WP_TIMEOUT''),
     (0x61, ''MCA_PKGS_CPD_UNCPD_TIMEOUT''),
     (0x62, ''MCA_PKGS_INVALID_REQ_PCH''),
     (0x63, ''MCA_PKGS_INVALID_REQ_INTERNAL''),
     (0x64, ''MCA_PKGS_INVALID_RSP_INTERNAL'')] @
     tbl_range 0x65 0x7A ''MCA_PKGS_RESET_PREP_TIMEOUT'' @
     [(0x7B, ''MCA_PKGS_SMBUS_VPP_PAUSE_TIMEOUT''),
     (0x7C, ''MCA_PKGS_SMBUS_MCP_PAUSE_TIMEOUT''),
     (0x7D, ''MCA_PKGS_SMBUS_SPD_PAUSE_TIMEOUT''),
     (0x80, ''MCA_PKGC_DISP_BUSY_TIMEOUT''),
     (0x81, ''MCA_PKGC_INVALID_RSP_PCH''),
     (0x83, ''MCA_PKGC_WATCHDOG_HANG_CBZ_DOWN''),
     (0x84, ''MCA_PKGC_WATCHDOG_HANG_CBZ_UP''),
     (0x87, ''MCA_PKGC_WATCHDOG_HANG_C2_BLKMASTER''),
     (0x88, ''MCA_PKGC_WATCHDOG_HANG_C2_PSLIMIT''),
     (0x89, ''MCA_PKGC_WATCHDOG_HANG_SETDISP''),
     (0x8B, ''MCA_PKGC_ALLOW_L1_ERROR''),
     (0x90, ''MCA_RECOVERABLE_DIE_THERMAL_TOO_HOT''),
     (0xA0, ''MCA_ADR_SIGNAL_TIMEOUT''),
     (0xA1, ''MCA_BCLK_FREQ_OC_ABOVE_THRESHOLD''),
     (0xB0, ''MCA_DISPATCHER_RUN_BUSY_TIMEOUT'')])"

definition i10_pcu_2 :: "string option list" where
  "i10_pcu_2 = tbl
    [(0x4, ''Clock/power IP response timeout''),
     (0x5, ''SMBus controller raised SMI''),
     (0x9, ''PM controller received invalid transaction'')]"

definition i10_pcu_3 :: "string option list" where
  "i10_pcu_3 = tbl
    [(0x1, ''Instruction address out of valid space''),
     (0x2, ''Double bit RAM error on Instruction Fetch''),
     (0x3, ''Invalid OpCode seen''),
     (0x4, ''Stack Underflow''),
     (0x5, ''Stack Overflow''),
     (0x6, ''Data address out of valid space''),
     (0x7, ''Double bit RAM error on Data Fetch'')]"

definition i10_pcu1 :: "field list" where
  "i10_pcu1 =
    [FIELD 0 i10_pcu_1]"

definition i10_pcu2 :: "field list" where
  "i10_pcu2 =
    [FIELD 0 i10_pcu_2]"

definition i10_pcu3 :: "field list" where
  "i10_pcu3 =
    [FIELD 0 i10_pcu_3]"

definition i10_upi1 :: "field list" where
  "i10_upi1 =
    [SBITFIELD 22 ''Phy Control Error'',
     SBITFIELD 23 ''Unexpected Retry.Ack flit'',
     SBITFIELD 24 ''Unexpected Retry.Req flit'',
     SBITFIELD 25 ''RF parity error'',
     SBITFIELD 26 ''Routeback Table error'',
     SBITFIELD 27 ''Unexpected Tx Protocol flit (EOP, Header or Data)'',
     SBITFIELD 28 ''Rx Header-or-Credit BGF credit overflow/underflow'',
     SBITFIELD 29 ''Link Layer Reset still in progress when Phy enters L0'',
     SBITFIELD 30 ''Link Layer reset initiated while protocol traffic not idle'',
     SBITFIELD 31 ''Link Layer Tx Parity Error'']"

definition i10_upi_2 :: "string option list" where
  "i10_upi_2 = tbl
    [(0x0, ''Phy Initialization Failure (NumInit)''),
     (0x1, ''Phy Detected Drift Buffer Alarm''),
     (0x2, ''Phy Detected Latency Buffer Rollover''),
     (0x10, ''LL Rx detected CRC error: unsuccessful LLR (entered Abort state)''),
     (0x11, ''LL Rx Unsupported/Undefined packet''),
     (0x12, ''LL or Phy Control Error''),
     (0x13, ''LL Rx Parameter Exception''),
     (0x1F, ''LL Detected Control Error''),
     (0x20, ''Phy Initialization Abort''),
     (0x21, ''Phy Inband Reset''),
     (0x22, ''Phy Lane failure, recovery in x8 width''),
     (0x23, ''Phy L0c error corrected without Phy reset''),
     (0x24, ''Phy L0c error triggering Phy reset''),
     (0x25, ''Phy L0p exit error corrected with reset''),
     (0x30, ''LL Rx detected CRC error: successful LLR without Phy Reinit''),
     (0x31, ''LL Rx detected CRC error: successful LLR with Phy Reinit''),
     (0x32, ''Tx received LLR'')]"

definition i10_upi2 :: "field list" where
  "i10_upi2 =
    [FIELD 0 i10_upi_2]"

definition i10_m2m :: "field list" where
  "i10_m2m =
    [SBITFIELD 16 ''MC read data error'',
     SBITFIELD 17 ''Reserved'',
     SBITFIELD 18 ''MC partial write data error'',
     SBITFIELD 19 ''Full write data error'',
     SBITFIELD 20 ''M2M clock-domain-crossing buffer (BGF) error'',
     SBITFIELD 21 ''M2M time out'',
     SBITFIELD 22 ''M2M tracker parity error'',
     SBITFIELD 23 ''fatal Bucket1 error'']"

definition i10_imc_0 :: "string option list" where
  "i10_imc_0 = tbl
    [(0x1, ''Address parity error''),
     (0x2, ''Data parity error''),
     (0x3, ''Data ECC error''),
     (0x4, ''Data byte enable parity error''),
     (0x7, ''Transaction ID parity error''),
     (0x8, ''Corrected patrol scrub error''),
     (0x10, ''Uncorrected patrol scrub error''),
     (0x20, ''Corrected spare error''),
     (0x40, ''Uncorrected spare error''),
     (0x80, ''Corrected read error''),
     (0xA0, ''Uncorrected read error''),
     (0xC0, ''Uncorrected metadata'')]"

definition i10_imc_1 :: "string option list" where
  "i10_imc_1 = tbl
    [(0x0, ''WDB read parity error''),
     (0x3, ''RPA parity error''),
     (0x6, ''DDR_T_DPPP data BE error''),
     (0x7, ''DDR_T_DPPP data error''),
     (0x8, ''DDR link failure''),
     (0x11, ''PCLS CAM error''),
     (0x12, ''PCLS data error'')]"

definition i10_imc_2 :: "string option list" where
  "i10_imc_2 = tbl
    [(0x0, ''DDR command / address parity error''),
     (0x20, ''HBM command / address parity error''),
     (0x21, ''HBM data parity error'')]"

definition i10_imc_4 :: "string option list" where
  "i10_imc_4 = tbl
    [(0x0, ''RPQ parity (primary) error'')]"

definition i10_imc_8 :: "string option list" where
  "i10_imc_8 = tbl
    [(0x0, ''DDR-T bad request''),
     (0x1, ''DDR Data response to an invalid entry''),
     (0x2, ''DDR data response to an entry not expecting data''),
     (0x3, ''DDR completion to an invalid entry''),
     (0x4, ''DDR-T completion to an invalid entry''),
     (0x5, ''DDR data/completion FIFO overflow''),
     (0x6, ''DDR-T ERID correctable parity error''),
     (0x7, ''DDR-T ERID uncorrectable error''),
     (0x8, ''DDR-T interrupt received while outstanding interrupt was not ACKed''),
     (0x9, ''ERID FI FO overflow''),
     (0xA, ''DDR-T error on FNV write credits''),
     (0xB, ''DDR-T error on FNV read credits''),
     (0xC, ''DDR-T scheduler error''),
     (0xD, ''DDR-T FNV error event''),
     (0xE, ''DDR-T FNV thermal event''),
     (0xF, ''CMI packet while idle''),
     (0x10, ''DDR_T_RPQ_REQ_PARITY_ERR''),
     (0x11, ''DDR_T_WPQ_REQ_PARITY_ERR''),
     (0x12, ''2LM_NMFILLWR_CAM_ERR''),
     (0x13, ''CMI_CREDIT_OVERSUB_ERR''),
     (0x14, ''CMI_CREDIT_TOTAL_ERR''),
     (0x15, ''CMI_CREDIT_RSVD_POOL_ERR''),
     (0x16, ''DDR_T_RD_ERROR''),
     (0x17, ''WDB_FIFO_ERR''),
     (0x18, ''CMI_REQ_FIFO_OVERFLOW''),
     (0x19, ''CMI_REQ_FIFO_UNDERFLOW''),
     (0x1A, ''CMI_RSP_FIFO_OVERFLOW''),
     (0x1B, ''CMI_RSP_FIFO_UNDERFLOW''),
     (0x1C, ''CMI _MISC_MC_CRDT_ERRORS''),
     (0x1D, ''CMI_MISC_MC_ARB_ERRORS''),
     (0x1E, ''DDR_T_WR_CMPL_FI FO_OVERFLOW''),
     (0x1F, ''DDR_T_WR_CMPL_FI FO_UNDERFLOW''),
     (0x20, ''CMI_RD_CPL_FIFO_OVERFLOW''),
     (0x21, ''CMI_RD_CPL_FIFO_UNDERFLOW''),
     (0x22, ''TME_KEY_PAR_ERR''),
     (0x23, ''TME_CMI_MISC_ERR''),
     (0x24, ''TME_CMI_OVFL_ERR''),
     (0x25, ''TME_CMI_UFL_ERR''),
     (0x26, ''TME_TEM_SECURE_ERR''),
     (0x27, ''TME_UFILL_PAR_ERR''),
     (0x29, ''INTERNAL_ERR''),
     (0x2A, ''TME_INTEGRITY_ERR''),
     (0x2B, ''TME_TDX_ERR''),
     (0x2C, ''TME_UFILL_TEM_SECURE_ERR''),
     (0x2D, ''TME_KEY_POISON_ERR''),
     (0x2E, ''TME_SECURITY_ENGINE_ERR'')]"

definition i10_imc_10 :: "string option list" where
  "i10_imc_10 = tbl
    [(0x8, ''CORR_PATSCRUB_MIRR2ND_ERR''),
     (0x10, ''UC_PATSCRUB_MIRR2ND_ERR''),
     (0x20, ''COR_SPARE_MIRR2ND_ERR''),
     (0x40, ''UC_SPARE_MIRR2ND_ERR''),
     (0x80, ''HA_RD_MIRR2ND_ERR''),
     (0xA0, ''HA_UNCORR_RD_MIRR2ND_ERR'')]"

definition i10_imc0 :: "field list" where
  "i10_imc0 =
    [FIELD 0 i10_imc_0]"

definition i10_imc1 :: "field list" where
  "i10_imc1 =
    [FIELD 0 i10_imc_1]"

definition i10_imc2 :: "field list" where
  "i10_imc2 =
    [FIELD 0 i10_imc_2]"

definition i10_imc4 :: "field list" where
  "i10_imc4 =
    [FIELD 0 i10_imc_4]"

definition i10_imc8 :: "field list" where
  "i10_imc8 =
    [FIELD 0 i10_imc_8]"

definition i10_imc10 :: "field list" where
  "i10_imc10 =
    [FIELD 0 i10_imc_10]"

definition i10_icelake :: "banktype option list" where
  "i10_icelake = tbl_n 32
    (tbl_range 4 4 BT_PCU @
     tbl_range 5 5 BT_UPI @
     tbl_range 7 8 BT_UPI @
     tbl_range 12 12 BT_M2M @
     tbl_range 16 16 BT_M2M @
     tbl_range 20 20 BT_M2M @
     tbl_range 24 24 BT_M2M @
     tbl_range 13 15 BT_IMC @
     tbl_range 17 19 BT_IMC @
     tbl_range 21 23 BT_IMC @
     tbl_range 25 27 BT_IMC)"

definition i10_icelake_de :: "banktype option list" where
  "i10_icelake_de = tbl_n 32
    (tbl_range 4 4 BT_PCU @
     tbl_range 12 12 BT_M2M @
     tbl_range 16 16 BT_M2M @
     tbl_range 13 15 BT_IMC @
     tbl_range 17 19 BT_IMC)"

definition i10_tremont :: "banktype option list" where
  "i10_tremont = tbl_n 32
    (tbl_range 4 4 BT_PCU @
     tbl_range 12 12 BT_M2M @
     tbl_range 13 15 BT_IMC)"

definition i10nm_imc_misc :: "u64 \<Rightarrow> u64 \<Rightarrow>
    'a msg_state_scheme \<Rightarrow> 'a msg_state_scheme" where
  "i10nm_imc_misc status misc s =
    (let column = (ucast (push_bit 2 (EXTRACT misc 9 18)) :: u32) in
     let row = (ucast (EXTRACT misc 19 39) :: u32) in
     let bank = (ucast (EXTRACT misc 42 43) :: u32) in
     let bankgroup = (ucast ((EXTRACT misc 40 41) OR (push_bit 2 (EXTRACT misc 44 44))) :: u32) in
     let fdevice = (ucast (EXTRACT misc 46 51) :: u32) in
     let subrank = (ucast (EXTRACT misc 52 55) :: u32) in
     let rank = (ucast (EXTRACT misc 56 58) :: u32) in
     let eccmode = (ucast (EXTRACT misc 59 62) :: u32) in
     let transient = (ucast (EXTRACT misc 63 63) :: u32) in
     let s = Wput ''bank: 0x%x bankgroup: 0x%x row: 0x%x column: 0x%x\<newline>'' [PU bank, PU bankgroup, PU row, PU column] s in
     let s = (if (\<not> (transient \<noteq> 0)) \<and> (\<not> ((EXTRACT status 61 61) \<noteq> 0)) then Wput ''failed device: 0x%x\<newline>'' [PU fdevice] s else s) in
     let s = Wput ''rank: 0x%x subrank: 0x%x\<newline>'' [PU rank, PU subrank] s in
     let s = Wput ''ecc mode: '' [] s in
     let s = (let v5 = eccmode in
         if v5 = 0 then Wput ''SDDC memory mode\<newline>'' [] s
         else if v5 = 1 then Wput ''SDDC\<newline>'' [] s
         else if v5 = 4 then Wput ''ADDDC memory mode\<newline>'' [] s
         else if v5 = 5 then Wput ''ADDDC\<newline>'' [] s
         else if v5 = 8 then Wput ''DDRT read\<newline>'' [] s
         else Wput ''unknown\<newline>'' [] s) in
     if transient \<noteq> 0 then Wput ''transient\<newline>'' [] s else s)"

definition i10nm_decode_bank :: "banktype \<Rightarrow> nat \<Rightarrow> u64 \<Rightarrow> u64 \<Rightarrow>
    'a msg_state_scheme \<Rightarrow> 'a msg_state_scheme" where
  "i10nm_decode_bank banktype bank status misc s =
    (let v5 = banktype in
         if v5 = BT_UNKNOWN then s
         else if v5 = BT_PCU then (let s = Wput ''PCU: '' [] s in
           let f = EXTRACT status 24 31 in
           let s = (if f \<noteq> 0 then decode_bitfield f i10_pcu1 s else s) in
           let f = EXTRACT status 20 23 in
           let s = (if f \<noteq> 0 then decode_bitfield f i10_pcu2 s else s) in
           let f = EXTRACT status 16 19 in
           if f \<noteq> 0 then decode_bitfield f i10_pcu3 s else s)
         else if v5 = BT_UPI then (let s = Wput ''UPI: '' [] s in
           let f = EXTRACT status 22 31 in
           let s = (if f \<noteq> 0 then decode_bitfield status i10_upi1 s else s) in
           let f = EXTRACT status 16 21 in
           decode_bitfield f i10_upi2 s)
         else if v5 = BT_M2M then (let s = Wput ''M2M: '' [] s in
           let f = EXTRACT status 24 25 in
           let s = Wput ''MscodDDRType=0x%llx\<newline>'' [PU f] s in
           let f = EXTRACT status 26 31 in
           let s = Wput ''MscodMiscErrs=0x%llx\<newline>'' [PU f] s in
           decode_bitfield status i10_m2m s)
         else if v5 = BT_IMC then (let s = Wput ''MemCtrl: '' [] s in
           let f = EXTRACT status 16 23 in
           let s = (let v11 = EXTRACT status 24 31 in
               if v11 = 0 then decode_bitfield f i10_imc0 s
               else if v11 = 1 then decode_bitfield f i10_imc1 s
               else if v11 = 2 then decode_bitfield f i10_imc2 s
               else if v11 = 4 then decode_bitfield f i10_imc4 s
               else if v11 = 8 then decode_bitfield f i10_imc8 s
               else if v11 = 0x10 then decode_bitfield f i10_imc10 s
               else s) in
           i10nm_imc_misc status misc s)
         else s)"

definition i10nm_banktype :: "cputype \<Rightarrow> nat \<Rightarrow> banktype option" where
  "i10nm_banktype cputype bank =
    (if cputype = CPU_ICELAKE_XEON then bank_at i10_icelake bank
     else if cputype = CPU_ICELAKE_DE then bank_at i10_icelake_de bank
     else if cputype = CPU_TREMONT_D then bank_at i10_tremont bank
     else None)"

definition i10nm_decode_model :: "cputype \<Rightarrow> nat \<Rightarrow> u64 \<Rightarrow> u64 \<Rightarrow>
    'a msg_state_scheme \<Rightarrow> 'a msg_state_scheme" where
  "i10nm_decode_model cputype bank status misc s =
    (case i10nm_banktype cputype bank of None \<Rightarrow> s | Some b \<Rightarrow> i10nm_decode_bank b bank status misc s)"

definition I10NM_MCI_MISC_FO :: u64 where "I10NM_MCI_MISC_FO = push_bit 63 1"
definition I10NM_MCI_MISC_MC :: u64 where "I10NM_MCI_MISC_MC = push_bit 62 1"

text \<open>0: corrected by ECC, 1: by mirroring with channel failover, 2: by mirroring with a scrub of the
  primary channel.\<close>

definition i10nm_ce_type :: "nat \<Rightarrow> u64 \<Rightarrow> u64 \<Rightarrow> nat" where
  "i10nm_ce_type bank status misc =
    (if bank \<notin> {12, 16, 20, 24} then 0
     else if status AND MCI_STATUS_MISCV \<noteq> 0
     then if misc AND I10NM_MCI_MISC_FO \<noteq> 0 then 1 else if misc AND I10NM_MCI_MISC_MC \<noteq> 0 then 2 else 0
     else 0)"

lemma i10nm_imc_misc_frame [frame]: "msg_step s t \<Longrightarrow> msg_step s (i10nm_imc_misc status misc t)"
  unfolding i10nm_imc_misc_def Let_def by (intro frame)

lemma i10nm_decode_bank_frame [frame]: "msg_step s t \<Longrightarrow> msg_step s (i10nm_decode_bank banktype bank status misc t)"
  unfolding i10nm_decode_bank_def Let_def by (intro frame)

lemma i10_model_frame [frame]: "msg_step s t \<Longrightarrow> msg_step s (i10nm_decode_model cputype bank status misc t)"
  unfolding i10nm_decode_model_def by (auto simp: frame split: option.split)

section \<open>Sapphire Rapids\<close>

definition spr_pcu_1 :: "string option list" where
  "spr_pcu_1 = tbl
    ([(0xD, ''MCA_LLC_BIST_ACTIVE_TIMEOUT''),
     (0xE, ''MCA_DMI_TRAINING_TIMEOUT''),
     (0xF, ''MCA_DMI_STRAP_SET_ARRIVAL_TIMEOUT''),
     (0x10, ''MCA_DMI_CPU_RESET_ACK_TIMEOUT''),
     (0x11, ''MCA_MORE_THAN_ONE_LT_AGENT''),
     (0x14, ''MCA_INCOMPATIBLE_PCH_TYPE''),
     (0x1E, ''MCA_BIOS_RST_CPL_INVALID_SEQ''),
     (0x1F, ''MCA_BIOS_INVALID_PKG_STATE_CONFIG''),
     (0x2D, ''MCA_PCU_PMAX_CALIB_ERROR''),
     (0x2E, ''MCA_TSC100_SYNC_TIMEOUT''),
     (0x3A, ''MCA_GPSB_TIMEOUT''),
     (0x3B, ''MCA_PMSB_TIMEOUT''),
     (0x3E, ''MCA_IOSFSB_PMREQ_CMP_TIMEOUT''),
     (0x40, ''MCA_SVID_VCCIN_VR_ICC_MAX_FAILURE''),
     (0x42, ''MCA_SVID_VCCIN_VR_VOUT_FAILURE''),
     (0x43, ''MCA_SVID_CPU_VR_CAPABILITY_ERROR''),
     (0x44, ''MCA_SVID_CRITICAL_VR_FAILED''),
     (0x45, ''MCA_SVID_SA_ITD_ERROR''),
     (0x46, ''MCA_SVID_READ_REG_FAILED''),
     (0x47, ''MCA_SVID_WRITE_REG_FAILED''),
     (0x4A, ''MCA_SVID_PKGC_REQUEST_FAILED''),
     (0x4B, ''MCA_SVID_IMON_REQUEST_FAILED''),
     (0x4C, ''MCA_SVID_ALERT_REQUEST_FAILED''),
     (0x4D, ''MCA_SVID_MCP_VR_RAMP_ERROR''),
     (0x56, ''MCA_FIVR_PD_HARDERR''),
     (0x58, ''MCA_WATCHDOG_TIMEOUT_PKGC_SECONDARY''),
     (0x59, ''MCA_WATCHDOG_TIMEOUT_PKGC_MAIN''),
     (0x5A, ''MCA_WATCHDOG_TIMEOUT_PKGS_MAIN''),
     (0x5B, ''MCA_WATCHDOG_TIMEOUT_MSG_CH_FSM''),
     (0x5C, ''MCA_WATCHDOG_TIMEOUT_BULK_CR_FSM''),
     (0x5D, ''MCA_WATCHDOG_TIMEOUT_IOSFSB_FSM''),
     (0x60, ''MCA_PKGS_SAFE_WP_TIMEOUT''),
     (0x61, ''MCA_PKGS_CPD_UNCPD_TIMEOUT''),
     (0x62, ''MCA_PKGS_INVALID_REQ_PCH''),
     (0x63, ''MCA_PKGS_INVALID_REQ_INTERNAL''),
     (0x64, ''MCA_PKGS_INVALID_RSP_INTERNAL'')] @
     tbl_range 0x65 0x7A ''MCA_PKGS_RESET_PREP_TIMEOUT'' @
     [(0x7B, ''MCA_PKGS_SMBUS_VPP_PAUSE_TIMEOUT''),
     (0x7C, ''MCA_PKGS_SMBUS_MCP_PAUSE_TIMEOUT''),
     (0x7D, ''MCA_PKGS_SMBUS_SPD_PAUSE_TIMEOUT''),
     (0x80, ''MCA_PKGC_DISP_BUSY_TIMEOUT''),
     (0x81, ''MCA_PKGC_INVALID_RSP_PCH''),
     (0x83, ''MCA_PKGC_WATCHDOG_HANG_CBZ_DOWN''),
     (0x84, ''MCA_PKGC_WATCHDOG_HANG_CBZ_UP''),
     (0x87, ''MCA_PKGC_WATCHDOG_HANG_C2_BLKMASTER''),
     (0x88, ''MCA_PKGC_WATCHDOG_HANG_C2_PSLIMIT''),
     (0x89, ''MCA_PKGC_WATCHDOG_HANG_SETDISP''),
     (0x8B, ''MCA_PKGC_ALLOW_L1_ERROR''),
     (0x90, ''MCA_RECOVERABLE_DIE_THERMAL_TOO_HOT''),
     (0xA0, ''MCA_ADR_SIGNAL_TIMEOUT''),
     (0xA1, ''MCA_BCLK_FREQ_OC_ABOVE_THRESHOLD''),
     (0xB0, ''MCA_DISPATCHER_RUN_BUSY_TIMEOUT''),
     (0xC0, ''MCA_DISPATCHER_RUN_BUSY_TIMEOUT'')])"

definition spr_pcu_2 :: "string option list" where
  "spr_pcu_2 = tbl
    [(0x4, ''Clock/power IP response timeout''),
     (0x5, ''SMBus controller raised SMI''),
     (0x9, ''PM controller received invalid transaction'')]"

definition spr_pcu_3 :: "string option list" where
  "spr_pcu_3 = tbl
    [(0x1, ''Instruction address out of valid space''),
     (0x2, ''Double bit RAM error on Instruction Fetch''),
     (0x3, ''Invalid OpCode seen''),
     (0x4, ''Stack Underflow''),
     (0x5, ''Stack Overflow''),
     (0x6, ''Data address out of valid space''),
     (0x7, ''Double bit RAM error on Data Fetch'')]"

definition spr_pcu_4 :: "string option list" where
  "spr_pcu_4 = tbl
    [(0x1, ''MCE when CR4.MCE is clear''),
     (0x2, ''MCE when MCIP bit is set''),
     (0x3, ''MCE under WPS''),
     (0x4, ''Unrecoverable error during security flow execution''),
     (0x5, ''SW triple fault shutdown''),
     (0x6, ''VMX exit consistency check failures''),
     (0x7, ''RSM consistency check failures''),
     (0x8, ''Invalid conditions on protected mode SMM entry''),
     (0x9, ''Unrecoverable error during security flow execution'')]"

definition spr_pcu1 :: "field list" where
  "spr_pcu1 =
    [FIELD 0 spr_pcu_1]"

definition spr_pcu2 :: "field list" where
  "spr_pcu2 =
    [FIELD 0 spr_pcu_2]"

definition spr_pcu3 :: "field list" where
  "spr_pcu3 =
    [FIELD 0 spr_pcu_3]"

definition spr_pcu4 :: "field list" where
  "spr_pcu4 =
    [FIELD 0 spr_pcu_4]"

definition spr_upi1 :: "field list" where
  "spr_upi1 =
    [SBITFIELD 22 ''Phy Control Error'',
     SBITFIELD 23 ''Unexpected Retry.Ack flit'',
     SBITFIELD 24 ''Unexpected Retry.Req flit'',
     SBITFIELD 25 ''RF parity error'',
     SBITFIELD 26 ''Routeback Table error'',
     SBITFIELD 27 ''Unexpected Tx Protocol flit (EOP, Header or Data)'',
     SBITFIELD 28 ''Rx Header-or-Credit BGF credit overflow/underflow'',
     SBITFIELD 29 ''Link Layer Reset still in progress when Phy enters L0'',
     SBITFIELD 30 ''Link Layer reset initiated while protocol traffic not idle'',
     SBITFIELD 31 ''Link Layer Tx Parity Error'']"

definition spr_upi_2 :: "string option list" where
  "spr_upi_2 = tbl
    [(0x0, ''Phy Initialization Failure''),
     (0x1, ''Phy Detected Drift Buffer Alarm''),
     (0x2, ''Phy Detected Latency Buffer Rollover''),
     (0x10, ''LL Rx detected CRC error: unsuccessful LLR (entered Abort state)''),
     (0x11, ''LL Rx Unsupported/Undefined packet''),
     (0x12, ''LL or Phy Control Error''),
     (0x13, ''LL Rx Parameter Exception''),
     (0x15, ''UC LL Rx SGX MAC Error''),
     (0x1F, ''LL Detected Control Error''),
     (0x20, ''Phy Initialization Abort''),
     (0x21, ''Phy Inband Reset''),
     (0x22, ''Phy Lane failure, recovery in x8 width''),
     (0x23, ''Phy L0c error corrected without Phy reset''),
     (0x24, ''Phy L0c error triggering Phy reset''),
     (0x25, ''Phy L0p exit error corrected with reset''),
     (0x30, ''LL Rx detected CRC error: successful LLR without Phy Reinit''),
     (0x31, ''LL Rx detected CRC error: successful LLR with Phy Reinit'')]"

definition spr_upi2 :: "field list" where
  "spr_upi2 =
    [FIELD 0 spr_upi_2]"

definition spr_m2m_0 :: "string option list" where
  "spr_m2m_0 = tbl
    [(0x1, ''Read ECC error''),
     (0x2, ''Bucket1 error''),
     (0x3, ''RdTrkr Parity error''),
     (0x5, ''Prefetch channel mismatch''),
     (0x7, ''Read completion parity error''),
     (0x8, ''Response parity error''),
     (0x9, ''Timeout error''),
     (0xA, ''CMI reserved credit pool error''),
     (0xB, ''CMI total credit count error''),
     (0xC, ''CMI credit oversubscription error'')]"

definition spr_m2m :: "field list" where
  "spr_m2m =
    [FIELD 0 spr_m2m_0]"

definition spr_imc_0 :: "string option list" where
  "spr_imc_0 = tbl
    [(0x1, ''Address parity error''),
     (0x2, ''Data parity error''),
     (0x3, ''Data ECC error''),
     (0x4, ''Data byte enable parity error''),
     (0x7, ''Transaction ID parity error''),
     (0x8, ''Corrected patrol scrub error''),
     (0x10, ''Uncorrected patrol scrub error''),
     (0x20, ''Corrected spare error''),
     (0x40, ''Uncorrected spare error''),
     (0x80, ''Corrected read error''),
     (0xA0, ''Uncorrected read error''),
     (0xC0, ''Uncorrected metadata'')]"

definition spr_imc_1 :: "string option list" where
  "spr_imc_1 = tbl
    [(0x0, ''WDB read parity error''),
     (0x8, ''DDR link failure'')]"

definition spr_imc_2 :: "string option list" where
  "spr_imc_2 = tbl
    [(0x0, ''DDR5 command / address parity error'')]"

definition spr_imc_4 :: "string option list" where
  "spr_imc_4 = tbl
    [(0x0, ''RPQ parity (primary) error'')]"

definition spr_imc_8 :: "string option list" where
  "spr_imc_8 = tbl
    [(0x0, ''DDR-T bad request''),
     (0x1, ''DDR Data response to an invalid entry''),
     (0x2, ''DDR data response to an entry not expecting data''),
     (0x3, ''DDR completion to an invalid entry''),
     (0x4, ''DDR-T completion to an invalid entry''),
     (0x5, ''DDR data/completion FIFO overflow''),
     (0x6, ''DDR-T ERID correctable parity error''),
     (0x7, ''DDR-T ERID uncorrectable error''),
     (0x8, ''DDR-T interrupt received while outstanding interrupt was not ACKed''),
     (0x9, ''ERID FI FO overflow''),
     (0xA, ''DDR-T error on FNV write credits''),
     (0xB, ''DDR-T error on FNV read credits''),
     (0xC, ''DDR-T scheduler error''),
     (0xD, ''DDR-T FNV error event''),
     (0xE, ''DDR-T FNV thermal event''),
     (0xF, ''CMI packet while idle''),
     (0x10, ''DDR_T_RPQ_REQ_PARITY_ERR''),
     (0x11, ''DDR_T_WPQ_REQ_PARITY_ERR''),
     (0x12, ''2LM_NMFILLWR_CAM_ERR''),
     (0x13, ''CMI_CREDIT_OVERSUB_ERR''),
     (0x14, ''CMI_CREDIT_TOTAL_ERR''),
     (0x15, ''CMI_CREDIT_RSVD_POOL_ERR''),
     (0x16, ''DDR_T_RD_ERROR''),
     (0x17, ''WDB_FIFO_ERR''),
     (0x18, ''CMI_REQ_FIFO_OVERFLOW''),
     (0x19, ''CMI_REQ_FIFO_UNDERFLOW''),
     (0x1A, ''CMI_RSP_FIFO_OVERFLOW''),
     (0x1B, ''CMI_RSP_FIFO_UNDERFLOW''),
     (0x1C, ''CMI _MISC_MC_CRDT_ERRORS''),
     (0x1D, ''CMI_MISC_MC_ARB_ERRORS''),
     (0x1E, ''DDR_T_WR_CMPL_FI FO_OVERFLOW''),
     (0x1F, ''DDR_T_WR_CMPL_FI FO_UNDERFLOW''),
     (0x20, ''CMI_RD_CPL_FIFO_OVERFLOW''),
     (0x21, ''CMI_RD_CPL_FIFO_UNDERFLOW''),
     (0x22, ''TME_KEY_PAR_ERR''),
     (0x23, ''TME_CMI_MISC_ERR''),
     (0x24, ''TME_CMI_OVFL_ERR''),
     (0x25, ''TME_CMI_UFL_ERR''),
     (0x26, ''TME_TEM_SECURE_ERR''),
     (0x27, ''TME_UFILL_PAR_ERR''),
     (0x29, ''INTERNAL_ERR''),
     (0x2A, ''TME_INTEGRITY_ERR''),
     (0x2B, ''TME_TDX_ERR''),
     (0x2C, ''TME_UFILL_TEM_SECURE_ERR''),
     (0x2D, ''TME_KEY_POISON_ERR''),
     (0x2E, ''TME_SECURITY_ENGINE_ERR'')]"

definition spr_imc_10 :: "string option list" where
  "spr_imc_10 = tbl
    [(0x8, ''CORR_PATSCRUB_MIRR2ND_ERR''),
     (0x10, ''UC_PATSCRUB_MIRR2ND_ERR''),
     (0x20, ''COR_SPARE_MIRR2ND_ERR''),
     (0x40, ''UC_SPARE_MIRR2ND_ERR''),
     (0x80, ''HA_RD_MIRR2ND_ERR''),
     (0xA0, ''HA_UNCORR_RD_MIRR2ND_ERR'')]"

definition spr_imc0 :: "field list" where
  "spr_imc0 =
    [FIELD 0 spr_imc_0]"

definition spr_imc1 :: "field list" where
  "spr_imc1 =
    [FIELD 0 spr_imc_1]"

definition spr_imc2 :: "field list" where
  "spr_imc2 =
    [FIELD 0 spr_imc_2]"

definition spr_imc4 :: "field list" where
  "spr_imc4 =
    [FIELD 0 spr_imc_4]"

definition spr_imc8 :: "field list" where
  "spr_imc8 =
    [FIELD 0 spr_imc_8]"

definition spr_imc10 :: "field list" where
  "spr_imc10 =
    [FIELD 0 spr_imc_10]"

definition spr_sapphire :: "banktype option list" where
  "spr_sapphire = tbl_n 32
    (tbl_range 4 4 BT_PCU @
     tbl_range 5 5 BT_UPI @
     tbl_range 12 12 BT_M2M @
     tbl_range 13 20 BT_IMC @
     tbl_range 29 29 BT_HBMM2M @
     tbl_range 30 31 BT_HBMIMC)"

definition sapphire_imc_misc :: "bool \<Rightarrow> u64 \<Rightarrow> u64 \<Rightarrow>
    'a msg_state_scheme \<Rightarrow> 'a msg_state_scheme" where
  "sapphire_imc_misc hbm status misc s =
    (let column = (ucast (push_bit 2 (EXTRACT misc 9 18)) :: u32) in
     let row = (ucast (EXTRACT misc 19 39) :: u32) in
     let bank = (ucast (EXTRACT misc 39 40) :: u32) in
     let bankgroup = (ucast ((EXTRACT misc 37 38) OR (push_bit 2 (EXTRACT misc 41 41))) :: u32) in
     let fdevice = (ucast (EXTRACT misc 43 48) :: u32) in
     let hbm_fdevice = (ucast (EXTRACT misc 51 55) :: u32) in
     let subrank = (ucast (EXTRACT misc 52 55) :: u32) in
     let rank = (ucast (EXTRACT misc 56 58) :: u32) in
     let eccmode = (ucast (EXTRACT misc 59 62) :: u32) in
     let transient = (ucast (EXTRACT misc 63 63) :: u32) in
     let s = Wput ''bank: 0x%x bankgroup: 0x%x row: 0x%x column: 0x%x\<newline>'' [PU bank, PU bankgroup, PU row, PU column] s in
     let s = (if (\<not> (transient \<noteq> 0)) \<and> (\<not> ((EXTRACT status 61 61) \<noteq> 0)) then (if hbm then Wput ''failed device: 0x%x,0x%x\<newline>'' [PU hbm_fdevice, PU fdevice] s else Wput ''failed device: 0x%x\<newline>'' [PU fdevice] s) else s) in
     let s = Wput ''rank: 0x%x subrank: 0x%x\<newline>'' [PU rank, PU subrank] s in
     let s = (if hbm then (let v11 = eccmode in
               if v11 = 1 then Wput ''HBM 64B read\<newline>'' [] s
               else if v11 = 9 then Wput ''HBM 32B read\<newline>'' [] s
               else s) else let s = Wput ''ecc mode: '' [] s in
           let v11 = eccmode in
               if v11 = 0 then Wput ''SDDC 2LM memory mode\<newline>'' [] s
               else if v11 = 1 then Wput ''SDDC\<newline>'' [] s
               else if v11 = 2 then Wput ''SDDC+1 2LM memory mode\<newline>'' [] s
               else if v11 = 3 then Wput ''SDDC+1\<newline>'' [] s
               else if v11 = 4 then Wput ''ADDDC 2LM memory mode\<newline>'' [] s
               else if v11 = 5 then Wput ''ADDDC\<newline>'' [] s
               else if v11 = 6 then Wput ''ADDDC+1 2LM memory mode\<newline>'' [] s
               else if v11 = 7 then Wput ''ADDDC+1\<newline>'' [] s
               else if v11 = 8 then Wput ''DDRT read\<newline>'' [] s
               else Wput ''unknown\<newline>'' [] s) in
     if transient \<noteq> 0 then Wput ''transient\<newline>'' [] s else s)"

definition sapphire_decode_bank :: "banktype \<Rightarrow> nat \<Rightarrow> u64 \<Rightarrow> u64 \<Rightarrow>
    'a msg_state_scheme \<Rightarrow> 'a msg_state_scheme" where
  "sapphire_decode_bank banktype bank status misc s =
    (let v5 = banktype in
         if v5 = BT_UNKNOWN then s
         else if v5 = BT_PCU then (let s = Wput ''PCU: '' [] s in
           let f = EXTRACT status 24 31 in
           let s = (if f \<noteq> 0 then decode_bitfield f spr_pcu1 s else s) in
           let f = EXTRACT status 20 23 in
           let s = (if f \<noteq> 0 then decode_bitfield f spr_pcu2 s else s) in
           let f = EXTRACT status 16 19 in
           if f \<noteq> 0 then (if (EXTRACT status 0 15) \<noteq> 0x40C then decode_bitfield f spr_pcu3 s else decode_bitfield f spr_pcu4 s) else s)
         else if v5 = BT_UPI then (let s = Wput ''UPI: '' [] s in
           let f = EXTRACT status 22 31 in
           let s = (if f \<noteq> 0 then decode_bitfield status spr_upi1 s else s) in
           let f = EXTRACT status 16 21 in
           decode_bitfield f spr_upi2 s)
         else if v5 = BT_HBMM2M then (let s = Wput ''HBM: '' [] s in
           let s = Wput ''M2M: '' [] s in
           let f = EXTRACT status 24 25 in
           let s = (if f = 1 then Wput ''HBM Error\<newline>'' [] s else s) in
           let f = EXTRACT status 16 23 in
           decode_bitfield f spr_m2m s)
         else if v5 = BT_M2M then (let s = Wput ''M2M: '' [] s in
           let f = EXTRACT status 24 25 in
           let s = (if f = 1 then Wput ''HBM Error\<newline>'' [] s else s) in
           let f = EXTRACT status 16 23 in
           decode_bitfield f spr_m2m s)
         else if v5 = BT_HBMIMC then (let s = Wput ''HBM: '' [] s in
           let s = Wput ''MemCtrl: '' [] s in
           let f = EXTRACT status 16 23 in
           let s = (let v11 = EXTRACT status 24 31 in
               if v11 = 0 then decode_bitfield f spr_imc0 s
               else if v11 = 1 then decode_bitfield f spr_imc1 s
               else if v11 = 2 then decode_bitfield f spr_imc2 s
               else if v11 = 4 then decode_bitfield f spr_imc4 s
               else if v11 = 8 then decode_bitfield f spr_imc8 s
               else if v11 = 0x10 then decode_bitfield f spr_imc10 s
               else s) in
           sapphire_imc_misc (bank \<ge> 30) status misc s)
         else if v5 = BT_IMC then (let s = Wput ''MemCtrl: '' [] s in
           let f = EXTRACT status 16 23 in
           let s = (let v11 = EXTRACT status 24 31 in
               if v11 = 0 then decode_bitfield f spr_imc0 s
               else if v11 = 1 then decode_bitfield f spr_imc1 s
               else if v11 = 2 then decode_bitfield f spr_imc2 s
               else if v11 = 4 then decode_bitfield f spr_imc4 s
               else if v11 = 8 then decode_bitfield f spr_imc8 s
               else if v11 = 0x10 then decode_bitfield f spr_imc10 s
               else s) in
           sapphire_imc_misc (bank \<ge> 30) status misc s)
         else s)"

definition sapphire_banktype :: "cputype \<Rightarrow> nat \<Rightarrow> banktype option" where
  "sapphire_banktype cputype bank =
    (if cputype = CPU_SAPPHIRERAPIDS \<or> cputype = CPU_EMERALDRAPIDS then bank_at spr_sapphire bank else None)"

definition sapphire_decode_model :: "cputype \<Rightarrow> nat \<Rightarrow> u64 \<Rightarrow> u64 \<Rightarrow>
    'a msg_state_scheme \<Rightarrow> 'a msg_state_scheme" where
  "sapphire_decode_model cputype bank status misc s =
    (case sapphire_banktype cputype bank of None \<Rightarrow> s | Some b \<Rightarrow> sapphire_decode_bank b bank status misc s)"

lemma sapphire_imc_misc_frame [frame]: "msg_step s t \<Longrightarrow> msg_step s (sapphire_imc_misc hbm status misc t)"
  unfolding sapphire_imc_misc_def Let_def by (intro frame)

lemma sapphire_decode_bank_frame [frame]: "msg_step s t \<Longrightarrow> msg_step s (sapphire_decode_bank banktype bank status misc t)"
  unfolding sapphire_decode_bank_def Let_def by (intro frame)

lemma spr_model_frame [frame]: "msg_step s t \<Longrightarrow> msg_step s (sapphire_decode_model cputype bank status misc t)"
  unfolding sapphire_decode_model_def by (auto simp: frame split: option.split)

section \<open>Granite Rapids\<close>

definition gnr_upi_2 :: "string option list" where
  "gnr_upi_2 = tbl
    [(0x0, ''UC Phy Initialization Failure (NumInit)''),
     (0x1, ''UC Phy Detected Drift Buffer Alarm''),
     (0x2, ''UC Phy Detected Latency Buffer Rollover''),
     (0x10, ''UC LL Rx detected CRC error: unsuccessful LLR (entered Abort state)''),
     (0x11, ''UC LL Rx Unsupported/Undefined packet''),
     (0x12, ''UC LL or Phy Control Error''),
     (0x13, ''UC LL Rx Parameter Exception''),
     (0x14, ''UC LL TDX Failure''),
     (0x15, ''UC LL SGX Failure''),
     (0x16, ''UC LL Tx SDC Parity Error''),
     (0x17, ''UC LL Rx SDC Parity Error''),
     (0x18, ''UC LL FLE Failure''),
     (0x1F, ''UC LL Detected Control Error''),
     (0x20, ''COR Phy Initialization Abort''),
     (0x21, ''COR Phy Inband Reset''),
     (0x22, ''COR Phy Lane failure, recovery in x8 width''),
     (0x23, ''COR Phy L0c error corrected without Phy reset''),
     (0x24, ''COR Phy L0c error triggering Phy reset''),
     (0x25, ''COR Phy L0p exit error corrected with reset''),
     (0x30, ''COR LL Rx detected CRC error: successful LLR without Phy Reinit''),
     (0x31, ''COR LL Rx detected CRC error: successful LLR with Phy Reinit'')]"

definition gnr_upi2 :: "field list" where
  "gnr_upi2 =
    [FIELD 0 gnr_upi_2]"

definition gnr_punit_errs_1 :: "string option list" where
  "gnr_punit_errs_1 = tbl
    (tbl_range 0x2 0x3 ''Power Management Unit microcontroller double-bit ECC error'' @
     tbl_range 0x8 0x9 ''Power Management Unit microcontroller error'' @
     [(0xA, ''Power Management Unit microcontroller patch load error''),
     (0xB, ''Power Management Unit microcontroller POReqValid error''),
     (0x10, ''Power Management Unit microcontroller TeleSRAM double-bit ECC error''),
     (0x20, ''Power Management Agent signaled error''),
     (0x80, ''S3M signaled error''),
     (0xA0, ''Power Management Unit HPMSRAM double-bit ECC error detected''),
     (0xB0, ''Power Management Unit TPMISRAM double-bit ECC error detected'')])"

definition gnr_punit1 :: "field list" where
  "gnr_punit1 =
    [FIELD 0 gnr_punit_errs_1]"

definition gnr_punit_errs_2 :: "string option list" where
  "gnr_punit_errs_2 = tbl
    [(0x9, ''MCA_TSC_DOWNLOAD_TIMEOUT: TSC download timed out''),
     (0xB, ''MCA_GPSB_TIMEOUT: GPSB does not respond within timeout value''),
     (0xC, ''MCA_PMSB_TIMEOUT: PMSB does not respond within timeout value''),
     (0x10, ''MCA_PMAX_CALIB_ERROR: PMAX calibration error''),
     (0x1A, ''MCA_DISP_RUN_BUSY_TIMEOUT: Dispatcher busy beyond timeout''),
     (0x1D, ''MCA_MORE_THAN_ONE_LT_AGENT: During Boot Mode Processing, >1 LT Agent detected''),
     (0x23, ''MCA_PCU_SVID_ERROR: SVID error''),
     (0x35, ''MCA_SVID_LOADLINE_INVALID: Invalid SVID VCCIN Loadline resistance value''),
     (0x36, ''MCA_SVID_ICCMAX_INVALID: Invalid SVID ICCMAX value''),
     (0x40, ''MCA_SVID_VIDMAX_INVALID: Invalid SVID VID_MAX value''),
     (0x41, ''MCA_SVID_VDDRAMP_INVALID: Invalid ramp voltage for VDD_RAMP''),
     (0x48, ''MCA_ITD_FUSE_INVALID: ITD fuse settings are not valid''),
     (0x49, ''MCA_SVID_DC_LL_INVALID: ITD fuse settings are not valid''),
     (0x4A, ''MCA_FIVR_PD_HARDERR: PM event has issued some FIVR Fault''),
     (0x4C, ''MCA_HPM_DOUBLE_BIT_ERROR_DETECTED: Read from HPM SRAM resulted in Double bit error''),
     (0x56, ''SVID_ACTIVE_VID_FUSE_ERROR: Invaid fuse values programmed for SVID Active vid'')]"

definition gnr_punit2 :: "field list" where
  "gnr_punit2 =
    [FIELD 0 gnr_punit_errs_2]"

definition gnr_b2cmi_1 :: "string option list" where
  "gnr_b2cmi_1 = tbl
    [(0x1, ''Read ECC error''),
     (0x2, ''Bucket1 error''),
     (0x3, ''Tracker Parity error''),
     (0x4, ''Security mismatch''),
     (0x7, ''Read completion parity error''),
     (0x8, ''Response parity error''),
     (0x9, ''Timeout error''),
     (0xA, ''Address parity error''),
     (0xC, ''CMI credit over subscription error''),
     (0xD, ''SAI mismatch error'')]"

definition gnr_b2cmi1 :: "field list" where
  "gnr_b2cmi1 =
    [FIELD 0 gnr_b2cmi_1]"

definition gnr_mcchan_0 :: "string option list" where
  "gnr_mcchan_0 = tbl
    [(0x1, ''Address Parity Error (APPP)''),
     (0x2, ''CMI Wr data parity Error on sCH0''),
     (0x3, ''CMI Uncorr/Corr ECC error on sCH0''),
     (0x4, ''CMI Wr BE parity Error on sCH0''),
     (0x5, ''CMI Wr MAC parity Error on sCH0''),
     (0x8, ''Corr Patrol Scrub Error''),
     (0x10, ''UnCorr Patrol Scrub Error''),
     (0x20, ''Corr Spare Error''),
     (0x40, ''UnCorr Spare Error''),
     (0x80, ''Transient or Correctable Error for Demand or Underfill Reads''),
     (0xA0, ''Uncorrectable Error for Demand or Underfill Reads''),
     (0xB0, ''Poison was read from memory when poison was disabled in memory controller''),
     (0xC0, ''Read 2LM MetaData Error'')]"

definition gnr_mcchan_1 :: "string option list" where
  "gnr_mcchan_1 = tbl
    [(0x0, ''WDB Read Parity Error on sCH0''),
     (0x2, ''WDB Read Uncorr/Corr ECC Error on sCH0''),
     (0x4, ''WDB BE Read Parity Error on sCH0''),
     (0x6, ''WDB Read Persistent Corr ECC Error on sCH0''),
     (0x8, ''DDR Link Fail''),
     (0x9, ''Illegal incoming opcode'')]"

definition gnr_mcchan_2 :: "string option list" where
  "gnr_mcchan_2 = tbl
    [(0x0, ''DDR CAParity or WrCRC Error'')]"

definition gnr_mcchan_4 :: "string option list" where
  "gnr_mcchan_4 = tbl
    [(0x0, ''Scheduler address parity error'')]"

definition gnr_mcchan_8 :: "string option list" where
  "gnr_mcchan_8 = tbl
    [(0x32, ''MC Internal Errors''),
     (0x33, ''MCTracker Address RF parity error'')]"

definition gnr_mcchan_32 :: "string option list" where
  "gnr_mcchan_32 = tbl
    [(0x2, ''CMI Wr data parity Error on sCH1''),
     (0x3, ''CMI Uncorr/Corr ECC error on sCH1''),
     (0x4, ''CMI Wr BE parity Error on sCH1''),
     (0x5, ''CMI Wr MAC parity Error on sCH1'')]"

definition gnr_mcchan_33 :: "string option list" where
  "gnr_mcchan_33 = tbl
    [(0x0, ''WDB Read Parity Error on sCH1''),
     (0x2, ''WDB Read Uncorr/Corr ECC Error on sCH1''),
     (0x4, ''WDB BE Read Parity Error on sCH1''),
     (0x6, ''WDB Read Persistent Corr ECC Error on sCH1'')]"

definition gnr_mcchan0 :: "field list" where
  "gnr_mcchan0 =
    [FIELD 0 gnr_mcchan_0]"

definition gnr_mcchan1 :: "field list" where
  "gnr_mcchan1 =
    [FIELD 0 gnr_mcchan_1]"

definition gnr_mcchan2 :: "field list" where
  "gnr_mcchan2 =
    [FIELD 0 gnr_mcchan_2]"

definition gnr_mcchan4 :: "field list" where
  "gnr_mcchan4 =
    [FIELD 0 gnr_mcchan_4]"

definition gnr_mcchan8 :: "field list" where
  "gnr_mcchan8 =
    [FIELD 0 gnr_mcchan_8]"

definition gnr_mcchan32 :: "field list" where
  "gnr_mcchan32 =
    [FIELD 0 gnr_mcchan_32]"

definition gnr_mcchan33 :: "field list" where
  "gnr_mcchan33 =
    [FIELD 0 gnr_mcchan_33]"

definition granite_imc_misc :: "u64 \<Rightarrow> u64 \<Rightarrow>
    'a msg_state_scheme \<Rightarrow> 'a msg_state_scheme" where
  "granite_imc_misc status misc s =
    (let mscod = EXTRACT status 16 31 in
     let column = (ucast (push_bit 2 (EXTRACT misc 9 18)) :: u32) in
     let row = (ucast (EXTRACT misc 19 36) :: u32) in
     let bank = (ucast (EXTRACT misc 37 38) :: u32) in
     let bankgroup = (ucast (EXTRACT misc 39 41) :: u32) in
     let fdevice = (ucast (EXTRACT misc 43 48) :: u32) in
     let subrank = (ucast (EXTRACT misc 51 54) :: u32) in
     let chipselect = (ucast (EXTRACT misc 55 57) :: u32) in
     let eccmode = (ucast (EXTRACT misc 58 61) :: u32) in
     let transient = (ucast (EXTRACT misc 63 63) :: u32) in
     if (mscod \<ge> 0x800) \<and> (mscod \<le> 0x82F) then s
     else let s = Wput ''bank: 0x%x bankgroup: 0x%x row: 0x%x column: 0x%x\<newline>'' [PU bank, PU bankgroup, PU row, PU column] s in
     let s = (if \<not> (transient \<noteq> 0) then Wput ''failed device: 0x%x\<newline>'' [PU fdevice] s else s) in
     let s = Wput ''chipselect: 0x%x subrank: 0x%x\<newline>'' [PU chipselect, PU subrank] s in
     let s = Wput ''ecc mode: '' [] s in
     let s = (let v5 = eccmode in
         if v5 = 1 then Wput ''SDDC 128b 1LM\<newline>'' [] s
         else if v5 = 2 then Wput ''SDDC 125b 1LM\<newline>'' [] s
         else if v5 = 3 then Wput ''SDDC 96b 1LM\<newline>'' [] s
         else if v5 = 4 then Wput ''SDDC 96b 2LM\<newline>'' [] s
         else if v5 = 5 then Wput ''ADDDC 80b 1LM\<newline>'' [] s
         else if v5 = 6 then Wput ''ADDDC 80b 2LM\<newline>'' [] s
         else if v5 = 7 then Wput ''ADDDC 64b 1LM\<newline>'' [] s
         else if v5 = 8 then Wput ''9x4 61b 1LM\<newline>'' [] s
         else if v5 = 9 then Wput ''9x4 32b 1LM\<newline>'' [] s
         else if v5 = 10 then Wput ''9x4 32b 2LM\<newline>'' [] s
         else Wput ''Invalid/unknown ECC mode\<newline>'' [] s) in
     if transient \<noteq> 0 then Wput ''transient\<newline>'' [] s else s)"

definition granite_decode_model :: "cputype \<Rightarrow> nat \<Rightarrow> u64 \<Rightarrow> u64 \<Rightarrow>
    'a msg_state_scheme \<Rightarrow> 'a msg_state_scheme" where
  "granite_decode_model cputype bank status misc s =
    (let v5 = bank in
         if v5 = 5 then (let s = Wput ''UPI: '' [] s in
           let f = EXTRACT status 16 31 in
           decode_bitfield f gnr_upi2 s)
         else if v5 = 6 then (let s = Wput ''Punit: '' [] s in
           let f = EXTRACT status 16 23 in
           let s = decode_bitfield f gnr_punit1 s in
           let f = EXTRACT status 24 31 in
           decode_bitfield f gnr_punit2 s)
         else if v5 = 12 then (let s = Wput ''B2CMI: '' [] s in
           let f = EXTRACT status 16 31 in
           decode_bitfield f gnr_b2cmi1 s)
         else if 13 \<le> v5 \<and> v5 \<le> 24 then (let s = Wput ''MCCHAN: '' [] s in
           let f = EXTRACT status 16 23 in
           let s = (let v11 = EXTRACT status 24 31 in
               if v11 = 0 then decode_bitfield f gnr_mcchan0 s
               else if v11 = 1 then decode_bitfield f gnr_mcchan1 s
               else if v11 = 2 then decode_bitfield f gnr_mcchan2 s
               else if v11 = 4 then decode_bitfield f gnr_mcchan4 s
               else if v11 = 8 then decode_bitfield f gnr_mcchan8 s
               else if v11 = 32 then decode_bitfield f gnr_mcchan32 s
               else if v11 = 33 then decode_bitfield f gnr_mcchan33 s
               else s) in
           if ((EXTRACT status 59 59) \<noteq> 0) \<and> ((EXTRACT status 33 33) \<noteq> 0) then granite_imc_misc status misc s else s)
         else s)"

lemma granite_imc_misc_frame [frame]: "msg_step s t \<Longrightarrow> msg_step s (granite_imc_misc status misc t)"
  unfolding granite_imc_misc_def Let_def by (intro frame)

lemma granite_decode_model_frame [frame]: "msg_step s t \<Longrightarrow> msg_step s (granite_decode_model cputype bank status misc t)"
  unfolding granite_decode_model_def Let_def by (intro frame)

section \<open>Diamond Rapids\<close>

definition diamond_imh :: "mce \<Rightarrow> u32" where
  "diamond_imh m = drop_bit 2 (m_apicid m) AND 1"

definition dmr_cbb_punit_0 :: "string option list" where
  "dmr_cbb_punit_0 = tbl
    [(0x1, ''CR4_MCE_CLEAR: MCE when CR4.MCE is clear''),
     (0x2, ''MCE_MCIP_SET: MCE when MCIP bit is set''),
     (0x3, ''MCE_UNDER_WFS: MCE under WPS''),
     (0x4, ''MCE_LT_HANDSHAKE: Unrecoverable error during security flow execution''),
     (0x5, ''TRIPLE_FAULT: SW triple fault shutdown''),
     (0x6, ''VMX_ABORT: VMX exit consistency check failures''),
     (0x7, ''RSM_CONSISTENCY_FAIL: RSM consistency check failures''),
     (0x8, ''SMM_PROTECTED_ENTRY_FAIL: Invalid conditions on protected mode SMM entry''),
     (0x9, ''UCODE_PATCH_LOAD_FAIL: Unrecoverable error during security flow execution'')]"

definition dmr_cbb_punit_8 :: "string option list" where
  "dmr_cbb_punit_8 = tbl
    [(0x16, ''MCA_DVFS_COUNTER_EXPIRED''),
     (0x23, ''MCA_UNSUPP_RESP''),
     (0x25, ''MCA_FUSA_MBIST''),
     (0x26, ''MCA_SA_PLL_LOCKED''),
     (0x27, ''MCA_XTAL_FREQ_MON_ERROR''),
     (0x28, ''MCA_PMSB_FUSE_PULLER_ERROR''),
     (0x29, ''MCA_GPSB_FUSE_PULLER_ERROR''),
     (0x30, ''MCA_PCODE_WATCHDOG''),
     (0x31, ''MCA_BGR_FUSA_ERR''),
     (0x32, ''MCA_CORE_FIVR_ERR''),
     (0x33, ''MCA_D2D_FIVR_ERR''),
     (0x34, ''MCA_MLC_FIVR_ERR''),
     (0x35, ''MCA_RING_FIVR_ERR''),
     (0x36, ''MCA_D2D_MONF_PLL_FUSA_0''),
     (0x37, ''MCA_D2D_MONF_PLL_FUSA_1''),
     (0x38, ''MCA_TOP0_FUSA_PLL_ERR''),
     (0x39, ''MCA_BASE_FUSA_PLL_ERR''),
     (0x40, ''MCA_UCIE_RESET_BUS_STOP_ON_ERROR''),
     (0x41, ''MCA_RSRC_ADAPT_0_ERR''),
     (0x42, ''MCA_RSC_ADAPT_1_ERR''),
     (0x45, ''MCA_TOP1_FUSA_PLL_ERR''),
     (0x46, ''MCA_TOP2_FUSA_PLL_ERR''),
     (0x47, ''MCA_TOP3_FUSA_PLL_ERR''),
     (0x48, ''UC_PATCH_LOAD_ACK_ERROR'')]"

definition dmr_cbb_punit_12 :: "string option list" where
  "dmr_cbb_punit_12 = tbl
    [(0x1, ''MCA_UC_IRAM_DOUBLE_ERROR''),
     (0x2, ''MCA_UC_DOUBLE_EXCEPTION_ERROR''),
     (0x3, ''MCA_UC_TELEM_SRAM_ERROR''),
     (0x4, ''MCA_UC_DRAM_DOUBLE_ERROR''),
     (0x5, ''MCA_UC_TPMI_SRAM_ERROR'')]"

definition dmr_cbb_punit_20 :: "string option list" where
  "dmr_cbb_punit_20 = tbl
    [(0x1, ''MCA_FIVR_HI_YELLOW''),
     (0x2, ''MCA_FIVR_HI_RED'')]"

definition dmr_cbb_punit0 :: "field list" where
  "dmr_cbb_punit0 =
    [FIELD 0 dmr_cbb_punit_0]"

definition dmr_cbb_punit8 :: "field list" where
  "dmr_cbb_punit8 =
    [FIELD 0 dmr_cbb_punit_8]"

definition dmr_cbb_punit12 :: "field list" where
  "dmr_cbb_punit12 =
    [FIELD 0 dmr_cbb_punit_12]"

definition dmr_cbb_punit20 :: "field list" where
  "dmr_cbb_punit20 =
    [FIELD 0 dmr_cbb_punit_20]"

definition dmr_imh_punit_0 :: "string option list" where
  "dmr_imh_punit_0 = tbl
    (tbl_range 0x2 0x3 ''Power Management Unit microcontroller double-bit ECC error'' @
     tbl_range 0x8 0x9 ''Power Management Unit microcontroller error'' @
     [(0xA, ''Power Management Unit microcontroller Patch Load error''),
     (0xB, ''Power Management Unit microcontroller POReqValid error''),
     (0xC, ''Power Management Unit microcontroller RAM address error''),
     (0xD, ''Power Management Unit microcontroller RAM access error''),
     (0x10, ''If MCI_MISC.MODEL_SPECIFIC_INFORMATION is set to 1, indicates Pcode Watchdog Timer expired. If MCI_MISC.MODEL_SPECIFIC_INFORMATION is set to 3, indicates Power Management Unit TeleSRAM double-bit ECC error detected.''),
     (0x20, ''Power Management Agent signaled Error''),
     (0x30, ''Power Management Unit Microcontroller Error''),
     (0xA0, ''Power Management Unit HPMSRAM double-bit ECC error detected''),
     (0xB0, ''Power Management Unit TPMISRAM double-bit ECC error detected'')])"

definition dmr_imh_punit_1 :: "string option list" where
  "dmr_imh_punit_1 = tbl
    [(0x9, ''MCA_TSC_DOWNLOAD_TIMEOUT''),
     (0xA, ''MCA_INVALID_XTALFREQ_RANGE''),
     (0xB, ''MCA_GPSB_TIMEOUT''),
     (0xC, ''MCA_PMSB_TIMEOUT''),
     (0xD, ''MCA_CFG_ACK_TIMEOUT''),
     (0x23, ''MCA_PCU_SVID_ERROR''),
     (0x35, ''MCA_SVID_LOADLINE_INVALID''),
     (0x36, ''MCA_SVID_ICCMAX_INVALID''),
     (0x4A, ''MCA_FIVR_PD_HARDERR''),
     (0x4C, ''MCA_HPM_DOUBLE_BIT_ERROR_DETECTED''),
     (0x58, ''MCA_INVALID_MEMORY_FREQUENCY''),
     (0x63, ''MCA_SVID_VCCIN_PROTOCOL_ERROR''),
     (0x6A, ''MCA_SPPR_TIMEOUT''),
     (0x6F, ''MCA_INVALID_SID_ERROR''),
     (0x70, ''MCA_INVALID_REMOTE_LEGACY_AGENT_ERROR''),
     (0x71, ''MCA_INVALID_REMOTE_LT_AGENT_ERROR''),
     (0x7B, ''MCA_THERMAL_SENSOR_INVALID''),
     (0x7C, ''MCA_CXL_DEVICE_NO_CREDIT''),
     (0x7E, ''MCA_RECOVERABLE_DIE_THERMAL_TOO_HOT''),
     (0x83, ''MCA_PKGS_RECOVERABLE_RESET_PREP_ACK_TIMEOUT'')]"

definition dmr_imh_punit0 :: "field list" where
  "dmr_imh_punit0 =
    [FIELD 0 dmr_imh_punit_0]"

definition dmr_imh_punit1 :: "field list" where
  "dmr_imh_punit1 =
    [FIELD 0 dmr_imh_punit_1]"

definition dmr_upi_0 :: "string option list" where
  "dmr_upi_0 = tbl
    (tbl_range 0x0 0x2 ''Internal Parity Error'' @
     [(0x5, ''Internal Parity Error''),
     (0x8, ''Internal Queue Overflow Error''),
     (0x9, ''UPI link layer buffer overflow''),
     (0xA, ''Internal Queue Underflow Error''),
     (0xB, ''UPI link layer buffer underflow''),
     (0xC, ''Link layer or internal credit overflow'')] @
     tbl_range 0x11 0x12 ''Internal Queue Overflow Error'' @
     tbl_range 0x13 0x14 ''Internal Queue Underflow Error'' @
     [(0x21, ''Internal Interface Error''),
     (0x23, ''Invalid Message''),
     (0x24, ''UPI Protocol Error''),
     (0x25, ''UPI Interleave Error''),
     (0x28, ''Internal Interface Error''),
     (0x29, ''Link integrity or initialization error'')] @
     tbl_range 0x2A 0x2D ''Power Management Transition Error - Timeout'' @
     [(0x30, ''Received poison when poison is disabled''),
     (0x31, ''Internal Interface Error'')])"

definition dmr_upi_2 :: "string option list" where
  "dmr_upi_2 = tbl
    ([(0x0, ''Link integrity or initialization error''),
     (0x3, ''Link degraded'')] @
     tbl_range 0x4 0x7 ''Power Management Transition Error - Timeout'')"

definition dmr_upi0 :: "field list" where
  "dmr_upi0 =
    [FIELD 0 dmr_upi_0]"

definition dmr_upi2 :: "field list" where
  "dmr_upi2 =
    [FIELD 0 dmr_upi_2]"

definition dmr_mcchan_0 :: "string option list" where
  "dmr_mcchan_0 = tbl
    [(0x1, ''CMI Request Address Parity Error (APPP)''),
     (0x2, ''CMI Wr data parity error''),
     (0x4, ''CMI Wr BE parity error''),
     (0x8, ''Transient or Correctable Error for Patrol Reads''),
     (0x10, ''UnCorr Patrol Scrub Error''),
     (0x20, ''Nontransient or Transient ectable Error for Spare Reads''),
     (0x40, ''UnCorr Spare Error''),
     (0x80, ''Transient or Correctable Error for Demand or Underfill Reads''),
     (0xA0, ''Uncorrectable Error for Demand or Underfill Reads''),
     (0xB0, ''Poisoned Read Data when Poison Disabled''),
     (0xC0, ''Read 2LM MetaData Error for Demand, Underfill, or Patrol/Spare'')]"

definition dmr_mcchan_1 :: "string option list" where
  "dmr_mcchan_1 = tbl
    [(0x2, ''WDB Read ECC Error''),
     (0x4, ''WDB BE Read Parity Error''),
     (0x6, ''WDB Read Persistent ECC Error''),
     (0x8, ''DDR Link Fail''),
     (0x9, ''Illegal incoming opcode'')]"

definition dmr_mcchan_2 :: "string option list" where
  "dmr_mcchan_2 = tbl
    [(0x0, ''DDR CAParity or WrCRC Error''),
     (0x40, ''Decoder structure error'')]"

definition dmr_mcchan_4 :: "string option list" where
  "dmr_mcchan_4 = tbl
    [(0x0, ''MC internal address parity error'')]"

definition dmr_mcchan_8 :: "string option list" where
  "dmr_mcchan_8 = tbl
    [(0x13, ''CMI Credit Oversubscription Error''),
     (0x14, ''CMI Total Credit Count Error''),
     (0x15, ''CMI Reserved Credit Pool Error''),
     (0x32, ''MC Internal Errors''),
     (0x34, ''MC Tracker RDCMP RF parity error''),
     (0x36, ''MC Tracker WRCMP RF parity error'')]"

definition dmr_mcchan0 :: "field list" where
  "dmr_mcchan0 =
    [FIELD 0 dmr_mcchan_0]"

definition dmr_mcchan1 :: "field list" where
  "dmr_mcchan1 =
    [FIELD 0 dmr_mcchan_1]"

definition dmr_mcchan2 :: "field list" where
  "dmr_mcchan2 =
    [FIELD 0 dmr_mcchan_2]"

definition dmr_mcchan4 :: "field list" where
  "dmr_mcchan4 =
    [FIELD 0 dmr_mcchan_4]"

definition dmr_mcchan8 :: "field list" where
  "dmr_mcchan8 =
    [FIELD 0 dmr_mcchan_8]"

definition diamond_imc_misc :: "u64 \<Rightarrow> u64 \<Rightarrow>
    'a msg_state_scheme \<Rightarrow> 'a msg_state_scheme" where
  "diamond_imc_misc status misc s =
    (let mscod = EXTRACT status 16 31 in
     let column = (ucast (push_bit 2 (EXTRACT misc 9 18)) :: u32) in
     let row = (ucast (EXTRACT misc 19 36) :: u32) in
     let bank = (ucast (EXTRACT misc 37 38) :: u32) in
     let bankgroup = (ucast (EXTRACT misc 39 41) :: u32) in
     let fdevice_v = (ucast (EXTRACT misc 42 42) :: u32) in
     let fdevice = (ucast (EXTRACT misc 44 48) :: u32) in
     let subchan = (ucast (EXTRACT misc 49 49) :: u32) in
     let subrank = (ucast (EXTRACT misc 51 54) :: u32) in
     let chipselect = (ucast (EXTRACT misc 55 56) :: u32) in
     let eccmode = (ucast (EXTRACT misc 58 61) :: u32) in
     let transient = (ucast (EXTRACT misc 63 63) :: u32) in
     if mscod \<ge> 0x800 then s
     else let s = Wput ''bank: 0x%x bankgroup: 0x%x row: 0x%x column: 0x%x\<newline>'' [PU bank, PU bankgroup, PU row, PU column] s in
     let s = Wput ''chipselect: 0x%x subrank: 0x%x subchan: 0x%x\<newline>'' [PU chipselect, PU subrank, PU subchan] s in
     if transient \<noteq> 0 then (Wput ''transient\<newline>'' [] s)
     else let s = (if fdevice_v \<noteq> 0 then Wput ''failed device: 0x%x\<newline>'' [PU fdevice] s else s) in
     let s = Wput ''ecc mode: '' [] s in
     let v5 = eccmode in
         if v5 = 1 then Wput ''SDDC 128b 1LM\<newline>'' [] s
         else if v5 = 2 then Wput ''SDDC 125b 1LM\<newline>'' [] s
         else if v5 = 3 then Wput ''SDDC 125b 2LM\<newline>'' [] s
         else if v5 = 4 then Wput ''ADDDC 80b 1LM\<newline>'' [] s
         else if v5 = 5 then Wput ''ADDDC 80b 2LM\<newline>'' [] s
         else if v5 = 9 then Wput ''5x8 128b 1LM\<newline>'' [] s
         else if v5 = 10 then Wput ''5x8 125b 1LM\<newline>'' [] s
         else if v5 = 11 then Wput ''5x8 125b 2LM\<newline>'' [] s
         else Wput ''Invalid/unknown ECC mode\<newline>'' [] s)"

definition diamond_decode_model :: "cputype \<Rightarrow> mce \<Rightarrow>
    'a msg_state_scheme \<Rightarrow> 'a msg_state_scheme" where
  "diamond_decode_model cputype m s =
    (let status = m_status m in
     let imh = diamond_imh m in
     let v5 = m_bank m in
         if v5 = 4 then (let s = Wput ''CBB Punit: '' [] s in
           if (EXTRACT status 0 15) = 0x40B then (Wput ''Scan-at-Field Error\<newline>'' [] s)
           else let f = EXTRACT status 16 23 in
           let v11 = EXTRACT status 24 31 in
               if v11 = 0x0 then decode_bitfield f dmr_cbb_punit0 s
               else if v11 = 0x8 then decode_bitfield f dmr_cbb_punit8 s
               else if v11 = 0xC then decode_bitfield f dmr_cbb_punit12 s
               else if v11 = 0x14 then decode_bitfield f dmr_cbb_punit20 s
               else s)
         else if v5 = 11 then (let s = Wput ''IMH%d Punit: '' [PU imh] s in
           let f = EXTRACT status 24 31 in
           if f \<noteq> 0 then decode_bitfield f dmr_imh_punit1 s else decode_bitfield (EXTRACT status 16 23) dmr_imh_punit0 s)
         else if v5 = 18 then (let s = Wput ''UPI: '' [] s in
           let f = EXTRACT status 16 23 in
           let v11 = EXTRACT status 24 31 in
               if v11 = 0x0 then decode_bitfield f dmr_upi0 s
               else if v11 = 0x2 then decode_bitfield f dmr_upi2 s
               else s)
         else if 19 \<le> v5 \<and> v5 \<le> 26 then (let s = Wput ''IMH%d MCCHAN: '' [PU imh] s in
           let f = EXTRACT status 16 23 in
           let s = (let v11 = EXTRACT status 24 31 in
               if v11 = 0x0 then decode_bitfield f dmr_mcchan0 s
               else if v11 = 0x1 then decode_bitfield f dmr_mcchan1 s
               else if v11 = 0x2 then decode_bitfield f dmr_mcchan2 s
               else if v11 = 0x4 then decode_bitfield f dmr_mcchan4 s
               else if v11 = 0x8 then decode_bitfield f dmr_mcchan8 s
               else s) in
           if ((EXTRACT status 59 59) \<noteq> 0) \<and> ((EXTRACT status 33 33) \<noteq> 0) then diamond_imc_misc status (m_misc m) s else s)
         else s)"

lemma diamond_imc_misc_frame [frame]: "msg_step s t \<Longrightarrow> msg_step s (diamond_imc_misc status misc t)"
  unfolding diamond_imc_misc_def Let_def by (intro frame)

lemma diamond_decode_model_frame [frame]: "msg_step s t \<Longrightarrow> msg_step s (diamond_decode_model cputype m t)"
  unfolding diamond_decode_model_def Let_def by (intro frame)


end
