(* ===== verification/MemErr.thy ===== *)
theory MemErr
  imports MemDb DecodeScalable
begin

text \<open>
  Where a memory error happened: the functions \<open>*_memerr_misc\<close> of the Intel decoders, which derive the
  memory channels and DIMMs of an error from the bank number and the status and misc registers.
  \<open>memloc\<close> stands for the arrays \<open>channel[2]\<close> and \<open>dimm[2]\<close> that they fill; \<open>-1\<close> means unknown.
\<close>

section \<open>Definitions\<close>

record memloc =
  channel0 :: int
  dimm0 :: int
  channel1 :: int
  dimm1 :: int

definition nehalem_memerr_misc :: "mce \<Rightarrow> memloc \<Rightarrow> memloc" where
  "nehalem_memerr_misc m l =
     (if has (m_status m) MCI_STATUS_MISCV
      then l\<lparr>channel0 := uint (EXTRACT (m_misc m) 18 19), dimm0 := uint (EXTRACT (m_misc m) 16 17)\<rparr>
      else l)"

text \<open>The same function stands in \<^verbatim>\<open>src/sandy-bridge.c\<close> and \<^verbatim>\<open>src/ivy-bridge.c\<close>.\<close>

definition failrank2dimm :: "u32 \<Rightarrow> int \<Rightarrow> int \<Rightarrow> 'a memdb_state_scheme \<Rightarrow> int" where
  "failrank2dimm failrank socket channel s =
     (if failrank \<in> {0, 1, 2, 3} then 0
      else if failrank \<in> {4, 5} then 1
      else if failrank \<in> {6, 7}
      then if fst (get_memdimm socket channel 2 False s) \<noteq> None then 2 else 1
      else -1)"

definition mca_is_memory :: "u64 \<Rightarrow> bool" where
  "mca_is_memory status \<longleftrightarrow> test_prefix 7 (ucast (status AND 0xEFFF))"

text \<open>The two halves of \<open>sandy_bridge_ep_memerr_misc\<close> and \<open>ivy_bridge_ep_memerr_misc\<close>, which differ in
  the banks \<open>lo\<close> to \<open>hi\<close> of the memory controllers only.\<close>

definition ep_memerr_misc :: "nat \<Rightarrow> nat \<Rightarrow> int \<Rightarrow> 'a memdb_state_scheme \<Rightarrow> mce \<Rightarrow> memloc \<Rightarrow> memloc" where
  "ep_memerr_misc lo hi imc_log s m l =
     (let status = m_status m; bank = unat (m_bank m); chan = (ucast (EXTRACT status 0 3) :: u32)
      in if imc_log = 0 \<or> bank < lo \<or> bank > hi \<or> has status MCI_STATUS_UC \<or> \<not> mca_is_memory status then l
         else if chan = 0xF then l
         else
           let l = (if EXTRACT (m_misc m) 62 62 \<noteq> 0
                    then l\<lparr>dimm0 := failrank2dimm (ucast (EXTRACT (m_misc m) 46 50)) (sint (m_socketid m)) (uint chan) s,
                           channel0 := uint chan\<rparr> else l)
           in if EXTRACT (m_misc m) 63 63 \<noteq> 0
              then l\<lparr>dimm1 := failrank2dimm (ucast (EXTRACT (m_misc m) 51 55)) (sint (m_socketid m)) (uint chan) s,
                     channel1 := uint chan\<rparr> else l)"

definition sandy_bridge_ep_memerr_misc :: "int \<Rightarrow> 'a memdb_state_scheme \<Rightarrow> mce \<Rightarrow> memloc \<Rightarrow> memloc" where
  "sandy_bridge_ep_memerr_misc = ep_memerr_misc 8 11"

definition ivy_bridge_ep_memerr_misc :: "int \<Rightarrow> 'a memdb_state_scheme \<Rightarrow> mce \<Rightarrow> memloc \<Rightarrow> memloc" where
  "ivy_bridge_ep_memerr_misc = ep_memerr_misc 9 16"

definition haswell_memerr_misc :: "mce \<Rightarrow> memloc \<Rightarrow> memloc" where
  "haswell_memerr_misc m l =
     (let status = m_status m; chan = uint (EXTRACT status 0 3); bank = unat (m_bank m)
      in if \<not> mca_is_memory status \<or> chan = 0xF then l
         else if bank = 7 then l\<lparr>channel0 := chan\<rparr>
         else if bank = 8 then l\<lparr>channel0 := chan + 4\<rparr>
         else if 9 \<le> bank \<and> bank \<le> 12 then l\<lparr>channel0 := int (bank - 9)\<rparr>
         else if 13 \<le> bank \<and> bank \<le> 16 then l\<lparr>channel0 := int (bank - 13 + 4)\<rparr>
         else l)"

definition skylake_memerr_misc :: "mce \<Rightarrow> memloc \<Rightarrow> memloc" where
  "skylake_memerr_misc m l =
     (let status = m_status m; chan = uint (EXTRACT status 0 3); bank = unat (m_bank m)
      in if \<not> mca_is_memory status \<or> chan = 0xF then l
         else if bank = 7 then l\<lparr>channel0 := chan\<rparr>
         else if bank = 8 then l\<lparr>channel0 := chan + 3\<rparr>
         else if bank = 13 then l\<lparr>channel0 := 0\<rparr>
         else if bank = 14 then l\<lparr>channel0 := 1\<rparr>
         else if bank = 15 then l\<lparr>channel0 := 3\<rparr>
         else if bank = 16 then l\<lparr>channel0 := 4\<rparr>
         else if bank = 17 then l\<lparr>channel0 := 2\<rparr>
         else if bank = 18 then l\<lparr>channel0 := 5\<rparr>
         else l)"

definition i10nm_memerr_misc :: "mce \<Rightarrow> memloc \<Rightarrow> memloc" where
  "i10nm_memerr_misc m l =
     (let status = m_status m; chan = uint (EXTRACT status 0 3); bank = unat (m_bank m)
      in if \<not> mca_is_memory status \<or> chan = 0xF then l
         else if bank \<in> {12, 13, 14, 15} then l\<lparr>channel0 := 0 * 3 + chan\<rparr>
         else if bank \<in> {16, 17, 18, 19} then l\<lparr>channel0 := 1 * 3 + chan\<rparr>
         else if bank \<in> {20, 21, 22, 23} then l\<lparr>channel0 := 2 * 3 + chan\<rparr>
         else if bank \<in> {24, 25, 26, 27} then l\<lparr>channel0 := 3 * 3 + chan\<rparr>
         else l)"

definition sapphire_memerr_misc :: "mce \<Rightarrow> memloc \<Rightarrow> memloc" where
  "sapphire_memerr_misc m l =
     (let status = m_status m; chan = uint (EXTRACT status 0 3); bank = unat (m_bank m)
      in if \<not> mca_is_memory status \<or> chan = 0xF then l
         else if 13 \<le> bank \<and> bank \<le> 20 then l\<lparr>channel0 := int (bank - 13)\<rparr>
         else if 30 \<le> bank \<and> bank \<le> 31 then l\<lparr>channel0 := int (8 + bank - 30)\<rparr>
         else l)"

definition granite_memerr_misc :: "mce \<Rightarrow> memloc \<Rightarrow> memloc" where
  "granite_memerr_misc m l =
     (let status = m_status m; chan = uint (EXTRACT status 0 3); bank = unat (m_bank m)
      in if \<not> mca_is_memory status \<or> chan = 0xF then l
         else if bank < 13 \<or> bank > 24 then l
         else l\<lparr>channel0 := int (bank - 13)\<rparr>)"

definition diamond_memerr_misc :: "mce \<Rightarrow> memloc \<Rightarrow> memloc" where
  "diamond_memerr_misc m l =
     (let bank = unat (m_bank m)
      in if \<not> mca_is_memory (m_status m) then l
         else if bank < 19 \<or> bank > 26 then l
         else l\<lparr>channel0 := int (bank - 19) + 8 * uint (diamond_imh m)\<rparr>)"

section \<open>Every controller has its own channels\<close>

text \<open>An interface that the derivations from the bank number share: on the banks of the memory
  controllers, the channel is a number below a bound, different for different banks, and nothing else
  is touched.\<close>

locale bank_channels =
  fixes memerr :: "mce \<Rightarrow> memloc \<Rightarrow> memloc" and banks :: "nat set" and bound :: int
  assumes chan_range: "mca_is_memory (m_status m) \<Longrightarrow> EXTRACT (m_status m) 0 3 \<noteq> 0xF \<Longrightarrow>
      unat (m_bank m) \<in> banks \<Longrightarrow> 0 \<le> channel0 (memerr m l) \<and> channel0 (memerr m l) < bound"
    and chan_inj: "mca_is_memory (m_status m) \<Longrightarrow> EXTRACT (m_status m) 0 3 \<noteq> 0xF \<Longrightarrow>
      mca_is_memory (m_status m') \<Longrightarrow> EXTRACT (m_status m') 0 3 \<noteq> 0xF \<Longrightarrow>
      unat (m_bank m) \<in> banks \<Longrightarrow> unat (m_bank m') \<in> banks \<Longrightarrow>
      channel0 (memerr m l) = channel0 (memerr m' l') \<Longrightarrow> unat (m_bank m) = unat (m_bank m')"
    and only_channel: "\<exists>c. memerr m l = l\<lparr>channel0 := c\<rparr>"
begin

definition mem_record :: "mce \<Rightarrow> bool" where
  "mem_record m \<longleftrightarrow> mca_is_memory (m_status m) \<and> EXTRACT (m_status m) 0 3 \<noteq> 0xF \<and> unat (m_bank m) \<in> banks"

lemma located:
  assumes "mem_record m"
  shows "channel0 (memerr m l) \<noteq> -1" and "channel1 (memerr m l) = channel1 l" and "dimm0 (memerr m l) = dimm0 l"
proof -
  show "channel0 (memerr m l) \<noteq> -1" using chan_range [of m l] assms by (auto simp: mem_record_def)
  show "channel1 (memerr m l) = channel1 l" "dimm0 (memerr m l) = dimm0 l"
    using only_channel [of m l] by auto
qed

lemma keys_differ:
  assumes "mem_record m" "mem_record m'" "unat (m_bank m) \<noteq> unat (m_bank m')"
  shows "Key so (channel0 (memerr m l)) d \<noteq> Key so' (channel0 (memerr m' l')) d'"
  using assms chan_inj [of m m' l l'] by (auto simp: mem_record_def)

end

lemma extract_chan: "uint (EXTRACT status 0 3) = 0xF \<longleftrightarrow> EXTRACT status 0 3 = 0xF"
  using word_uint_eq_iff [of "EXTRACT status 0 3" "0xF"] by simp

interpretation hsw: bank_channels haswell_memerr_misc "{9..16}" 8
proof
  show "\<exists>c. haswell_memerr_misc m l = l\<lparr>channel0 := c\<rparr>" for m l
    by (cases l) (simp add: haswell_memerr_misc_def Let_def)
qed (auto simp: haswell_memerr_misc_def Let_def extract_chan simp del: of_nat_diff split: if_splits)

interpretation skx: bank_channels skylake_memerr_misc "{13, 14, 15, 16, 17, 18}" 6
proof
  show "\<exists>c. skylake_memerr_misc m l = l\<lparr>channel0 := c\<rparr>" for m l
    by (cases l) (simp add: skylake_memerr_misc_def Let_def)
qed (auto simp: skylake_memerr_misc_def Let_def extract_chan simp del: of_nat_diff split: if_splits)

interpretation spr: bank_channels sapphire_memerr_misc "{13..20} \<union> {30..31}" 10
proof
  show "\<exists>c. sapphire_memerr_misc m l = l\<lparr>channel0 := c\<rparr>" for m l
    by (cases l) (simp add: sapphire_memerr_misc_def Let_def)
qed (auto simp: sapphire_memerr_misc_def Let_def extract_chan simp del: of_nat_diff split: if_splits)

interpretation gnr: bank_channels granite_memerr_misc "{13..24}" 12
proof
  show "\<exists>c. granite_memerr_misc m l = l\<lparr>channel0 := c\<rparr>" for m l
    by (cases l) (simp add: granite_memerr_misc_def Let_def)
qed (auto simp: granite_memerr_misc_def Let_def extract_chan simp del: of_nat_diff split: if_splits)

text \<open>The processors whose channel follows from the bank, with the banks of their memory controllers.\<close>

definition bank_decoders :: "((mce \<Rightarrow> memloc \<Rightarrow> memloc) \<times> nat set) list" where
  "bank_decoders = [(haswell_memerr_misc, {9..16}), (skylake_memerr_misc, {13, 14, 15, 16, 17, 18}),
     (sapphire_memerr_misc, {13..20} \<union> {30..31}), (granite_memerr_misc, {13..24})]"


definition bank_error :: "u8 \<Rightarrow> mce" where
  "bank_error b = blank_mce\<lparr>m_status := 0x80, m_bank := b\<rparr>"

definition unlocated :: memloc where
  "unlocated = \<lparr>channel0 = -1, dimm0 = -1, channel1 = -1, dimm1 = -1\<rparr>"


end
