(* ===== verification/P4.thy ===== *)
theory P4
  imports Report DecodeOld DecodeXeon DecodeScalable
begin

text \<open>
  The decoder for Intel machine checks, \<^verbatim>\<open>src/p4.c\<close>: the architectural part (MCG status, MCi status, the
  MCA error code) and the choice of the model-specific decoder. \<open>decode_mca\<close> is the code that tells
  cache, TLB, bus, memory and internal errors apart.
\<close>

section \<open>Names of the fields of an MCA error code\<close>

definition get_TT_str :: "u8 \<Rightarrow> string" where
  "get_TT_str t = (let TT = [''Instruction'', ''Data'', ''Generic'', ''Unknown'']
     in if unat t \<ge> length TT then ''UNKNOWN'' else TT ! unat t)"

definition get_LL_str :: "u8 \<Rightarrow> string" where
  "get_LL_str ll = (let LL = [''Level-0'', ''Level-1'', ''Level-2'', ''Level-3'']
     in if unat ll \<ge> length LL then ''UNKNOWN'' else LL ! unat ll)"

definition RRRR_table :: "(u8 \<times> string) list" where
  "RRRR_table = [(0, ''Generic''), (1, ''Read''), (2, ''Write''), (3, ''Data-Read''), (4, ''Data-Write''),
     (5, ''Instruction-Fetch''), (6, ''Prefetch''), (7, ''Eviction''), (8, ''Snoop'')]"

definition get_RRRR_str :: "u8 \<Rightarrow> string" where
  "get_RRRR_str rrrr = (case map_of RRRR_table rrrr of Some s \<Rightarrow> s | None \<Rightarrow> ''UNKNOWN'')"

definition get_PP_str :: "u8 \<Rightarrow> string" where
  "get_PP_str pp = (let PP = [''Local-CPU-originated-request'', ''Responed-to-request'',
       ''Observed-error-as-third-party'', ''Generic'']
     in if unat pp \<ge> length PP then ''UNKNOWN'' else PP ! unat pp)"

definition get_T_str :: "u8 \<Rightarrow> string" where
  "get_T_str t = (let T = [''Request-did-not-timeout'', ''Request-timed-out'']
     in if unat t \<ge> length T then ''UNKNOWN'' else T ! unat t)"

definition get_II_str :: "u8 \<Rightarrow> string" where
  "get_II_str i = (let II = [''Memory-access'', ''Reserved'', ''IO'', ''Other-transaction'']
     in if unat i \<ge> length II then ''UNKNOWN'' else II ! unat i)"

section \<open>The MCA error code\<close>

definition mca_msg :: "string list" where
  "mca_msg = [''No Error'', ''Unclassified'', ''Microcode ROM parity error'', ''External error'',
     ''FRC error'', ''Internal parity error'', ''SMM Handler Code Access Violation'']"

text \<open>The error code without the bit for corrected filtering.\<close>

definition mca_code :: "u64 \<Rightarrow> u32" where
  "mca_code status = (ucast status AND 0xFFFF) AND NOT (push_bit 12 1)"

text \<open>\<open>decode_mca\<close> returns whether the error is unknown and whether it is a memory error.\<close>

definition decode_mca :: "u64 \<Rightarrow> u64 \<Rightarrow> u64 \<Rightarrow> int \<Rightarrow> bool \<Rightarrow> int \<Rightarrow> u8 \<Rightarrow>
    'a report_state_scheme \<Rightarrow> bool \<times> bool \<times> 'a report_state_scheme" where
  "decode_mca status misc track cpu ismemerr socket bank s =
    (let mca = (ucast status :: u32) AND 0xFFFF;
         s = (if mca AND push_bit 12 1 \<noteq> 0
              then Wput ''corrected filtering (some unreported errors in same region)\<newline>'' [] s else s);
         mca = mca_code status
     in
     if unat mca < length mca_msg then (False, ismemerr, Wput ''%s\<newline>'' [PS (mca_msg ! unat mca)] s)
     else if drop_bit 2 mca = 3 then
       let levelnum = mca AND 3;
           level = get_LL_str (ucast levelnum);
           s = Wput ''%s Generic cache hierarchy error\<newline>'' [PS level] s;
           s = (if track = 2 then run_yellow_trigger cpu (-1) (uint levelnum) ''unknown'' level socket s else s)
       in (False, ismemerr, s)
     else if test_prefix 4 mca then
       let typenum = drop_bit 2 (mca AND 0xC);
           type = get_TT_str (ucast typenum);
           levelnum = drop_bit 0 (mca AND 0x3);
           level = get_LL_str (ucast levelnum);
           s = Wput ''%s TLB %s Error\<newline>'' [PS type, PS level] s;
           s = (if track = 2 then run_yellow_trigger cpu (uint typenum) (uint levelnum) type level socket s else s)
       in (False, ismemerr, s)
     else if test_prefix 8 mca then
       let typenum = drop_bit 2 (mca AND 0xC);
           levelnum = drop_bit 0 (mca AND 0x3) + 1;
           type = get_TT_str (ucast typenum);
           level = get_LL_str (ucast levelnum);
           s = Wput ''%s CACHE %s %s Error\<newline>''
                 [PS type, PS level, PS (get_RRRR_str (ucast (drop_bit 4 (mca AND 0xF0))))] s;
           s = (if track = 2 then run_yellow_trigger cpu (uint typenum) (uint levelnum) type level socket s else s)
       in (False, ismemerr, s)
     else if test_prefix 9 mca \<and> EXTRACT (ucast mca) 7 8 = 1 then
       (False, ismemerr, decode_memory_controller (cpu_type s) mca bank (Wput ''Memory as cache: '' [] s))
     else if test_prefix 10 mca then
       (True, ismemerr,
        if mca = 0x400 then Wput ''Internal Timer error\<newline>'' [] s
        else Wput ''Internal unclassified error: %x\<newline>'' [PU (mca AND 0xFFFF)] s)
     else if test_prefix 11 mca then
       let level = get_LL_str (ucast (drop_bit 0 (mca AND 0x3)));
           pp = get_PP_str (ucast (drop_bit 9 (mca AND 0x600)));
           rrrr = get_RRRR_str (ucast (drop_bit 4 (mca AND 0xF0)));
           ii = get_II_str (ucast (drop_bit 2 (mca AND 0xC)));
           timeout = get_T_str (ucast (drop_bit 8 (mca AND 0x100)));
           s = Wput ''BUS error: %d %d %s %s %s %s %s\<newline>''
                 [PN socket, PN cpu, PS level, PS pp, PS rrrr, PS ii, PS timeout] s;
           s = run_bus_trigger socket cpu level pp rrrr ii timeout s
       in if has status MCI_STATUS_MISCV \<and> status AND 0xEFFF = 0x0E0B then
            let seg = (ucast (EXTRACT misc 32 39) :: u32);
                bus = (ucast (EXTRACT misc 24 31) :: u32);
                dev = (ucast (EXTRACT misc 19 23) :: u32);
                fn = (ucast (EXTRACT misc 16 18) :: u32);
                s = Wput ''IO MCA reported by root port %x:%02x:%02x.%x\<newline>'' [PU seg, PU bus, PU dev, PU fn] s
            in (False, ismemerr, run_iomca_trigger socket cpu seg bus dev fn s)
          else (False, ismemerr, s)
     else if test_prefix 7 mca then (False, True, decode_memory_controller (cpu_type s) mca bank s)
     else (True, ismemerr, Wput ''Unknown Error %x\<newline>'' [PU mca] s))"

definition p4_MD :: "(nat \<times> string) list" where
  "p4_MD = [(16, ''FSB address parity''), (17, ''Response hard fail''), (18, ''Response parity''),
     (19, ''PIC and FSB data parity''), (20, ''Invalid PIC request(Signature=0xF04H)''),
     (21, ''Pad state machine''), (22, ''Pad strobe glitch''), (23, ''Pad address glitch'')]"

fun p4_decode_loop :: "(nat \<times> string) list \<Rightarrow> u32 \<Rightarrow> 'a msg_state_scheme \<Rightarrow> 'a msg_state_scheme" where
  "p4_decode_loop [] model s = s"
| "p4_decode_loop ((b, t) # r) model s =
     p4_decode_loop r model (if model AND push_bit b 1 \<noteq> 0 then Wput ''%s\<newline>'' [PS t] s else s)"

definition p4_decode_model :: "u32 \<Rightarrow> 'a msg_state_scheme \<Rightarrow> 'a msg_state_scheme" where
  "p4_decode_model model s = Wput ''\<newline>'' [] (p4_decode_loop p4_MD model (Wput ''Model:'' [] s))"

section \<open>The status registers\<close>

definition tracking_msg :: "string option list" where
  "tracking_msg = tbl [(1, ''green''),
     (2, ''yellow\<newline>Large number of corrected cache errors. System operating, but might lead\<newline>to uncorrected errors soon''),
     (3, ''res3'')]"

definition decode_tracking :: "u64 \<Rightarrow> 'a msg_state_scheme \<Rightarrow> 'a msg_state_scheme" where
  "decode_tracking track s =
     (if track \<noteq> 0 then Wput ''Threshold based error status: %s\<newline>'' [PS (tab_at tracking_msg (unat track))] s else s)"

definition arstate :: "string list" where
  "arstate = [''UCNA'', ''AR'', ''SRAO'', ''SRAR'']"

definition ce_types :: "string list" where
  "ce_types = [''ecc'', ''mirroring with channel failover'', ''mirroring. Primary channel scrubbed successfully'']"

definition check_for_mirror :: "cputype \<Rightarrow> nat \<Rightarrow> u64 \<Rightarrow> u64 \<Rightarrow> nat" where
  "check_for_mirror cpu bank status misc =
     (if cpu = CPU_BROADWELL_EPEX then bdw_epex_ce_type bank status misc
      else if cpu = CPU_SKYLAKE_XEON then skylake_s_ce_type bank status misc
      else if cpu = CPU_ICELAKE_XEON then i10nm_ce_type bank status misc
      else 0)"

text \<open>The parameter \<open>mcgcap\<close> is an \<open>unsigned\<close>: the caller's 64-bit register is cut.\<close>

definition decode_mci :: "u64 \<Rightarrow> u64 \<Rightarrow> int \<Rightarrow> u32 \<Rightarrow> bool \<Rightarrow> int \<Rightarrow> u8 \<Rightarrow>
    'a report_state_scheme \<Rightarrow> bool \<times> bool \<times> 'a report_state_scheme" where
  "decode_mci status misc cpu mcgcap ismemerr socket bank s =
    (let s = Wput ''MCi status:\<newline>'' [] s;
         s = (if \<not> has status MCI_STATUS_VAL then Wput ''Machine check not valid\<newline>'' [] s else s);
         s = (if has status MCI_STATUS_OVER then Wput ''Error overflow\<newline>'' [] s else s);
         i = check_for_mirror (cpu_type s) (unat bank) status misc;
         s = (if has status MCI_STATUS_UC then Wput ''Uncorrected error\<newline>'' [] s
              else if i \<noteq> 0 then Wput ''Corrected error by %s\<newline>'' [PS (ce_types ! i)] s
              else Wput ''Corrected error\<newline>'' [] s);
         s = (if has status MCI_STATUS_EN then Wput ''Error enabled\<newline>'' [] s else s);
         s = (if has status MCI_STATUS_MISCV then Wput ''MCi_MISC register valid\<newline>'' [] s else s);
         s = (if has status MCI_STATUS_ADDRV then Wput ''MCi_ADDR register valid\<newline>'' [] s else s);
         s = (if has status MCI_STATUS_PCC then Wput ''Processor context corrupt\<newline>'' [] s
              else if has status (MCI_STATUS_S OR MCI_STATUS_AR)
              then Wput ''%s\<newline>'' [PS (arstate ! unat (drop_bit 55 status AND 3))] s else s);
         s = (if has (ucast mcgcap) MCG_SER_P \<and> has status MCI_STATUS_FWST
              then Wput ''Firmware may have updated this error\<newline>'' [] s else s);
         tracked = (mcgcap = 0 \<or> has (ucast mcgcap) MCG_TES_P) \<and> \<not> has status MCI_STATUS_UC;
         track = (if tracked then drop_bit 53 status AND 3 else 0);
         s = (if tracked then decode_tracking track s else s);
         s = Wput ''MCA: '' [] s
     in decode_mca status misc track cpu ismemerr socket bank s)"

definition decode_mcg :: "u64 \<Rightarrow> 'a msg_state_scheme \<Rightarrow> 'a msg_state_scheme" where
  "decode_mcg mcgstatus s =
    (let s = Wput ''MCG status:'' [] s;
         s = (if has mcgstatus MCG_STATUS_RIPV then Wput ''RIPV '' [] s else s);
         s = (if has mcgstatus MCG_STATUS_EIPV then Wput ''EIPV '' [] s else s);
         s = (if has mcgstatus MCG_STATUS_MCIP then Wput ''MCIP '' [] s else s);
         s = (if has mcgstatus MCG_STATUS_LMCES then Wput ''LMCE '' [] s else s)
     in Wput ''\<newline>'' [] s)"

definition decode_thermal :: "mce \<Rightarrow> int \<Rightarrow> 'a msg_state_scheme \<Rightarrow> 'a msg_state_scheme" where
  "decode_thermal m cpu s =
    (if m_status m AND 1 \<noteq> 0
     then Gprintf ''Please check your system cooling. Performance will be impacted\<newline>'' []
            (Gprintf ''Processor %d heated above trip temperature. Throttling enabled.\<newline>'' [PN cpu] s)
     else Gprintf ''Processor %d below trip temperature. Throttling disabled\<newline>'' [PN cpu] s)"

section \<open>Model-specific decoding\<close>

text \<open>The first switch of \<open>decode_intel_mc\<close>, for bus errors on older processors.\<close>

definition decode_bus_model :: "cputype \<Rightarrow> mce \<Rightarrow> 'a msg_state_scheme \<Rightarrow> 'a msg_state_scheme" where
  "decode_bus_model cputype m s =
    (if cputype = CPU_P6OLD then p6old_decode_model (m_status m) s
     else if cputype \<in> {CPU_DUNNINGTON, CPU_CORE2} then core2_decode_model (m_status m) s
     else if cputype \<in> {CPU_TULSA, CPU_P4} then p4_decode_model (ucast (m_status m AND 0xFFFF0000)) s
     else if cputype \<in> {CPU_NEHALEM, CPU_XEON75XX} then core2_decode_model (m_status m) s
     else s)"

definition decode_model :: "cputype \<Rightarrow> mce \<Rightarrow> 'a msg_state_scheme \<Rightarrow> 'a msg_state_scheme" where
  "decode_model cputype m s =
    (let bank = unat (m_bank m); status = m_status m; misc = m_misc m in
     if cputype = CPU_NEHALEM then nehalem_decode_model status misc s
     else if cputype = CPU_DUNNINGTON then dunnington_decode_model status s
     else if cputype = CPU_TULSA then tulsa_decode_model status misc s
     else if cputype = CPU_XEON75XX then xeon75xx_decode_model m s
     else if cputype \<in> {CPU_SANDY_BRIDGE, CPU_SANDY_BRIDGE_EP} then snb_decode_model cputype bank status misc s
     else if cputype = CPU_IVY_BRIDGE_EPEX then ivb_decode_model cputype bank status misc s
     else if cputype = CPU_HASWELL_EPEX then hsw_decode_model cputype bank status misc s
     else if cputype = CPU_BROADWELL_DE then bdw_de_decode_model cputype bank status misc s
     else if cputype = CPU_BROADWELL_EPEX then bdw_epex_decode_model cputype bank status misc s
     else if cputype = CPU_SKYLAKE_XEON then skylake_s_decode_model cputype bank status misc s
     else if cputype \<in> {CPU_ICELAKE_XEON, CPU_ICELAKE_DE, CPU_TREMONT_D}
     then i10nm_decode_model cputype bank status misc s
     else if cputype \<in> {CPU_SAPPHIRERAPIDS, CPU_EMERALDRAPIDS} then sapphire_decode_model cputype bank status misc s
     else if cputype \<in> {CPU_GRANITERAPIDS, CPU_SIERRAFOREST, CPU_CLEARWATERFOREST}
     then granite_decode_model cputype bank status misc s
     else if cputype = CPU_DIAMONDRAPIDS then diamond_decode_model cputype m s
     else if cputype = CPU_DENVERTON then denverton_decode_model cputype bank status misc s
     else s)"

text \<open>The processor that reported an event: \<open>extcpu\<close> if the kernel sets it.\<close>

definition mce_cpu :: "mce \<Rightarrow> int" where
  "mce_cpu m = (if m_extcpu m \<noteq> 0 then sint (m_extcpu m) else uint (m_cpu m))"

definition decode_intel_mc :: "mce \<Rightarrow> cputype \<Rightarrow> bool \<Rightarrow> nat \<Rightarrow>
    'a report_state_scheme \<Rightarrow> bool \<times> 'a report_state_scheme" where
  "decode_intel_mc m cputype ismemerr sz s =
    (let socket = (if sz > endof_field ''socketid'' - 4 then sint (m_socketid m) else -1);
         cpu = mce_cpu m in
     if unat (m_bank m) = MCE_THERMAL_BANK
     then (ismemerr, run_unknown_trigger socket cpu m (decode_thermal m cpu s))
     else
       let s = decode_mcg (m_mcgstatus m) s;
           (unknown, ismemerr, s) =
             decode_mci (m_status m) (m_misc m) cpu (ucast (m_mcgcap m)) ismemerr socket (m_bank m) s;
           s = (if unknown then run_unknown_trigger socket cpu m s else s);
           s = (if test_prefix 11 (ucast (m_status m AND 0xFFFF)) then decode_bus_model cputype m s else s)
       in (ismemerr, decode_model cputype m s))"

definition intel_bank_name :: "int \<Rightarrow> string" where
  "intel_bank_name num = printf ''BANK %d'' [PN num]"


section \<open>Decoding changes nothing but the output\<close>

lemmas rep_step_decoders [frame] =
  memory_controller_frame [OF msg_step_refl, THEN rep_step_msg, THEN rep_step_trans [rotated]]

lemma decode_mca_frame [frame]:
  "rep_step s t \<Longrightarrow> rep_step s (snd (snd (decode_mca status misc track cpu ismemerr socket bank t)))"
  unfolding decode_mca_def Let_def if_distrib [of snd] snd_conv by (intro frame)

lemma decode_tracking_frame [frame]: "rep_step s t \<Longrightarrow> rep_step s (decode_tracking track t)"
  unfolding decode_tracking_def by (intro frame)

lemma decode_mci_frame [frame]:
  "rep_step s t \<Longrightarrow> rep_step s (snd (snd (decode_mci status misc cpu mcgcap ismemerr socket bank t)))"
  unfolding decode_mci_def Let_def by (intro frame)

lemma decode_mcg_frame [frame]: "rep_step s t \<Longrightarrow> rep_step s (decode_mcg mcgstatus t)"
  unfolding decode_mcg_def Let_def by (intro frame)

lemma decode_thermal_frame [frame]: "rep_step s t \<Longrightarrow> rep_step s (decode_thermal m cpu t)"
  unfolding decode_thermal_def by (intro frame)

lemma p4_decode_loop_frame [frame]: "msg_step s t \<Longrightarrow> msg_step s (p4_decode_loop md model t)"
proof (induction md model t rule: p4_decode_loop.induct)
  case (2 b n r model t)
  show ?case unfolding p4_decode_loop.simps by (rule "2.IH") (intro frame "2.prems")
qed simp

lemma decode_model_msg:
  "msg_step s (decode_bus_model cputype m s)" "msg_step s (decode_model cputype m s)"
  unfolding decode_bus_model_def decode_model_def p4_decode_model_def Let_def by (intro frame)+

lemmas decode_model_frame [frame] = decode_model_msg [THEN rep_step_msg, THEN rep_step_trans [rotated]]

lemma decode_intel_mc_frame [frame]:
  "rep_step s t \<Longrightarrow> rep_step s (snd (decode_intel_mc m cputype ismemerr sz t))"
  unfolding decode_intel_mc_def Let_def if_distrib [of snd] split_beta snd_conv by (intro frame)


lemma rep_step_events: "rep_step s s' \<Longrightarrow> \<exists>es. events s' = events s @ es"
  unfolding rep_step_def trig_step_def by auto

text \<open>
  C11: Decoding a machine check only reports. Whatever the record contains, the counters of the DIMMs, their
  number and the accounting configuration are those from before, and the output already produced is kept:
  new output is added after it.
\<close>

theorem decode_leaves_memdb:
  "md_dimms (snd (decode_intel_mc m cputype ismemerr sz s)) = md_dimms s \<and>
   md_numdimms (snd (decode_intel_mc m cputype ismemerr sz s)) = md_numdimms s \<and>
   same_conf s (snd (decode_intel_mc m cputype ismemerr sz s)) \<and>
   (\<exists>es. events (snd (decode_intel_mc m cputype ismemerr sz s)) = events s @ es)"
  by (intro conjI rep_memdb_frame rep_step_events decode_intel_mc_frame rep_step_refl)

section \<open>Classification of error codes\<close>

lemma unat_drop_div: "unat (drop_bit n v) = unat v div 2 ^ n" for v :: "'a::len word"
  unfolding unat_drop_bit_eq by (rule drop_bit_eq_div)

lemma unat_take_bit_word: "unat (take_bit n v) = take_bit n (unat v)" for v :: "'a::len word"
  by transfer (simp add: take_bit_nat_eq take_bit_take_bit min.commute)

lemma div_eq_one: "0 < d \<Longrightarrow> n div d = 1 \<longleftrightarrow> n \<in> {d..<2 * d}" for n d :: nat
  using div_nat_eqI [of d 1 n] dividend_less_div_times [of d n] div_less [of n d]
  by (auto simp: not_less [symmetric])

lemma test_prefix_range: "test_prefix n v \<longleftrightarrow> unat v \<in> {2 ^ n..<2 * 2 ^ n}"
  unfolding test_prefix_def word_unat_eq_iff unat_drop_div unat_1 by (rule div_eq_one) simp

lemma memory_cache_range:
  "test_prefix 9 v \<and> EXTRACT (ucast v) 7 8 = 1 \<longleftrightarrow> unat v \<in> {640..<768}"
proof -
  have "unat (EXTRACT (ucast v) 7 8) = unat v div 128 mod 4"
    unfolding EXTRACT_take_bit unat_take_bit_word unat_drop_div
    using unsigned_less [of v, where 'a = nat] by (simp add: unsigned_ucast_eq take_bit_eq_mod)
  then have "EXTRACT (ucast v) 7 8 = 1 \<longleftrightarrow> unat v div 128 mod 4 = 1"
    by (simp add: word_unat_eq_iff)
  moreover have "(512 \<le> n \<and> n < 1024) \<and> n div 128 mod 4 = 1 \<longleftrightarrow> 640 \<le> n \<and> n < 768" for n :: nat
  proof -
    have q: "4 \<le> q \<and> q < 8 \<Longrightarrow> q mod 4 = 1 \<longleftrightarrow> q = 5" for q :: nat by presburger
    have "512 \<le> n \<and> n < 1024 \<longleftrightarrow> 4 \<le> n div 128 \<and> n div 128 < 8" "640 \<le> n \<and> n < 768 \<longleftrightarrow> n div 128 = 5"
      using div_mult_mod_eq [of n 128] mod_less_divisor [of 128 n] by linarith+
    then show ?thesis using q [of "n div 128"] by auto
  qed
  ultimately show ?thesis unfolding test_prefix_range by simp
qed

text \<open>What an error code means, by its value: the table of compound error codes.\<close>

definition mca_known :: "nat \<Rightarrow> bool" where
  "mca_known c \<longleftrightarrow> c < 7 \<or> c \<in> {12..<16} \<or> c \<in> {16..<32} \<or> c \<in> {128..<256} \<or> c \<in> {256..<512} \<or>
     c \<in> {640..<768} \<or> c \<in> {2048..<4096}"

lemma decode_mca_verdict:
  "fst (decode_mca status misc track cpu ismemerr socket bank s) = (\<not> mca_known (unat (mca_code status))) \<and>
   fst (snd (decode_mca status misc track cpu ismemerr socket bank s)) =
     (ismemerr \<or> unat (mca_code status) \<in> {0x80..0xFF})"
proof -
  define c where "c = mca_code status"
  have m: "length mca_msg = 7" by (simp add: mca_msg_def)
  have l: "drop_bit 2 c = 3 \<longleftrightarrow> unat c \<in> {12..<16}"
    unfolding word_unat_eq_iff unat_drop_div by auto
  have "fst (decode_mca status misc track cpu ismemerr socket bank s) = (\<not> mca_known (unat c))"
    unfolding decode_mca_def c_def [symmetric] Let_def l memory_cache_range m unfolding test_prefix_range
      if_distrib [of fst] fst_conv mca_known_def by auto
  moreover have "fst (snd (decode_mca status misc track cpu ismemerr socket bank s)) =
      (ismemerr \<or> unat c \<in> {0x80..0xFF})"
    unfolding decode_mca_def c_def [symmetric] Let_def l memory_cache_range m unfolding test_prefix_range
      if_distrib [of snd] if_distrib [of fst] snd_conv fst_conv by auto
  ultimately show ?thesis by (simp add: c_def)
qed

text \<open>
  C10: The verdict of \<open>decode_mca\<close> on every status value: an error counts as a memory error exactly when its
  code, without the bit for corrected filtering, lies between 0x80 and 0xFF; it is reported as unknown
  exactly when the code is in none of the ranges of simple, cache, TLB, memory and bus errors, internal
  errors included.
\<close>

theorem mca_verdict:
  "fst (decode_mca status misc track cpu ismemerr socket bank s) = (\<not> mca_known (unat (mca_code status))) \<and>
   fst (snd (decode_mca status misc track cpu ismemerr socket bank s)) =
     (ismemerr \<or> unat (mca_code status) \<in> {0x80..0xFF})"
  by (rule decode_mca_verdict)



end
