(* ===== verification/RbTree.thy ===== *)
theory RbTree
  imports Prelude "HOL-Library.Monad_Syntax"
begin

text \<open>
  The red-black trees of \<^verbatim>\<open>src/rbtree.c\<close> and \<^verbatim>\<open>src/rbtree.h\<close> on an explicit store of nodes. A pointer to a
  node is a number, 0 is NULL. A function yields \<open>None\<close> when it follows a NULL pointer or does not return.
\<close>

section \<open>Nodes\<close>

text \<open>The word \<open>rb_parent_color\<close> packs the parent, which is aligned, and the colour in its lowest bit: here
  they are two fields.\<close>

datatype rb_colour = RB_RED | RB_BLACK

record rb_node =
  rb_right :: nat
  rb_left :: nat
  rb_parent :: nat
  rb_color :: rb_colour

record rb_tree =
  rb_nodes :: "nat \<Rightarrow> rb_node"
  rb_root :: nat

definition rb_get :: "nat \<Rightarrow> rb_tree \<Rightarrow> rb_node option" where
  "rb_get p t = (if p = 0 then None else Some (rb_nodes t p))"

definition rb_set :: "nat \<Rightarrow> (rb_node \<Rightarrow> rb_node) \<Rightarrow> rb_tree \<Rightarrow> rb_tree option" where
  "rb_set p f t = (if p = 0 then None else Some (t\<lparr>rb_nodes := (rb_nodes t)(p := f (rb_nodes t p))\<rparr>))"

definition rb_set_parent :: "nat \<Rightarrow> nat \<Rightarrow> rb_tree \<Rightarrow> rb_tree option" where
  "rb_set_parent p q = rb_set p (rb_parent_update (\<lambda>_. q))"

definition rb_set_color :: "nat \<Rightarrow> rb_colour \<Rightarrow> rb_tree \<Rightarrow> rb_tree option" where
  "rb_set_color p c = rb_set p (rb_color_update (\<lambda>_. c))"

definition rb_set_red :: "nat \<Rightarrow> rb_tree \<Rightarrow> rb_tree option" where
  "rb_set_red p = rb_set_color p RB_RED"

definition rb_set_black :: "nat \<Rightarrow> rb_tree \<Rightarrow> rb_tree option" where
  "rb_set_black p = rb_set_color p RB_BLACK"

definition set_left :: "nat \<Rightarrow> nat \<Rightarrow> rb_tree \<Rightarrow> rb_tree option" where
  "set_left p q = rb_set p (rb_left_update (\<lambda>_. q))"

definition set_right :: "nat \<Rightarrow> nat \<Rightarrow> rb_tree \<Rightarrow> rb_tree option" where
  "set_right p q = rb_set p (rb_right_update (\<lambda>_. q))"

text \<open>The conditions \<open>uncle && rb_is_red(uncle)\<close> and \<open>!x || rb_is_black(x)\<close>.\<close>

definition is_red :: "nat \<Rightarrow> rb_tree \<Rightarrow> bool" where
  "is_red p t \<longleftrightarrow> p \<noteq> 0 \<and> rb_color (rb_nodes t p) = RB_RED"

section \<open>Rotations\<close>

definition rb_rotate_left :: "nat \<Rightarrow> rb_tree \<Rightarrow> rb_tree option" where
  "rb_rotate_left node t = do {
     n \<leftarrow> rb_get node t;
     let right = rb_right n;
     let parent = rb_parent n;
     r \<leftarrow> rb_get right t;
     t \<leftarrow> set_right node (rb_left r) t;
     t \<leftarrow> (if rb_left r \<noteq> 0 then rb_set_parent (rb_left r) node t else Some t);
     t \<leftarrow> set_left right node t;
     t \<leftarrow> rb_set_parent right parent t;
     t \<leftarrow> (if parent \<noteq> 0
           then if node = rb_left (rb_nodes t parent) then set_left parent right t else set_right parent right t
           else Some (t\<lparr>rb_root := right\<rparr>));
     rb_set_parent node right t }"

definition rb_rotate_right :: "nat \<Rightarrow> rb_tree \<Rightarrow> rb_tree option" where
  "rb_rotate_right node t = do {
     n \<leftarrow> rb_get node t;
     let left = rb_left n;
     let parent = rb_parent n;
     l \<leftarrow> rb_get left t;
     t \<leftarrow> set_left node (rb_right l) t;
     t \<leftarrow> (if rb_right l \<noteq> 0 then rb_set_parent (rb_right l) node t else Some t);
     t \<leftarrow> set_right left node t;
     t \<leftarrow> rb_set_parent left parent t;
     t \<leftarrow> (if parent \<noteq> 0
           then if node = rb_right (rb_nodes t parent) then set_right parent left t else set_left parent left t
           else Some (t\<lparr>rb_root := left\<rparr>));
     rb_set_parent node left t }"

section \<open>Insertion\<close>

text \<open>\<open>rb_link_node\<close>: the place is the root or a child pointer of the parent.\<close>

datatype rb_link = LRoot | LLeft nat | LRight nat

definition rb_link_node :: "nat \<Rightarrow> nat \<Rightarrow> rb_link \<Rightarrow> rb_tree \<Rightarrow> rb_tree option" where
  "rb_link_node node parent link t = do {
     t \<leftarrow> rb_set node (\<lambda>n. n\<lparr>rb_parent := parent, rb_color := RB_RED, rb_left := 0, rb_right := 0\<rparr>) t;
     (case link of
        LRoot \<Rightarrow> Some (t\<lparr>rb_root := node\<rparr>)
      | LLeft p \<Rightarrow> set_left p node t
      | LRight p \<Rightarrow> set_right p node t) }"

text \<open>The loop of \<open>rb_insert_color\<close>.\<close>

partial_function (option) rb_insert_loop :: "nat \<Rightarrow> rb_tree \<Rightarrow> rb_tree option" where
  "rb_insert_loop node t = do {
     n \<leftarrow> rb_get node t;
     let parent = rb_parent n;
     (if is_red parent t then do {
        let gparent = rb_parent (rb_nodes t parent);
        g \<leftarrow> rb_get gparent t;
        (if parent = rb_left g then
           let uncle = rb_right g in
           if is_red uncle t then do {
             t \<leftarrow> rb_set_black uncle t;
             t \<leftarrow> rb_set_black parent t;
             t \<leftarrow> rb_set_red gparent t;
             rb_insert_loop gparent t }
           else do {
             let turn = (rb_right (rb_nodes t parent) = node);
             t \<leftarrow> (if turn then rb_rotate_left parent t else Some t);
             let (parent, node) = (if turn then (node, parent) else (parent, node));
             t \<leftarrow> rb_set_black parent t;
             t \<leftarrow> rb_set_red gparent t;
             t \<leftarrow> rb_rotate_right gparent t;
             rb_insert_loop node t }
         else
           let uncle = rb_left g in
           if is_red uncle t then do {
             t \<leftarrow> rb_set_black uncle t;
             t \<leftarrow> rb_set_black parent t;
             t \<leftarrow> rb_set_red gparent t;
             rb_insert_loop gparent t }
           else do {
             let turn = (rb_left (rb_nodes t parent) = node);
             t \<leftarrow> (if turn then rb_rotate_right parent t else Some t);
             let (parent, node) = (if turn then (node, parent) else (parent, node));
             t \<leftarrow> rb_set_black parent t;
             t \<leftarrow> rb_set_red gparent t;
             t \<leftarrow> rb_rotate_left gparent t;
             rb_insert_loop node t }) }
      else Some t) }"

definition rb_insert_color :: "nat \<Rightarrow> rb_tree \<Rightarrow> rb_tree option" where
  "rb_insert_color node t = do { t \<leftarrow> rb_insert_loop node t; rb_set_black (rb_root t) t }"

section \<open>Removal\<close>

text \<open>Two parts of the loop body of \<open>__rb_erase_color\<close>, for a node on the left: what is done to a red sibling, and
  the end of the loop, for a black sibling with a red child.\<close>

definition erase_red_left :: "nat \<Rightarrow> nat \<Rightarrow> rb_tree \<Rightarrow> rb_tree option" where
  "erase_red_left parent other t = do {
     t \<leftarrow> rb_set_black other t;
     t \<leftarrow> rb_set_red parent t;
     rb_rotate_left parent t }"

definition erase_end_left :: "nat \<Rightarrow> nat \<Rightarrow> rb_tree \<Rightarrow> rb_tree option" where
  "erase_end_left parent other t = do {
     ot \<leftarrow> rb_get other t;
     let turn = (\<not> is_red (rb_right ot) t);
     t \<leftarrow> (if turn then do {
              t \<leftarrow> rb_set_black (rb_left ot) t;
              t \<leftarrow> rb_set_red other t;
              rb_rotate_right other t }
           else Some t);
     let other = (if turn then rb_right (rb_nodes t parent) else other);
     t \<leftarrow> rb_set_color other (rb_color (rb_nodes t parent)) t;
     t \<leftarrow> rb_set_black parent t;
     t \<leftarrow> rb_set_black (rb_right (rb_nodes t other)) t;
     rb_rotate_left parent t }"

text \<open>The same for a node on the right.\<close>

definition erase_red_right :: "nat \<Rightarrow> nat \<Rightarrow> rb_tree \<Rightarrow> rb_tree option" where
  "erase_red_right parent other t = do {
     t \<leftarrow> rb_set_black other t;
     t \<leftarrow> rb_set_red parent t;
     rb_rotate_right parent t }"

definition erase_end_right :: "nat \<Rightarrow> nat \<Rightarrow> rb_tree \<Rightarrow> rb_tree option" where
  "erase_end_right parent other t = do {
     ot \<leftarrow> rb_get other t;
     let turn = (\<not> is_red (rb_left ot) t);
     t \<leftarrow> (if turn then do {
              t \<leftarrow> rb_set_black (rb_right ot) t;
              t \<leftarrow> rb_set_red other t;
              rb_rotate_left other t }
           else Some t);
     let other = (if turn then rb_left (rb_nodes t parent) else other);
     t \<leftarrow> rb_set_color other (rb_color (rb_nodes t parent)) t;
     t \<leftarrow> rb_set_black parent t;
     t \<leftarrow> rb_set_black (rb_left (rb_nodes t other)) t;
     rb_rotate_right parent t }"

text \<open>The loop; it returns the node to be coloured black.\<close>

partial_function (option) rb_erase_loop :: "nat \<Rightarrow> nat \<Rightarrow> rb_tree \<Rightarrow> (nat \<times> rb_tree) option" where
  "rb_erase_loop node parent t =
    (if \<not> is_red node t \<and> node \<noteq> rb_root t then do {
       p \<leftarrow> rb_get parent t;
       (if rb_left p = node then do {
          o1 \<leftarrow> rb_get (rb_right p) t;
          t \<leftarrow> (if rb_color o1 = RB_RED then erase_red_left parent (rb_right p) t else Some t);
          let other = rb_right (rb_nodes t parent);
          ot \<leftarrow> rb_get other t;
          (if \<not> is_red (rb_left ot) t \<and> \<not> is_red (rb_right ot) t then do {
             t \<leftarrow> rb_set_red other t;
             rb_erase_loop parent (rb_parent (rb_nodes t parent)) t }
           else do {
             t \<leftarrow> erase_end_left parent other t;
             Some (rb_root t, t) }) }
        else do {
          o1 \<leftarrow> rb_get (rb_left p) t;
          t \<leftarrow> (if rb_color o1 = RB_RED then erase_red_right parent (rb_left p) t else Some t);
          let other = rb_left (rb_nodes t parent);
          ot \<leftarrow> rb_get other t;
          (if \<not> is_red (rb_left ot) t \<and> \<not> is_red (rb_right ot) t then do {
             t \<leftarrow> rb_set_red other t;
             rb_erase_loop parent (rb_parent (rb_nodes t parent)) t }
           else do {
             t \<leftarrow> erase_end_right parent other t;
             Some (rb_root t, t) }) }) }
     else Some (node, t))"

definition rb_erase_color :: "nat \<Rightarrow> nat \<Rightarrow> rb_tree \<Rightarrow> rb_tree option" where
  "rb_erase_color node parent t = do {
     (node, t) \<leftarrow> rb_erase_loop node parent t;
     (if node \<noteq> 0 then rb_set_black node t else Some t) }"

text \<open>Down the left, or the right, children.\<close>

partial_function (option) leftmost :: "nat \<Rightarrow> rb_tree \<Rightarrow> nat option" where
  "leftmost p t = do { n \<leftarrow> rb_get p t; (if rb_left n = 0 then Some p else leftmost (rb_left n) t) }"

partial_function (option) rightmost :: "nat \<Rightarrow> rb_tree \<Rightarrow> nat option" where
  "rightmost p t = do { n \<leftarrow> rb_get p t; (if rb_right n = 0 then Some p else rightmost (rb_right n) t) }"

text \<open>The child pointer of \<open>parent\<close>, or the root, that leads to \<open>old\<close> is set to \<open>new\<close>.\<close>

definition replace_child :: "nat \<Rightarrow> nat \<Rightarrow> nat \<Rightarrow> rb_tree \<Rightarrow> rb_tree option" where
  "replace_child parent old new t =
     (if parent \<noteq> 0
      then if rb_left (rb_nodes t parent) = old then set_left parent new t else set_right parent new t
      else Some (t\<lparr>rb_root := new\<rparr>))"

definition rb_erase :: "nat \<Rightarrow> rb_tree \<Rightarrow> rb_tree option" where
  "rb_erase node t = do {
     n \<leftarrow> rb_get node t;
     (child, parent, color, t) \<leftarrow>
       (if rb_left n = 0 \<or> rb_right n = 0 then do {
          let child = (if rb_left n = 0 then rb_right n else rb_left n);
          let parent = rb_parent n;
          t \<leftarrow> (if child \<noteq> 0 then rb_set_parent child parent t else Some t);
          t \<leftarrow> replace_child parent node child t;
          Some (child, parent, rb_color n, t) }
        else do {
          let old = node;
          node \<leftarrow> leftmost (rb_right n) t;
          let child = rb_right (rb_nodes t node);
          let parent = rb_parent (rb_nodes t node);
          let color = rb_color (rb_nodes t node);
          t \<leftarrow> (if child \<noteq> 0 then rb_set_parent child parent t else Some t);
          t \<leftarrow> (if parent = old then set_right parent child t else set_left parent child t);
          let parent = (if parent = old then node else parent);
          let ol = rb_nodes t old;
          t \<leftarrow> rb_set node (\<lambda>_. ol) t;
          t \<leftarrow> replace_child (rb_parent ol) old node t;
          t \<leftarrow> rb_set_parent (rb_left ol) node t;
          t \<leftarrow> (if rb_right ol \<noteq> 0 then rb_set_parent (rb_right ol) node t else Some t);
          Some (child, parent, color, t) });
     (if color = RB_BLACK then rb_erase_color child parent t else Some t) }"

section \<open>Traversal\<close>

definition rb_first :: "rb_tree \<Rightarrow> nat option" where
  "rb_first t = (if rb_root t = 0 then Some 0 else leftmost (rb_root t) t)"

definition rb_last :: "rb_tree \<Rightarrow> nat option" where
  "rb_last t = (if rb_root t = 0 then Some 0 else rightmost (rb_root t) t)"

text \<open>The first ancestor that is reached from its left, or its right, child.\<close>

partial_function (option) up_from_right :: "nat \<Rightarrow> rb_tree \<Rightarrow> nat option" where
  "up_from_right p t = do {
     n \<leftarrow> rb_get p t;
     (if rb_parent n \<noteq> 0 \<and> p = rb_right (rb_nodes t (rb_parent n)) then up_from_right (rb_parent n) t
      else Some (rb_parent n)) }"

partial_function (option) up_from_left :: "nat \<Rightarrow> rb_tree \<Rightarrow> nat option" where
  "up_from_left p t = do {
     n \<leftarrow> rb_get p t;
     (if rb_parent n \<noteq> 0 \<and> p = rb_left (rb_nodes t (rb_parent n)) then up_from_left (rb_parent n) t
      else Some (rb_parent n)) }"

definition rb_next :: "nat \<Rightarrow> rb_tree \<Rightarrow> nat option" where
  "rb_next node t = do {
     n \<leftarrow> rb_get node t;
     (if rb_parent n = node then Some 0
      else if rb_right n \<noteq> 0 then leftmost (rb_right n) t
      else up_from_right node t) }"

definition rb_prev :: "nat \<Rightarrow> rb_tree \<Rightarrow> nat option" where
  "rb_prev node t = do {
     n \<leftarrow> rb_get node t;
     (if rb_parent n = node then Some 0
      else if rb_left n \<noteq> 0 then rightmost (rb_left n) t
      else up_from_left node t) }"

definition rb_replace_node :: "nat \<Rightarrow> nat \<Rightarrow> rb_tree \<Rightarrow> rb_tree option" where
  "rb_replace_node victim new t = do {
     v \<leftarrow> rb_get victim t;
     t \<leftarrow> replace_child (rb_parent v) victim new t;
     t \<leftarrow> (if rb_left v \<noteq> 0 then rb_set_parent (rb_left v) new t else Some t);
     t \<leftarrow> (if rb_right v \<noteq> 0 then rb_set_parent (rb_right v) new t else Some t);
     rb_set new (\<lambda>_. rb_nodes t victim) t }"


section \<open>Trees and contexts in the store\<close>

text \<open>The tree that a store holds, as a datatype, and the context of a subtree: the frames from the
  subtree up to the root. \<open>FL\<close> is an ancestor reached from its left child, with its right subtree.\<close>

datatype rbt = Lf | Nd rbt rb_colour nat rbt

datatype frame = FL rb_colour nat rbt | FR rb_colour nat rbt

fun rid :: "rbt \<Rightarrow> nat" where
  "rid Lf = 0"
| "rid (Nd l c x r) = x"

fun ids :: "rbt \<Rightarrow> nat list" where
  "ids Lf = []"
| "ids (Nd l c x r) = ids l @ x # ids r"

fun pid :: "frame list \<Rightarrow> nat" where
  "pid [] = 0"
| "pid (FL c x r # fs) = x"
| "pid (FR c x l # fs) = x"

fun cids :: "frame list \<Rightarrow> nat list" where
  "cids [] = []"
| "cids (FL c x r # fs) = x # ids r @ cids fs"
| "cids (FR c x l # fs) = x # ids l @ cids fs"

fun plug :: "frame list \<Rightarrow> rbt \<Rightarrow> rbt" where
  "plug [] t = t"
| "plug (FL c x r # fs) t = plug fs (Nd t c x r)"
| "plug (FR c x l # fs) t = plug fs (Nd l c x t)"

text \<open>A tree fixes the contents of its nodes.\<close>

definition cell :: "nat \<Rightarrow> rb_colour \<Rightarrow> nat \<Rightarrow> nat \<Rightarrow> rb_node" where
  "cell par c l r = \<lparr>rb_right = r, rb_left = l, rb_parent = par, rb_color = c\<rparr>"

fun tree_at :: "(nat \<Rightarrow> rb_node) \<Rightarrow> nat \<Rightarrow> rbt \<Rightarrow> bool" where
  "tree_at h par Lf = True"
| "tree_at h par (Nd l c x r) \<longleftrightarrow>
     x \<noteq> 0 \<and> h x = cell par c (rid l) (rid r) \<and> tree_at h x l \<and> tree_at h x r"

fun ctx_at :: "(nat \<Rightarrow> rb_node) \<Rightarrow> nat \<Rightarrow> frame list \<Rightarrow> bool" where
  "ctx_at h p [] = True"
| "ctx_at h p (FL c x r # fs) \<longleftrightarrow>
     x \<noteq> 0 \<and> h x = cell (pid fs) c p (rid r) \<and> tree_at h x r \<and> ctx_at h x fs"
| "ctx_at h p (FR c x l # fs) \<longleftrightarrow>
     x \<noteq> 0 \<and> h x = cell (pid fs) c (rid l) p \<and> tree_at h x l \<and> ctx_at h x fs"

fun root_of :: "nat \<Rightarrow> frame list \<Rightarrow> nat" where
  "root_of p [] = p"
| "root_of p (FL c x r # fs) = root_of x fs"
| "root_of p (FR c x l # fs) = root_of x fs"

text \<open>\<open>rep t fs a\<close>: the store holds the tree \<open>plug fs a\<close>, with the attention on its subtree \<open>a\<close>.\<close>

definition rep :: "rb_tree \<Rightarrow> frame list \<Rightarrow> rbt \<Rightarrow> bool" where
  "rep t fs a \<longleftrightarrow> rb_root t = root_of (rid a) fs \<and> tree_at (rb_nodes t) (pid fs) a \<and>
     ctx_at (rb_nodes t) (rid a) fs \<and> distinct (ids a @ cids fs)"

lemma cell_sel [simp]:
  "rb_right (cell p c l r) = r" "rb_left (cell p c l r) = l" "rb_parent (cell p c l r) = p"
  "rb_color (cell p c l r) = c"
  by (simp_all add: cell_def)

lemma cell_upd [simp]:
  "(cell p c l r)\<lparr>rb_right := v\<rparr> = cell p c l v" "(cell p c l r)\<lparr>rb_left := v\<rparr> = cell p c v r"
  "(cell p c l r)\<lparr>rb_parent := v\<rparr> = cell v c l r" "(cell p c l r)\<lparr>rb_color := d\<rparr> = cell p d l r"
  by (simp_all add: cell_def)

lemma tree_at_upd [simp]: "x \<notin> set (ids a) \<Longrightarrow> tree_at (h(x := v)) par a = tree_at h par a"
  by (induction a arbitrary: par) auto

lemma ctx_at_upd [simp]: "x \<notin> set (cids fs) \<Longrightarrow> ctx_at (h(x := v)) p fs = ctx_at h p fs"
  by (induction h p fs rule: ctx_at.induct) auto

lemma rep_left: "rep t (FL c x r # fs) l \<longleftrightarrow> rep t fs (Nd l c x r)"
  unfolding rep_def by auto

lemma rep_right: "rep t (FR c x l # fs) r \<longleftrightarrow> rep t fs (Nd l c x r)"
  unfolding rep_def by auto

lemma rep_plug: "rep t fs a \<longleftrightarrow> rep t [] (plug fs a)"
  by (induction fs a rule: plug.induct) (auto simp: rep_left rep_right)

lemma rep_node: "rep t fs (Nd l c x r) \<Longrightarrow> rb_nodes t x = cell (pid fs) c (rid l) (rid r) \<and> x \<noteq> 0"
  by (simp add: rep_def)

lemma rep_frame:
  "rep t (FL c x r # fs) a \<Longrightarrow> rb_nodes t x = cell (pid fs) c (rid a) (rid r) \<and> x \<noteq> 0"
  "rep t (FR c x l # fs) a \<Longrightarrow> rb_nodes t x = cell (pid fs) c (rid l) (rid a) \<and> x \<noteq> 0"
  by (simp_all add: rep_def)

lemma rid_0: "tree_at h par a \<Longrightarrow> rid a = 0 \<longleftrightarrow> a = Lf"
  by (cases a) auto

lemma rid_neq [simp]: "x \<notin> set (ids a) \<Longrightarrow> x \<noteq> 0 \<Longrightarrow> x \<noteq> rid a" "x \<notin> set (ids a) \<Longrightarrow> x \<noteq> 0 \<Longrightarrow> rid a \<noteq> x"
  by (cases a; auto)+

lemmas rb_ops = rb_get_def rb_set_def rb_set_parent_def rb_set_color_def set_left_def set_right_def

lemma rep_set_color:
  "rep t fs (Nd l c x r) \<Longrightarrow> \<exists>t'. rb_set_color x d t = Some t' \<and> rep t' fs (Nd l d x r)"
  unfolding rep_def by (auto simp: rb_ops)

lemma rep_rotate_left:
  assumes "rep t fs (Nd a c x (Nd b d y e))"
  shows "\<exists>t'. rb_rotate_left x t = Some t' \<and> rep t' fs (Nd (Nd a c x b) d y e)"
proof (cases fs)
  case Nil
  then show ?thesis using assms unfolding rep_def rb_rotate_left_def Let_def
    by (cases b) (auto simp: rb_ops)
next
  case (Cons f gs)
  then show ?thesis using assms unfolding rep_def rb_rotate_left_def Let_def
    by (cases f; cases b) (simp_all add: rb_ops)
qed

lemma rep_rotate_right:
  assumes "rep t fs (Nd (Nd a d y b) c x e)"
  shows "\<exists>t'. rb_rotate_right x t = Some t' \<and> rep t' fs (Nd a d y (Nd b c x e))"
proof (cases fs)
  case Nil
  then show ?thesis using assms unfolding rep_def rb_rotate_right_def Let_def
    by (cases b) (auto simp: rb_ops)
next
  case (Cons f gs)
  then show ?thesis using assms unfolding rep_def rb_rotate_right_def Let_def
    by (cases f; cases b) (simp_all add: rb_ops)
qed


section \<open>Insertion keeps a red-black tree\<close>

fun colour :: "rbt \<Rightarrow> rb_colour" where
  "colour Lf = RB_BLACK"
| "colour (Nd l c x r) = c"

fun paint :: "rb_colour \<Rightarrow> rbt \<Rightarrow> rbt" where
  "paint d Lf = Lf"
| "paint d (Nd l c x r) = Nd l d x r"

lemma paint_colour [simp]: "paint (colour a) a = a" "paint c (paint d a) = paint c a" "colour (paint RB_BLACK a) = RB_BLACK"
  by (cases a; simp)+

lemma not_red [simp]: "c \<noteq> RB_RED \<longleftrightarrow> c = RB_BLACK" "c \<noteq> RB_BLACK \<longleftrightarrow> c = RB_RED"
  by (cases c; simp)+

fun fcolour :: "frame \<Rightarrow> rb_colour" where
  "fcolour (FL c x a) = c"
| "fcolour (FR c x a) = c"

text \<open>What the loop of \<open>rb_insert_color\<close> does to the tree: \<open>a\<close> is the red node it looks at.\<close>

fun ins_fix :: "frame list \<Rightarrow> rbt \<Rightarrow> rbt" where
  "ins_fix (FL RB_RED p s # FL gc g u # fs) a =
     (if colour u = RB_RED then ins_fix fs (Nd (Nd a RB_BLACK p s) RB_RED g (paint RB_BLACK u))
      else plug fs (Nd a RB_BLACK p (Nd s RB_RED g u)))"
| "ins_fix (FR RB_RED p s # FL gc g u # fs) a =
     (if colour u = RB_RED then ins_fix fs (Nd (Nd s RB_BLACK p a) RB_RED g (paint RB_BLACK u))
      else case a of Lf \<Rightarrow> Lf
           | Nd l c x r \<Rightarrow> plug fs (Nd (Nd s RB_RED p l) RB_BLACK x (Nd r RB_RED g u)))"
| "ins_fix (FR RB_RED p s # FR gc g u # fs) a =
     (if colour u = RB_RED then ins_fix fs (Nd (paint RB_BLACK u) RB_RED g (Nd s RB_BLACK p a))
      else plug fs (Nd (Nd u RB_RED g s) RB_BLACK p a))"
| "ins_fix (FL RB_RED p s # FR gc g u # fs) a =
     (if colour u = RB_RED then ins_fix fs (Nd (paint RB_BLACK u) RB_RED g (Nd a RB_BLACK p s))
      else case a of Lf \<Rightarrow> Lf
           | Nd l c x r \<Rightarrow> plug fs (Nd (Nd u RB_RED g l) RB_BLACK x (Nd r RB_RED p s)))"
| "ins_fix fs a = plug fs a"

lemma rep_is_red: "rep t fs a \<Longrightarrow> is_red (rid a) t \<longleftrightarrow> colour a = RB_RED"
  by (cases a) (auto simp: rep_def is_red_def)

lemma rep_parent_red: "rep t fs a \<Longrightarrow> is_red (pid fs) t \<longleftrightarrow> fs \<noteq> [] \<and> fcolour (hd fs) = RB_RED"
  by (induction fs rule: pid.induct) (auto simp: rep_def is_red_def)

lemma rep_blacken:
  "rep t fs (Nd l c x r) \<Longrightarrow> \<exists>t'. rb_set_black x t = Some t' \<and> rep t' fs (Nd l RB_BLACK x r)"
  unfolding rb_set_black_def by (rule rep_set_color)

lemma rep_redden:
  "rep t fs (Nd l c x r) \<Longrightarrow> \<exists>t'. rb_set_red x t = Some t' \<and> rep t' fs (Nd l RB_RED x r)"
  unfolding rb_set_red_def by (rule rep_set_color)

text \<open>The new colours of grandparent, its red children included.\<close>

lemma rep_flip_left:
  assumes "rep t fs (Nd (Nd a c p s) gc g u)" and "colour u = RB_RED"
  shows "\<exists>t1 t2 t'. rb_set_black (rid u) t = Some t1 \<and> rb_set_black p t1 = Some t2 \<and> rb_set_red g t2 = Some t' \<and>
    rep t' fs (Nd (Nd a RB_BLACK p s) RB_RED g (paint RB_BLACK u))"
proof -
  obtain ul ux ur where u: "u = Nd ul RB_RED ux ur" using assms(2) by (cases u) auto
  obtain t1 where 1: "rb_set_black ux t = Some t1" "rep t1 (FR gc g (Nd a c p s) # fs) (Nd ul RB_BLACK ux ur)"
    using rep_blacken [of t "FR gc g (Nd a c p s) # fs"] assms(1) unfolding u rep_right by blast
  obtain t2 where 2: "rb_set_black p t1 = Some t2" "rep t2 (FL gc g (Nd ul RB_BLACK ux ur) # fs) (Nd a RB_BLACK p s)"
    using rep_blacken [of t1 "FL gc g (Nd ul RB_BLACK ux ur) # fs"] 1(2) unfolding rep_right rep_left by blast
  obtain t3 where "rb_set_red g t2 = Some t3" "rep t3 fs (Nd (Nd a RB_BLACK p s) RB_RED g (Nd ul RB_BLACK ux ur))"
    using rep_redden 2(2) unfolding rep_left by blast
  with 1 2 u show ?thesis by simp
qed

lemma rep_flip_right:
  assumes "rep t fs (Nd u gc g (Nd a c p s))" and "colour u = RB_RED"
  shows "\<exists>t1 t2 t'. rb_set_black (rid u) t = Some t1 \<and> rb_set_black p t1 = Some t2 \<and> rb_set_red g t2 = Some t' \<and>
    rep t' fs (Nd (paint RB_BLACK u) RB_RED g (Nd a RB_BLACK p s))"
proof -
  obtain ul ux ur where u: "u = Nd ul RB_RED ux ur" using assms(2) by (cases u) auto
  obtain t1 where 1: "rb_set_black ux t = Some t1" "rep t1 (FL gc g (Nd a c p s) # fs) (Nd ul RB_BLACK ux ur)"
    using rep_blacken [of t "FL gc g (Nd a c p s) # fs"] assms(1) unfolding u rep_left by blast
  obtain t2 where 2: "rb_set_black p t1 = Some t2" "rep t2 (FR gc g (Nd ul RB_BLACK ux ur) # fs) (Nd a RB_BLACK p s)"
    using rep_blacken [of t1 "FR gc g (Nd ul RB_BLACK ux ur) # fs"] 1(2) unfolding rep_right rep_left by blast
  obtain t3 where "rb_set_red g t2 = Some t3" "rep t3 fs (Nd (Nd ul RB_BLACK ux ur) RB_RED g (Nd a RB_BLACK p s))"
    using rep_redden 2(2) unfolding rep_right by blast
  with 1 2 u show ?thesis by simp
qed

text \<open>The last steps when the uncle is black: parent black, grandparent red, one rotation.\<close>

lemma rep_lift_right:
  assumes "rep t fs (Nd (Nd a c p s) gc g u)"
  shows "\<exists>t1 t2 t'. rb_set_black p t = Some t1 \<and> rb_set_red g t1 = Some t2 \<and> rb_rotate_right g t2 = Some t' \<and>
    rep t' fs (Nd a RB_BLACK p (Nd s RB_RED g u))"
proof -
  obtain t1 where 1: "rb_set_black p t = Some t1" "rep t1 (FL gc g u # fs) (Nd a RB_BLACK p s)"
    using rep_blacken [of t "FL gc g u # fs"] assms unfolding rep_left by blast
  obtain t2 where 2: "rb_set_red g t1 = Some t2" "rep t2 fs (Nd (Nd a RB_BLACK p s) RB_RED g u)"
    using rep_redden 1(2) unfolding rep_left by blast
  show ?thesis using 1 2 rep_rotate_right [OF 2(2)] by auto
qed

lemma rep_lift_left:
  assumes "rep t fs (Nd u gc g (Nd s c p a))"
  shows "\<exists>t1 t2 t'. rb_set_black p t = Some t1 \<and> rb_set_red g t1 = Some t2 \<and> rb_rotate_left g t2 = Some t' \<and>
    rep t' fs (Nd (Nd u RB_RED g s) RB_BLACK p a)"
proof -
  obtain t1 where 1: "rb_set_black p t = Some t1" "rep t1 (FR gc g u # fs) (Nd s RB_BLACK p a)"
    using rep_blacken [of t "FR gc g u # fs"] assms unfolding rep_right by blast
  obtain t2 where 2: "rb_set_red g t1 = Some t2" "rep t2 fs (Nd u RB_RED g (Nd s RB_BLACK p a))"
    using rep_redden 1(2) unfolding rep_right by blast
  show ?thesis using 1 2 rep_rotate_left [OF 2(2)] by auto
qed

lemma insert_loop_stop:
  assumes "rep t fs (Nd l c x r)" and "fs = [] \<or> fcolour (hd fs) = RB_BLACK"
  shows "rb_insert_loop x t = Some t"
proof -
  have "\<not> is_red (pid fs) t" using rep_parent_red [OF assms(1)] assms(2) by auto
  then show ?thesis using rep_node [OF assms(1)] by (subst rb_insert_loop.simps) (simp add: rb_get_def)
qed


lemma insert_loop_done:
  assumes "rep t fs (Nd l c x r)" and "fs = [] \<or> fcolour (hd fs) = RB_BLACK"
  shows "rb_insert_loop x t = Some t \<and> rep t [] (plug fs (Nd l c x r))"
  using insert_loop_stop [OF assms] assms(1) rep_plug by blast

text \<open>The loop on the store is the function on the tree, as long as the root is black.\<close>

definition top_black :: "frame list \<Rightarrow> bool" where
  "top_black fs \<longleftrightarrow> (fs \<noteq> [] \<longrightarrow> fcolour (last fs) = RB_BLACK)"

lemma top_black_Cons2: "top_black (f # f' # fs) \<Longrightarrow> top_black fs"
  by (auto simp: top_black_def split: if_splits)

lemma insert_loop_rep:
  assumes "rep t fs a" and "a = Nd l c x r" and "top_black fs"
  shows "\<exists>t'. rb_insert_loop x t = Some t' \<and> rep t' [] (ins_fix fs a)"
  using assms
proof (induction fs a arbitrary: t l c x r rule: ins_fix.induct)
  case (1 p s gc g u fs a)
  have R: "rep t fs (Nd (Nd a RB_RED p s) gc g u)" using "1.prems"(1) by (simp add: rep_left)
  then have nodes: "rb_nodes t x = cell p c (rid l) (rid r)" "rb_nodes t p = cell g RB_RED x (rid s)"
    "rb_nodes t g = cell (pid fs) gc p (rid u)" "x \<noteq> 0" "p \<noteq> 0" "g \<noteq> 0" "rid s \<noteq> x"
    using "1.prems"(2) by (auto simp: rep_def)
  have red: "is_red p t" "is_red (rid u) t \<longleftrightarrow> colour u = RB_RED"
    using nodes rep_is_red [of t "FR gc g (Nd a RB_RED p s) # fs" u] R by (auto simp: is_red_def rep_right)
  show ?case
  proof (cases "colour u = RB_RED")
    case True
    obtain t1 t2 t3 where "rb_set_black (rid u) t = Some t1" "rb_set_black p t1 = Some t2"
      "rb_set_red g t2 = Some t3" "rep t3 fs (Nd (Nd a RB_BLACK p s) RB_RED g (paint RB_BLACK u))"
      using rep_flip_left [OF R True] by blast
    with "1.IH" [OF True this(4) refl top_black_Cons2 [OF "1.prems"(3)]] show ?thesis
      using nodes red True by (subst rb_insert_loop.simps) (simp add: rb_get_def)
  next
    case False
    obtain t1 t2 t3 where 3: "rb_set_black p t = Some t1" "rb_set_red g t1 = Some t2"
      "rb_rotate_right g t2 = Some t3" "rep t3 fs (Nd a RB_BLACK p (Nd s RB_RED g u))"
      using rep_lift_right [OF R] by blast
    then have "rb_insert_loop x t3 = Some t3"
      using insert_loop_stop [of t3 "FL RB_BLACK p (Nd s RB_RED g u) # fs"] "1.prems"(2) by (simp add: rep_left)
    with 3 False show ?thesis using nodes red rep_plug [of t3 fs]
      by (subst rb_insert_loop.simps) (simp add: rb_get_def)
  qed
next
  case (2 p s gc g u fs a)
  have R: "rep t fs (Nd (Nd s RB_RED p a) gc g u)" using "2.prems"(1) by (simp add: rep_left rep_right)
  then have nodes: "rb_nodes t x = cell p c (rid l) (rid r)" "rb_nodes t p = cell g RB_RED (rid s) x"
    "rb_nodes t g = cell (pid fs) gc p (rid u)" "x \<noteq> 0" "p \<noteq> 0" "g \<noteq> 0"
    using "2.prems"(2) by (auto simp: rep_def)
  have red: "is_red p t" "is_red (rid u) t \<longleftrightarrow> colour u = RB_RED"
    using nodes rep_is_red [of t "FR gc g (Nd s RB_RED p a) # fs" u] R by (auto simp: is_red_def rep_right)
  show ?case
  proof (cases "colour u = RB_RED")
    case True
    obtain t1 t2 t3 where "rb_set_black (rid u) t = Some t1" "rb_set_black p t1 = Some t2"
      "rb_set_red g t2 = Some t3" "rep t3 fs (Nd (Nd s RB_BLACK p a) RB_RED g (paint RB_BLACK u))"
      using rep_flip_left [OF R True] by blast
    with "2.IH" [OF True this(4) refl top_black_Cons2 [OF "2.prems"(3)]] show ?thesis
      using nodes red True by (subst rb_insert_loop.simps) (simp add: rb_get_def)
  next
    case False
    obtain t0 where 0: "rb_rotate_left p t = Some t0" "rep t0 (FL gc g u # fs) (Nd (Nd s RB_RED p l) c x r)"
      using rep_rotate_left [of t "FL gc g u # fs"] R "2.prems"(2) unfolding rep_left by blast
    obtain t1 t2 t3 where 3: "rb_set_black x t0 = Some t1" "rb_set_red g t1 = Some t2"
      "rb_rotate_right g t2 = Some t3" "rep t3 fs (Nd (Nd s RB_RED p l) RB_BLACK x (Nd r RB_RED g u))"
      using rep_lift_right 0(2) unfolding rep_left by blast
    then have "rb_insert_loop p t3 = Some t3"
      using insert_loop_stop [of t3 "FL RB_BLACK x (Nd r RB_RED g u) # fs"] by (simp add: rep_left)
    with 0 3 False show ?thesis using nodes red rep_plug [of t3 fs] "2.prems"(2)
      by (subst rb_insert_loop.simps) (simp add: rb_get_def)
  qed
next
  case (3 p s gc g u fs a)
  have R: "rep t fs (Nd u gc g (Nd s RB_RED p a))" using "3.prems"(1) by (simp add: rep_right)
  then have nodes: "rb_nodes t x = cell p c (rid l) (rid r)" "rb_nodes t p = cell g RB_RED (rid s) x"
    "rb_nodes t g = cell (pid fs) gc (rid u) p" "x \<noteq> 0" "p \<noteq> 0" "g \<noteq> 0" "rid s \<noteq> x" "p \<noteq> rid u"
    using "3.prems"(2) by (auto simp: rep_def)
  have red: "is_red p t" "is_red (rid u) t \<longleftrightarrow> colour u = RB_RED"
    using nodes rep_is_red [of t "FL gc g (Nd s RB_RED p a) # fs" u] R by (auto simp: is_red_def rep_left)
  show ?case
  proof (cases "colour u = RB_RED")
    case True
    obtain t1 t2 t3 where "rb_set_black (rid u) t = Some t1" "rb_set_black p t1 = Some t2"
      "rb_set_red g t2 = Some t3" "rep t3 fs (Nd (paint RB_BLACK u) RB_RED g (Nd s RB_BLACK p a))"
      using rep_flip_right [OF R True] by blast
    with "3.IH" [OF True this(4) refl top_black_Cons2 [OF "3.prems"(3)]] show ?thesis
      using nodes red True by (subst rb_insert_loop.simps) (simp add: rb_get_def)
  next
    case False
    obtain t1 t2 t3 where 3: "rb_set_black p t = Some t1" "rb_set_red g t1 = Some t2"
      "rb_rotate_left g t2 = Some t3" "rep t3 fs (Nd (Nd u RB_RED g s) RB_BLACK p a)"
      using rep_lift_left [OF R] by blast
    then have "rb_insert_loop x t3 = Some t3"
      using insert_loop_stop [of t3 "FR RB_BLACK p (Nd u RB_RED g s) # fs"] "3.prems"(2) by (simp add: rep_right)
    with 3 False show ?thesis using nodes red rep_plug [of t3 fs]
      by (subst rb_insert_loop.simps) (simp add: rb_get_def)
  qed
next
  case (4 p s gc g u fs a)
  have R: "rep t fs (Nd u gc g (Nd a RB_RED p s))" using "4.prems"(1) by (simp add: rep_left rep_right)
  then have nodes: "rb_nodes t x = cell p c (rid l) (rid r)" "rb_nodes t p = cell g RB_RED x (rid s)"
    "rb_nodes t g = cell (pid fs) gc (rid u) p" "x \<noteq> 0" "p \<noteq> 0" "g \<noteq> 0" "p \<noteq> rid u"
    using "4.prems"(2) by (auto simp: rep_def)
  have red: "is_red p t" "is_red (rid u) t \<longleftrightarrow> colour u = RB_RED"
    using nodes rep_is_red [of t "FL gc g (Nd a RB_RED p s) # fs" u] R by (auto simp: is_red_def rep_left)
  show ?case
  proof (cases "colour u = RB_RED")
    case True
    obtain t1 t2 t3 where "rb_set_black (rid u) t = Some t1" "rb_set_black p t1 = Some t2"
      "rb_set_red g t2 = Some t3" "rep t3 fs (Nd (paint RB_BLACK u) RB_RED g (Nd a RB_BLACK p s))"
      using rep_flip_right [OF R True] by blast
    with "4.IH" [OF True this(4) refl top_black_Cons2 [OF "4.prems"(3)]] show ?thesis
      using nodes red True by (subst rb_insert_loop.simps) (simp add: rb_get_def)
  next
    case False
    obtain t0 where 0: "rb_rotate_right p t = Some t0" "rep t0 (FR gc g u # fs) (Nd l c x (Nd r RB_RED p s))"
      using rep_rotate_right [of t "FR gc g u # fs"] R "4.prems"(2) unfolding rep_right by blast
    obtain t1 t2 t3 where 3: "rb_set_black x t0 = Some t1" "rb_set_red g t1 = Some t2"
      "rb_rotate_left g t2 = Some t3" "rep t3 fs (Nd (Nd u RB_RED g l) RB_BLACK x (Nd r RB_RED p s))"
      using rep_lift_left 0(2) unfolding rep_right by blast
    then have "rb_insert_loop p t3 = Some t3"
      using insert_loop_stop [of t3 "FR RB_BLACK x (Nd u RB_RED g l) # fs"] by (simp add: rep_right)
    with 0 3 False show ?thesis using nodes red rep_plug [of t3 fs] "4.prems"(2)
      by (subst rb_insert_loop.simps) (simp add: rb_get_def)
  qed
qed (auto simp: top_black_def dest: insert_loop_done)


text \<open>The invariants of red-black trees, and what they say of a context: \<open>ctx_bh fs n\<close> when a hole for a tree of
  black height \<open>n\<close> fits, \<open>ctx_c fs\<close> when no two red nodes meet outside the hole.\<close>

fun bheight :: "rbt \<Rightarrow> nat" where
  "bheight Lf = 0"
| "bheight (Nd l c x r) = (if c = RB_BLACK then bheight l + 1 else bheight l)"

fun invh :: "rbt \<Rightarrow> bool" where
  "invh Lf = True"
| "invh (Nd l c x r) \<longleftrightarrow> bheight l = bheight r \<and> invh l \<and> invh r"

fun invc :: "rbt \<Rightarrow> bool" where
  "invc Lf = True"
| "invc (Nd l c x r) \<longleftrightarrow> (c = RB_RED \<longrightarrow> colour l = RB_BLACK \<and> colour r = RB_BLACK) \<and> invc l \<and> invc r"

definition rb_inv :: "rbt \<Rightarrow> bool" where
  "rb_inv a \<longleftrightarrow> invc a \<and> invh a \<and> colour a = RB_BLACK"

fun ctx_bh :: "frame list \<Rightarrow> nat \<Rightarrow> bool" where
  "ctx_bh [] n = True"
| "ctx_bh (FL c x a # fs) n \<longleftrightarrow> invh a \<and> bheight a = n \<and> ctx_bh fs (if c = RB_BLACK then Suc n else n)"
| "ctx_bh (FR c x a # fs) n \<longleftrightarrow> invh a \<and> bheight a = n \<and> ctx_bh fs (if c = RB_BLACK then Suc n else n)"

fun ctx_c :: "frame list \<Rightarrow> bool" where
  "ctx_c [] = True"
| "ctx_c (FL c x a # fs) \<longleftrightarrow> invc a \<and> ctx_c fs \<and>
     (c = RB_RED \<longrightarrow> colour a = RB_BLACK \<and> fs \<noteq> [] \<and> fcolour (hd fs) = RB_BLACK)"
| "ctx_c (FR c x a # fs) \<longleftrightarrow> invc a \<and> ctx_c fs \<and>
     (c = RB_RED \<longrightarrow> colour a = RB_BLACK \<and> fs \<noteq> [] \<and> fcolour (hd fs) = RB_BLACK)"

text \<open>Where a red subtree may be put.\<close>

definition red_ok :: "frame list \<Rightarrow> bool" where
  "red_ok fs \<longleftrightarrow> fs \<noteq> [] \<and> fcolour (hd fs) = RB_BLACK"

lemma ctx_c_top: "ctx_c fs \<Longrightarrow> top_black fs"
  by (induction fs rule: ctx_c.induct) (auto simp: top_black_def)

lemma plug_invh: "invh (plug fs a) \<longleftrightarrow> invh a \<and> ctx_bh fs (bheight a)"
  by (induction fs a rule: plug.induct) auto

text \<open>The nodes before and after the hole in the order of the tree.\<close>

fun lids :: "frame list \<Rightarrow> nat list" where
  "lids [] = []"
| "lids (FL c x a # fs) = lids fs"
| "lids (FR c x a # fs) = lids fs @ ids a @ [x]"

fun rids :: "frame list \<Rightarrow> nat list" where
  "rids [] = []"
| "rids (FL c x a # fs) = x # ids a @ rids fs"
| "rids (FR c x a # fs) = rids fs"

lemma plug_ids: "ids (plug fs a) = lids fs @ ids a @ rids fs"
  by (induction fs a rule: plug.induct) auto

lemma plug_colours:
  "invc (plug fs a) \<and> colour (plug fs a) = RB_BLACK \<longleftrightarrow>
     invc a \<and> ctx_c fs \<and> (colour a = RB_RED \<longrightarrow> red_ok fs)"
proof (induction fs a rule: plug.induct)
  case (2 c x r fs t)
  then show ?case by (cases c) (auto simp: red_ok_def)
next
  case (3 c x r fs t)
  then show ?case by (cases c) (auto simp: red_ok_def)
qed (auto simp: red_ok_def)

lemma plug_inv: "rb_inv (plug fs a) \<longleftrightarrow>
    invc a \<and> invh a \<and> ctx_c fs \<and> ctx_bh fs (bheight a) \<and> (colour a = RB_RED \<longrightarrow> red_ok fs)"
  using plug_colours [of fs a] plug_invh [of fs a] unfolding rb_inv_def by blast

lemma ids_paint [simp]: "ids (paint c a) = ids a"
  by (cases a) auto

lemma paint_inv: "rb_inv a \<Longrightarrow> rb_inv (paint RB_BLACK a)"
  by (cases a) (auto simp: rb_inv_def)

lemma paint_root_inv: "invc a \<Longrightarrow> invh a \<Longrightarrow> rb_inv (paint RB_BLACK (plug [] a))"
  by (cases a) (auto simp: rb_inv_def)

lemma ins_fix_ids: "a \<noteq> Lf \<Longrightarrow> ids (ins_fix fs a) = lids fs @ ids a @ rids fs"
  by (induction fs a rule: ins_fix.induct) (simp_all add: plug_ids split: rbt.split)

lemma black_top: "ctx_c [f] \<Longrightarrow> fcolour f = RB_BLACK"
  by (cases f) auto

lemma ins_fix_inv:
  "ctx_c fs \<Longrightarrow> ctx_bh fs (bheight a) \<Longrightarrow> invc a \<Longrightarrow> invh a \<Longrightarrow> colour a = RB_RED \<Longrightarrow>
   rb_inv (paint RB_BLACK (ins_fix fs a))"
proof (induction fs a rule: ins_fix.induct)
  case (1 p s gc g u fs a)
  show ?case
  proof (cases "colour u = RB_RED")
    case True
    then obtain ul ux ur where u: "u = Nd ul RB_RED ux ur" by (cases u) auto
    then have "ins_fix (FL RB_RED p s # FL gc g u # fs) a = ins_fix fs (Nd (Nd a RB_BLACK p s) RB_RED g (Nd ul RB_BLACK ux ur))" by simp
    moreover have "rb_inv (paint RB_BLACK (ins_fix fs (Nd (Nd a RB_BLACK p s) RB_RED g (Nd ul RB_BLACK ux ur))))"
      by (rule "1.IH" [OF True, unfolded u paint.simps]) (use "1.prems" u in auto)
    ultimately show ?thesis by simp
  next
    case False
    then show ?thesis using "1.prems" by (cases a) (simp_all add: paint_inv plug_inv)
  qed
next
  case (2 p s gc g u fs a)
  show ?case
  proof (cases "colour u = RB_RED")
    case True
    then obtain ul ux ur where u: "u = Nd ul RB_RED ux ur" by (cases u) auto
    then have "ins_fix (FR RB_RED p s # FL gc g u # fs) a = ins_fix fs (Nd (Nd s RB_BLACK p a) RB_RED g (Nd ul RB_BLACK ux ur))" by simp
    moreover have "rb_inv (paint RB_BLACK (ins_fix fs (Nd (Nd s RB_BLACK p a) RB_RED g (Nd ul RB_BLACK ux ur))))"
      by (rule "2.IH" [OF True, unfolded u paint.simps]) (use "2.prems" u in auto)
    ultimately show ?thesis by simp
  next
    case False
    then show ?thesis using "2.prems" by (cases a) (simp_all add: paint_inv plug_inv)
  qed
next
  case (3 p s gc g u fs a)
  show ?case
  proof (cases "colour u = RB_RED")
    case True
    then obtain ul ux ur where u: "u = Nd ul RB_RED ux ur" by (cases u) auto
    then have "ins_fix (FR RB_RED p s # FR gc g u # fs) a = ins_fix fs (Nd (Nd ul RB_BLACK ux ur) RB_RED g (Nd s RB_BLACK p a))" by simp
    moreover have "rb_inv (paint RB_BLACK (ins_fix fs (Nd (Nd ul RB_BLACK ux ur) RB_RED g (Nd s RB_BLACK p a))))"
      by (rule "3.IH" [OF True, unfolded u paint.simps]) (use "3.prems" u in auto)
    ultimately show ?thesis by simp
  next
    case False
    then show ?thesis using "3.prems" by (cases a) (simp_all add: paint_inv plug_inv)
  qed
next
  case (4 p s gc g u fs a)
  show ?case
  proof (cases "colour u = RB_RED")
    case True
    then obtain ul ux ur where u: "u = Nd ul RB_RED ux ur" by (cases u) auto
    then have "ins_fix (FL RB_RED p s # FR gc g u # fs) a = ins_fix fs (Nd (Nd ul RB_BLACK ux ur) RB_RED g (Nd a RB_BLACK p s))" by simp
    moreover have "rb_inv (paint RB_BLACK (ins_fix fs (Nd (Nd ul RB_BLACK ux ur) RB_RED g (Nd a RB_BLACK p s))))"
      by (rule "4.IH" [OF True, unfolded u paint.simps]) (use "4.prems" u in auto)
    ultimately show ?thesis by simp
  next
    case False
    then show ?thesis using "4.prems" by (cases a) (simp_all add: paint_inv plug_inv)
  qed
qed (auto intro: paint_root_inv simp: paint_inv plug_inv red_ok_def black_top simp flip: plug.simps)


text \<open>The place a context leaves for a new node.\<close>

fun link_of :: "frame list \<Rightarrow> rb_link" where
  "link_of [] = LRoot"
| "link_of (FL c x a # fs) = LLeft x"
| "link_of (FR c x a # fs) = LRight x"

lemma rep_link_node:
  assumes "rep t fs Lf" and "x \<noteq> 0" and "x \<notin> set (cids fs)"
  shows "\<exists>t'. rb_link_node x (pid fs) (link_of fs) t = Some t' \<and> rep t' fs (Nd Lf RB_RED x Lf)"
proof -
  have c: "n\<lparr>rb_parent := p, rb_color := RB_RED, rb_left := 0, rb_right := 0\<rparr> = cell p RB_RED 0 0" for n p
    by (cases n) (simp add: cell_def)
  show ?thesis
    using assms unfolding rep_def rb_link_node_def
    by (cases fs rule: link_of.cases) (auto simp: rb_ops c)
qed

lemma rep_ids: "rep t fs a \<Longrightarrow> distinct (ids (plug fs a)) \<and> 0 \<notin> set (ids (plug fs a))"
proof -
  have "tree_at h par b \<Longrightarrow> 0 \<notin> set (ids b)" for h par b by (induction b arbitrary: par) auto
  then show "rep t fs a \<Longrightarrow> ?thesis" unfolding rep_plug [of t fs] by (auto simp: rep_def)
qed

lemma rep_insert_color:
  assumes "rep t fs (Nd l RB_RED x r)" and "rb_inv (plug fs Lf)" and "l = Lf" "r = Lf"
  shows "\<exists>t' b. rb_insert_color x t = Some t' \<and> rep t' [] b \<and> rb_inv b \<and> ids b = lids fs @ x # rids fs"
proof -
  let ?a = "Nd l RB_RED x r"
  have f: "ctx_c fs" "ctx_bh fs 0" using assms(2) by (simp_all add: plug_inv)
  obtain t1 where t1: "rb_insert_loop x t = Some t1" "rep t1 [] (ins_fix fs ?a)"
    using insert_loop_rep [OF assms(1) refl ctx_c_top [OF f(1)]] by blast
  have i: "ids (ins_fix fs ?a) = lids fs @ x # rids fs" using ins_fix_ids [of ?a fs] assms(3,4) by simp
  obtain l' c' x' r' where b: "ins_fix fs ?a = Nd l' c' x' r'" using i by (cases "ins_fix fs ?a") auto
  obtain t2 where t2: "rb_set_black x' t1 = Some t2" "rep t2 [] (Nd l' RB_BLACK x' r')"
    using rep_blacken t1(2) unfolding b by blast
  have "rb_root t1 = x'" using t1(2) unfolding b by (simp add: rep_def)
  moreover have "rb_inv (Nd l' RB_BLACK x' r')" using ins_fix_inv [of fs ?a] f assms(3,4) b by simp
  ultimately show ?thesis using t1 t2 i b unfolding rb_insert_color_def by auto
qed

end
