(* ===== verification/RbErase.thy ===== *)
theory RbErase
  imports RbTree
begin

text \<open>
  Removal from the red-black trees of \<^verbatim>\<open>src/rbtree.c\<close> and their traversal: \<open>rb_erase\<close> returns for every node
  of a red-black tree, keeps the invariants and takes exactly the node out; \<open>rb_first\<close> and \<open>rb_next\<close> walk
  through the nodes in order.
\<close>

section \<open>The repair loop on the tree\<close>

text \<open>The end of the loop: \<open>a\<close> lacks one black node, its sibling \<open>Nd b k q d\<close> is black with a red child.\<close>

definition end_l :: "rb_colour \<Rightarrow> nat \<Rightarrow> rbt \<Rightarrow> rbt \<Rightarrow> nat \<Rightarrow> rbt \<Rightarrow> rbt" where
  "end_l c p a b q d =
     (if colour d = RB_RED then Nd (Nd a RB_BLACK p b) c q (paint RB_BLACK d)
      else case b of Lf \<Rightarrow> Lf | Nd b1 k x b2 \<Rightarrow> Nd (Nd a RB_BLACK p b1) c x (Nd b2 RB_BLACK q d))"

definition end_r :: "rb_colour \<Rightarrow> nat \<Rightarrow> rbt \<Rightarrow> nat \<Rightarrow> rbt \<Rightarrow> rbt \<Rightarrow> rbt" where
  "end_r c p d q b a =
     (if colour d = RB_RED then Nd (paint RB_BLACK d) c q (Nd b RB_BLACK p a)
      else case b of Lf \<Rightarrow> Lf | Nd b2 k x b1 \<Rightarrow> Nd (Nd d RB_BLACK q b2) c x (Nd b1 RB_BLACK p a))"

lemma rep_at: "rep t fs (Nd l c x r) \<Longrightarrow> rb_get x t = Some (cell (pid fs) c (rid l) (rid r)) \<and> x \<noteq> 0 \<and>
    rb_nodes t x = cell (pid fs) c (rid l) (rid r)"
  by (simp add: rep_def rb_get_def)

lemma rep_end_l_red:
  assumes "rep t fs (Nd a c p (Nd b k q d))" and "colour d = RB_RED"
  shows "\<exists>t1 t2 t3 t'. rb_set_color q c t = Some t1 \<and> rb_set_black p t1 = Some t2 \<and>
     rb_set_black (rb_right (rb_nodes t2 q)) t2 = Some t3 \<and> rb_rotate_left p t3 = Some t' \<and>
     rep t' fs (Nd (Nd a RB_BLACK p b) c q (paint RB_BLACK d))"
proof -
  obtain dl dx dr where d: "d = Nd dl RB_RED dx dr" using assms(2) by (cases d) auto
  obtain t1 where 1: "rb_set_color q c t = Some t1" "rep t1 (FR c p a # fs) (Nd b c q d)"
    using rep_set_color [of t "FR c p a # fs"] assms(1) unfolding rep_right by blast
  obtain t2 where 2: "rb_set_black p t1 = Some t2" "rep t2 fs (Nd a RB_BLACK p (Nd b c q d))"
    using rep_blacken 1(2) unfolding rep_right by blast
  have n: "rb_right (rb_nodes t2 q) = dx"
    using rep_at [of t2 "FR RB_BLACK p a # fs" b c q d] 2(2) d by (simp add: rep_right)
  obtain t3 where 3: "rb_set_black dx t2 = Some t3" "rep t3 (FR c q b # FR RB_BLACK p a # fs) (Nd dl RB_BLACK dx dr)"
    using rep_blacken [of t2 "FR c q b # FR RB_BLACK p a # fs"] 2(2) d unfolding rep_right by blast
  show ?thesis using 1 2 3 n d rep_rotate_left [of t3 fs a RB_BLACK p b c q] by (auto simp: rep_right)
qed

lemma rep_end_r_red:
  assumes "rep t fs (Nd (Nd d k q b) c p a)" and "colour d = RB_RED"
  shows "\<exists>t1 t2 t3 t'. rb_set_color q c t = Some t1 \<and> rb_set_black p t1 = Some t2 \<and>
     rb_set_black (rb_left (rb_nodes t2 q)) t2 = Some t3 \<and> rb_rotate_right p t3 = Some t' \<and>
     rep t' fs (Nd (paint RB_BLACK d) c q (Nd b RB_BLACK p a))"
proof -
  obtain dl dx dr where d: "d = Nd dl RB_RED dx dr" using assms(2) by (cases d) auto
  obtain t1 where 1: "rb_set_color q c t = Some t1" "rep t1 (FL c p a # fs) (Nd d c q b)"
    using rep_set_color [of t "FL c p a # fs"] assms(1) unfolding rep_left by blast
  obtain t2 where 2: "rb_set_black p t1 = Some t2" "rep t2 fs (Nd (Nd d c q b) RB_BLACK p a)"
    using rep_blacken 1(2) unfolding rep_left by blast
  have n: "rb_left (rb_nodes t2 q) = dx"
    using rep_at [of t2 "FL RB_BLACK p a # fs" d c q b] 2(2) d by (simp add: rep_left)
  obtain t3 where 3: "rb_set_black dx t2 = Some t3" "rep t3 (FL c q b # FL RB_BLACK p a # fs) (Nd dl RB_BLACK dx dr)"
    using rep_blacken [of t2 "FL c q b # FL RB_BLACK p a # fs"] 2(2) d unfolding rep_left by blast
  show ?thesis using 1 2 3 n d rep_rotate_right [of t3 fs "Nd dl RB_BLACK dx dr" c q b RB_BLACK p a]
    by (auto simp: rep_left)
qed

lemma rep_end_l:
  assumes R: "rep t fs (Nd a c p (Nd b k q d))" and "colour b = RB_RED \<or> colour d = RB_RED"
  shows "\<exists>t'. erase_end_left p q t = Some t' \<and> rep t' fs (end_l c p a b q d)"
proof -
  have q: "rb_get q t = Some (cell p k (rid b) (rid d))" "is_red (rid d) t \<longleftrightarrow> colour d = RB_RED"
    "rb_color (rb_nodes t p) = c"
    using rep_at [of t "FR c p a # fs" b k q d] rep_is_red [of t "FR k q b # FR c p a # fs" d] rep_at [OF R] R
    by (simp_all add: rep_right)
  show ?thesis
  proof (cases "colour d = RB_RED")
    case True
    with q rep_end_l_red [OF R True] show ?thesis by (auto simp: erase_end_left_def end_l_def)
  next
    case False
    then obtain b1 x b2 where b: "b = Nd b1 RB_RED x b2" using assms(2) by (cases b) auto
    obtain t1 where 1: "rb_set_black x t = Some t1" "rep t1 (FL k q d # FR c p a # fs) (Nd b1 RB_BLACK x b2)"
      using rep_blacken [of t "FL k q d # FR c p a # fs"] R unfolding b rep_left rep_right by blast
    obtain t2 where 2: "rb_set_red q t1 = Some t2" "rep t2 (FR c p a # fs) (Nd (Nd b1 RB_BLACK x b2) RB_RED q d)"
      using rep_redden 1(2) unfolding rep_left by blast
    obtain t3 where 3: "rb_rotate_right q t2 = Some t3" "rep t3 fs (Nd a c p (Nd b1 RB_BLACK x (Nd b2 RB_RED q d)))"
      using rep_rotate_right [OF 2(2)] unfolding rep_right by blast
    have n: "rb_right (rb_nodes t3 p) = x" "rb_color (rb_nodes t3 p) = c" using rep_at [OF 3(2)] by simp_all
    show ?thesis using q 1 2 3 n False b rep_end_l_red [OF 3(2)]
      by (auto simp: erase_end_left_def end_l_def)
  qed
qed

lemma rep_end_r:
  assumes R: "rep t fs (Nd (Nd d k q b) c p a)" and "colour b = RB_RED \<or> colour d = RB_RED"
  shows "\<exists>t'. erase_end_right p q t = Some t' \<and> rep t' fs (end_r c p d q b a)"
proof -
  have q: "rb_get q t = Some (cell p k (rid d) (rid b))" "is_red (rid d) t \<longleftrightarrow> colour d = RB_RED"
    "rb_color (rb_nodes t p) = c"
    using rep_at [of t "FL c p a # fs" d k q b] rep_is_red [of t "FL k q b # FL c p a # fs" d] rep_at [OF R] R
    by (simp_all add: rep_left)
  show ?thesis
  proof (cases "colour d = RB_RED")
    case True
    with q rep_end_r_red [OF R True] show ?thesis by (auto simp: erase_end_right_def end_r_def)
  next
    case False
    then obtain b1 x b2 where b: "b = Nd b2 RB_RED x b1" using assms(2) by (cases b) auto
    obtain t1 where 1: "rb_set_black x t = Some t1" "rep t1 (FR k q d # FL c p a # fs) (Nd b2 RB_BLACK x b1)"
      using rep_blacken [of t "FR k q d # FL c p a # fs"] R unfolding b rep_left rep_right by blast
    obtain t2 where 2: "rb_set_red q t1 = Some t2" "rep t2 (FL c p a # fs) (Nd d RB_RED q (Nd b2 RB_BLACK x b1))"
      using rep_redden 1(2) unfolding rep_right by blast
    obtain t3 where 3: "rb_rotate_left q t2 = Some t3" "rep t3 fs (Nd (Nd (Nd d RB_RED q b2) RB_BLACK x b1) c p a)"
      using rep_rotate_left [OF 2(2)] unfolding rep_left by blast
    have n: "rb_left (rb_nodes t3 p) = x" "rb_color (rb_nodes t3 p) = c" using rep_at [OF 3(2)] by simp_all
    show ?thesis using q 1 2 3 n False b rep_end_r_red [OF 3(2)]
      by (auto simp: erase_end_right_def end_r_def)
  qed
qed

lemma rep_red_l:
  assumes "rep t fs (Nd a c p (Nd b k q d))"
  shows "\<exists>t'. erase_red_left p q t = Some t' \<and> rep t' (FL RB_BLACK q d # fs) (Nd a RB_RED p b)"
proof -
  obtain t1 where 1: "rb_set_black q t = Some t1" "rep t1 (FR c p a # fs) (Nd b RB_BLACK q d)"
    using rep_blacken [of t "FR c p a # fs"] assms unfolding rep_right by blast
  obtain t2 where 2: "rb_set_red p t1 = Some t2" "rep t2 fs (Nd a RB_RED p (Nd b RB_BLACK q d))"
    using rep_redden 1(2) unfolding rep_right by blast
  show ?thesis using 1 2 rep_rotate_left [OF 2(2)] by (simp add: erase_red_left_def rep_left)
qed

lemma rep_red_r:
  assumes "rep t fs (Nd (Nd d k q b) c p a)"
  shows "\<exists>t'. erase_red_right p q t = Some t' \<and> rep t' (FR RB_BLACK q d # fs) (Nd b RB_RED p a)"
proof -
  obtain t1 where 1: "rb_set_black q t = Some t1" "rep t1 (FL c p a # fs) (Nd d RB_BLACK q b)"
    using rep_blacken [of t "FL c p a # fs"] assms unfolding rep_left by blast
  obtain t2 where 2: "rb_set_red p t1 = Some t2" "rep t2 fs (Nd (Nd d RB_BLACK q b) RB_RED p a)"
    using rep_redden 1(2) unfolding rep_left by blast
  show ?thesis using 1 2 rep_rotate_right [OF 2(2)] by (simp add: erase_red_right_def rep_right)
qed


text \<open>What the loop and the final colouring do to the tree: \<open>a\<close> is the subtree that lacks one black node.\<close>

fun del_fix :: "frame list \<Rightarrow> rbt \<Rightarrow> rbt" where
  "del_fix [] a = paint RB_BLACK a"
| "del_fix (FL c p s # fs) a =
     (if colour a = RB_RED then plug (FL c p s # fs) (paint RB_BLACK a)
      else case s of Lf \<Rightarrow> Lf
      | Nd b RB_RED q d \<Rightarrow>
          (case b of Lf \<Rightarrow> Lf
           | Nd b1 k x b2 \<Rightarrow>
               if colour b1 = RB_BLACK \<and> colour b2 = RB_BLACK
               then plug (FL RB_BLACK q d # fs) (Nd a RB_BLACK p (paint RB_RED b))
               else paint RB_BLACK (plug (FL RB_BLACK q d # fs) (end_l RB_RED p a b1 x b2)))
      | Nd b RB_BLACK q d \<Rightarrow>
          if colour b = RB_BLACK \<and> colour d = RB_BLACK then del_fix fs (Nd a c p (Nd b RB_RED q d))
          else paint RB_BLACK (plug fs (end_l c p a b q d)))"
| "del_fix (FR c p s # fs) a =
     (if colour a = RB_RED then plug (FR c p s # fs) (paint RB_BLACK a)
      else case s of Lf \<Rightarrow> Lf
      | Nd d RB_RED q b \<Rightarrow>
          (case b of Lf \<Rightarrow> Lf
           | Nd b2 k x b1 \<Rightarrow>
               if colour b1 = RB_BLACK \<and> colour b2 = RB_BLACK
               then plug (FR RB_BLACK q d # fs) (Nd (paint RB_RED b) RB_BLACK p a)
               else paint RB_BLACK (plug (FR RB_BLACK q d # fs) (end_r RB_RED p b2 x b1 a)))
      | Nd d RB_BLACK q b \<Rightarrow>
          if colour d = RB_BLACK \<and> colour b = RB_BLACK then del_fix fs (Nd (Nd d RB_RED q b) c p a)
          else paint RB_BLACK (plug fs (end_r c p d q b a)))"

lemma root_in_ctx: "fs \<noteq> [] \<Longrightarrow> root_of p fs \<in> set (cids fs)"
proof (induction p fs rule: root_of.induct)
  case (2 p c x r fs)
  then show ?case by (cases fs) auto
next
  case (3 p c x l fs)
  then show ?case by (cases fs) auto
qed simp

lemma rep_root_neq: "rep t fs a \<Longrightarrow> fs \<noteq> [] \<Longrightarrow> rid a \<noteq> rb_root t"
proof -
  assume R: "rep t fs a" and f: "fs \<noteq> []"
  have "0 \<notin> set (cids fs)"
  proof -
    have "tree_at h par b \<Longrightarrow> 0 \<notin> set (ids b)" for h par b by (induction b arbitrary: par) auto
    then have "ctx_at h p fs \<Longrightarrow> 0 \<notin> set (cids fs)" for h p by (induction h p fs rule: ctx_at.induct) auto
    then show ?thesis using R by (auto simp: rep_def)
  qed
  then show ?thesis using R root_in_ctx [OF f, of "rid a"] by (cases a) (auto simp: rep_def intro: gr0I)
qed

lemma erase_color_stop:
  assumes "rep t fs a" and "colour a = RB_RED \<or> fs = []"
  shows "\<exists>t'. rb_erase_color (rid a) par t = Some t' \<and> rep t' fs (paint RB_BLACK a)"
proof -
  have "rb_erase_loop (rid a) par t = Some (rid a, t)"
    using assms rep_is_red [OF assms(1)] by (subst rb_erase_loop.simps) (auto simp: rep_def)
  then show ?thesis using assms(1) rep_blacken [of t fs] rep_node [of t fs]
    by (cases a) (fastforce simp: rb_erase_color_def)+
qed

lemma rep_blacken_root:
  assumes "rep t fs a" and "plug fs a \<noteq> Lf"
  shows "\<exists>t'. (if rb_root t \<noteq> 0 then rb_set_black (rb_root t) t else Some t) = Some t' \<and>
    rep t' [] (paint RB_BLACK (plug fs a))"
proof -
  obtain l c x r where b: "plug fs a = Nd l c x r" using assms(2) by (cases "plug fs a") auto
  then have R: "rep t [] (Nd l c x r)" using assms(1) rep_plug by metis
  then show ?thesis using rep_blacken [OF R] rep_node [OF R] b by (auto simp: rep_def)
qed


lemma end_l_ids: "colour b = RB_RED \<or> colour d = RB_RED \<Longrightarrow> ids (end_l c p a b q d) = ids a @ p # ids b @ q # ids d"
  by (cases b) (auto simp: end_l_def)

lemma end_r_ids: "colour b = RB_RED \<or> colour d = RB_RED \<Longrightarrow> ids (end_r c p d q b a) = ids d @ q # ids b @ p # ids a"
  by (cases b) (auto simp: end_r_def)

lemma plug_not_Lf: "ids a \<noteq> [] \<Longrightarrow> plug fs a \<noteq> Lf"
  using plug_ids [of fs a] by auto

text \<open>One round of the loop for a node on the left, once its sibling is black.\<close>

lemma erase_round_l:
  assumes "rep t0 (FL c0 p (Nd b0 k0 q0 d0) # fs) a" and "colour a = RB_BLACK"
    and "(if k0 = RB_RED then erase_red_left p q0 t0 else Some t0) = Some t"
    and R: "rep t gs (Nd a c p (Nd b k q d))"
  shows "colour b = RB_BLACK \<Longrightarrow> colour d = RB_BLACK \<Longrightarrow>
      \<exists>t2. rb_erase_color (rid a) p t0 = rb_erase_color p (pid gs) t2 \<and> rep t2 gs (Nd a c p (Nd b RB_RED q d))"
    and "colour b = RB_RED \<or> colour d = RB_RED \<Longrightarrow>
      \<exists>t2. rb_erase_color (rid a) p t0 = Some t2 \<and> rep t2 [] (paint RB_BLACK (plug gs (end_l c p a b q d)))"
proof -
  have R0: "rep t0 fs (Nd a c0 p (Nd b0 k0 q0 d0))" using assms(1) by (simp add: rep_left)
  have p0: "rb_get p t0 = Some (cell (pid fs) c0 (rid a) q0)" "p \<noteq> 0"
    and q0: "rb_get q0 t0 = Some (cell p k0 (rid b0) (rid d0))"
    using rep_at [OF R0] rep_at [of t0 "FR c0 p a # fs" b0 k0 q0 d0] R0 by (simp_all add: rep_right)
  have loop: "\<not> is_red (rid a) t0" "rid a \<noteq> rb_root t0"
    using rep_is_red [OF assms(1)] rep_root_neq [OF assms(1)] assms(2) by simp_all
  have p: "rb_nodes t p = cell (pid gs) c (rid a) q" and q: "rb_get q t = Some (cell p k (rid b) (rid d))"
    and red: "is_red (rid b) t \<longleftrightarrow> colour b = RB_RED" "is_red (rid d) t \<longleftrightarrow> colour d = RB_RED"
    using rep_at [OF R] rep_at [of t "FR c p a # gs" b k q d] rep_is_red [of t "FL k q d # FR c p a # gs" b]
      rep_is_red [of t "FR k q b # FR c p a # gs" d] R by (simp_all add: rep_right rep_left)
  note step = p0 q0 loop p q red assms(3)
  show "\<exists>t2. rb_erase_color (rid a) p t0 = rb_erase_color p (pid gs) t2 \<and> rep t2 gs (Nd a c p (Nd b RB_RED q d))"
    if "colour b = RB_BLACK" "colour d = RB_BLACK"
  proof -
    obtain t2 where t2: "rb_set_red q t = Some t2" "rep t2 gs (Nd a c p (Nd b RB_RED q d))"
      using rep_redden [of t "FR c p a # gs"] R unfolding rep_right by blast
    then have "rb_parent (rb_nodes t2 p) = pid gs" using rep_at [OF t2(2)] by simp
    then show ?thesis using step that t2
      unfolding rb_erase_color_def by (subst rb_erase_loop.simps) auto
  qed
  show "\<exists>t2. rb_erase_color (rid a) p t0 = Some t2 \<and> rep t2 [] (paint RB_BLACK (plug gs (end_l c p a b q d)))"
    if bd: "colour b = RB_RED \<or> colour d = RB_RED"
  proof -
    obtain t2 where t2: "erase_end_left p q t = Some t2" "rep t2 gs (end_l c p a b q d)"
      using rep_end_l [OF R bd] by blast
    obtain t3 where "(if rb_root t2 \<noteq> 0 then rb_set_black (rb_root t2) t2 else Some t2) = Some t3"
      "rep t3 [] (paint RB_BLACK (plug gs (end_l c p a b q d)))"
      using rep_blacken_root [OF t2(2)] plug_not_Lf end_l_ids [OF bd] by auto
    then show ?thesis using step bd t2 unfolding rb_erase_color_def by (subst rb_erase_loop.simps) auto
  qed
qed

lemma erase_round_r:
  assumes "rep t0 (FR c0 p (Nd d0 k0 q0 b0) # fs) a" and "colour a = RB_BLACK"
    and "(if k0 = RB_RED then erase_red_right p q0 t0 else Some t0) = Some t"
    and R: "rep t gs (Nd (Nd d k q b) c p a)"
  shows "colour b = RB_BLACK \<Longrightarrow> colour d = RB_BLACK \<Longrightarrow>
      \<exists>t2. rb_erase_color (rid a) p t0 = rb_erase_color p (pid gs) t2 \<and> rep t2 gs (Nd (Nd d RB_RED q b) c p a)"
    and "colour b = RB_RED \<or> colour d = RB_RED \<Longrightarrow>
      \<exists>t2. rb_erase_color (rid a) p t0 = Some t2 \<and> rep t2 [] (paint RB_BLACK (plug gs (end_r c p d q b a)))"
proof -
  have R0: "rep t0 fs (Nd (Nd d0 k0 q0 b0) c0 p a)" using assms(1) by (simp add: rep_right)
  have p0: "rb_get p t0 = Some (cell (pid fs) c0 q0 (rid a))" "p \<noteq> 0"
    and q0: "rb_get q0 t0 = Some (cell p k0 (rid d0) (rid b0))" "q0 \<noteq> rid a"
    using rep_at [OF R0] rep_at [of t0 "FL c0 p a # fs" d0 k0 q0 b0] R0 by (auto simp: rep_left rep_def)
  have loop: "\<not> is_red (rid a) t0" "rid a \<noteq> rb_root t0"
    using rep_is_red [OF assms(1)] rep_root_neq [OF assms(1)] assms(2) by simp_all
  have p: "rb_nodes t p = cell (pid gs) c q (rid a)" and q: "rb_get q t = Some (cell p k (rid d) (rid b))"
    and red: "is_red (rid b) t \<longleftrightarrow> colour b = RB_RED" "is_red (rid d) t \<longleftrightarrow> colour d = RB_RED"
    using rep_at [OF R] rep_at [of t "FL c p a # gs" d k q b] rep_is_red [of t "FR k q d # FL c p a # gs" b]
      rep_is_red [of t "FL k q b # FL c p a # gs" d] R by (simp_all add: rep_right rep_left)
  note step = p0 q0 loop p q red assms(3)
  show "\<exists>t2. rb_erase_color (rid a) p t0 = rb_erase_color p (pid gs) t2 \<and> rep t2 gs (Nd (Nd d RB_RED q b) c p a)"
    if "colour b = RB_BLACK" "colour d = RB_BLACK"
  proof -
    obtain t2 where t2: "rb_set_red q t = Some t2" "rep t2 gs (Nd (Nd d RB_RED q b) c p a)"
      using rep_redden [of t "FL c p a # gs"] R unfolding rep_left by blast
    then have "rb_parent (rb_nodes t2 p) = pid gs" using rep_at [OF t2(2)] by simp
    then show ?thesis using step that t2
      unfolding rb_erase_color_def by (subst rb_erase_loop.simps) auto
  qed
  show "\<exists>t2. rb_erase_color (rid a) p t0 = Some t2 \<and> rep t2 [] (paint RB_BLACK (plug gs (end_r c p d q b a)))"
    if bd: "colour b = RB_RED \<or> colour d = RB_RED"
  proof -
    obtain t2 where t2: "erase_end_right p q t = Some t2" "rep t2 gs (end_r c p d q b a)"
      using rep_end_r [OF R bd] by blast
    obtain t3 where "(if rb_root t2 \<noteq> 0 then rb_set_black (rb_root t2) t2 else Some t2) = Some t3"
      "rep t3 [] (paint RB_BLACK (plug gs (end_r c p d q b a)))"
      using rep_blacken_root [OF t2(2)] plug_not_Lf end_r_ids [OF bd] by auto
    then show ?thesis using step bd t2 unfolding rb_erase_color_def by (subst rb_erase_loop.simps) auto
  qed
qed


lemma tall_node: "0 < bheight b \<Longrightarrow> \<exists>l c x r. b = Nd l c x r"
  by (cases b) auto

lemma erase_step_l:
  assumes F: "rep t (FL c p s # fs) a" and a: "colour a = RB_BLACK" and inv: "invh a" "ctx_bh (FL c p s # fs) (Suc (bheight a))"
    and IH: "\<And>t a. rep t fs a \<Longrightarrow> invh a \<Longrightarrow> ctx_bh fs (Suc (bheight a)) \<Longrightarrow>
      \<exists>t'. rb_erase_color (rid a) (pid fs) t = Some t' \<and> rep t' [] (del_fix fs a)"
  shows "\<exists>t'. rb_erase_color (rid a) p t = Some t' \<and> rep t' [] (del_fix (FL c p s # fs) a)"
proof -
  obtain b k q d where s: "s = Nd b k q d" using inv(2) tall_node [of s] by auto
  have R: "rep t fs (Nd a c p (Nd b k q d))" using F by (simp add: s rep_left)
  note round = erase_round_l [OF F [unfolded s] a]
  show ?thesis
  proof (cases k)
    case RB_RED
    obtain t1 where t1: "erase_red_left p q t = Some t1" "rep t1 (FL RB_BLACK q d # fs) (Nd a RB_RED p b)"
      using rep_red_l [OF R] by blast
    obtain b1 j x b2 where b: "b = Nd b1 j x b2" using inv(2) tall_node [of b] RB_RED unfolding s by auto
    note R1 = t1(2) [unfolded b]
    show ?thesis
    proof (cases "colour b1 = RB_BLACK \<and> colour b2 = RB_BLACK")
      case True
      obtain t2 where t2: "rb_erase_color (rid a) p t = rb_erase_color p q t2"
        "rep t2 (FL RB_BLACK q d # fs) (Nd a RB_RED p (Nd b1 RB_RED x b2))"
        using round(1) [OF _ R1] RB_RED t1(1) True by auto
      then show ?thesis using erase_color_stop [OF t2(2), of q] RB_RED True a
        by (auto simp: s b rep_plug [of _ "_ # _"])
    next
      case False
      then show ?thesis using round(2) [OF _ R1] RB_RED t1(1) a by (auto simp: s b)
    qed
  next
    case RB_BLACK
    show ?thesis
    proof (cases "colour b = RB_BLACK \<and> colour d = RB_BLACK")
      case True
      obtain t2 where t2: "rb_erase_color (rid a) p t = rb_erase_color p (pid fs) t2"
        "rep t2 fs (Nd a c p (Nd b RB_RED q d))" using round(1) [OF _ R] RB_BLACK True by auto
      show ?thesis using IH [OF t2(2)] inv t2(1) RB_BLACK True a by (auto simp: s split: if_splits)
    next
      case False
      then show ?thesis using round(2) [OF _ R] RB_BLACK a by (auto simp: s)
    qed
  qed
qed

lemma erase_step_r:
  assumes F: "rep t (FR c p s # fs) a" and a: "colour a = RB_BLACK" and inv: "invh a" "ctx_bh (FR c p s # fs) (Suc (bheight a))"
    and IH: "\<And>t a. rep t fs a \<Longrightarrow> invh a \<Longrightarrow> ctx_bh fs (Suc (bheight a)) \<Longrightarrow>
      \<exists>t'. rb_erase_color (rid a) (pid fs) t = Some t' \<and> rep t' [] (del_fix fs a)"
  shows "\<exists>t'. rb_erase_color (rid a) p t = Some t' \<and> rep t' [] (del_fix (FR c p s # fs) a)"
proof -
  obtain b k q d where s: "s = Nd d k q b" using inv(2) tall_node [of s] by auto
  have R: "rep t fs (Nd (Nd d k q b) c p a)" using F by (simp add: s rep_right)
  note round = erase_round_r [OF F [unfolded s] a]
  show ?thesis
  proof (cases k)
    case RB_RED
    obtain t1 where t1: "erase_red_right p q t = Some t1" "rep t1 (FR RB_BLACK q d # fs) (Nd b RB_RED p a)"
      using rep_red_r [OF R] by blast
    obtain b1 j x b2 where b: "b = Nd b2 j x b1" using inv(2) tall_node [of b] RB_RED unfolding s by auto
    note R1 = t1(2) [unfolded b]
    show ?thesis
    proof (cases "colour b1 = RB_BLACK \<and> colour b2 = RB_BLACK")
      case True
      obtain t2 where t2: "rb_erase_color (rid a) p t = rb_erase_color p q t2"
        "rep t2 (FR RB_BLACK q d # fs) (Nd (Nd b2 RB_RED x b1) RB_RED p a)"
        using round(1) [OF _ R1] RB_RED t1(1) True by auto
      then show ?thesis using erase_color_stop [OF t2(2), of q] RB_RED True a
        by (auto simp: s b rep_plug [of _ "_ # _"])
    next
      case False
      then show ?thesis using round(2) [OF _ R1] RB_RED t1(1) a by (auto simp: s b)
    qed
  next
    case RB_BLACK
    show ?thesis
    proof (cases "colour b = RB_BLACK \<and> colour d = RB_BLACK")
      case True
      obtain t2 where t2: "rb_erase_color (rid a) p t = rb_erase_color p (pid fs) t2"
        "rep t2 fs (Nd (Nd d RB_RED q b) c p a)" using round(1) [OF _ R] RB_BLACK True by auto
      show ?thesis using IH [OF t2(2)] inv t2(1) RB_BLACK True a by (auto simp: s split: if_splits)
    next
      case False
      then show ?thesis using round(2) [OF _ R] RB_BLACK a by (auto simp: s)
    qed
  qed
qed

lemma erase_color_rep:
  "rep t fs a \<Longrightarrow> invh a \<Longrightarrow> ctx_bh fs (Suc (bheight a)) \<Longrightarrow>
   \<exists>t'. rb_erase_color (rid a) (pid fs) t = Some t' \<and> rep t' [] (del_fix fs a)"
proof (induction fs arbitrary: a t)
  case Nil
  then show ?case using erase_color_stop [of t "[]" a] by simp
next
  case (Cons f fs)
  show ?case
  proof (cases "colour a")
    case RB_RED
    then have "del_fix (f # fs) a = plug (f # fs) (paint RB_BLACK a)" by (cases f) simp_all
    then show ?thesis using erase_color_stop [OF Cons.prems(1)] RB_RED rep_plug by metis
  next
    case RB_BLACK
    then show ?thesis using Cons erase_step_l erase_step_r by (cases f) simp_all
  qed
qed


section \<open>The repair keeps the invariants\<close>

lemma bheight_paint [simp]: "invh (paint c a) = invh a"
  by (cases a) auto

lemma end_l_inv:
  assumes "invh a" "invc a" "invh b" "invc b" "invh d" "invc d" "bheight b = bheight a" "bheight d = bheight a"
    and "colour b = RB_RED \<or> colour d = RB_RED"
  shows "invh (end_l c p a b q d)" "bheight (end_l c p a b q d) = bheight (Nd (Nd a RB_BLACK p b) c q d)"
    "colour (end_l c p a b q d) = c"
    and "colour a = RB_BLACK \<or> c = RB_BLACK \<Longrightarrow> invc (end_l c p a b q d)"
  using assms by (cases b; cases d; auto simp: end_l_def)+

lemma end_r_inv:
  assumes "invh a" "invc a" "invh b" "invc b" "invh d" "invc d" "bheight b = bheight a" "bheight d = bheight a"
    and "colour b = RB_RED \<or> colour d = RB_RED"
  shows "invh (end_r c p d q b a)" "bheight (end_r c p d q b a) = bheight (Nd (Nd a RB_BLACK p b) c q d)"
    "colour (end_r c p d q b a) = c"
    and "colour a = RB_BLACK \<or> c = RB_BLACK \<Longrightarrow> invc (end_r c p d q b a)"
  using assms by (cases b; cases d; auto simp: end_r_def)+

lemma del_fix_red: "colour a = RB_RED \<Longrightarrow> del_fix fs a = plug fs (paint RB_BLACK a)"
  by (cases fs rule: pid.cases) simp_all

lemma del_step_l:
  assumes "colour a = RB_BLACK" "invh a" "invc a" "ctx_bh (FL c p s # fs) (Suc (bheight a))" "ctx_c (FL c p s # fs)"
    and IH: "\<And>a. invh a \<Longrightarrow> invc (paint RB_BLACK a) \<Longrightarrow> ctx_bh fs (Suc (bheight a)) \<Longrightarrow>
      rb_inv (del_fix fs a) \<and> ids (del_fix fs a) = lids fs @ ids a @ rids fs"
  shows "rb_inv (del_fix (FL c p s # fs) a) \<and> ids (del_fix (FL c p s # fs) a) = lids fs @ ids a @ p # ids s @ rids fs"
proof -
  obtain b k q d where s: "s = Nd b k q d" using assms(4) tall_node [of s] by auto
  show ?thesis
  proof (cases k)
    case RB_RED
    obtain b1 j x b2 where b: "b = Nd b1 j x b2" using assms(4) tall_node [of b] RB_RED unfolding s by auto
    show ?thesis
    proof (cases "colour b1 = RB_BLACK \<and> colour b2 = RB_BLACK")
      case True
      then show ?thesis using assms RB_RED
        by (auto simp: s b plug_inv plug_ids red_ok_def simp flip: plug.simps split: if_splits)
    next
      case False
      then show ?thesis using assms RB_RED end_l_inv [of a b1 b2 RB_RED p x] end_l_ids [of b1 b2 RB_RED p a x]
        by (auto simp: s b plug_inv plug_ids red_ok_def paint_inv simp flip: plug.simps)
    qed
  next
    case RB_BLACK
    show ?thesis
    proof (cases "colour b = RB_BLACK \<and> colour d = RB_BLACK")
      case True
      have "rb_inv (del_fix fs (Nd a c p (Nd b RB_RED q d))) \<and>
          ids (del_fix fs (Nd a c p (Nd b RB_RED q d))) = lids fs @ ids (Nd a c p (Nd b RB_RED q d)) @ rids fs"
        by (rule IH) (use assms True RB_BLACK s in \<open>auto split: if_splits\<close>)
      then show ?thesis using assms(1) RB_BLACK True by (simp add: s)
    next
      case False
      then show ?thesis using assms RB_BLACK end_l_inv [of a b d c p q] end_l_ids [of b d c p a q]
        by (cases c) (auto simp: s plug_inv plug_ids red_ok_def paint_inv)
    qed
  qed
qed

lemma del_step_r:
  assumes "colour a = RB_BLACK" "invh a" "invc a" "ctx_bh (FR c p s # fs) (Suc (bheight a))" "ctx_c (FR c p s # fs)"
    and IH: "\<And>a. invh a \<Longrightarrow> invc (paint RB_BLACK a) \<Longrightarrow> ctx_bh fs (Suc (bheight a)) \<Longrightarrow>
      rb_inv (del_fix fs a) \<and> ids (del_fix fs a) = lids fs @ ids a @ rids fs"
  shows "rb_inv (del_fix (FR c p s # fs) a) \<and> ids (del_fix (FR c p s # fs) a) = lids fs @ ids s @ p # ids a @ rids fs"
proof -
  obtain b k q d where s: "s = Nd d k q b" using assms(4) tall_node [of s] by auto
  show ?thesis
  proof (cases k)
    case RB_RED
    obtain b1 j x b2 where b: "b = Nd b2 j x b1" using assms(4) tall_node [of b] RB_RED unfolding s by auto
    show ?thesis
    proof (cases "colour b1 = RB_BLACK \<and> colour b2 = RB_BLACK")
      case True
      then show ?thesis using assms RB_RED
        by (auto simp: s b plug_inv plug_ids red_ok_def simp flip: plug.simps split: if_splits)
    next
      case False
      then show ?thesis using assms RB_RED end_r_inv [of a b1 b2 RB_RED p x] end_r_ids [of b1 b2 RB_RED p x a]
        by (auto simp: s b plug_inv plug_ids red_ok_def paint_inv simp flip: plug.simps)
    qed
  next
    case RB_BLACK
    show ?thesis
    proof (cases "colour b = RB_BLACK \<and> colour d = RB_BLACK")
      case True
      have "rb_inv (del_fix fs (Nd (Nd d RB_RED q b) c p a)) \<and>
          ids (del_fix fs (Nd (Nd d RB_RED q b) c p a)) = lids fs @ ids (Nd (Nd d RB_RED q b) c p a) @ rids fs"
        by (rule IH) (use assms True RB_BLACK s in \<open>auto split: if_splits\<close>)
      then show ?thesis using assms(1) RB_BLACK True by (simp add: s)
    next
      case False
      then show ?thesis using assms RB_BLACK end_r_inv [of a b d c p q] end_r_ids [of b d c p q a]
        by (cases c) (auto simp: s plug_inv plug_ids red_ok_def paint_inv)
    qed
  qed
qed

lemma del_fix_inv:
  "invh a \<Longrightarrow> invc (paint RB_BLACK a) \<Longrightarrow> ctx_bh fs (Suc (bheight a)) \<Longrightarrow> ctx_c fs \<Longrightarrow>
   rb_inv (del_fix fs a) \<and> ids (del_fix fs a) = lids fs @ ids a @ rids fs"
proof (induction fs arbitrary: a)
  case Nil
  then show ?case by (cases a) (auto simp: rb_inv_def)
next
  case (Cons f fs)
  show ?case
  proof (cases "colour a")
    case RB_RED
    then have "bheight (paint RB_BLACK a) = Suc (bheight a)" by (cases a) auto
    then show ?thesis using Cons.prems RB_RED by (simp add: del_fix_red plug_inv plug_ids)
  next
    case RB_BLACK
    then have a: "invc a" using Cons.prems(2) paint_colour(1) [of a] by simp
    show ?thesis
    proof (cases f)
      case (FL c p s)
      then show ?thesis using del_step_l [of a c p s fs] RB_BLACK a Cons by simp
    next
      case (FR c p s)
      then show ?thesis using del_step_r [of a c p s fs] RB_BLACK a Cons by simp
    qed
  qed
qed


section \<open>Taking a node out\<close>

lemma plug_append: "plug (gs @ fs) a = plug fs (plug gs a)"
  by (induction gs a rule: plug.induct) simp_all

lemma cids_append: "cids (gs @ fs) = cids gs @ cids fs"
  by (induction gs rule: cids.induct) simp_all

lemma rep_append: "rep t (gs @ fs) a \<longleftrightarrow> rep t fs (plug gs a)"
  by (induction gs a rule: plug.induct) (simp_all add: rep_left rep_right)

text \<open>A node with at most one child: the child takes its place.\<close>

lemma rep_unlink:
  assumes "rep t fs (Nd l c x r)" and "l = Lf \<or> r = Lf" and "m = (if l = Lf then r else l)"
  shows "\<exists>t1 t2. (if rid m \<noteq> 0 then rb_set_parent (rid m) (pid fs) t else Some t) = Some t1 \<and>
    replace_child (pid fs) x (rid m) t1 = Some t2 \<and> rep t2 fs m"
proof (cases fs rule: pid.cases)
  case 1
  then show ?thesis using assms unfolding rep_def replace_child_def
    by (cases l; cases r) (simp_all add: rb_ops)
next
  case (2 d y s gs)
  then show ?thesis using assms unfolding rep_def replace_child_def
    by (cases l; cases r) (simp_all add: rb_ops)
next
  case (3 d y s gs)
  then show ?thesis using assms unfolding rep_def replace_child_def
    by (cases l; cases r) (simp_all add: rb_ops)
qed

text \<open>A node outside the tree takes the place, the colour and the children of another one.\<close>

lemma rep_swap:
  assumes "rep t fs (Nd l c x r)" and "l \<noteq> Lf" and "y \<noteq> 0" and "y \<notin> set (ids (Nd l c x r) @ cids fs)"
  shows "\<exists>t1 t2 t3 t'. rb_set y (\<lambda>_. cell (pid fs) c (rid l) (rid r)) t = Some t1 \<and>
    replace_child (pid fs) x y t1 = Some t2 \<and> rb_set_parent (rid l) y t2 = Some t3 \<and>
    (if rid r \<noteq> 0 then rb_set_parent (rid r) y t3 else Some t3) = Some t' \<and> rep t' fs (Nd l c y r)"
proof -
  have n: "list_all (\<lambda>v. v \<noteq> y) (ids (Nd l c x r) @ cids fs)" using assms(4) by (auto simp: list_all_iff)
  show ?thesis
  proof (cases fs rule: pid.cases)
    case 1
    then show ?thesis using assms n unfolding rep_def replace_child_def
      by (cases l; cases r) (simp_all add: rb_ops)
  next
    case (2 d z s gs)
    then show ?thesis using assms n unfolding rep_def replace_child_def
      by (cases l; cases r) (simp_all add: rb_ops, elim conjE, simp)
  next
    case (3 d z s gs)
    then show ?thesis using assms n unfolding rep_def replace_child_def
      by (cases l; cases r) (simp_all add: rb_ops, elim conjE, simp)
  qed
qed

fun is_FL :: "frame \<Rightarrow> bool" where
  "is_FL (FL c x a) = True"
| "is_FL (FR c x a) = False"

lemma leftmost_rep:
  "rep t fs a \<Longrightarrow> a \<noteq> Lf \<Longrightarrow> \<exists>gs k y m. leftmost (rid a) t = Some y \<and> a = plug gs (Nd Lf k y m) \<and> list_all is_FL gs"
proof (induction a arbitrary: fs)
  case (Nd l c x r)
  have x: "rb_get x t = Some (cell (pid fs) c (rid l) (rid r))" using rep_at [OF Nd.prems(1)] by simp
  show ?case
  proof (cases "l = Lf")
    case True
    have "leftmost x t = Some x" using x True by (subst leftmost.simps) simp
    then show ?thesis using True by (intro exI [of _ "[]"]) simp
  next
    case False
    have "rep t (FL c x r # fs) l" using Nd.prems(1) by (simp add: rep_left)
    then obtain gs k y m where g: "leftmost (rid l) t = Some y" "l = plug gs (Nd Lf k y m)" "list_all is_FL gs"
      and "rid l \<noteq> 0" using Nd.IH(1) False rid_0 [of "rb_nodes t" x l] by (fastforce simp: rep_def)
    then have "leftmost x t = Some y" using x by (subst leftmost.simps) simp
    moreover have "plug (gs @ [FL c x r]) a = Nd (plug gs a) c x r" for a
      by (induction gs a rule: plug.induct) simp_all
    ultimately show ?thesis using g by (intro exI [of _ "gs @ [FL c x r]"] exI [of _ k] exI [of _ y] exI [of _ m]) auto
  qed
qed simp

lemma erase_finish:
  assumes "rep t fs m" and "rb_inv (plug fs (Nd l k z r))" and "l = Lf \<or> r = Lf" and "m = (if l = Lf then r else l)"
  shows "\<exists>t' b. (if k = RB_BLACK then rb_erase_color (rid m) (pid fs) t else Some t) = Some t' \<and>
    rep t' [] b \<and> rb_inv b \<and> ids b = lids fs @ ids m @ rids fs"
proof (cases k)
  case RB_RED
  have "rb_inv (plug fs m)" using assms(2-4) RB_RED by (auto simp: plug_inv)
  moreover have "rep t [] (plug fs m)" using assms(1) rep_plug by blast
  ultimately show ?thesis using RB_RED plug_ids by auto
next
  case RB_BLACK
  have m: "invh m" "invc (paint RB_BLACK m)" "ctx_bh fs (Suc (bheight m))" "ctx_c fs"
    using assms(2-4) RB_BLACK by (cases m; auto simp: plug_inv)+
  show ?thesis using erase_color_rep [OF assms(1) m(1,3)] del_fix_inv [OF m] RB_BLACK by auto
qed


lemma ctx_rename:
  "ctx_c (gs @ FR c x l # fs) = ctx_c (gs @ FR c y l # fs)"
  "ctx_bh (gs @ FR c x l # fs) n = ctx_bh (gs @ FR c y l # fs) n"
  "red_ok (gs @ FR c x l # fs) = red_ok (gs @ FR c y l # fs)"
proof -
  have h: "fcolour (hd (gs @ FR c x l # fs)) = fcolour (hd (gs @ FR c y l # fs))" for gs by (cases gs) simp_all
  show "ctx_c (gs @ FR c x l # fs) = ctx_c (gs @ FR c y l # fs)"
    using h by (induction gs rule: ctx_c.induct) (simp_all add: h)
  show "ctx_bh (gs @ FR c x l # fs) n = ctx_bh (gs @ FR c y l # fs) n"
    by (induction gs n rule: ctx_bh.induct) simp_all
  show "red_ok (gs @ FR c x l # fs) = red_ok (gs @ FR c y l # fs)" using h by (simp add: red_ok_def)
qed

lemma lids_append: "lids (gs @ fs) = lids fs @ lids gs" "rids (gs @ fs) = rids gs @ rids fs"
  by (induction gs rule: lids.induct; simp)+

lemma FL_lids: "list_all is_FL gs \<Longrightarrow> lids gs = []"
  by (induction gs rule: lids.induct) simp_all

text \<open>The first part of \<open>rb_erase\<close> for a node with two children: the next node leaves its place.\<close>

lemma rep_unlink_next:
  assumes R: "rep t fs (Nd l c x r)" and g: "r = plug gs (Nd Lf k y m)" "list_all is_FL gs"
  defines "p \<equiv> pid (gs @ FR c x l # fs)"
  shows "\<exists>t1 t2. (if rid m \<noteq> 0 then rb_set_parent (rid m) p t else Some t) = Some t1 \<and>
    (if p = x then set_right p (rid m) t1 else set_left p (rid m) t1) = Some t2 \<and>
    rep t2 fs (Nd l c x (plug gs m)) \<and> y \<noteq> 0 \<and> y \<notin> set (ids (Nd l c x (plug gs m)) @ cids fs) \<and>
    rb_nodes t y = cell p k 0 (rid m) \<and> (if p = x then y else p) = pid (gs @ FR c y l # fs)"
proof -
  let ?fs = "gs @ FR c x l # fs"
  have Y: "rep t ?fs (Nd Lf k y m)" using R g(1) by (simp add: rep_append rep_right)
  obtain t1 t2 where t12: "(if rid m \<noteq> 0 then rb_set_parent (rid m) p t else Some t) = Some t1"
    "replace_child p y (rid m) t1 = Some t2" "rep t2 ?fs m"
    using rep_unlink [OF Y, of m] unfolding p_def by auto
  have d: "distinct (ids (Nd l c x r) @ cids fs)" using R unfolding rep_def by simp
  have yf: "y \<noteq> 0" "y \<notin> set (ids (Nd l c x (plug gs m)) @ cids fs)" "rb_nodes t y = cell p k 0 (rid m)"
    using rep_at [OF Y] d unfolding g(1) p_def by (auto simp: plug_ids)
  have "(if p = x then set_right p (rid m) t1 else set_left p (rid m) t1) = replace_child p y (rid m) t1 \<and>
      (if p = x then y else p) = pid (gs @ FR c y l # fs)"
  proof (cases gs)
    case Nil
    have n: "rb_nodes t x = cell (pid fs) c (rid l) y" "x \<noteq> rid m" "rid l \<noteq> y"
      using rep_at [OF R] Y yf unfolding Nil by (auto simp: g(1) Nil rep_def)
    then have "rb_left (rb_nodes t1 x) = rid l" using t12(1) by (auto simp: rb_ops split: if_splits)
    then show ?thesis using n rep_at [OF R] by (simp add: p_def Nil replace_child_def)
  next
    case (Cons f hs)
    then obtain e z a where f: "f = FL e z a" using g(2) by (cases f) auto
    have n: "rb_left (rb_nodes t z) = y" "z \<noteq> 0" "z \<noteq> rid m" "z \<noteq> x"
      using Y unfolding Cons f by (auto simp: rep_def cids_append)
    then have "rb_left (rb_nodes t1 z) = y" using t12(1) by (auto simp: rb_ops split: if_splits)
    then show ?thesis using n by (simp add: p_def Cons f replace_child_def)
  qed
  then show ?thesis using t12 yf by (simp add: rep_append rep_right)
qed

lemma rb_erase_rep:
  assumes R: "rep t fs (Nd l c x r)" and I: "rb_inv (plug fs (Nd l c x r))"
  shows "\<exists>t' b. rb_erase x t = Some t' \<and> rep t' [] b \<and> rb_inv b \<and> ids b = lids fs @ ids l @ ids r @ rids fs"
proof (cases "l = Lf \<or> r = Lf")
  case True
  let ?m = "if l = Lf then r else l"
  have l0: "rid l = 0 \<longleftrightarrow> l = Lf" "rid r = 0 \<longleftrightarrow> r = Lf" using R rid_0 by (auto simp: rep_def)
  have c: "(if rid l = 0 then rid r else rid l) = rid ?m" "ids ?m = ids l @ ids r" using l0 True by auto
  obtain t1 t2 where t12: "(if rid ?m \<noteq> 0 then rb_set_parent (rid ?m) (pid fs) t else Some t) = Some t1"
    "replace_child (pid fs) x (rid ?m) t1 = Some t2" "rep t2 fs ?m" using rep_unlink [OF R True refl] by blast
  have "rb_erase x t = (if c = RB_BLACK then rb_erase_color (rid ?m) (pid fs) t2 else Some t2)"
    using rep_at [OF R] l0 True t12(1,2) c(1) unfolding rb_erase_def by (auto simp: Let_def)
  then show ?thesis using erase_finish [OF t12(3) I True refl] c(2) by auto
next
  case False
  have "rep t (FR c x l # fs) r" using R by (simp add: rep_right)
  then obtain gs k y m where g: "leftmost (rid r) t = Some y" "r = plug gs (Nd Lf k y m)" "list_all is_FL gs"
    using leftmost_rep False by blast
  let ?p = "pid (gs @ FR c x l # fs)" and ?r = "plug gs m" and ?fs = "gs @ FR c y l # fs"
  obtain t1 t2 where t12: "(if rid m \<noteq> 0 then rb_set_parent (rid m) ?p t else Some t) = Some t1"
    "(if ?p = x then set_right ?p (rid m) t1 else set_left ?p (rid m) t1) = Some t2" "rep t2 fs (Nd l c x ?r)"
    and y: "y \<noteq> 0" "y \<notin> set (ids (Nd l c x ?r) @ cids fs)" "rb_nodes t y = cell ?p k 0 (rid m)"
      "(if ?p = x then y else ?p) = pid ?fs"
    using rep_unlink_next [OF R g(2,3)] by blast
  obtain t3 t4 t5 t6 where t36: "rb_set y (\<lambda>_. cell (pid fs) c (rid l) (rid ?r)) t2 = Some t3"
    "replace_child (pid fs) x y t3 = Some t4" "rb_set_parent (rid l) y t4 = Some t5"
    "(if rid ?r \<noteq> 0 then rb_set_parent (rid ?r) y t5 else Some t5) = Some t6" "rep t6 ?fs m"
    using rep_swap [OF t12(3) _ y(1,2)] False by (auto simp: rep_append rep_right)
  have "rid l \<noteq> 0" "rid r \<noteq> 0" using R rid_0 False by (auto simp: rep_def)
  then have "rb_erase x t = (if k = RB_BLACK then rb_erase_color (rid m) (pid ?fs) t6 else Some t6)"
    using rep_at [OF R] rep_at [OF t12(3)] g(1) t12(1,2) y(3,4) t36(1-4) unfolding rb_erase_def
    by (auto simp: Let_def)
  moreover have "rb_inv (plug ?fs (Nd Lf k y m))"
    using I g(2) ctx_rename [of gs c x l fs y] plug_inv [of "gs @ FR c x l # fs" "Nd Lf k y m"]
    by (simp add: plug_inv plug_append)
  ultimately show ?thesis
    using erase_finish [OF t36(5), of Lf k y m] g(2,3) by (simp add: plug_ids lids_append FL_lids)
qed


section \<open>Traversal\<close>

lemma focus_exists: "x \<in> set (ids a) \<Longrightarrow> \<exists>fs l c r. a = plug fs (Nd l c x r)"
proof (induction a)
  case (Nd l c y r)
  then consider "x = y" | fs l' c' r' where "l = plug fs (Nd l' c' x r')" | fs l' c' r' where "r = plug fs (Nd l' c' x r')"
    by auto
  then show ?case
  proof cases
    case 1
    then show ?thesis by (intro exI [of _ "[]"]) auto
  next
    case (2 fs l' c' r')
    then show ?thesis using plug_append [of fs "[FL c y r]"] by (intro exI [of _ "fs @ [FL c y r]"]) auto
  next
    case (3 fs l' c' r')
    then show ?thesis using plug_append [of fs "[FR c y l]"] by (intro exI [of _ "fs @ [FR c y l]"]) auto
  qed
qed simp

lemma focus_split:
  assumes "rep t fs (Nd l c x r)" and "ids (plug fs (Nd l c x r)) = us @ x # vs"
  shows "us = lids fs @ ids l \<and> vs = ids r @ rids fs"
proof -
  have "(lids fs @ ids l) @ x # ids r @ rids fs = us @ x # vs" using assms(2) by (simp add: plug_ids)
  moreover have "x \<notin> set (lids fs @ ids l)" "x \<notin> set (ids r @ rids fs)"
    using rep_ids [OF assms(1)] by (simp_all add: plug_ids)
  ultimately show ?thesis using append_Cons_eq_iff by metis
qed

text \<open>The first element of a list of nodes, NULL for none.\<close>

definition hd0 :: "nat list \<Rightarrow> nat" where
  "hd0 xs = (case xs of [] \<Rightarrow> 0 | x # _ \<Rightarrow> x)"

lemma hd0_simps [simp]: "hd0 [] = 0" "hd0 (x # xs) = x" "xs \<noteq> [] \<Longrightarrow> hd0 (xs @ ys) = hd0 xs"
  by (simp_all add: hd0_def split: list.split)

lemma ids_Nil: "ids a = [] \<longleftrightarrow> a = Lf"
  by (cases a) auto

lemma leftmost_hd: "rep t fs a \<Longrightarrow> a \<noteq> Lf \<Longrightarrow> leftmost (rid a) t = Some (hd0 (ids a))"
  using leftmost_rep [of t fs a] by (auto simp: plug_ids FL_lids)

lemma rep_rid: "rep t fs a \<Longrightarrow> rid a = 0 \<longleftrightarrow> a = Lf"
  using rid_0 by (auto simp: rep_def)

lemma up_from_right_rep: "rep t fs a \<Longrightarrow> a \<noteq> Lf \<Longrightarrow> up_from_right (rid a) t = Some (hd0 (rids fs))"
proof (induction fs arbitrary: a)
  case Nil
  obtain l c x r where a: "a = Nd l c x r" using Nil.prems(2) by (cases a) auto
  show ?case using rep_at [OF Nil.prems(1) [unfolded a]] unfolding a by (subst up_from_right.simps) simp
next
  case (Cons f fs)
  obtain l c x r where a: "a = Nd l c x r" using Cons.prems(2) by (cases a) auto
  note x = rep_at [OF Cons.prems(1) [unfolded a]]
  show ?case
  proof (cases f)
    case (FL d y s)
    have R: "rep t fs (Nd a d y s)" using Cons.prems(1) by (simp add: FL rep_left)
    then have "x \<noteq> rid s" unfolding a by (auto simp: rep_def)
    then show ?thesis using x rep_at [OF R] unfolding a FL by (subst up_from_right.simps) simp
  next
    case (FR d y s)
    have R: "rep t fs (Nd s d y a)" using Cons.prems(1) by (simp add: FR rep_right)
    then show ?thesis using x rep_at [OF R] Cons.IH [OF R] unfolding a FR by (subst up_from_right.simps) simp
  qed
qed

lemma rb_first_rep: "rep t [] a \<Longrightarrow> rb_first t = Some (hd0 (ids a))"
  using leftmost_hd [of t "[]" a] rep_rid [of t "[]" a] by (cases a) (auto simp: rb_first_def rep_def)

lemma rb_next_rep:
  assumes "rep t [] a" and "ids a = us @ x # vs"
  shows "rb_next x t = Some (hd0 vs)"
proof -
  obtain fs l c r where a: "a = plug fs (Nd l c x r)" using focus_exists [of x a] assms(2) by auto
  have R: "rep t fs (Nd l c x r)" using assms(1) rep_plug unfolding a by blast
  have vs: "vs = ids r @ rids fs" using focus_split [OF R] assms(2) unfolding a by blast
  have "pid fs \<noteq> x" using R by (cases fs rule: pid.cases) (auto simp: rep_def)
  moreover have "rep t (FR c x l # fs) r" using R by (simp add: rep_right)
  ultimately show ?thesis
    using rep_at [OF R] rep_rid [of t _ r] leftmost_hd [of t _ r] up_from_right_rep [OF R] ids_Nil [of r]
    unfolding rb_next_def vs by auto
qed


section \<open>The interface\<close>

text \<open>The loop \<open>for (r = first; r; r = next(r))\<close>, as the list of the nodes it visits.\<close>

partial_function (option) walk :: "(nat \<Rightarrow> nat option) \<Rightarrow> nat \<Rightarrow> nat list option" where
  "walk nxt p = (if p = 0 then Some [] else do { q \<leftarrow> nxt p; ps \<leftarrow> walk nxt q; Some (p # ps) })"

text \<open>What users of the tree rely on: it holds its nodes in a fixed order, from which one can be taken out, and
  which a loop visits from the first to the last.\<close>

locale ordered_nodes =
  fixes holds :: "'t \<Rightarrow> nat list \<Rightarrow> bool"
    and erase :: "nat \<Rightarrow> 't \<Rightarrow> 't option"
    and first :: "'t \<Rightarrow> nat option"
    and succ :: "nat \<Rightarrow> 't \<Rightarrow> nat option"
  assumes nodes: "holds t xs \<Longrightarrow> distinct xs \<and> 0 \<notin> set xs"
    and erase: "holds t (us @ x # vs) \<Longrightarrow> \<exists>t'. erase x t = Some t' \<and> holds t' (us @ vs)"
    and first: "holds t xs \<Longrightarrow> first t = Some (hd0 xs)"
    and succ: "holds t (us @ x # vs) \<Longrightarrow> succ x t = Some (hd0 vs)"
begin

lemma walk_suffix: "holds t (us @ vs) \<Longrightarrow> walk (\<lambda>p. succ p t) (hd0 vs) = Some vs"
proof (induction vs arbitrary: us)
  case Nil
  show ?case by (subst walk.simps) simp
next
  case (Cons v vs)
  have "walk (\<lambda>p. succ p t) (hd0 vs) = Some vs" using Cons.IH [of "us @ [v]"] Cons.prems by simp
  then show ?case using succ [OF Cons.prems] nodes [OF Cons.prems] by (subst walk.simps) simp
qed

lemma walk_all: "holds t xs \<Longrightarrow> Option.bind (first t) (walk (\<lambda>p. succ p t)) = Some xs"
  using walk_suffix [of t "[]" xs] by (simp add: first)

lemma erase_remove1: "holds t xs \<Longrightarrow> x \<in> set xs \<Longrightarrow> \<exists>t'. erase x t = Some t' \<and> holds t' (remove1 x xs)"
proof -
  assume h: "holds t xs" and "x \<in> set xs"
  then obtain us vs where "xs = us @ x # vs" "x \<notin> set us" by (meson split_list_first)
  then show ?thesis using erase [of t us x vs] h by (simp add: remove1_append)
qed

end

definition rb_holds :: "rb_tree \<Rightarrow> nat list \<Rightarrow> bool" where
  "rb_holds t xs \<longleftrightarrow> (\<exists>a. rep t [] a \<and> rb_inv a \<and> ids a = xs)"

lemma rb_holds_erase:
  assumes "rb_holds t (us @ x # vs)"
  shows "\<exists>t'. rb_erase x t = Some t' \<and> rb_holds t' (us @ vs)"
proof -
  obtain a where a: "rep t [] a" "rb_inv a" "ids a = us @ x # vs" using assms by (auto simp: rb_holds_def)
  obtain fs l c r where f: "a = plug fs (Nd l c x r)" using focus_exists [of x a] a(3) by auto
  have R: "rep t fs (Nd l c x r)" using a(1) rep_plug unfolding f by blast
  show ?thesis using focus_split [OF R a(3) [unfolded f]] rb_erase_rep [OF R] a(2) unfolding f rb_holds_def by auto
qed

interpretation rb: ordered_nodes rb_holds rb_erase rb_first rb_next
proof
  show "rb_holds t xs \<Longrightarrow> distinct xs \<and> 0 \<notin> set xs" for t xs
    using rep_ids [of t "[]"] by (auto simp: rb_holds_def)
  show "rb_holds t (us @ x # vs) \<Longrightarrow> \<exists>t'. rb_erase x t = Some t' \<and> rb_holds t' (us @ vs)" for t us x vs
    by (rule rb_holds_erase)
  show "rb_holds t xs \<Longrightarrow> rb_first t = Some (hd0 xs)" for t xs using rb_first_rep by (auto simp: rb_holds_def)
  show "rb_holds t (us @ x # vs) \<Longrightarrow> rb_next x t = Some (hd0 vs)" for t us x vs
    using rb_next_rep by (auto simp: rb_holds_def)
qed

text \<open>
  C25: Removing a node of a red-black tree always succeeds: \<open>rb_erase\<close> follows no NULL pointer and its loop ends,
  the result is again a red-black tree, with consistent parent pointers, and it holds exactly the other
  nodes in their order.
\<close>

theorem rb_erase_correct:
  "rb_holds t xs \<Longrightarrow> x \<in> set xs \<Longrightarrow> \<exists>t'. rb_erase x t = Some t' \<and> rb_holds t' (remove1 x xs)"
  by (rule rb.erase_remove1)

definition three_nodes :: rb_tree where
  "three_nodes = \<lparr>rb_nodes = (\<lambda>_. cell 0 RB_BLACK 1 3)(1 := cell 2 RB_RED 0 0, 3 := cell 2 RB_RED 0 0), rb_root = 2\<rparr>"

lemma three_nodes_hold: "rb_holds three_nodes [1, 2, 3]"
  unfolding rb_holds_def three_nodes_def
  by (intro exI [of _ "Nd (Nd Lf RB_RED 1 Lf) RB_BLACK 2 (Nd Lf RB_RED 3 Lf)"])
     (simp add: rep_def rb_inv_def)

theorem rb_erase_correct_witness:
  "rb_holds three_nodes [1, 2, 3] \<and> (\<exists>t'. rb_erase 2 three_nodes = Some t' \<and> rb_holds t' [1, 3])"
  using rb_erase_correct [OF three_nodes_hold, of 2] three_nodes_hold by simp

lemma rb_insert_holds:
  assumes "rep t fs Lf" and "rb_inv (plug fs Lf)" and "x \<noteq> 0" and "x \<notin> set (cids fs)"
  shows "\<exists>t1 t2. rb_link_node x (pid fs) (link_of fs) t = Some t1 \<and> rb_insert_color x t1 = Some t2 \<and>
    rb_holds t2 (lids fs @ x # rids fs)"
proof -
  obtain t1 where 1: "rb_link_node x (pid fs) (link_of fs) t = Some t1" "rep t1 fs (Nd Lf RB_RED x Lf)"
    using rep_link_node [OF assms(1,3,4)] by blast
  show ?thesis using 1 rep_insert_color [OF 1(2) assms(2) refl refl] by (auto simp: rb_holds_def)
qed

text \<open>
  C26: Linking a new node at an empty place of a red-black tree and calling \<open>rb_insert_color\<close> always succeeds: no
  NULL pointer is followed, the loop ends, and the result is a red-black tree that holds the node
  exactly at that place in the order.
\<close>

theorem rb_insert_correct:
  assumes "rep t fs Lf" and "rb_inv (plug fs Lf)" and "x \<noteq> 0" and "x \<notin> set (cids fs)"
  shows "\<exists>t1 t2. rb_link_node x (pid fs) (link_of fs) t = Some t1 \<and> rb_insert_color x t1 = Some t2 \<and>
    rb_holds t2 (lids fs @ x # rids fs)"
  by (rule rb_insert_holds [OF assms])

theorem rb_insert_correct_witness:
  "\<exists>t1 t2. rb_link_node 4 3 (LRight 3) three_nodes = Some t1 \<and> rb_insert_color 4 t1 = Some t2 \<and>
     rb_holds t2 [1, 2, 3, 4]"
  using rb_insert_correct [of three_nodes "[FR RB_RED 3 Lf, FR RB_BLACK 2 (Nd Lf RB_RED 1 Lf)]" 4]
  by (simp add: three_nodes_def rep_def rb_inv_def)

text \<open>
  C27: The loop over \<open>rb_first\<close> and \<open>rb_next\<close> ends and visits every node of the tree once, in its order.
\<close>

theorem rb_walk_complete:
  "rb_holds t xs \<Longrightarrow> Option.bind (rb_first t) (walk (\<lambda>p. rb_next p t)) = Some xs"
  by (rule rb.walk_all)

theorem rb_walk_complete_witness:
  "Option.bind (rb_first three_nodes) (walk (\<lambda>p. rb_next p three_nodes)) = Some [1, 2, 3]"
  using rb_walk_complete [OF three_nodes_hold] .

text \<open>A search in a red-black tree of \<open>n\<close> nodes takes at most \<open>2 log (n + 1)\<close> steps.\<close>

fun rheight :: "rbt \<Rightarrow> nat" where
  "rheight Lf = 0"
| "rheight (Nd l c x r) = Suc (max (rheight l) (rheight r))"

lemma rheight_bheight: "invc a \<Longrightarrow> invh a \<Longrightarrow> rheight a \<le> 2 * bheight a + (if colour a = RB_RED then 1 else 0)"
  by (induction a) (auto split: if_splits)

lemma bheight_size: "invh a \<Longrightarrow> 2 ^ bheight a \<le> length (ids a) + 1"
  by (induction a) (auto split: if_splits)

lemma rb_inv_height: "rb_inv a \<Longrightarrow> 2 ^ (rheight a div 2) \<le> length (ids a) + 1"
proof -
  assume i: "rb_inv a"
  then have "rheight a div 2 \<le> bheight a" using rheight_bheight [of a] by (simp add: rb_inv_def)
  then have "(2 :: nat) ^ (rheight a div 2) \<le> 2 ^ bheight a" by (simp add: power_increasing)
  also have "\<dots> \<le> length (ids a) + 1" using bheight_size i by (simp add: rb_inv_def)
  finally show ?thesis .
qed

end
