(* ===== verification/ListHead.thy ===== *)
theory ListHead
  imports Prelude
begin

text \<open>
  The doubly linked lists of \<^verbatim>\<open>src/list.h\<close> on a store with one map for each of the two pointers. A list
  head or an entry is named by a value of \<open>list_ptr\<close>; \<open>container_of\<close> maps an entry to the structure around
  it and is the identity here.
\<close>

section \<open>Operations\<close>

datatype list_ptr = Head | Entry nat | LIST_POISON1 | LIST_POISON2 | Null

record list_store =
  lnext :: "list_ptr \<Rightarrow> list_ptr"
  lprev :: "list_ptr \<Rightarrow> list_ptr"

definition set_next :: "list_ptr \<Rightarrow> list_ptr \<Rightarrow> list_store \<Rightarrow> list_store" where
  "set_next p q s = s\<lparr>lnext := (lnext s)(p := q)\<rparr>"

definition set_prev :: "list_ptr \<Rightarrow> list_ptr \<Rightarrow> list_store \<Rightarrow> list_store" where
  "set_prev p q s = s\<lparr>lprev := (lprev s)(p := q)\<rparr>"

definition INIT_LIST_HEAD :: "list_ptr \<Rightarrow> list_store \<Rightarrow> list_store" where
  "INIT_LIST_HEAD l s = set_prev l l (set_next l l s)"

definition list_add_between :: "list_ptr \<Rightarrow> list_ptr \<Rightarrow> list_ptr \<Rightarrow> list_store \<Rightarrow> list_store" where
  "list_add_between new prev next s =
     (let s = set_prev next new s;
          s = set_next new next s;
          s = set_prev new prev s
      in set_next prev new s)"

definition list_add :: "list_ptr \<Rightarrow> list_ptr \<Rightarrow> list_store \<Rightarrow> list_store" where
  "list_add new head s = list_add_between new head (lnext s head) s"

definition list_add_tail :: "list_ptr \<Rightarrow> list_ptr \<Rightarrow> list_store \<Rightarrow> list_store" where
  "list_add_tail new head s = list_add_between new (lprev s head) head s"

definition list_del_between :: "list_ptr \<Rightarrow> list_ptr \<Rightarrow> list_store \<Rightarrow> list_store" where
  "list_del_between prev next s = set_next prev next (set_prev next prev s)"

definition list_del :: "list_ptr \<Rightarrow> list_store \<Rightarrow> list_store" where
  "list_del entry s =
     (let s = list_del_between (lprev s entry) (lnext s entry) s
      in set_prev entry LIST_POISON2 (set_next entry LIST_POISON1 s))"

definition list_is_last :: "list_ptr \<Rightarrow> list_ptr \<Rightarrow> list_store \<Rightarrow> bool" where
  "list_is_last l head s \<longleftrightarrow> lnext s l = head"

definition list_is_first :: "list_ptr \<Rightarrow> list_ptr \<Rightarrow> list_store \<Rightarrow> bool" where
  "list_is_first l head s \<longleftrightarrow> l = lnext s head"

definition list_empty :: "list_ptr \<Rightarrow> list_store \<Rightarrow> bool" where
  "list_empty head s \<longleftrightarrow> lnext s head = head"

definition list_first_entry :: "list_ptr \<Rightarrow> list_store \<Rightarrow> list_ptr" where
  "list_first_entry p s = lnext s p"

definition list_last_entry :: "list_ptr \<Rightarrow> list_store \<Rightarrow> list_ptr" where
  "list_last_entry p s = lprev s p"

text \<open>\<open>list_for_each\<close>: the entries the loop visits. It need not end on an arbitrary store.\<close>

partial_function (option) list_for_each :: "list_ptr \<Rightarrow> list_ptr \<Rightarrow> list_store \<Rightarrow> list_ptr list option" where
  "list_for_each pos head s =
     (if pos = head then Some [] else Option.bind (list_for_each (lnext s pos) head s) (\<lambda>r. Some (pos # r)))"

section \<open>Lists in the store\<close>

text \<open>\<open>chain s p xs q\<close>: from \<open>p\<close> the forward pointers lead through \<open>xs\<close> to \<open>q\<close> and the backward pointers lead
  back. A list is a chain from its head to its head.\<close>

fun chain :: "list_store \<Rightarrow> list_ptr \<Rightarrow> list_ptr list \<Rightarrow> list_ptr \<Rightarrow> bool" where
  "chain s p [] q \<longleftrightarrow> lnext s p = q \<and> lprev s q = p"
| "chain s p (x # xs) q \<longleftrightarrow> lnext s p = x \<and> lprev s x = p \<and> chain s x xs q"

definition ring :: "list_store \<Rightarrow> list_ptr \<Rightarrow> list_ptr list \<Rightarrow> bool" where
  "ring s h xs \<longleftrightarrow> chain s h xs h \<and> distinct (h # xs)"

lemma set_sel [simp]:
  "lnext (set_next p q s) = (lnext s)(p := q)" "lprev (set_next p q s) = lprev s"
  "lprev (set_prev p q s) = (lprev s)(p := q)" "lnext (set_prev p q s) = lnext s"
  by (simp_all add: set_next_def set_prev_def)

lemma chain_append: "chain s p (us @ x # vs) q \<longleftrightarrow> chain s p us x \<and> chain s x vs q"
  by (induction us arbitrary: p) auto

lemma chain_cong:
  "(\<And>y. y \<in> set (p # xs) \<Longrightarrow> lnext s' y = lnext s y) \<Longrightarrow> (\<And>y. y \<in> set (xs @ [q]) \<Longrightarrow> lprev s' y = lprev s y) \<Longrightarrow>
   chain s' p xs q = chain s p xs q"
  by (induction xs arbitrary: p) auto

lemma chain_ends: "chain s p xs q \<Longrightarrow> lnext s p = hd (xs @ [q]) \<and> lprev s q = last (p # xs)"
  by (induction xs arbitrary: p) auto

text \<open>Leading the end of a chain somewhere else.\<close>

lemma chain_retarget:
  "chain s p us x \<Longrightarrow> distinct (p # us) \<Longrightarrow> f \<notin> set us \<Longrightarrow>
   chain (set_next (last (p # us)) f (set_prev f (last (p # us)) s)) p us f"
proof (induction us arbitrary: p)
  case (Cons u us)
  let ?s = "set_next (last (u # us)) f (set_prev f (last (u # us)) s)"
  have "chain ?s u us f" using Cons by simp
  then show ?case using Cons.prems last_in_set [of "u # us"] by (auto split: if_splits)
qed simp

lemma ring_init: "ring (INIT_LIST_HEAD h s) h []"
  by (simp add: ring_def INIT_LIST_HEAD_def)

lemma ring_add:
  assumes "ring s h xs" and "x \<notin> set (h # xs)"
  shows "ring (list_add x h s) h (x # xs)"
proof -
  have "chain (list_add x h s) x xs h"
  proof (cases xs)
    case Nil
    then show ?thesis using assms by (auto simp: ring_def list_add_def list_add_between_def)
  next
    case (Cons y ys)
    have "chain (list_add x h s) y ys h = chain s y ys h"
      using assms by (intro chain_cong) (auto simp: ring_def list_add_def list_add_between_def Cons)
    then show ?thesis using assms by (auto simp: ring_def list_add_def list_add_between_def Cons)
  qed
  then show ?thesis using assms by (auto simp: ring_def list_add_def list_add_between_def)
qed

lemma ring_add_tail:
  assumes "ring s h xs" and "x \<notin> set (h # xs)"
  shows "ring (list_add_tail x h s) h (xs @ [x])"
proof -
  let ?l = "last (h # xs)"
  have l: "lprev s h = ?l" using assms(1) chain_ends by (auto simp: ring_def)
  have "chain (set_next ?l x (set_prev x ?l s)) h xs x"
    using assms by (intro chain_retarget [where x = h]) (auto simp: ring_def)
  moreover have "chain (list_add_tail x h s) h xs x = chain (set_next ?l x (set_prev x ?l s)) h xs x"
    using assms by (intro chain_cong) (auto simp: list_add_tail_def list_add_between_def l ring_def)
  ultimately have "chain (list_add_tail x h s) h xs x" by simp
  moreover have "?l \<noteq> x" using assms(2) last_in_set [of "h # xs"] by (metis list.discI)
  ultimately show ?thesis
    using assms by (auto simp: ring_def chain_append list_add_tail_def list_add_between_def l)
qed

lemma ring_del:
  assumes "ring s h (us @ x # vs)"
  shows "ring (list_del x s) h (us @ vs)"
proof -
  have c: "chain s h us x" "chain s x vs h" "distinct (h # us @ x # vs)"
    using assms by (auto simp: ring_def chain_append)
  let ?l = "last (h # us)" and ?f = "hd (vs @ [h])"
  have lf: "lprev s x = ?l" "lnext s x = ?f" using chain_ends [OF c(1)] chain_ends [OF c(2)] by auto
  have l: "?l \<in> set (h # us)" by (rule last_in_set) simp
  have lx: "?l \<noteq> x" "?f \<noteq> x" "?f \<notin> set us" using l c(3) by (auto, (cases vs; auto)+)
  let ?s = "set_next ?l ?f (set_prev ?f ?l s)"
  have eq: "chain (list_del x s) p ys q = chain ?s p ys q" if "x \<notin> set (p # ys @ [q])" for p ys q
    using that by (intro chain_cong) (auto simp: list_del_def list_del_between_def lf)
  have r: "chain ?s h us ?f" using chain_retarget [OF c(1) _ lx(3)] c(3) by simp
  show ?thesis
  proof (cases vs)
    case Nil
    then show ?thesis using r eq [of h us h] c(3) by (auto simp: ring_def)
  next
    case (Cons v ws)
    have "chain ?s v ws h = chain s v ws h" using c(3) l by (intro chain_cong) (auto simp: Cons)
    then have "chain ?s h (us @ v # ws) h" using r c(2) by (simp add: chain_append Cons)
    then show ?thesis using eq [of h "us @ v # ws" h] c(3) by (auto simp: ring_def Cons)
  qed
qed

lemma for_each_chain: "chain s p xs h \<Longrightarrow> h \<notin> set xs \<Longrightarrow> list_for_each (lnext s p) h s = Some xs"
proof (induction xs arbitrary: p)
  case Nil
  then show ?case by (subst list_for_each.simps) simp
next
  case (Cons x xs)
  then show ?case by (subst list_for_each.simps) auto
qed


text \<open>
  C28: The list operations work as lists. On a well-formed list \<open>list_add\<close> puts a new entry first, \<open>list_add_tail\<close>
  puts it last, \<open>list_del\<close> takes an entry out, all of them leave a well-formed list, and \<open>list_for_each\<close> ends
  after it has visited the entries in order.
\<close>

theorem list_refines:
  assumes "ring s h xs" and "x \<notin> set (h # xs)" and "y \<in> set xs"
  shows "ring (list_add x h s) h (x # xs) \<and> ring (list_add_tail x h s) h (xs @ [x]) \<and>
    ring (list_del y s) h (remove1 y xs) \<and> list_for_each (list_first_entry h s) h s = Some xs"
proof -
  obtain us vs where xs: "xs = us @ y # vs" "y \<notin> set us" using assms(3) by (meson split_list_first)
  have "ring (list_del y s) h (remove1 y xs)" using ring_del [of s h us y vs] assms(1) xs by (simp add: remove1_append)
  moreover have "list_for_each (list_first_entry h s) h s = Some xs"
    using for_each_chain assms(1) by (simp add: ring_def list_first_entry_def)
  ultimately show ?thesis using ring_add [OF assms(1,2)] ring_add_tail [OF assms(1,2)] by simp
qed

definition one_entry :: list_store where
  "one_entry = list_add (Entry 1) Head (INIT_LIST_HEAD Head \<lparr>lnext = \<lambda>_. Null, lprev = \<lambda>_. Null\<rparr>)"

lemma one_entry_ring: "ring one_entry Head [Entry 1]"
  unfolding one_entry_def by (rule ring_add [OF ring_init]) simp

theorem list_refines_witness:
  "ring one_entry Head [Entry 1] \<and> ring (list_add (Entry 2) Head one_entry) Head [Entry 2, Entry 1] \<and>
   ring (list_add_tail (Entry 2) Head one_entry) Head [Entry 1, Entry 2] \<and> ring (list_del (Entry 1) one_entry) Head [] \<and>
   list_for_each (list_first_entry Head one_entry) Head one_entry = Some [Entry 1]"
  using list_refines [OF one_entry_ring, of "Entry 2" "Entry 1"] one_entry_ring by simp

section \<open>Adding an entry twice\<close>

lemma for_each_loop:
  "list_for_each pos h s = Some r \<Longrightarrow> pos \<noteq> h \<Longrightarrow> lnext s pos = pos \<Longrightarrow> False"
proof -
  assume r: "list_for_each pos h s = Some r" and "pos \<noteq> h" "lnext s pos = pos"
  then have "Some r = Option.bind (Some r) (\<lambda>r. Some (pos # r))"
    by (subst r [symmetric], subst list_for_each.simps) simp
  then show False by simp
qed

lemma add_first_again:
  assumes "ring s h (x # xs)"
  shows "lnext (list_add x h s) h = x" "lnext (list_add x h s) x = x" "lprev (list_add x h s) h = lprev s h"
    "list_for_each (list_first_entry h (list_add x h s)) h (list_add x h s) = None"
proof -
  show n: "lnext (list_add x h s) h = x" "lnext (list_add x h s) x = x" "lprev (list_add x h s) h = lprev s h"
    using assms by (auto simp: ring_def list_add_def list_add_between_def)
  show "list_for_each (list_first_entry h (list_add x h s)) h (list_add x h s) = None"
    using n for_each_loop [of x h "list_add x h s"] assms
    by (cases "list_for_each x h (list_add x h s)") (auto simp: list_first_entry_def ring_def)
qed

end
