(* ===== verification/Page.thy ===== *)
theory Page
  imports Report Sysfs RbErase ListHead
begin

text \<open>
  Accounting of corrected errors per page and taking bad pages offline, \<^verbatim>\<open>src/page.c\<close>. The counters are the
  slots of clusters of one page of memory each; a red-black tree indexes them by address and a list of the
  clusters is meant to find the least recently used one when no more counters may be made.
\<close>

section \<open>State\<close>

definition PAGE_SHIFT :: nat where "PAGE_SHIFT = 12"
definition PAGE_SIZE :: u64 where "PAGE_SIZE = push_bit PAGE_SHIFT 1"
definition OFFLINE_RETRY_EXP_BACKOFF :: u32 where "OFFLINE_RETRY_EXP_BACKOFF = 2"
definition NO_OFFLINE_RETRY :: u32 where "NO_OFFLINE_RETRY = 1"

datatype page_status = PAGE_ONLINE | PAGE_OFFLINE | PAGE_OFFLINE_FAILED

record mempage =
  mp_offlined :: page_status
  mp_triggered :: bool
  mp_multiplier :: u8
  mp_addr :: u64
  mp_ce :: err_type

text \<open>The slots of a cluster: the list head takes 16 bytes, a slot 64 (the tree node 24, the flags padded to 8,
  the address 8 and the counter 24).\<close>

definition N_SLOTS :: nat where "N_SLOTS = (4096 - 16) div 64"

datatype otype = OFFLINE_OFF | OFFLINE_ACCOUNT | OFFLINE_SOFT | OFFLINE_HARD | OFFLINE_SOFT_THEN_HARD

text \<open>A pointer to a slot is a number, 0 for NULL: slot \<open>i\<close> of cluster \<open>c\<close> is \<open>c * N_SLOTS + i + 1\<close>. Clusters are
  numbered in the order in which they are mapped.\<close>

record page_state = report_state +
  corr_err_counters :: int
  max_corr_err_counters :: int
  mp_cluster :: "nat option"
  mp_used :: "nat \<Rightarrow> nat"                 \<comment> \<open>by cluster\<close>
  mp_clusters :: nat                      \<comment> \<open>clusters mapped so far\<close>
  mp_at :: "nat \<Rightarrow> mempage"              \<comment> \<open>by pointer\<close>
  mr_bucket :: leaky_bucket
  mr_count :: u32
  mempage_root :: rb_tree
  cluster_lru_list :: list_store          \<comment> \<open>\<open>mempage_cluster_lru_list\<close>\<close>
  page_trigger_conf :: bucket_conf
  mp_replacement_trigger_conf :: bucket_conf
  page_error_pre_soft_trigger :: "string option"
  page_error_post_soft_trigger :: "string option"
  offline_retry_backoff_base :: u32
  offline :: otype
  os_mmap :: "nat \<Rightarrow> bool"               \<comment> \<open>can this cluster be mapped?\<close>

definition slot :: "nat \<Rightarrow> nat \<Rightarrow> nat" where
  "slot c i = c * N_SLOTS + i + 1"

definition to_cluster :: "nat \<Rightarrow> nat" where
  "to_cluster mp = (mp - 1) div N_SLOTS"

definition mp_mod :: "nat \<Rightarrow> (mempage \<Rightarrow> mempage) \<Rightarrow> 'a page_state_scheme \<Rightarrow> 'a page_state_scheme" where
  "mp_mod mp f s = s\<lparr>mp_at := (mp_at s)(mp := f (mp_at s mp))\<rparr>"

definition page_state_name :: "page_status \<Rightarrow> string" where
  "page_state_name st = (case st of PAGE_ONLINE \<Rightarrow> ''online'' | PAGE_OFFLINE \<Rightarrow> ''offline''
     | PAGE_OFFLINE_FAILED \<Rightarrow> ''offline-failed'')"

text \<open>A cluster fresh from \<open>mmap\<close> is zero.\<close>

definition zero_mempage :: mempage where
  "zero_mempage = \<lparr>mp_offlined = PAGE_ONLINE, mp_triggered = False, mp_multiplier = 0, mp_addr = 0,
     mp_ce = \<lparr>et_bucket = \<lparr>lb_count = 0, lb_excess = 0, lb_tstamp = 0\<rparr>, et_count = 0\<rparr>\<rparr>"

section \<open>Making and reusing counters\<close>

text \<open>\<open>Enomem\<close> ends the process.\<close>

definition Enomem :: "'a page_state_scheme \<Rightarrow> ('a page_state_scheme, 'r) outcome" where
  "Enomem s = Exit 12 (Eprintf ''out of memory'' [] s)"

definition mempage_alloc :: "'a page_state_scheme \<Rightarrow> ('a page_state_scheme, nat) outcome" where
  "mempage_alloc s =
     (let take_slot = (\<lambda>s. case mp_cluster s of
            None \<Rightarrow> Abort s
          | Some c \<Rightarrow> Ret (slot c (mp_used s c)) (s\<lparr>mp_used := (mp_used s)(c := mp_used s c + 1)\<rparr>))
      in if (case mp_cluster s of None \<Rightarrow> True | Some c \<Rightarrow> mp_used s c = N_SLOTS)
         then if \<not> os_mmap s (mp_clusters s) then Enomem s
              else take_slot (s\<lparr>mp_cluster := Some (mp_clusters s), mp_clusters := mp_clusters s + 1,
                                mp_used := (mp_used s)(mp_clusters s := 0),
                                mp_at := (\<lambda>p. if to_cluster p = mp_clusters s \<and> p \<noteq> 0 then zero_mempage else mp_at s p)\<rparr>)
         else take_slot s)"

text \<open>Reading \<open>mp_cluster->mp_used\<close> crashes when there is no cluster yet.\<close>

definition mempage_replace :: "'a page_state_scheme \<Rightarrow> ('a page_state_scheme, nat) outcome" where
  "mempage_replace s =
     (case mp_cluster s of
        None \<Rightarrow> Abort s
      | Some c \<Rightarrow>
          (case (if mp_used s c = N_SLOTS
                 then (case list_last_entry Head (cluster_lru_list s) of
                         Entry d \<Rightarrow> Some (d, s\<lparr>mp_cluster := Some d, mp_used := (mp_used s)(d := 0)\<rparr>)
                       | _ \<Rightarrow> None)
                 else Some (c, s)) of
             None \<Rightarrow> Abort s
           | Some (c, s) \<Rightarrow>
               let mp = slot c (mp_used s c);
                   s = s\<lparr>mp_used := (mp_used s)(c := mp_used s c + 1)\<rparr>
               in Ret mp (mp_mod mp (\<lambda>p. p\<lparr>mp_offlined := PAGE_ONLINE, mp_triggered := False,
                    mp_multiplier := ucast NO_OFFLINE_RETRY, mp_ce := (mp_ce p)\<lparr>et_count := 0\<rparr>\<rparr>) s)))"

section \<open>The index\<close>

text \<open>The search for an address from node \<open>n\<close>; 0 when there is none.\<close>

partial_function (option) lookup_loop :: "u64 \<Rightarrow> (nat \<Rightarrow> u64) \<Rightarrow> rb_tree \<Rightarrow> nat \<Rightarrow> nat option" where
  "lookup_loop addr key t n =
     (if n = 0 then Some 0
      else if addr < key n then lookup_loop addr key t (rb_left (rb_nodes t n))
      else if addr > key n then lookup_loop addr key t (rb_right (rb_nodes t n))
      else Some n)"

definition key_at :: "'a page_state_scheme \<Rightarrow> nat \<Rightarrow> u64" where
  "key_at s n = mp_addr (mp_at s n)"

definition mempage_lookup :: "u64 \<Rightarrow> 'a page_state_scheme \<Rightarrow> nat option" where
  "mempage_lookup addr s = lookup_loop addr (key_at s) (mempage_root s) (rb_root (mempage_root s))"

text \<open>The loop of \<open>mempage_insert_lookup\<close>: the node found, or its parent and the place for it.\<close>

partial_function (option) place_loop :: "u64 \<Rightarrow> (nat \<Rightarrow> u64) \<Rightarrow> rb_tree \<Rightarrow> nat \<Rightarrow> nat \<Rightarrow> rb_link \<Rightarrow>
    (nat \<times> nat \<times> rb_link) option" where
  "place_loop addr key t p parent link =
     (if p = 0 then Some (0, parent, link)
      else if addr < key p then place_loop addr key t (rb_left (rb_nodes t p)) p (LLeft p)
      else if addr > key p then place_loop addr key t (rb_right (rb_nodes t p)) p (LRight p)
      else Some (p, parent, link))"

definition mempage_insert_lookup :: "u64 \<Rightarrow> nat \<Rightarrow> 'a page_state_scheme \<Rightarrow> (nat \<times> 'a page_state_scheme) option" where
  "mempage_insert_lookup addr node s = do {
     (mp, parent, link) \<leftarrow> place_loop addr (key_at s) (mempage_root s) (rb_root (mempage_root s)) 0 LRoot;
     (if mp \<noteq> 0 then Some (mp, s)
      else do {
        t \<leftarrow> rb_link_node node parent link (mempage_root s);
        t \<leftarrow> rb_insert_color node t;
        Some (0, s\<lparr>mempage_root := t\<rparr>) }) }"

definition mempage_insert :: "u64 \<Rightarrow> nat \<Rightarrow> 'a page_state_scheme \<Rightarrow> (nat \<times> 'a page_state_scheme) option" where
  "mempage_insert addr mp s = mempage_insert_lookup addr mp (mp_mod mp (mp_addr_update (\<lambda>_. addr)) s)"

definition mempage_rb_tree_update :: "u64 \<Rightarrow> nat \<Rightarrow> 'a page_state_scheme \<Rightarrow> 'a page_state_scheme option" where
  "mempage_rb_tree_update addr mp s = do {
     t \<leftarrow> rb_erase mp (mempage_root s);
     (_, s) \<leftarrow> mempage_insert addr mp (s\<lparr>mempage_root := t\<rparr>);
     Some s }"

definition lru_list_insert :: "nat \<Rightarrow> list_store \<Rightarrow> list_store" where
  "lru_list_insert c l = list_add (Entry c) Head l"

definition lru_list_update :: "nat \<Rightarrow> list_store \<Rightarrow> list_store" where
  "lru_list_update c l =
     (if list_is_first (Entry c) Head l then l else list_add (Entry c) Head (list_del (Entry c) l))"

definition mempage_cluster_lru_list_insert :: "nat \<Rightarrow> 'a page_state_scheme \<Rightarrow> 'a page_state_scheme" where
  "mempage_cluster_lru_list_insert c s =
     s\<lparr>cluster_lru_list := lru_list_insert c (cluster_lru_list s)\<rparr>"

definition mempage_cluster_lru_list_update :: "nat \<Rightarrow> 'a page_state_scheme \<Rightarrow> 'a page_state_scheme" where
  "mempage_cluster_lru_list_update c s =
     s\<lparr>cluster_lru_list := lru_list_update c (cluster_lru_list s)\<rparr>"

section \<open>Taking a page offline\<close>

definition kernel_offline :: "otype \<Rightarrow> string" where
  "kernel_offline type = (if type = OFFLINE_HARD then ''/sys/devices/system/memory/hard_offline_page''
     else ''/sys/devices/system/memory/soft_offline_page'')"

definition offline_choice :: config_choice_t where
  "offline_choice = [(''off'', 0), (''account'', 1), (''soft'', 2), (''hard'', 3), (''soft-then-hard'', 4)]"

definition otype_of :: "int \<Rightarrow> otype" where
  "otype_of n = (if n = 0 then OFFLINE_OFF else if n = 1 then OFFLINE_ACCOUNT else if n = 2 then OFFLINE_SOFT
     else if n = 3 then OFFLINE_HARD else OFFLINE_SOFT_THEN_HARD)"

definition do_memory_offline :: "u64 \<Rightarrow> otype \<Rightarrow> 'a page_state_scheme \<Rightarrow> int \<times> 'a page_state_scheme" where
  "do_memory_offline addr type s = sysfs_write (kernel_offline type) ''%#llx'' [PU addr] s"

definition memory_offline :: "u64 \<Rightarrow> 'a page_state_scheme \<Rightarrow> int \<times> 'a page_state_scheme" where
  "memory_offline addr s =
     (if offline s = OFFLINE_SOFT_THEN_HARD
      then let (r, s) = do_memory_offline addr OFFLINE_SOFT s
           in if r < 0
              then do_memory_offline addr OFFLINE_HARD
                     (Lprintf ''Soft offlining of page %llx failed, trying hard offlining\<newline>'' [PU addr] s)
              else (0, s)
      else do_memory_offline addr (offline s) s)"

definition offline_action :: "nat \<Rightarrow> u64 \<Rightarrow> 'a page_state_scheme \<Rightarrow> 'a page_state_scheme" where
  "offline_action mp addr s =
     (if offline s = OFFLINE_OFF \<or> offline s = OFFLINE_ACCOUNT then s
      else let s = Lprintf ''Offlining page %llx\<newline>'' [PU addr] s;
               (r, s) = memory_offline addr s
           in if r < 0
              then let s = Lprintf ''Offlining page %llx failed: %s\<newline>'' [PU addr, PS (errno_msg s)] s
                   in mp_mod mp (\<lambda>p. p\<lparr>mp_offlined := PAGE_OFFLINE_FAILED,
                        mp_multiplier := ucast (ucast (mp_multiplier p) * offline_retry_backoff_base s)\<rparr>) s
              else mp_mod mp (\<lambda>p. p\<lparr>mp_offlined := PAGE_OFFLINE\<rparr>) s)"

section \<open>Accounting\<close>

definition counter_trigger :: "string \<Rightarrow> int \<Rightarrow> bucket_conf \<Rightarrow> bool \<Rightarrow> 'a page_state_scheme \<Rightarrow> 'a page_state_scheme" where
  "counter_trigger msg t bc sync s =
     (let bk = mr_bucket s;
          thresh = bucket_output bc bk;
          out = printf ''%s: %s'' [PS msg, PS thresh];
          s = (if bc_log bc \<noteq> 0 then Gprintf ''%s\<newline>'' [PS out] s else s)
      in case bc_trigger bc of
           None \<Rightarrow> s
         | Some trigger \<Rightarrow>
             let env = [printf ''THRESHOLD=%s'' [PS thresh], printf ''TOTALCOUNT=%u'' [PU (mr_count s)]] @
                   (if t \<noteq> 0 then [printf ''LASTEVENT=%ld'' [PN t]] else []) @
                   [printf ''AGETIME=%u'' [PU (bc_agetime bc)], printf ''MESSAGE=%s'' [PS out],
                    printf ''THRESHOLD_COUNT=%u'' [PU (lb_count bk + lb_excess bk)]]
             in run_trigger trigger None env sync ''page-error-counter'' s)"

text \<open>Whether the event is accounted at all: the guards at the top of \<open>account_page_error\<close>.\<close>

definition page_error_ignored :: "mce \<Rightarrow> 'a page_state_scheme \<Rightarrow> bool" where
  "page_error_ignored m s \<longleftrightarrow>
     (let cpu = (if m_extcpu m \<noteq> 0 then m_extcpu m else ucast (m_cpu m))
      in offline s = OFFLINE_OFF \<or> \<not> has (m_status m) MCI_STATUS_ADDRV \<or> has (m_status m) MCI_STATUS_UC \<or>
         (cpu_type s = CPU_SANDY_BRIDGE_EP \<and> m_bank m = 1 \<and> cpu = 0))"

definition page_of :: "u64 \<Rightarrow> u64" where
  "page_of addr = addr AND NOT (PAGE_SIZE - 1)"

definition replacement_event :: "int \<Rightarrow> 'a page_state_scheme \<Rightarrow> 'a page_state_scheme" where
  "replacement_event t s =
     (let s = s\<lparr>mr_count := mr_count s + 1\<rparr>;
          bc = mp_replacement_trigger_conf s;
          (over, b) = bucket_account_t bc (mr_bucket s) 1 t 1;
          s = s\<lparr>mr_bucket := b\<rparr>
      in if over
         then counter_trigger (printf ''Replacements of page correctable error counter exceed threshold %s''
                [PS (bucket_output bc b)]) t bc False s
         else s)"

text \<open>The counter of the page: found, made or reused.\<close>

definition init_bucket :: "nat \<Rightarrow> 'a page_state_scheme \<Rightarrow> 'a page_state_scheme" where
  "init_bucket mp s = mp_mod mp (\<lambda>p. p\<lparr>mp_ce := (mp_ce p)\<lparr>et_bucket := bucket_init (now s) (et_bucket (mp_ce p))\<rparr>\<rparr>) s"

definition page_counter :: "u64 \<Rightarrow> int \<Rightarrow> 'a page_state_scheme \<Rightarrow> ('a page_state_scheme, nat) outcome" where
  "page_counter addr t s =
     (case mempage_lookup addr s of
        None \<Rightarrow> Abort s
      | Some mp \<Rightarrow>
          if mp = 0 \<and> corr_err_counters s < max_corr_err_counters s then
            andthen (mempage_alloc s) (\<lambda>mp s.
              let s = init_bucket mp s
              in case mempage_insert addr mp s of
                   None \<Rightarrow> Abort s
                 | Some (_, s) \<Rightarrow>
                     let s = mempage_cluster_lru_list_insert (to_cluster mp) s;
                         s = mp_mod mp (mp_multiplier_update (\<lambda>_. ucast NO_OFFLINE_RETRY)) s
                     in Ret mp (s\<lparr>corr_err_counters := corr_err_counters s + 1\<rparr>))
          else if mp = 0 then
            andthen (mempage_replace s) (\<lambda>mp s.
              let s = init_bucket mp s
              in case mempage_rb_tree_update addr mp s of
                   None \<Rightarrow> Abort s
                 | Some s \<Rightarrow>
                     Ret mp (replacement_event t (mempage_cluster_lru_list_update (to_cluster mp) s)))
          else Ret mp (mempage_cluster_lru_list_update (to_cluster mp) s))"

text \<open>What happens when the bucket of the page overflows. The soft triggers run around the offlining.\<close>

definition soft_trigger :: "string \<Rightarrow> string option \<Rightarrow> string \<Rightarrow> u64 \<Rightarrow> memdimm \<Rightarrow> int \<Rightarrow> nat \<Rightarrow>
    'a page_state_scheme \<Rightarrow> 'a page_state_scheme" where
  "soft_trigger what trigger reporter addr md t mp s =
     (let args = printf ''%llu'' [PU addr];
          argv = (case trigger of None \<Rightarrow> [] | Some tr \<Rightarrow> [tr, args]);
          msg = printf (what @ '' soft trigger run for page %llu'') [PU addr]
      in memdb_trigger msg md t (mp_ce (mp_at s mp)) ((page_trigger_conf s)\<lparr>bc_trigger := trigger\<rparr>) (Some argv) True reporter s)"

definition page_threshold :: "nat \<Rightarrow> u64 \<Rightarrow> int \<Rightarrow> mce \<Rightarrow> int \<Rightarrow> int \<Rightarrow> 'a page_state_scheme \<Rightarrow> 'a page_state_scheme" where
  "page_threshold mp addr t m channel dimm s =
     (let off = mp_offlined (mp_at s mp);
          base = offline_retry_backoff_base s
      in if (base = OFFLINE_RETRY_EXP_BACKOFF \<and> off = PAGE_OFFLINE) \<or> (base = NO_OFFLINE_RETRY \<and> off \<noteq> PAGE_ONLINE)
         then s
         else
           let thresh = bucket_output (page_trigger_conf s) (et_bucket (mp_ce (mp_at s mp)));
               (k, s) = get_memdimm (sint (m_socketid m)) channel dimm True s;
               md = the (md_at (the k) s);
               msg = printf ''Corrected memory errors on page %llx exceed threshold %s'' [PU addr, PS thresh];
               s = memdb_trigger msg md t (mp_ce (mp_at s mp)) (page_trigger_conf s) None False ''page'' s;
               s = mp_mod mp (mp_triggered_update (\<lambda>_. True)) s
           in if offline s = OFFLINE_SOFT \<or> offline s = OFFLINE_SOFT_THEN_HARD
              then let s = soft_trigger ''pre'' (page_error_pre_soft_trigger s) ''page_pre_soft'' addr md t mp s;
                       s = offline_action mp addr s
                   in soft_trigger ''post'' (page_error_post_soft_trigger s) ''page_post_soft'' addr md t mp s
              else offline_action mp addr s)"

definition account_page_error :: "mce \<Rightarrow> int \<Rightarrow> int \<Rightarrow> 'a page_state_scheme \<Rightarrow> ('a page_state_scheme, unit) outcome" where
  "account_page_error m channel dimm s =
     (if page_error_ignored m s then Ret () s
      else
        let t = sint (m_time m);
            addr = page_of (m_addr m)
        in andthen (page_counter addr t s) (\<lambda>mp s.
             let s = mp_mod mp (\<lambda>p. p\<lparr>mp_ce := (mp_ce p)\<lparr>et_count := et_count (mp_ce p) + 1\<rparr>\<rparr>) s;
                 (over, b) = bucket_account_t (page_trigger_conf s) (et_bucket (mp_ce (mp_at s mp))) 1 t
                               (mp_multiplier (mp_at s mp));
                 s = mp_mod mp (\<lambda>p. p\<lparr>mp_ce := (mp_ce p)\<lparr>et_bucket := b\<rparr>\<rparr>) s
             in Ret () (if over then page_threshold mp addr t m channel dimm s else s)))"

section \<open>Report and setup\<close>

definition dump_page :: "mempage \<Rightarrow> bucket_conf \<Rightarrow> string" where
  "dump_page p bc =
     printf (''%llx: total %u seen '' @ CHR 0x22 # ''%s'' @ CHR 0x22 # '' %s%s\<newline>'')
       [PU (mp_addr p), PU (et_count (mp_ce p)), PS (bucket_output bc (et_bucket (mp_ce p))),
        PS (page_state_name (mp_offlined p)), PS (if mp_triggered p then '' triggered'' else [])] @ ''\<newline>''"

definition dump_page_errors :: "'a page_state_scheme \<Rightarrow> string option" where
  "dump_page_errors s = do {
     ps \<leftarrow> Option.bind (rb_first (mempage_root s)) (walk (\<lambda>p. rb_next p (mempage_root s)));
     Some ((if ps = [] then [] else ''Per page corrected memory statistics:\<newline>'') @
           concat (map (\<lambda>p. dump_page (mp_at s p) (page_trigger_conf s)) ps)) }"

text \<open>\<open>roundup(max_corr_err_counters, N)\<close>: \<open>N\<close> is an \<open>unsigned long\<close>, the result is cut to an \<open>int\<close>.\<close>

definition roundup_counters :: "int \<Rightarrow> int" where
  "roundup_counters n =
     (let N = (of_nat N_SLOTS :: u64) in sint (ucast ((of_int n + N - 1) div N * N) :: u32))"

definition page_setup :: "'a page_state_scheme \<Rightarrow> ('a page_state_scheme, unit) outcome" where
  "page_setup s =
     andthen (config_trigger ''page'' ''memory-ce'' (page_trigger_conf s) s) (\<lambda>bc s.
     let s = s\<lparr>page_trigger_conf := bc\<rparr> in
     andthen (config_trigger ''page'' ''memory-ce-counter-replacement'' (mp_replacement_trigger_conf s) s) (\<lambda>bc s.
     let s = s\<lparr>mp_replacement_trigger_conf := bc\<rparr> in
     andthen (config_bool ''page'' ''memory-ce-offline-retry'' s) (\<lambda>b s.
     let s = (if b = 1 then s\<lparr>offline_retry_backoff_base := OFFLINE_RETRY_EXP_BACKOFF\<rparr> else s) in
     andthen (config_choice ''page'' ''memory-ce-action'' offline_choice s) (\<lambda>n s.
     let s = (if n \<ge> 0 then s\<lparr>offline := otype_of n\<rparr> else s);
         s = (if offline s \<noteq> OFFLINE_OFF \<and> offline s \<noteq> OFFLINE_ACCOUNT \<and>
                 \<not> sysfs_available (kernel_offline (offline s)) s
              then (Lprintf ''Kernel does not support page offline interface\<newline>'' [] s)\<lparr>offline := OFFLINE_ACCOUNT\<rparr>
              else s);
         s = s\<lparr>page_error_pre_soft_trigger := config_string ''page'' ''memory-pre-sync-soft-ce-trigger'' s\<rparr> in
     andthen (check_trigger (page_error_pre_soft_trigger s) ''page soft pre'' s) (\<lambda>_ s.
     let s = s\<lparr>page_error_post_soft_trigger := config_string ''page'' ''memory-post-sync-soft-ce-trigger'' s\<rparr> in
     andthen (check_trigger (page_error_post_soft_trigger s) ''page soft post'' s) (\<lambda>_ s.
     let n = max_corr_err_counters s;
         s = s\<lparr>max_corr_err_counters := roundup_counters n\<rparr>;
         s = (if n \<noteq> max_corr_err_counters s
              then Lprintf ''Round up max-corr-err-counters from %d to %d\<newline>'' [PN n, PN (max_corr_err_counters s)] s
              else s)
     in Ret () (s\<lparr>mr_bucket := bucket_init (now s) (mr_bucket s)\<rparr>)))))))"


section \<open>The search\<close>

lemma lookup_loop_tree:
  assumes "tree_at (rb_nodes t) par a" and "sorted_wrt (<) (map key (ids a))"
  shows "lookup_loop addr key t (rid a) = Some (hd0 (filter (\<lambda>n. key n = addr) (ids a)))"
  using assms
proof (induction a arbitrary: par)
  case Lf
  show ?case by (subst lookup_loop.simps) simp
next
  case (Nd l c x r)
  have x: "x \<noteq> 0" "rb_left (rb_nodes t x) = rid l" "rb_right (rb_nodes t x) = rid r" using Nd.prems(1) by simp_all
  have o: "\<And>y. y \<in> set (ids l) \<Longrightarrow> key y < key x" "\<And>y. y \<in> set (ids r) \<Longrightarrow> key x < key y"
    using Nd.prems(2) by (auto simp: sorted_wrt_append)
  have IH: "lookup_loop addr key t (rid l) = Some (hd0 (filter (\<lambda>n. key n = addr) (ids l)))"
    "lookup_loop addr key t (rid r) = Some (hd0 (filter (\<lambda>n. key n = addr) (ids r)))"
    using Nd by (auto simp: sorted_wrt_append)
  have none: "addr \<le> key x \<Longrightarrow> filter (\<lambda>n. key n = addr) (ids r) = []"
    "key x \<le> addr \<Longrightarrow> filter (\<lambda>n. key n = addr) (ids l) = []"
    using o by (force simp: filter_empty_conv dest: leD)+
  show ?case
  proof (cases addr "key x" rule: linorder_cases)
    case less
    then show ?thesis using x IH none(1) by (subst lookup_loop.simps) simp
  next
    case equal
    then show ?thesis using x none(2) by (subst lookup_loop.simps) simp
  next
    case greater
    then show ?thesis using x IH none(2) by (subst lookup_loop.simps) auto
  qed
qed

text \<open>The place where \<open>mempage_insert_lookup\<close> links a new address.\<close>

lemma place_loop_tree:
  assumes "tree_at (rb_nodes t) (pid fs) a" and "sorted_wrt (<) (map key (ids a))" and "addr \<notin> key ` set (ids a)"
  shows "\<exists>gs. place_loop addr key t (rid a) (pid fs) (link_of fs) = Some (0, pid (gs @ fs), link_of (gs @ fs)) \<and>
    a = plug gs Lf \<and> (\<forall>x\<in>set (lids gs). key x < addr) \<and> (\<forall>x\<in>set (rids gs). addr < key x)"
  using assms
proof (induction a arbitrary: fs)
  case Lf
  show ?case by (intro exI [of _ "[]"]) (simp add: place_loop.simps)
next
  case (Nd l c x r)
  have x: "x \<noteq> 0" "rb_left (rb_nodes t x) = rid l" "rb_right (rb_nodes t x) = rid r" "addr \<noteq> key x"
    using Nd.prems(1,3) by auto
  have o: "\<And>y. y \<in> set (ids l) \<Longrightarrow> key y < key x" "\<And>y. y \<in> set (ids r) \<Longrightarrow> key x < key y"
    using Nd.prems(2) by (auto simp: sorted_wrt_append)
  show ?case
  proof (cases "addr < key x")
    case True
    obtain gs where g: "place_loop addr key t (rid l) x (LLeft x) =
        Some (0, pid (gs @ FL c x r # fs), link_of (gs @ FL c x r # fs))" "l = plug gs Lf"
      "\<forall>x\<in>set (lids gs). key x < addr" "\<forall>x\<in>set (rids gs). addr < key x"
      using Nd.IH(1) [of "FL c x r # fs"] Nd.prems by (auto simp: sorted_wrt_append)
    have "place_loop addr key t x (pid fs) (link_of fs) = place_loop addr key t (rid l) x (LLeft x)"
      using x True by (subst place_loop.simps) simp
    then show ?thesis using g True
      by (intro exI [of _ "gs @ [FL c x r]"]) (auto simp: plug_append lids_append intro: less_trans o)
  next
    case False
    then have lt: "key x < addr" using x(4) by auto
    obtain gs where g: "place_loop addr key t (rid r) x (LRight x) =
        Some (0, pid (gs @ FR c x l # fs), link_of (gs @ FR c x l # fs))" "r = plug gs Lf"
      "\<forall>x\<in>set (lids gs). key x < addr" "\<forall>x\<in>set (rids gs). addr < key x"
      using Nd.IH(2) [of "FR c x l # fs"] Nd.prems by (auto simp: sorted_wrt_append)
    have "place_loop addr key t x (pid fs) (link_of fs) = place_loop addr key t (rid r) x (LRight x)"
      using x lt by (subst place_loop.simps) auto
    then show ?thesis using g lt
      by (intro exI [of _ "gs @ [FR c x l]"]) (auto simp: plug_append lids_append intro: less_trans o)
  qed
qed

text \<open>\<open>indexed key t xs\<close>: the tree holds the nodes \<open>xs\<close> in the order of their keys.\<close>

definition indexed :: "(nat \<Rightarrow> u64) \<Rightarrow> rb_tree \<Rightarrow> nat list \<Rightarrow> bool" where
  "indexed key t xs \<longleftrightarrow> rb_holds t xs \<and> sorted_wrt (<) (map key xs)"

lemma indexed_lookup:
  "indexed key t xs \<Longrightarrow> lookup_loop addr key t (rb_root t) = Some (hd0 (filter (\<lambda>n. key n = addr) xs))"
  using lookup_loop_tree by (auto simp: indexed_def rb_holds_def rep_def)

lemma indexed_distinct: "indexed key t xs \<Longrightarrow> distinct xs \<and> 0 \<notin> set xs"
  unfolding indexed_def using rb.nodes by blast

lemma indexed_cong: "indexed key t xs \<Longrightarrow> (\<And>x. x \<in> set xs \<Longrightarrow> key' x = key x) \<Longrightarrow> indexed key' t xs"
  by (simp add: indexed_def cong: map_cong)

lemma indexed_unique:
  "indexed key t xs \<Longrightarrow> x \<in> set xs \<Longrightarrow> filter (\<lambda>n. key n = key x) xs = [x]"
proof -
  assume i: "indexed key t xs" and "x \<in> set xs"
  then obtain us vs where xs: "xs = us @ x # vs" by (meson split_list)
  have "\<forall>y\<in>set us. key y < key x" "\<forall>y\<in>set vs. key x < key y" using i by (auto simp: indexed_def xs sorted_wrt_append)
  then have "filter (\<lambda>n. key n = key x) us = []" "filter (\<lambda>n. key n = key x) vs = []" by (auto simp: filter_empty_conv)
  then show ?thesis by (simp add: xs)
qed

lemma indexed_insert:
  assumes "indexed key t xs" and "x \<noteq> 0" "x \<notin> set xs" and "key x \<notin> key ` set xs"
  shows "\<exists>gs t1 t2 ys. place_loop (key x) key t (rb_root t) 0 LRoot = Some (0, pid gs, link_of gs) \<and>
    rb_link_node x (pid gs) (link_of gs) t = Some t1 \<and> rb_insert_color x t1 = Some t2 \<and>
    indexed key t2 ys \<and> set ys = insert x (set xs)"
proof -
  obtain a where a: "rep t [] a" "rb_inv a" "ids a = xs" and srt: "sorted_wrt (<) (map key xs)"
    using assms(1) by (auto simp: indexed_def rb_holds_def)
  obtain gs where g: "place_loop (key x) key t (rid a) 0 LRoot = Some (0, pid gs, link_of gs)" "a = plug gs Lf"
    "\<forall>y\<in>set (lids gs). key y < key x" "\<forall>y\<in>set (rids gs). key x < key y"
    using place_loop_tree [of t "[]" a key "key x"] a srt assms(4) by (auto simp: rep_def)
  have xs: "xs = lids gs @ rids gs" using a(3) g(2) by (simp add: plug_ids)
  have R: "rep t gs Lf" using a(1) rep_plug g(2) by blast
  have c: "set (cids gs) = set (lids gs @ rids gs)" by (induction gs rule: cids.induct) auto
  obtain t1 t2 where t: "rb_link_node x (pid gs) (link_of gs) t = Some t1" "rb_insert_color x t1 = Some t2"
    "rb_holds t2 (lids gs @ x # rids gs)"
    using rb_insert_holds [OF R _ assms(2)] a(2) g(2) assms(3) c xs by auto
  have "sorted_wrt (<) (map key (lids gs @ x # rids gs))"
    using srt g(3,4) unfolding xs by (auto simp: sorted_wrt_append)
  then have "indexed key t2 (lids gs @ x # rids gs)" using t(3) by (simp add: indexed_def)
  moreover have "rb_root t = rid a" using a(1) by (simp add: rep_def)
  moreover have "set (lids gs @ x # rids gs) = insert x (set xs)" using xs by auto
  ultimately show ?thesis using g(1) t(1,2) by metis
qed


section \<open>The list of clusters\<close>

text \<open>Once the second counter of the first cluster has been made, no entry leads back to the head any more, and the
  last entry of the list is the first cluster for good.\<close>

definition stuck :: "list_store \<Rightarrow> bool" where
  "stuck l \<longleftrightarrow> lprev l Head = Entry 0 \<and> lnext l Head \<noteq> Head \<and> (\<forall>c. lnext l (Entry c) \<noteq> Head)"

lemma stuck_add: "stuck l \<Longrightarrow> stuck (list_add (Entry c) Head l)"
  by (auto simp: stuck_def list_add_def list_add_between_def)

lemma stuck_insert: "stuck l \<Longrightarrow> stuck (lru_list_insert c l)"
  by (simp add: lru_list_insert_def stuck_add)

lemma stuck_update: "stuck l \<Longrightarrow> stuck (lru_list_update c l)"
proof -
  assume s: "stuck l"
  then have "Head \<noteq> lnext l (Entry c)" by (metis stuck_def)
  then have "stuck (list_del (Entry c) l)" using s
    by (auto simp: stuck_def list_del_def list_del_between_def)
  then show ?thesis using s by (simp add: lru_list_update_def stuck_add)
qed

text \<open>The list after \<open>k\<close> counters have been made.\<close>

definition lru_ok :: "nat \<Rightarrow> list_store \<Rightarrow> bool" where
  "lru_ok k l \<longleftrightarrow> (if k = 0 then ring l Head [] \<and> (\<forall>c. lnext l (Entry c) \<noteq> Head)
     else if k = 1 then ring l Head [Entry 0] \<and> (\<forall>c. c \<noteq> 0 \<longrightarrow> lnext l (Entry c) \<noteq> Head)
     else stuck l)"

lemma lru_ok_insert: "lru_ok k l \<Longrightarrow> k < 2 \<longrightarrow> c = 0 \<Longrightarrow> lru_ok (Suc k) (lru_list_insert c l)"
proof -
  assume l: "lru_ok k l" and c: "k < 2 \<longrightarrow> c = 0"
  consider "k = 0" | "k = 1" | "k \<ge> 2" by linarith
  then show ?thesis
  proof cases
    case 1
    then have "ring (list_add (Entry 0) Head l) Head [Entry 0]" using ring_add [of l Head "[]" "Entry 0"] l by (simp add: lru_ok_def)
    then show ?thesis using 1 l c by (auto simp: lru_ok_def lru_list_insert_def list_add_def list_add_between_def ring_def)
  next
    case 2
    then show ?thesis using l c
      by (auto simp: lru_ok_def lru_list_insert_def stuck_def ring_def list_add_def list_add_between_def)
  next
    case 3
    then show ?thesis using l stuck_insert by (simp add: lru_ok_def)
  qed
qed

lemma lru_ok_update: "lru_ok k l \<Longrightarrow> k > 0 \<Longrightarrow> k = 1 \<longrightarrow> c = 0 \<Longrightarrow> lru_ok k (lru_list_update c l)"
  by (cases "k = 1") (auto simp: lru_ok_def stuck_update lru_list_update_def [of 0] list_is_first_def ring_def)

section \<open>The invariant\<close>

definition slots_ok :: "'a page_state_scheme \<Rightarrow> bool" where
  "slots_ok s \<longleftrightarrow> (let k = nat (corr_err_counters s) in
     0 \<le> corr_err_counters s \<and> corr_err_counters s \<le> max_corr_err_counters s \<and> 0 < max_corr_err_counters s \<and>
     63 dvd nat (max_corr_err_counters s) \<and> mp_clusters s = (k + 62) div 63 \<and>
     (case mp_cluster s of
        None \<Rightarrow> k = 0
      | Some c \<Rightarrow> k > 0 \<and> c < mp_clusters s \<and> mp_used s c \<le> 63 \<and>
          (corr_err_counters s < max_corr_err_counters s \<longrightarrow> c = (k - 1) div 63 \<and> mp_used s c = (k - 1) mod 63 + 1)))"

definition fresh_ok :: "'a page_state_scheme \<Rightarrow> bool" where
  "fresh_ok s \<longleftrightarrow> (\<forall>p > nat (corr_err_counters s). to_cluster p < mp_clusters s \<longrightarrow> et_count (mp_ce (mp_at s p)) = 0)"

definition page_ok :: "'a page_state_scheme \<Rightarrow> bool" where
  "page_ok s \<longleftrightarrow> slots_ok s \<and> fresh_ok s \<and> lru_ok (nat (corr_err_counters s)) (cluster_lru_list s) \<and>
     (\<exists>xs. indexed (key_at s) (mempage_root s) xs \<and> set xs = {1..nat (corr_err_counters s)})"

text \<open>The count kept for a page, if there is any.\<close>

definition page_count :: "'a page_state_scheme \<Rightarrow> u64 \<Rightarrow> u32 option" where
  "page_count s a = (case mempage_lookup a s of
     Some mp \<Rightarrow> if mp = 0 then None else Some (et_count (mp_ce (mp_at s mp))) | None \<Rightarrow> None)"

text \<open>\<open>same_pages\<close>: nothing changes but the state of pages other than address and count.\<close>

definition same_env :: "'a page_state_scheme \<Rightarrow> 'a page_state_scheme \<Rightarrow> bool" where
  "same_env s s' \<longleftrightarrow> max_corr_err_counters s' = max_corr_err_counters s \<and> offline s' = offline s \<and>
     cpu_type s' = cpu_type s \<and> os_mmap s' = os_mmap s \<and> now s' = now s \<and> page_state.more s' = page_state.more s"

definition same_pages :: "'a page_state_scheme \<Rightarrow> 'a page_state_scheme \<Rightarrow> bool" where
  "same_pages s s' \<longleftrightarrow> same_env s s' \<and> corr_err_counters s' = corr_err_counters s \<and>
     mp_cluster s' = mp_cluster s \<and> mp_used s' = mp_used s \<and> mp_clusters s' = mp_clusters s \<and>
     mempage_root s' = mempage_root s \<and> cluster_lru_list s' = cluster_lru_list s \<and>
     (\<forall>p. mp_addr (mp_at s' p) = mp_addr (mp_at s p) \<and> et_count (mp_ce (mp_at s' p)) = et_count (mp_ce (mp_at s p)))"

lemma same_env_trans: "same_env s t \<Longrightarrow> same_env t u \<Longrightarrow> same_env s u"
  by (simp add: same_env_def)

lemma same_pages_refl [frame]: "same_pages s s"
  by (simp add: same_pages_def same_env_def)

lemma same_pages_trans: "same_pages s t \<Longrightarrow> same_pages t u \<Longrightarrow> same_pages s u"
  by (simp add: same_pages_def same_env_def)

lemma same_pages_ok: "same_pages s s' \<Longrightarrow> page_ok s \<Longrightarrow> page_ok s'"
proof -
  assume p: "same_pages s s'" and ok: "page_ok s"
  have "key_at s' = key_at s" using p by (auto simp: same_pages_def key_at_def)
  moreover have "slots_ok s' = slots_ok s"
    using p unfolding slots_ok_def same_pages_def same_env_def Let_def by (auto split: option.split)
  ultimately show ?thesis using p ok by (simp add: same_pages_def page_ok_def fresh_ok_def)
qed

lemma same_pages_count: "same_pages s s' \<Longrightarrow> page_count s' = page_count s"
proof -
  assume p: "same_pages s s'"
  have "key_at s' = key_at s" using p by (auto simp: same_pages_def key_at_def)
  then show ?thesis using p by (auto simp: page_count_def mempage_lookup_def same_pages_def split: option.split)
qed

lemma same_pages_trig: "trig_step s s' \<Longrightarrow> same_pages s s'"
  unfolding trig_step_def same_pages_def same_env_def by auto

lemma same_pages_msg: "msg_step s s' \<Longrightarrow> same_pages s s'"
  by (intro same_pages_trig msg_trig_step)

lemma same_pages_mod:
  "(\<And>p. mp_addr (f p) = mp_addr p \<and> et_count (mp_ce (f p)) = et_count (mp_ce p)) \<Longrightarrow> same_pages s (mp_mod mp f s)"
  by (simp add: same_pages_def same_env_def mp_mod_def)

lemma same_pages_memdimm: "same_pages s (snd (get_memdimm sock ch d i s))"
  by (auto simp: same_pages_def same_env_def get_memdimm_def Let_def)

lemma same_pages_if [frame]:
  "(b \<Longrightarrow> same_pages s t) \<Longrightarrow> (\<not> b \<Longrightarrow> same_pages s u) \<Longrightarrow> same_pages s (if b then t else u)"
  by simp

lemmas same_pages_steps [frame] =
  same_pages_mod [THEN same_pages_trans [rotated]]
  same_pages_memdimm [THEN same_pages_trans [rotated]]
  memdb_trigger_frame [THEN same_pages_trig, THEN same_pages_trans [rotated]]
  msg_step_printf [OF msg_step_refl, THEN same_pages_msg, THEN same_pages_trans [rotated]]
  sysfs_write_frame [OF msg_step_refl, THEN same_pages_msg, THEN same_pages_trans [rotated]]

lemma memory_offline_frame [frame]: "same_pages s t \<Longrightarrow> same_pages s (snd (memory_offline a t))"
  unfolding memory_offline_def do_memory_offline_def split_beta Let_def if_distrib [of snd] snd_conv by (intro frame)

lemma offline_action_frame [frame]: "same_pages s t \<Longrightarrow> same_pages s (offline_action mp a t)"
  unfolding offline_action_def split_beta Let_def by (intro frame) simp_all

lemma soft_trigger_frame [frame]: "same_pages s t \<Longrightarrow> same_pages s (soft_trigger what tr reporter a md n mp t)"
  unfolding soft_trigger_def Let_def by (intro frame)

lemma page_threshold_frame [frame]: "same_pages s t \<Longrightarrow> same_pages s (page_threshold mp a n m ch d t)"
  unfolding page_threshold_def split_beta Let_def by (intro frame) simp_all

lemma counter_trigger_frame [frame]: "same_pages s t \<Longrightarrow> same_pages s (counter_trigger msg n bc sync t)"
proof (erule same_pages_trans)
  have "trig_step t (if b then Gprintf f a t else t)" for b f a
    by (simp add: msg_steps_trig(4) [OF trig_step_refl] trig_step_refl)
  then show "same_pages t (counter_trigger msg n bc sync t)"
    unfolding counter_trigger_def Let_def
    by (cases "bc_trigger bc") (simp_all add: same_pages_trig trig_step_run split del: if_split)
qed


lemma replacement_event_frame [frame]: "same_pages s t \<Longrightarrow> same_pages s (replacement_event n t)"
proof (erule same_pages_trans)
  have step: "same_pages t (t\<lparr>mr_count := c, mr_bucket := b\<rparr>)" for c b by (simp add: same_pages_def same_env_def)
  show "same_pages t (replacement_event n t)"
    unfolding replacement_event_def Let_def split_beta by (auto intro!: counter_trigger_frame step)
qed

end
