(* ===== verification/PageCount.thy ===== *)
theory PageCount
  imports Page
begin

text \<open>
  Correctness of the page accounting of \<^verbatim>\<open>src/page.c\<close>: making and reusing counters keeps the index, and every
  accounted error raises the counter of its page and of no other.
\<close>

section \<open>Making and reusing a counter\<close>

lemma N_SLOTS_63: "N_SLOTS = 63"
  by (simp add: N_SLOTS_def)

lemma to_cluster_slot: "i < 63 \<Longrightarrow> to_cluster (slot c i) = c"
  by (simp add: to_cluster_def slot_def N_SLOTS_63)

lemma slot_div_mod: "slot (k div 63) (k mod 63) = k + 1"
  by (simp add: slot_def N_SLOTS_63)

text \<open>Unless memory runs out, making a counter gives the slot after the last one in use, whatever the cluster.\<close>

lemma mempage_alloc_next:
  assumes "slots_ok s" "fresh_ok s" "corr_err_counters s < max_corr_err_counters s" "\<forall>c. os_mmap s c"
  defines "k \<equiv> nat (corr_err_counters s)"
  shows "\<exists>mps cls us. mempage_alloc s = Ret (k + 1) (s\<lparr>mp_cluster := Some (k div 63), mp_clusters := cls, mp_used := us, mp_at := mps\<rparr>) \<and>
    cls = (k + 63) div 63 \<and> us (k div 63) = k mod 63 + 1 \<and>
    (\<forall>p. 0 < p \<and> p \<le> k \<longrightarrow> mps p = mp_at s p) \<and> (\<forall>p>k. to_cluster p < cls \<longrightarrow> et_count (mp_ce (mps p)) = 0)"
proof (cases "k mod 63 = 0")
  case True
  then obtain q where q: "k = 63 * q" by (metis mod_eq_0_iff_dvd dvd_def)
  have c: "mp_clusters s = q" using assms(1) q by (simp add: slots_ok_def Let_def k_def)
  have full: "case mp_cluster s of None \<Rightarrow> True | Some c \<Rightarrow> mp_used s c = 63"
  proof (cases "mp_cluster s")
    case (Some c)
    then have "k > 0" "mp_used s c = (k - 1) mod 63 + 1" using assms(1,3) by (auto simp: slots_ok_def Let_def k_def)
    moreover have "(k - 1) mod 63 = 62" if "k > 0" using q that by (cases q) auto
    ultimately show ?thesis using Some by simp
  qed simp
  have old: "to_cluster p \<noteq> q" if "0 < p" "p \<le> k" for p
    using that q unfolding to_cluster_def N_SLOTS_63 by (simp add: div_less_iff_less_mult less_imp_neq)
  have new: "to_cluster p = q \<or> to_cluster p < mp_clusters s" if "to_cluster p < q + 1" for p using that c by linarith
  have z: "et_count (mp_ce zero_mempage) = 0" by (simp add: zero_mempage_def)
  show ?thesis
    unfolding mempage_alloc_def Let_def N_SLOTS_63 using full assms(4) c q old new assms(2) z
    by (intro exI [of _ "\<lambda>p. if to_cluster p = q \<and> p \<noteq> 0 then zero_mempage else mp_at s p"]
        exI [of _ "q + 1"] exI [of _ "(mp_used s)(q := 1)"] conjI) (auto simp: slot_def N_SLOTS_63 fresh_ok_def k_def)
next
  case False
  then have k: "k > 0" by (cases k) auto
  obtain c where c: "mp_cluster s = Some c" "c = (k - 1) div 63" "mp_used s c = (k - 1) mod 63 + 1"
    using assms(1,3) k unfolding slots_ok_def Let_def k_def by (auto split: option.splits)
  obtain q r where qr: "k = 63 * q + Suc r" "Suc r < 63"
    using False by (metis mult_div_mod_eq not0_implies_Suc mod_less_divisor zero_less_numeral)
  have e: "(k - 1) div 63 = k div 63" "(k - 1) mod 63 + 1 = k mod 63" using qr by simp_all
  have cl: "mp_clusters s = (k + 63) div 63"
    using assms(1) qr(2) unfolding slots_ok_def Let_def k_def [symmetric] qr(1) by simp
  have u: "mp_used s c = k mod 63" "k mod 63 \<noteq> 63" "c = k div 63" using c(2,3) e by auto
  have "s\<lparr>mp_used := us\<rparr> = s\<lparr>mp_cluster := Some c, mp_clusters := mp_clusters s, mp_used := us, mp_at := mp_at s\<rparr>" for us
    by (rule page_state.equality) (simp_all add: c(1))
  moreover have "mempage_alloc s = Ret (k + 1) (s\<lparr>mp_used := (mp_used s)(c := k mod 63 + 1)\<rparr>)"
    using u(2) slot_div_mod [of k] unfolding mempage_alloc_def Let_def N_SLOTS_63 c(1) option.case u(1)
    by (simp add: u(3))
  moreover have "\<forall>p>k. to_cluster p < mp_clusters s \<longrightarrow> et_count (mp_ce (mp_at s p)) = 0"
    using assms(2) by (simp only: fresh_ok_def k_def)
  moreover define us where "us = (mp_used s)(c := k mod 63 + 1)"
  ultimately show ?thesis using u(3) cl
    by (intro exI [of _ "mp_at s"] exI [of _ "mp_clusters s"] exI [of _ us] conjI) simp_all
qed


text \<open>Reusing gives one of the counters in use: the next of the cluster being reused, or the first of the first
  cluster.\<close>

lemma mempage_replace_used:
  assumes "slots_ok s" "lru_ok (nat (corr_err_counters s)) (cluster_lru_list s)"
    and "corr_err_counters s = max_corr_err_counters s"
  shows "\<exists>mp c us. mempage_replace s = Ret mp (mp_mod mp (\<lambda>p. p\<lparr>mp_offlined := PAGE_ONLINE, mp_triggered := False,
      mp_multiplier := ucast NO_OFFLINE_RETRY, mp_ce := (mp_ce p)\<lparr>et_count := 0\<rparr>\<rparr>)
      (s\<lparr>mp_cluster := Some c, mp_used := us\<rparr>)) \<and>
    mp \<in> {1..nat (corr_err_counters s)} \<and> c < mp_clusters s \<and> us c \<le> 63"
proof -
  define k where "k = nat (corr_err_counters s)"
  have k: "k > 0" "63 dvd k" "mp_clusters s = (k + 62) div 63" using assms(1,3) by (auto simp: slots_ok_def Let_def k_def)
  then obtain q where q: "k = 63 * q" "q > 0" by (auto elim: dvdE)
  have cl: "mp_clusters s = q" using k(3) q by simp
  obtain c where c: "mp_cluster s = Some c" "c < q" "mp_used s c \<le> 63"
    using assms(1) k(1) cl by (auto simp: slots_ok_def Let_def k_def split: option.splits)
  have rng: "slot d i \<in> {1..k}" if "d < q" "i < 63" for d i
  proof -
    have "(d + 1) * 63 \<le> q * 63" using that(1) by (intro mult_le_mono1) simp
    then show ?thesis using that(2) q by (simp add: slot_def N_SLOTS_63)
  qed
  show ?thesis
  proof (cases "mp_used s c = 63")
    case True
    have "k \<ge> 2" using q by simp
    then have "stuck (cluster_lru_list s)" using assms(2) by (simp add: lru_ok_def k_def)
    then have last: "list_last_entry Head (cluster_lru_list s) = Entry 0" by (simp add: stuck_def list_last_entry_def)
    show ?thesis
      unfolding mempage_replace_def c(1) option.case N_SLOTS_63 Let_def
      using True last rng [of 0 0] q(2) cl
      by (rule_tac exI [of _ "slot 0 0"], rule_tac exI [of _ 0], rule_tac exI [of _ "(mp_used s)(0 := 1)"]) (simp add: k_def)
  next
    case False
    have same: "s\<lparr>mp_used := us\<rparr> = s\<lparr>mp_cluster := Some c, mp_used := us\<rparr>" for us
      by (rule page_state.equality) (simp_all add: c(1))
    show ?thesis
      unfolding mempage_replace_def c(1) option.case N_SLOTS_63 Let_def
      using False rng [of c "mp_used s c"] c(2,3) cl
      by (rule_tac exI [of _ "slot c (mp_used s c)"], rule_tac exI [of _ c],
          rule_tac exI [of _ "(mp_used s)(c := mp_used s c + 1)"]) (simp add: k_def same [symmetric])
  qed
qed

text \<open>Entering an address into the index.\<close>

lemma mempage_insert_new:
  assumes "indexed (key_at s) (mempage_root s) xs" and "mp \<noteq> 0" "mp \<notin> set xs" and "addr \<notin> key_at s ` set xs"
  shows "\<exists>t ys. mempage_insert addr mp s = Some (0, (mp_mod mp (mp_addr_update (\<lambda>_. addr)) s)\<lparr>mempage_root := t\<rparr>) \<and>
    indexed ((key_at s)(mp := addr)) t ys \<and> set ys = insert mp (set xs)"
proof -
  define s1 where "s1 = mp_mod mp (mp_addr_update (\<lambda>_. addr)) s"
  have key: "key_at s1 = (key_at s)(mp := addr)" by (auto simp: s1_def key_at_def mp_mod_def)
  have root: "mempage_root s1 = mempage_root s" by (simp add: s1_def mp_mod_def)
  have "indexed (key_at s1) (mempage_root s) xs"
    by (rule indexed_cong [OF assms(1)]) (use assms(3) in \<open>auto simp: key\<close>)
  moreover have "key_at s1 mp \<notin> key_at s1 ` set xs" using assms(3,4) by (auto simp: key)
  ultimately obtain gs t1 t2 ys where t: "place_loop addr (key_at s1) (mempage_root s) (rb_root (mempage_root s)) 0 LRoot =
      Some (0, pid gs, link_of gs)" "rb_link_node mp (pid gs) (link_of gs) (mempage_root s) = Some t1"
      "rb_insert_color mp t1 = Some t2" "indexed (key_at s1) t2 ys" "set ys = insert mp (set xs)"
    using indexed_insert [of "key_at s1" "mempage_root s" xs mp] assms(2,3) by (auto simp: key)
  then show ?thesis
    unfolding mempage_insert_def mempage_insert_lookup_def s1_def [symmetric] by (auto simp: root key)
qed

lemma mempage_rb_tree_update_moves:
  assumes "indexed (key_at s) (mempage_root s) xs" and "mp \<in> set xs" and "addr \<notin> key_at s ` set xs"
  shows "\<exists>t ys. mempage_rb_tree_update addr mp s = Some ((mp_mod mp (mp_addr_update (\<lambda>_. addr)) s)\<lparr>mempage_root := t\<rparr>) \<and>
    indexed ((key_at s)(mp := addr)) t ys \<and> set ys = set xs"
proof -
  have d: "distinct xs" "mp \<noteq> 0" using indexed_distinct [OF assms(1)] assms(2) by (auto intro: ccontr)
  obtain t where t: "rb_erase mp (mempage_root s) = Some t" "rb_holds t (remove1 mp xs)"
    using rb.erase_remove1 [of "mempage_root s" xs mp] assms(1,2) by (auto simp: indexed_def)
  have "sorted_wrt (<) (map (key_at s) (remove1 mp xs))"
    using assms(1) d(1)
    by (simp add: indexed_def sorted_wrt_map distinct_remove1_removeAll removeAll_filter_not_eq sorted_wrt_filter)
  then have i: "indexed (key_at (s\<lparr>mempage_root := t\<rparr>)) (mempage_root (s\<lparr>mempage_root := t\<rparr>)) (remove1 mp xs)"
    using t(2) by (simp add: indexed_def key_at_def [abs_def])
  have k: "key_at (s\<lparr>mempage_root := t\<rparr>) = key_at s" by (simp add: key_at_def [abs_def])
  obtain t' ys where "mempage_insert addr mp (s\<lparr>mempage_root := t\<rparr>) =
      Some (0, (mp_mod mp (mp_addr_update (\<lambda>_. addr)) (s\<lparr>mempage_root := t\<rparr>))\<lparr>mempage_root := t'\<rparr>)"
    "indexed ((key_at s)(mp := addr)) t' ys" "set ys = insert mp (set (remove1 mp xs))"
    using mempage_insert_new [OF i, of mp addr] d assms(3) by (auto simp: k dest: notin_set_remove1)
  then show ?thesis using t(1) d(1) assms(2)
    by (rule_tac exI [of _ t'], rule_tac exI [of _ ys]) (auto simp: mempage_rb_tree_update_def mp_mod_def)
qed


section \<open>The counter of a page\<close>

lemma page_count_Some:
  "page_ok s \<Longrightarrow> mp \<in> {1..nat (corr_err_counters s)} \<Longrightarrow> page_count s (key_at s mp) = Some (et_count (mp_ce (mp_at s mp)))"
proof -
  assume "page_ok s" and mp: "mp \<in> {1..nat (corr_err_counters s)}"
  then obtain xs where xs: "indexed (key_at s) (mempage_root s) xs" "set xs = {1..nat (corr_err_counters s)}"
    by (auto simp: page_ok_def)
  then show ?thesis
    using mp indexed_unique [OF xs(1), of mp] by (simp add: page_count_def mempage_lookup_def indexed_lookup)
qed

lemma page_count_None:
  "page_ok s \<Longrightarrow> a \<notin> key_at s ` {1..nat (corr_err_counters s)} \<Longrightarrow> page_count s a = None \<and> mempage_lookup a s = Some 0"
proof -
  assume "page_ok s" and a: "a \<notin> key_at s ` {1..nat (corr_err_counters s)}"
  then obtain xs where xs: "indexed (key_at s) (mempage_root s) xs" "set xs = {1..nat (corr_err_counters s)}"
    by (auto simp: page_ok_def)
  then have "filter (\<lambda>n. key_at s n = a) xs = []" using a by (auto simp: filter_empty_conv)
  then show ?thesis by (simp add: page_count_def mempage_lookup_def indexed_lookup [OF xs(1)])
qed

lemma lookup_found:
  "page_ok s \<Longrightarrow> mp \<in> {1..nat (corr_err_counters s)} \<Longrightarrow> mempage_lookup (key_at s mp) s = Some mp"
proof -
  assume "page_ok s" and mp: "mp \<in> {1..nat (corr_err_counters s)}"
  then obtain xs where xs: "indexed (key_at s) (mempage_root s) xs" "set xs = {1..nat (corr_err_counters s)}"
    by (auto simp: page_ok_def)
  then show ?thesis using mp indexed_unique [OF xs(1), of mp] by (simp add: mempage_lookup_def indexed_lookup)
qed

text \<open>\<open>moved s s' mp addr\<close>: the same counters as before but for \<open>mp\<close>, which is now the one of \<open>addr\<close>.\<close>

definition moved :: "'a page_state_scheme \<Rightarrow> 'a page_state_scheme \<Rightarrow> nat \<Rightarrow> u64 \<Rightarrow> bool" where
  "moved s s' mp addr \<longleftrightarrow> same_env s s' \<and> page_ok s' \<and> mp \<in> {1..nat (corr_err_counters s')} \<and> key_at s' mp = addr \<and>
     corr_err_counters s \<le> corr_err_counters s' \<and>
     {1..nat (corr_err_counters s')} \<subseteq> insert mp {1..nat (corr_err_counters s)} \<and>
     (\<forall>p\<in>{1..nat (corr_err_counters s)} - {mp}. key_at s' p = key_at s p \<and>
        et_count (mp_ce (mp_at s' p)) = et_count (mp_ce (mp_at s p)))"

text \<open>The pages other than \<open>addr\<close> keep their counts, but for the page whose counter was reused.\<close>

lemma moved_others:
  assumes "page_ok s" "moved s s' mp addr" "a \<noteq> addr"
    and "mp \<in> {1..nat (corr_err_counters s)} \<Longrightarrow> a \<noteq> key_at s mp"
  shows "page_count s' a = page_count s a"
proof (cases "a \<in> key_at s ` {1..nat (corr_err_counters s)}")
  case True
  then obtain p where p: "a = key_at s p" "p \<in> {1..nat (corr_err_counters s)}" by blast
  then have "p \<noteq> mp" using assms(4) by blast
  then have k: "key_at s' p = a" "et_count (mp_ce (mp_at s' p)) = et_count (mp_ce (mp_at s p))"
    using assms(2) p unfolding moved_def by blast+
  have "p \<in> {1..nat (corr_err_counters s')}" using p(2) assms(2) by (auto simp: moved_def)
  then show ?thesis using page_count_Some [of s' p] page_count_Some [of s p] assms(1,2) p k by (simp add: moved_def)
next
  case False
  have "a \<notin> key_at s' ` {1..nat (corr_err_counters s')}"
  proof
    assume "a \<in> key_at s' ` {1..nat (corr_err_counters s')}"
    then obtain p where p: "a = key_at s' p" "p \<in> {1..nat (corr_err_counters s')}" by blast
    then have "p \<noteq> mp" using assms(2,3) by (auto simp: moved_def)
    moreover then have "p \<in> {1..nat (corr_err_counters s)}" using p(2) assms(2) unfolding moved_def by blast
    ultimately have "key_at s' p = key_at s p" using assms(2) unfolding moved_def by blast
    then show False using False p \<open>p \<in> {1..nat (corr_err_counters s)}\<close> by blast
  qed
  then show ?thesis using page_count_None False assms(1,2) by (metis moved_def)
qed


lemma slots_ok_cong:
  "corr_err_counters s' = corr_err_counters s \<Longrightarrow> max_corr_err_counters s' = max_corr_err_counters s \<Longrightarrow>
    mp_clusters s' = mp_clusters s \<Longrightarrow> mp_cluster s' = mp_cluster s \<Longrightarrow> mp_used s' = mp_used s \<Longrightarrow> slots_ok s' = slots_ok s"
  unfolding slots_ok_def Let_def by (simp split: option.split)

lemma page_ok_lru:
  "page_ok s \<Longrightarrow> lru_ok (nat (corr_err_counters s)) l \<Longrightarrow> page_ok (s\<lparr>cluster_lru_list := l\<rparr>)"
  using slots_ok_cong [of "s\<lparr>cluster_lru_list := l\<rparr>" s] by (simp add: page_ok_def fresh_ok_def key_at_def [abs_def])

lemma page_ok_update:
  "page_ok s \<Longrightarrow> mp \<in> {1..nat (corr_err_counters s)} \<Longrightarrow>
    page_ok (mempage_cluster_lru_list_update (to_cluster mp) s)"
proof -
  assume ok: "page_ok s" and mp: "mp \<in> {1..nat (corr_err_counters s)}"
  have "nat (corr_err_counters s) = 1 \<longrightarrow> to_cluster mp = 0" using mp by (auto simp: to_cluster_def N_SLOTS_63)
  then have "lru_ok (nat (corr_err_counters s)) (lru_list_update (to_cluster mp) (cluster_lru_list s))"
    by (intro lru_ok_update) (use ok mp in \<open>auto simp: page_ok_def\<close>)
  then show ?thesis using page_ok_lru [OF ok] by (simp add: mempage_cluster_lru_list_update_def)
qed

lemma page_counter_found:
  assumes "page_ok s" "mp \<in> {1..nat (corr_err_counters s)}" "key_at s mp = addr"
  shows "\<exists>s'. page_counter addr t s = Ret mp s' \<and> moved s s' mp addr \<and>
    et_count (mp_ce (mp_at s' mp)) = et_count (mp_ce (mp_at s mp))"
proof -
  have "mempage_lookup addr s = Some mp" "mp \<noteq> 0" using lookup_found [OF assms(1,2)] assms(2,3) by auto
  then have "page_counter addr t s = Ret mp (mempage_cluster_lru_list_update (to_cluster mp) s)"
    by (simp add: page_counter_def)
  moreover have "moved s (mempage_cluster_lru_list_update (to_cluster mp) s) mp addr"
    using page_ok_update [OF assms(1,2)] assms(2,3)
    by (auto simp: moved_def same_env_def mempage_cluster_lru_list_update_def key_at_def)
  ultimately show ?thesis by (simp add: mempage_cluster_lru_list_update_def)
qed

text \<open>A state that agrees with \<open>s\<close> on the counters, with \<open>mp\<close> entered into the index for \<open>addr\<close>.\<close>

lemma moved_entered:
  assumes "slots_ok s'" "fresh_ok s'" "lru_ok (nat (corr_err_counters s')) (cluster_lru_list s')"
    and "same_env s s'" and "indexed ((key_at s0)(mp := addr)) (mempage_root s') ys" "set ys = {1..nat (corr_err_counters s')}"
    and "key_at s' = (key_at s0)(mp := addr)" "mp \<in> {1..nat (corr_err_counters s')}"
    and "corr_err_counters s \<le> corr_err_counters s'"
    and "{1..nat (corr_err_counters s')} \<subseteq> insert mp {1..nat (corr_err_counters s)}"
    and "\<And>p. p \<in> {1..nat (corr_err_counters s)} \<Longrightarrow> p \<noteq> mp \<Longrightarrow> key_at s' p = key_at s p \<and>
        et_count (mp_ce (mp_at s' p)) = et_count (mp_ce (mp_at s p))"
  shows "moved s s' mp addr"
proof -
  have "page_ok s'" unfolding page_ok_def using assms(1-7) by (metis (no_types))
  then show ?thesis unfolding moved_def using assms(4,7-11) by simp
qed


lemma page_counter_made:
  assumes ok: "page_ok s" and new: "addr \<notin> key_at s ` {1..nat (corr_err_counters s)}"
    and room: "corr_err_counters s < max_corr_err_counters s" and mem: "\<forall>c. os_mmap s c"
  shows "\<exists>mp s'. page_counter addr t s = Ret mp s' \<and> moved s s' mp addr \<and>
    et_count (mp_ce (mp_at s' mp)) = 0 \<and> mp = nat (corr_err_counters s) + 1"
proof -
  define k where "k = nat (corr_err_counters s)"
  obtain xs where xs: "indexed (key_at s) (mempage_root s) xs" "set xs = {1..k}" using ok by (auto simp: page_ok_def k_def)
  have so: "slots_ok s" "fresh_ok s" using ok by (simp_all add: page_ok_def)
  then have k0: "corr_err_counters s = int k" by (simp add: slots_ok_def Let_def k_def)
  obtain mps cls us where al: "mempage_alloc s = Ret (k + 1) (s\<lparr>mp_cluster := Some (k div 63), mp_clusters := cls,
      mp_used := us, mp_at := mps\<rparr>)" "cls = (k + 63) div 63" "us (k div 63) = k mod 63 + 1"
    "\<And>p. 0 < p \<Longrightarrow> p \<le> k \<Longrightarrow> mps p = mp_at s p" "\<And>p. k < p \<Longrightarrow> to_cluster p < cls \<Longrightarrow> et_count (mp_ce (mps p)) = 0"
    using mempage_alloc_next [OF so room mem] unfolding k_def by metis
  define s1 where "s1 = init_bucket (k + 1) (s\<lparr>mp_cluster := Some (k div 63), mp_clusters := cls, mp_used := us, mp_at := mps\<rparr>)"
  have at1: "mp_addr (mp_at s1 p) = mp_addr (mps p)" "et_count (mp_ce (mp_at s1 p)) = et_count (mp_ce (mps p))" for p
    by (simp_all add: s1_def init_bucket_def mp_mod_def)
  have key1: "key_at s1 p = key_at s p" if "p \<in> {1..k}" for p using al(4) [of p] that by (simp add: key_at_def at1)
  have i1: "indexed (key_at s1) (mempage_root s1) xs"
    by (rule indexed_cong [of "key_at s"])
      (use xs key1 in \<open>auto simp: s1_def init_bucket_def mp_mod_def\<close>)
  obtain tr ys where ins: "mempage_insert addr (k + 1) s1 =
      Some (0, (mp_mod (k + 1) (mp_addr_update (\<lambda>_. addr)) s1)\<lparr>mempage_root := tr\<rparr>)"
    "indexed ((key_at s1)(k + 1 := addr)) tr ys" "set ys = insert (k + 1) {1..k}"
    using mempage_insert_new [OF i1, of "k + 1" addr] new key1 xs(2) unfolding k_def [symmetric] by auto
  define s' where "s' = (mp_mod (k + 1) (mp_multiplier_update (\<lambda>_. ucast NO_OFFLINE_RETRY))
     (mempage_cluster_lru_list_insert (to_cluster (k + 1)) ((mp_mod (k + 1) (mp_addr_update (\<lambda>_. addr)) s1)\<lparr>mempage_root := tr\<rparr>)))
     \<lparr>corr_err_counters := corr_err_counters s + 1\<rparr>"
  have run: "page_counter addr t s = Ret (k + 1) s'"
    using page_count_None [OF ok new] room al(1) ins(1)
    by (simp add: page_counter_def s1_def [symmetric] s'_def mempage_cluster_lru_list_insert_def mp_mod_def Let_def)
      (simp add: s1_def init_bucket_def mp_mod_def mempage_cluster_lru_list_insert_def Let_def)
  have f: "corr_err_counters s' = int (k + 1)" "max_corr_err_counters s' = max_corr_err_counters s" "mp_clusters s' = cls"
    "mp_cluster s' = Some (k div 63)" "mp_used s' = us" "mempage_root s' = tr"
    "cluster_lru_list s' = lru_list_insert (to_cluster (k + 1)) (cluster_lru_list s)"
    by (simp_all add: s'_def s1_def mp_mod_def init_bucket_def mempage_cluster_lru_list_insert_def k0)
  have at': "et_count (mp_ce (mp_at s' p)) = et_count (mp_ce (mps p))"
    "key_at s' p = (if p = k + 1 then addr else mp_addr (mps p))" for p
    by (simp_all add: s'_def mp_mod_def mempage_cluster_lru_list_insert_def key_at_def at1)
  have c1: "to_cluster (k + 1) = k div 63" by (simp add: to_cluster_def N_SLOTS_63)
  have cnt: "et_count (mp_ce (mp_at s' (k + 1))) = 0" using al(2) al(5) [of "k + 1"] by (simp add: at' c1 [simplified])
  have "moved s s' (k + 1) addr"
  proof (rule moved_entered [of s' s s1 "k + 1" addr ys])
    show "same_env s s'"
      by (simp add: same_env_def s'_def s1_def mp_mod_def init_bucket_def mempage_cluster_lru_list_insert_def)
    have "nat (1 + int k) = Suc k" by simp
    then show "slots_ok s'" using so(1) room al(2,3) k0 by (auto simp: slots_ok_def Let_def f k_def [symmetric])
    show "fresh_ok s'" using al(5) by (simp add: fresh_ok_def f at')
    show "lru_ok (nat (corr_err_counters s')) (cluster_lru_list s')"
      using lru_ok_insert [of k "cluster_lru_list s" "k div 63"] ok unfolding f c1 nat_int by (simp add: page_ok_def k_def)
    show "key_at s' = (key_at s1)(k + 1 := addr)" by (auto simp: at' key_at_def [of s1] at1)
    show "indexed ((key_at s1)(k + 1 := addr)) (mempage_root s') ys" using ins(2) f by simp
    show "key_at s' p = key_at s p \<and> et_count (mp_ce (mp_at s' p)) = et_count (mp_ce (mp_at s p))"
      if "p \<in> {1..nat (corr_err_counters s)}" "p \<noteq> k + 1" for p
      using that al(4) [of p] by (simp add: at' key_at_def [of s] k_def)
    have up: "{1..nat (corr_err_counters s')} = insert (k + 1) {1..nat (corr_err_counters s)}"
      unfolding f k0 nat_int by (simp add: atLeastAtMostSuc_conv)
    then show "set ys = {1..nat (corr_err_counters s')}" "k + 1 \<in> {1..nat (corr_err_counters s')}"
      "{1..nat (corr_err_counters s')} \<subseteq> insert (k + 1) {1..nat (corr_err_counters s)}"
      using ins(3) by (simp_all add: k_def)
    show "corr_err_counters s \<le> corr_err_counters s'" by (simp add: f k0)
  qed
  then show ?thesis using run cnt by (auto simp: k_def)
qed


lemma moved_same: "moved s s' mp addr \<Longrightarrow> same_pages s' s'' \<Longrightarrow> moved s s'' mp addr"
  using same_pages_ok [of s' s''] by (simp add: moved_def same_pages_def same_env_def key_at_def)

lemma page_counter_reused:
  assumes ok: "page_ok s" and new: "addr \<notin> key_at s ` {1..nat (corr_err_counters s)}"
    and full: "corr_err_counters s = max_corr_err_counters s"
  shows "\<exists>mp s'. page_counter addr t s = Ret mp s' \<and> moved s s' mp addr \<and>
    et_count (mp_ce (mp_at s' mp)) = 0 \<and> mp \<in> {1..nat (corr_err_counters s)}"
proof -
  define k where "k = nat (corr_err_counters s)"
  obtain xs where xs: "indexed (key_at s) (mempage_root s) xs" "set xs = {1..k}" using ok by (auto simp: page_ok_def k_def)
  have so: "slots_ok s" "fresh_ok s" "lru_ok k (cluster_lru_list s)" using ok by (simp_all add: page_ok_def k_def)
  define clear where "clear = (\<lambda>p::mempage. p\<lparr>mp_offlined := PAGE_ONLINE, mp_triggered := False,
      mp_multiplier := ucast NO_OFFLINE_RETRY, mp_ce := (mp_ce p)\<lparr>et_count := 0\<rparr>\<rparr>)"
  obtain mp c us where re: "mempage_replace s = Ret mp (mp_mod mp clear (s\<lparr>mp_cluster := Some c, mp_used := us\<rparr>))"
    "mp \<in> {1..k}" "c < mp_clusters s" "us c \<le> 63"
    using mempage_replace_used [OF so(1) so(3)[unfolded k_def] full] unfolding k_def [symmetric] clear_def [symmetric] by blast
  define s1 where "s1 = init_bucket mp (mp_mod mp clear (s\<lparr>mp_cluster := Some c, mp_used := us\<rparr>))"
  have at1: "mp_addr (mp_at s1 p) = mp_addr (mp_at s p)"
    "et_count (mp_ce (mp_at s1 p)) = (if p = mp then 0 else et_count (mp_ce (mp_at s p)))" for p
    by (simp_all add: s1_def init_bucket_def mp_mod_def clear_def)
  have key1: "key_at s1 = key_at s" by (simp add: key_at_def [abs_def] at1)
  have i1: "indexed (key_at s1) (mempage_root s1) xs"
    using xs(1) unfolding key1 by (simp add: s1_def init_bucket_def mp_mod_def)
  obtain tr ys where up: "mempage_rb_tree_update addr mp s1 =
      Some ((mp_mod mp (mp_addr_update (\<lambda>_. addr)) s1)\<lparr>mempage_root := tr\<rparr>)"
    "indexed ((key_at s1)(mp := addr)) tr ys" "set ys = {1..k}"
    using mempage_rb_tree_update_moves [OF i1, of mp addr] re(2) new xs(2) unfolding k_def [symmetric] key1 by auto
  define s2 where "s2 = mempage_cluster_lru_list_update (to_cluster mp)
     ((mp_mod mp (mp_addr_update (\<lambda>_. addr)) s1)\<lparr>mempage_root := tr\<rparr>)"
  have "0 \<le> corr_err_counters s" using so(1) by (simp add: slots_ok_def Let_def)
  then have run: "page_counter addr t s = Ret mp (replacement_event t s2)"
    using page_count_None [OF ok new] full re(1) up(1)
    by (simp add: page_counter_def s1_def [symmetric] s2_def Let_def)
  have f: "corr_err_counters s2 = corr_err_counters s" "max_corr_err_counters s2 = max_corr_err_counters s"
    "mp_clusters s2 = mp_clusters s" "mp_cluster s2 = Some c" "mp_used s2 = us" "mempage_root s2 = tr"
    "cluster_lru_list s2 = lru_list_update (to_cluster mp) (cluster_lru_list s)"
    by (simp_all add: s2_def s1_def mp_mod_def init_bucket_def mempage_cluster_lru_list_update_def)
  have at': "et_count (mp_ce (mp_at s2 p)) = (if p = mp then 0 else et_count (mp_ce (mp_at s p)))"
    "key_at s2 p = (if p = mp then addr else key_at s p)" for p
    by (simp_all add: s2_def mp_mod_def mempage_cluster_lru_list_update_def key_at_def at1)
  have "moved s s2 mp addr"
  proof (rule moved_entered [of s2 s s1 mp addr ys])
    show "same_env s s2"
      by (simp add: same_env_def s2_def s1_def mp_mod_def init_bucket_def mempage_cluster_lru_list_update_def)
    show "slots_ok s2" using so(1) re(2-4) full by (auto simp: slots_ok_def Let_def f k_def)
    show "fresh_ok s2" using so(2) by (simp add: fresh_ok_def f at')
    have "k = 1 \<longrightarrow> to_cluster mp = 0" using re(2) by (auto simp: to_cluster_def)
    then show "lru_ok (nat (corr_err_counters s2)) (cluster_lru_list s2)"
      using lru_ok_update [OF so(3), of "to_cluster mp"] re(2) unfolding f k_def [symmetric] by auto
    show "key_at s2 = (key_at s1)(mp := addr)" by (auto simp: at' key1)
    show "indexed ((key_at s1)(mp := addr)) (mempage_root s2) ys" using up(2) f by simp
    show "key_at s2 p = key_at s p \<and> et_count (mp_ce (mp_at s2 p)) = et_count (mp_ce (mp_at s p))"
      if "p \<in> {1..nat (corr_err_counters s)}" "p \<noteq> mp" for p using that by (simp add: at')
  qed (use up(3) re(2) in \<open>auto simp: f k_def [symmetric]\<close>)
  moreover have "same_pages s2 (replacement_event t s2)" by (intro frame)
  ultimately have "moved s (replacement_event t s2) mp addr"
    "et_count (mp_ce (mp_at (replacement_event t s2) mp)) = 0"
    using at'(1) [of mp] by (auto intro: moved_same) (simp add: same_pages_def)
  then show ?thesis using run re(2) by (auto simp: k_def)
qed


lemma page_counter_moves:
  assumes ok: "page_ok s" and mem: "\<forall>c. os_mmap s c"
  shows "\<exists>mp s'. page_counter addr t s = Ret mp s' \<and> moved s s' mp addr \<and>
    et_count (mp_ce (mp_at s' mp)) = (case page_count s addr of None \<Rightarrow> 0 | Some n \<Rightarrow> n) \<and>
    (page_count s addr \<noteq> None \<or> corr_err_counters s < max_corr_err_counters s \<longrightarrow>
      mp \<in> {1..nat (corr_err_counters s)} \<longrightarrow> key_at s mp = addr)"
proof (cases "addr \<in> key_at s ` {1..nat (corr_err_counters s)}")
  case True
  then obtain mp where mp: "mp \<in> {1..nat (corr_err_counters s)}" "key_at s mp = addr" by blast
  then show ?thesis using page_counter_found [OF ok mp, of t] page_count_Some [OF ok mp(1)] by fastforce
next
  case False
  have none: "page_count s addr = None" using page_count_None [OF ok False] by simp
  have le: "corr_err_counters s \<le> max_corr_err_counters s" using ok by (simp add: page_ok_def slots_ok_def Let_def)
  show ?thesis
  proof (cases "corr_err_counters s < max_corr_err_counters s")
    case True
    then show ?thesis using page_counter_made [OF ok False True mem, of t] none by fastforce
  next
    case False
    then show ?thesis using page_counter_reused [OF ok \<open>addr \<notin> _\<close>, of t] none le by fastforce
  qed
qed

text \<open>Raising the count of the counter found, and all that the threshold may set off.\<close>

lemma moved_counted:
  assumes "page_ok s" "moved s s1 mp addr" "same_pages (mp_mod mp (\<lambda>p. p\<lparr>mp_ce := (mp_ce p)\<lparr>et_count := n\<rparr>\<rparr>) s1) s'"
  shows "moved s s' mp addr" "page_count s' addr = Some n"
proof -
  define s2 where "s2 = mp_mod mp (\<lambda>p. p\<lparr>mp_ce := (mp_ce p)\<lparr>et_count := n\<rparr>\<rparr>) s1"
  have k: "key_at s2 = key_at s1" by (auto simp: s2_def key_at_def mp_mod_def)
  have f: "same_env s1 s2" "corr_err_counters s2 = corr_err_counters s1" "mp_clusters s2 = mp_clusters s1"
    "mp_cluster s2 = mp_cluster s1" "mp_used s2 = mp_used s1" "mempage_root s2 = mempage_root s1"
    "cluster_lru_list s2 = cluster_lru_list s1" by (simp_all add: same_env_def s2_def mp_mod_def)
  have c: "et_count (mp_ce (mp_at s2 p)) = (if p = mp then n else et_count (mp_ce (mp_at s1 p)))" for p
    by (simp add: s2_def mp_mod_def)
  have mp: "mp \<in> {1..nat (corr_err_counters s1)}" and ok1: "page_ok s1" using assms(2) by (simp_all add: moved_def)
  have "fresh_ok s2" using ok1 mp by (auto simp: page_ok_def fresh_ok_def f c)
  then have "page_ok s2" using ok1 slots_ok_cong [of s2 s1] f(1) by (simp add: page_ok_def f k same_env_def)
  then have "moved s s2 mp addr" using assms(2) same_env_trans [OF _ f(1)] by (simp add: moved_def k c f)
  then show m: "moved s s' mp addr" using moved_same assms(3) s2_def by blast
  have "key_at s' mp = addr" "mp \<in> {1..nat (corr_err_counters s')}" "page_ok s'" using m by (simp_all add: moved_def)
  moreover have "et_count (mp_ce (mp_at s' mp)) = n" using assms(3) c [of mp] by (simp add: same_pages_def s2_def [symmetric])
  ultimately show "page_count s' addr = Some n" using page_count_Some by metis
qed

lemma account_page_error_moves:
  assumes "page_ok s" "\<not> page_error_ignored m s" "\<forall>c. os_mmap s c"
  shows "\<exists>mp s'. account_page_error m channel dimm s = Ret () s' \<and> moved s s' mp (page_of (m_addr m)) \<and>
    page_count s' (page_of (m_addr m)) = Some ((case page_count s (page_of (m_addr m)) of None \<Rightarrow> 0 | Some n \<Rightarrow> n) + 1) \<and>
    (page_count s (page_of (m_addr m)) \<noteq> None \<or> corr_err_counters s < max_corr_err_counters s \<longrightarrow>
      mp \<in> {1..nat (corr_err_counters s)} \<longrightarrow> key_at s mp = page_of (m_addr m))"
proof -
  define addr where "addr = page_of (m_addr m)"
  obtain mp s1 where c: "page_counter addr (sint (m_time m)) s = Ret mp s1" "moved s s1 mp addr"
    "et_count (mp_ce (mp_at s1 mp)) = (case page_count s addr of None \<Rightarrow> 0 | Some n \<Rightarrow> n)"
    "page_count s addr \<noteq> None \<or> corr_err_counters s < max_corr_err_counters s \<longrightarrow>
      mp \<in> {1..nat (corr_err_counters s)} \<longrightarrow> key_at s mp = addr"
    using page_counter_moves [OF assms(1,3)] by blast
  define n where "n = et_count (mp_ce (mp_at s1 mp)) + 1"
  define s2 where "s2 = mp_mod mp (\<lambda>p. p\<lparr>mp_ce := (mp_ce p)\<lparr>et_count := n\<rparr>\<rparr>) s1"
  have s2: "mp_mod mp (\<lambda>p. p\<lparr>mp_ce := (mp_ce p)\<lparr>et_count := et_count (mp_ce p) + 1\<rparr>\<rparr>) s1 = s2"
    by (simp add: s2_def mp_mod_def n_def)
  have "\<exists>s'. account_page_error m channel dimm s = Ret () s' \<and> same_pages s2 s'"
    unfolding account_page_error_def Let_def split_beta addr_def [symmetric] c(1) andthen.simps s2
    by (simp only: assms(2) if_False outcome.inject simp_thms) (intro frame, simp_all)
  then obtain s' where s': "account_page_error m channel dimm s = Ret () s'" "same_pages s2 s'" by blast
  show ?thesis using moved_counted [OF assms(1) c(2) s'(2) [unfolded s2_def]] s'(1) c(3,4) unfolding addr_def n_def by auto
qed


lemma page_count_dom:
  assumes "page_ok s"
  shows "dom (page_count s) = key_at s ` {1..nat (corr_err_counters s)}" "card (dom (page_count s)) = nat (corr_err_counters s)"
proof -
  show d: "dom (page_count s) = key_at s ` {1..nat (corr_err_counters s)}"
    using page_count_Some [OF assms] page_count_None [OF assms] by (fastforce simp: dom_def)
  have "inj_on (key_at s) {1..nat (corr_err_counters s)}"
    by (rule inj_onI) (metis assms lookup_found option.inject)
  then show "card (dom (page_count s)) = nat (corr_err_counters s)" by (simp add: d card_image)
qed

text \<open>The specification: a table of counts by page.\<close>

definition count_page :: "u64 \<Rightarrow> (u64 \<rightharpoonup> u32) \<Rightarrow> (u64 \<rightharpoonup> u32)" where
  "count_page p c = c(p \<mapsto> (case c p of None \<Rightarrow> 0 | Some n \<Rightarrow> n) + 1)"

lemma account_page_error_refines:
  assumes ok: "page_ok s" "\<not> page_error_ignored m s" "\<forall>c. os_mmap s c"
    and room: "card (insert (page_of (m_addr m)) (dom (page_count s))) \<le> nat (max_corr_err_counters s)"
  shows "\<exists>s'. account_page_error m channel dimm s = Ret () s' \<and> page_ok s' \<and> same_env s s' \<and>
    page_count s' = count_page (page_of (m_addr m)) (page_count s)"
proof -
  define p where "p = page_of (m_addr m)"
  obtain mp s' where r: "account_page_error m channel dimm s = Ret () s'" "moved s s' mp p"
    "page_count s' p = Some ((case page_count s p of None \<Rightarrow> 0 | Some n \<Rightarrow> n) + 1)"
    "page_count s p \<noteq> None \<or> corr_err_counters s < max_corr_err_counters s \<longrightarrow>
      mp \<in> {1..nat (corr_err_counters s)} \<longrightarrow> key_at s mp = p"
    using account_page_error_moves [OF ok] unfolding p_def by blast
  have finite_dom: "finite (dom (page_count s))" using page_count_dom(1) [OF ok(1)] by simp
  have "page_count s p \<noteq> None \<or> corr_err_counters s < max_corr_err_counters s"
  proof (cases "page_count s p")
    case None
    then have "Suc (card (dom (page_count s))) \<le> nat (max_corr_err_counters s)"
      using room finite_dom by (simp add: p_def [symmetric] domIff card_insert_if)
    then show ?thesis using page_count_dom(2) [OF ok(1)] by linarith
  qed simp
  then have "page_count s' a = page_count s a" if "a \<noteq> p" for a
    using that moved_others [OF ok(1) r(2), of a] r(4) by metis
  then have "page_count s' = count_page p (page_count s)" using r(3) by (auto simp: count_page_def)
  then show ?thesis using r(1,2) by (auto simp: p_def moved_def)
qed

text \<open>
  Accounting a corrected error of a page always returns, keeps the index and the counters consistent, and as long as
  the pages seen fit the configured number of counters it refines the abstract table of counts: the count of the
  page grows by one, in 32 bits, and no other count changes.
\<close>

lemma page_error_counted:
  assumes "page_ok s" "\<not> page_error_ignored m s" "\<forall>c. os_mmap s c"
    and "card (insert (page_of (m_addr m)) (dom (page_count s))) \<le> nat (max_corr_err_counters s)"
  shows "\<exists>s'. account_page_error m channel dimm s = Ret () s' \<and> page_ok s' \<and>
    page_count s' = count_page (page_of (m_addr m)) (page_count s)"
  using account_page_error_refines [OF assms] by blast

text \<open>A state before the first error, with room for one cluster of counters.\<close>

definition no_pages :: "'a \<Rightarrow> 'a page_state_scheme" where
  "no_pages x = page_state.extend (report_state.extend (memdb_state.extend (empty_db True True) (report_state.fields None None None False
       None None None CPU_INTEL))
     (page_state.fields 0 63 None (\<lambda>_. 0) 0 (\<lambda>_. zero_mempage) \<lparr>lb_count = 0, lb_excess = 0, lb_tstamp = 0\<rparr> 0 \<lparr>rb_nodes = \<lambda>_. cell 0 RB_RED 0 0, rb_root = 0\<rparr>
       (INIT_LIST_HEAD Head \<lparr>lnext = \<lambda>_. Null, lprev = \<lambda>_. Null\<rparr>) no_conf no_conf None None NO_OFFLINE_RETRY
       OFFLINE_ACCOUNT (\<lambda>_. True))) x"

definition page_mce :: "u64 \<Rightarrow> mce" where
  "page_mce a = blank_mce\<lparr>m_status := MCI_STATUS_ADDRV, m_addr := a\<rparr>"

lemmas no_pages_defs = no_pages_def report_state.defs memdb_state.defs page_state.defs empty_db_def trigger_state.defs
  example_trigger_def config_state.defs example_config_def msg_state.defs quiet_state_def

lemma no_pages_sel:
  "corr_err_counters (no_pages x) = 0" "max_corr_err_counters (no_pages x) = 63" "mp_cluster (no_pages x) = None" "mp_clusters (no_pages x) = 0"
  "mempage_root (no_pages x) = \<lparr>rb_nodes = \<lambda>_. cell 0 RB_RED 0 0, rb_root = 0\<rparr>" "mp_at (no_pages x) = (\<lambda>_. zero_mempage)"
  "cluster_lru_list (no_pages x) = INIT_LIST_HEAD Head \<lparr>lnext = \<lambda>_. Null, lprev = \<lambda>_. Null\<rparr>" "os_mmap (no_pages x) = (\<lambda>_. True)"
  "offline (no_pages x) = OFFLINE_ACCOUNT" "cpu_type (no_pages x) = CPU_INTEL"
  "md_dimms (no_pages x) = replicate MD_SHASH []" "md_numdimms (no_pages x) = 0"
  "memdb_enabled (no_pages x)" "sockdb_enabled (no_pages x)"
  by (simp_all add: no_pages_defs)

lemma no_pages_ok: "page_ok (no_pages x)"
proof -
  have "rb_holds (mempage_root (no_pages x)) []"
    unfolding rb_holds_def by (intro exI [of _ Lf]) (simp add: no_pages_sel rep_def rb_inv_def)
  then have "\<exists>xs. indexed (key_at (no_pages x)) (mempage_root (no_pages x)) xs \<and> set xs = {}"
    by (intro exI [of _ "[]"]) (simp add: indexed_def)
  then show ?thesis
    by (simp add: page_ok_def slots_ok_def Let_def fresh_ok_def lru_ok_def no_pages_sel ring_def INIT_LIST_HEAD_def)
qed

lemma no_pages_count: "page_count (no_pages x) = Map.empty"
  using page_count_dom(1) [OF no_pages_ok] by (simp add: no_pages_sel)

lemma page_mce_counted: "\<not> page_error_ignored (page_mce a) (no_pages x)"
  by (simp add: page_error_ignored_def page_mce_def no_pages_sel has_def mci_defs blank_mce_def)

lemma page_mce_addr: "m_addr (page_mce a) = a"
  by (simp add: page_mce_def)

section \<open>A sequence of errors\<close>

fun account_page_errors :: "(mce \<times> int \<times> int) list \<Rightarrow> 'a page_state_scheme \<Rightarrow> ('a page_state_scheme, unit) outcome" where
  "account_page_errors [] s = Ret () s"
| "account_page_errors ((m, channel, dimm) # es) s =
     andthen (account_page_error m channel dimm s) (\<lambda>_ s. account_page_errors es s)"

definition pages_of :: "(mce \<times> int \<times> int) list \<Rightarrow> u64 list" where
  "pages_of es = map (\<lambda>(m, _, _). page_of (m_addr m)) es"

lemma dom_count_page: "dom (count_page p c) = insert p (dom c)"
  by (auto simp: count_page_def)

lemma account_page_errors_fold:
  assumes "page_ok s" "\<forall>c. os_mmap s c" "\<forall>(m, _, _)\<in>set es. \<not> page_error_ignored m s"
    and "card (set (pages_of es) \<union> dom (page_count s)) \<le> nat (max_corr_err_counters s)"
  shows "\<exists>s'. account_page_errors es s = Ret () s' \<and> page_ok s' \<and> page_count s' = fold count_page (pages_of es) (page_count s)"
  using assms
proof (induction es arbitrary: s)
  case Nil
  then show ?case by (simp add: pages_of_def)
next
  case (Cons e es)
  obtain m channel dimm where e: "e = (m, channel, dimm)" by (cases e)
  define p where "p = page_of (m_addr m)"
  have ps: "pages_of (e # es) = p # pages_of es" by (simp add: pages_of_def e p_def)
  have fin: "finite (dom (page_count s))" using page_count_dom(1) [OF Cons.prems(1)] by simp
  have "card (insert p (dom (page_count s))) \<le> card (set (pages_of (e # es)) \<union> dom (page_count s))"
    by (rule card_mono) (use fin in \<open>auto simp: ps\<close>)
  then obtain s1 where s1: "account_page_error m channel dimm s = Ret () s1" "page_ok s1" "same_env s s1"
    "page_count s1 = count_page p (page_count s)"
    using account_page_error_refines [of s m channel dimm] Cons.prems by (auto simp: p_def e)
  have env: "page_error_ignored n s1 = page_error_ignored n s" "os_mmap s1 = os_mmap s" "max_corr_err_counters s1 = max_corr_err_counters s" for n
    using s1(3) by (simp_all add: same_env_def page_error_ignored_def)
  have "set (pages_of es) \<union> dom (page_count s1) = set (pages_of (e # es)) \<union> dom (page_count s)"
    by (auto simp: s1(4) dom_count_page ps)
  then show ?case using Cons.IH [OF s1(2)] Cons.prems s1(1) by (simp add: e env ps [unfolded e] s1(4))
qed

lemma fold_count_page:
  "fold count_page ps c a = (if a \<in> set ps then Some ((case c a of None \<Rightarrow> 0 | Some n \<Rightarrow> n) + of_nat (count_list ps a)) else c a)"
proof (induction ps arbitrary: c)
  case (Cons p ps)
  have "count_list ps a = 0" if "a \<notin> set ps" using that by simp
  then show ?case using Cons.IH [of "count_page p c"] by (auto simp: count_page_def)
qed simp




section \<open>Where the code goes wrong\<close>

text \<open>The list of clusters after some counters have been made (\<open>True\<close>) and found again (\<open>False\<close>), by their clusters.\<close>

definition lru_history :: "(bool \<times> nat) list \<Rightarrow> list_store \<Rightarrow> list_store" where
  "lru_history = fold (\<lambda>(made, c). if made then lru_list_insert c else lru_list_update c)"

lemma stuck_history: "stuck l \<Longrightarrow> stuck (lru_history ops l)"
  unfolding lru_history_def by (induction ops arbitrary: l) (auto simp: stuck_insert stuck_update)

text \<open>
  C30: The list of clusters does not find the least recently used one. Every new counter adds its cluster to the list
  again, which breaks the list: once the first cluster has been added twice, for the first two counters, the last
  entry of the list is the first cluster whatever is used afterwards, and when the current cluster is exhausted the
  counter that is reused is always the very first one.
\<close>

theorem first_cluster_reused:
  assumes "lru_ok 0 l" and "cluster_lru_list s = lru_history ops (lru_list_insert 0 (lru_list_insert 0 l))"
    and "mp_cluster s = Some c" "mp_used s c = N_SLOTS"
  shows "\<exists>s'. mempage_replace s = Ret (slot 0 0) s' \<and> mp_cluster s' = Some 0"
proof -
  have "lru_ok 2 (lru_list_insert 0 (lru_list_insert 0 l))"
    using lru_ok_insert [OF lru_ok_insert [OF assms(1)], of 0 0] by (simp add: numeral_2_eq_2)
  then have "stuck (cluster_lru_list s)" using stuck_history assms(2) by (simp add: lru_ok_def)
  then show ?thesis using assms(3,4)
    by (simp add: mempage_replace_def Let_def list_last_entry_def stuck_def mp_mod_def)
qed

text \<open>Two clusters, of which the first has been used last.\<close>

definition two_clusters :: page_state where
  "two_clusters = (no_pages ())\<lparr>mp_cluster := Some 1, mp_clusters := 2, mp_used := \<lambda>_. N_SLOTS,
     cluster_lru_list := lru_history [(True, 1), (False, 0)] (lru_list_insert 0 (lru_list_insert 0 (cluster_lru_list (no_pages ()))))\<rparr>"

theorem first_cluster_reused_witness:
  "lnext (cluster_lru_list two_clusters) Head = Entry 0 \<and> (\<exists>s'. mempage_replace two_clusters = Ret (slot 0 0) s' \<and> mp_cluster s' = Some 0)"
proof -
  have "lru_ok 0 (cluster_lru_list (no_pages ()))" using no_pages_ok [of "()"] by (simp add: page_ok_def no_pages_sel(1))
  moreover have "lnext (cluster_lru_list two_clusters) Head = Entry 0"
    by (simp add: two_clusters_def no_pages_sel lru_history_def lru_list_insert_def lru_list_update_def list_add_def
        list_add_between_def INIT_LIST_HEAD_def list_is_first_def list_del_def list_del_between_def Let_def)
  ultimately show ?thesis
    using first_cluster_reused [of "cluster_lru_list (no_pages ())" two_clusters "[(True, 1), (False, 0)]" 1] by (simp add: two_clusters_def)
qed

text \<open>
  Without counters the daemon crashes. Nothing checks the option \<open>--max-corr-err-counters\<close>; with 0 the first
  corrected error with an address goes straight to the replacement of a counter, which follows the NULL pointer to
  the current cluster.
\<close>

lemma no_counters_crash:
  assumes "mp_cluster s = None" "rb_root (mempage_root s) = 0" "corr_err_counters s = 0"
    and "max_corr_err_counters s = roundup_counters 0" "\<not> page_error_ignored m s"
  shows "account_page_error m channel dimm s = Abort s"
proof -
  have "roundup_counters 0 = 0" by (simp add: roundup_counters_def Let_def N_SLOTS_def)
  moreover have "mempage_lookup a s = Some 0" for a
    unfolding mempage_lookup_def assms(2) by (subst lookup_loop.simps) simp
  ultimately show ?thesis using assms by (simp add: account_page_error_def page_counter_def mempage_replace_def Let_def)
qed

text \<open>
  C31: The back off of offlining wraps around. The threshold multiplier of a page is an 8-bit number that doubles with
  every failed attempt, so that after the eighth it is 0, and from then on the threshold is 0 and every further error
  of the page counts as an overflow.
\<close>

theorem backoff_wraps:
  assumes "\<And>name text. os_sysfs s name text < 0" and "offline_retry_backoff_base s = OFFLINE_RETRY_EXP_BACKOFF"
    and "offline s = OFFLINE_SOFT" and "mp_multiplier (mp_at s mp) = ucast NO_OFFLINE_RETRY" and "bc_capacity conf \<noteq> 0"
  shows "mp_multiplier (mp_at ((offline_action mp addr ^^ 8) s) mp) = 0 \<and>
    fst (bucket_account_t conf b 1 t (mp_multiplier (mp_at ((offline_action mp addr ^^ 8) s) mp)))"
proof -
  define steady where "steady = (\<lambda>u::'a page_state_scheme. (\<forall>name text. os_sysfs u name text < 0) \<and>
    offline_retry_backoff_base u = OFFLINE_RETRY_EXP_BACKOFF \<and> offline u = OFFLINE_SOFT)"
  have step: "steady (offline_action mp addr u) \<and>
      mp_multiplier (mp_at (offline_action mp addr u) mp) = 2 * mp_multiplier (mp_at u mp)" if "steady u" for u
  proof -
    have L: "msg_step v (Lprintf f a v)" for f a and v :: "'a page_state_scheme" by (intro frame)
    have steady: "steady v" "mp_at v = mp_at u" if "msg_step u v" for v
      using that \<open>steady u\<close> by (auto simp: steady_def msg_step_def)
    define v where "v = Lprintf ''Offlining page %llx\<newline>'' [PU addr] u"
    have v: "steady v" "mp_at v = mp_at u" using steady L v_def by blast+
    define w where "w = Lprintf ''Offlining page %llx failed: %s\<newline>'' [PU addr, PS (errno_msg v)] v"
    have w: "steady w" "mp_at w = mp_at u" using steady L v_def w_def msg_step_trans by blast+
    have off: "memory_offline addr v = (os_sysfs v (kernel_offline OFFLINE_SOFT) (printf ''%#llx'' [PU addr]), v)"
      using v(1) by (simp add: memory_offline_def do_memory_offline_def sysfs_write_def Let_def steady_def)
    have "offline_action mp addr u = mp_mod mp (\<lambda>p. p\<lparr>mp_offlined := PAGE_OFFLINE_FAILED,
        mp_multiplier := ucast (ucast (mp_multiplier p) * offline_retry_backoff_base w)\<rparr>) w"
      using that v(1) by (simp add: offline_action_def steady_def off v_def [symmetric] w_def [symmetric] Let_def)
    moreover have "ucast (ucast m * (2::u32)) = 2 * m" for m :: u8
      by transfer (simp add: take_bit_eq_mod mod_mod_cancel mult.commute mod_mult_right_eq)
    ultimately show ?thesis using w by (simp add: mp_mod_def steady_def OFFLINE_RETRY_EXP_BACKOFF_def)
  qed
  have "steady ((offline_action mp addr ^^ n) s) \<and> mp_multiplier (mp_at ((offline_action mp addr ^^ n) s) mp) = 2 ^ n" for n
  proof (induction n)
    case 0
    show ?case using assms by (simp add: steady_def NO_OFFLINE_RETRY_def)
  next
    case (Suc n)
    then show ?case using step [of "(offline_action mp addr ^^ n) s"] by simp
  qed
  from this [of 8] have z: "mp_multiplier (mp_at ((offline_action mp addr ^^ 8) s) mp) = 0" by simp
  then show ?thesis using assms(5) by (simp add: z bucket_account_t_def bucket_limit_def Let_def)
qed


definition failing_pages :: page_state where
  "failing_pages = (no_pages ())\<lparr>os_sysfs := \<lambda>_ _. - 1, offline_retry_backoff_base := OFFLINE_RETRY_EXP_BACKOFF, offline := OFFLINE_SOFT,
     mp_at := \<lambda>_. zero_mempage\<lparr>mp_multiplier := ucast NO_OFFLINE_RETRY\<rparr>\<rparr>"

theorem backoff_wraps_witness:
  "mp_multiplier (mp_at ((offline_action 1 0x5000 ^^ 8) failing_pages) 1) = 0 \<and>
   fst (bucket_account_t example_conf example_bucket 1 1090 (mp_multiplier (mp_at ((offline_action 1 0x5000 ^^ 8) failing_pages) 1)))"
  by (rule backoff_wraps) (simp_all add: failing_pages_def example_conf_def)

section \<open>The list of clusters follows no stray pointer\<close>

text \<open>Broken as it is, the list of clusters never leads to a poisoned or a NULL pointer: from the head and from every
  cluster in it both pointers lead to the head or to a cluster in it.\<close>

definition linked :: "list_ptr set \<Rightarrow> list_ptr set \<Rightarrow> list_store \<Rightarrow> bool" where
  "linked P S l \<longleftrightarrow> (\<forall>p\<in>P. lnext l p \<in> S \<and> lprev l p \<in> S)"

lemma linked_add: "linked (S - {n}) S l \<Longrightarrow> h \<in> S \<Longrightarrow> n \<in> S \<Longrightarrow> n \<noteq> h \<Longrightarrow> linked S S (list_add n h l)"
  by (auto simp: linked_def list_add_def list_add_between_def Let_def)

lemma linked_del: "linked S S l \<Longrightarrow> e \<in> S \<Longrightarrow> linked (S - {e}) S (list_del e l)"
  by (auto simp: linked_def list_del_def list_del_between_def Let_def)

lemma linked_insert: "linked S S l \<Longrightarrow> Head \<in> S \<Longrightarrow> linked (insert (Entry c) S) (insert (Entry c) S) (lru_list_insert c l)"
  unfolding lru_list_insert_def by (rule linked_add) (auto simp: linked_def)

lemma linked_update: "linked S S l \<Longrightarrow> Head \<in> S \<Longrightarrow> Entry c \<in> S \<Longrightarrow> linked S S (lru_list_update c l)"
  unfolding lru_list_update_def by (simp add: linked_add linked_del)

section \<open>The report\<close>

lemma page_report_list:
  assumes "page_ok s"
  shows "\<exists>xs. dump_page_errors s = Some ((if xs = [] then [] else ''Per page corrected memory statistics:\<newline>'') @
      concat (map (\<lambda>p. dump_page (mp_at s p) (page_trigger_conf s)) xs)) \<and>
    sorted_wrt (<) (map (key_at s) xs) \<and> key_at s ` set xs = dom (page_count s)"
proof -
  obtain xs where xs: "indexed (key_at s) (mempage_root s) xs" "set xs = {1..nat (corr_err_counters s)}"
    using assms by (auto simp: page_ok_def)
  have "Option.bind (rb_first (mempage_root s)) (walk (\<lambda>p. rb_next p (mempage_root s))) = Some xs"
    using rb.walk_all xs(1) by (auto simp: indexed_def)
  then show ?thesis using xs page_count_dom(1) [OF assms]
    by (intro exI [of _ xs]) (simp add: dump_page_errors_def indexed_def)
qed

text \<open>
  C29: The report of the pages ends and lists every page that has a counter exactly once, sorted by address.
\<close>

theorem page_report_complete:
  assumes "page_ok s"
  shows "\<exists>xs. dump_page_errors s = Some ((if xs = [] then [] else ''Per page corrected memory statistics:\<newline>'') @
      concat (map (\<lambda>p. dump_page (mp_at s p) (page_trigger_conf s)) xs)) \<and>
    sorted_wrt (<) (map (key_at s) xs) \<and> key_at s ` set xs = dom (page_count s)"
  by (rule page_report_list [OF assms])

theorem page_report_complete_witness: "dump_page_errors (no_pages ()) = Some []"
proof -
  obtain xs where "dump_page_errors (no_pages ()) = Some ((if xs = [] then [] else ''Per page corrected memory statistics:\<newline>'') @
      concat (map (\<lambda>p. dump_page (mp_at (no_pages ()) p) (page_trigger_conf (no_pages ()))) xs))" "key_at (no_pages ()) ` set xs = {}"
    using page_report_complete [OF no_pages_ok [of "()"]] by (auto simp: no_pages_count)
  then show ?thesis by simp
qed

end
