(* ===== verification/Intel.thy ===== *)
theory Intel
  imports PageCount MemErr P4
begin

text \<open>
  The Intel front end, \<^verbatim>\<open>src/intel.c\<close>: the processor type of a family and model, and the accounting of memory
  errors, which joins the location of the error (\<open>MemErr\<close>), the DIMM counters (\<open>MemDb\<close>) and the page counters
  (\<open>Page\<close>).
\<close>

section \<open>Processor types in order\<close>

text \<open>The enumeration, in the order of its C values; the code compares processor types by these.\<close>

definition cputypes :: "cputype list" where
  "cputypes = [CPU_GENERIC, CPU_K8, CPU_ZHAOXIN, CPU_ZHAOXIN_KH40000, CPU_ZHAOXIN_KH50000, CPU_INTEL, CPU_P4, CPU_TULSA,
     CPU_ALDERLAKE, CPU_ARROWLAKE, CPU_ATOM, CPU_BROADWELL, CPU_BROADWELL_DE, CPU_BROADWELL_EPEX,
     CPU_CLEARWATERFOREST, CPU_COMETLAKE, CPU_CORE2, CPU_DENVERTON, CPU_DIAMONDRAPIDS, CPU_DUNNINGTON,
     CPU_EMERALDRAPIDS, CPU_GRANDRIDGE, CPU_GRANITERAPIDS, CPU_HASWELL, CPU_HASWELL_EPEX, CPU_ICELAKE,
     CPU_ICELAKE_DE, CPU_ICELAKE_XEON, CPU_IVY_BRIDGE, CPU_IVY_BRIDGE_EPEX, CPU_KABYLAKE,
     CPU_KNIGHTS_LANDING, CPU_KNIGHTS_MILL, CPU_LAKEFIELD, CPU_LUNARLAKE, CPU_METEORLAKE, CPU_NEHALEM,
     CPU_NOVALAKE, CPU_P6OLD, CPU_PANTHERLAKE, CPU_RAPTORLAKE, CPU_ROCKETLAKE, CPU_SANDY_BRIDGE,
     CPU_SANDY_BRIDGE_EP, CPU_SAPPHIRERAPIDS, CPU_SIERRAFOREST, CPU_SKYLAKE, CPU_SKYLAKE_XEON,
     CPU_TIGERLAKE, CPU_TREMONT_D, CPU_WILDCATLAKE, CPU_XEON75XX]"

fun index_of :: "'a \<Rightarrow> 'a list \<Rightarrow> nat" where
  "index_of x [] = 0"
| "index_of x (y # ys) = (if x = y then 0 else Suc (index_of x ys))"

lemma index_of_nth: "x \<in> set xs \<Longrightarrow> xs ! index_of x xs = x"
  by (induction xs) auto

lemma cputypes_all: "c \<in> set cputypes"
  by (cases c) (simp_all add: cputypes_def)

instantiation cputype :: linorder
begin

definition less_eq_cputype :: "cputype \<Rightarrow> cputype \<Rightarrow> bool" where
  "a \<le> b \<longleftrightarrow> index_of a cputypes \<le> index_of b cputypes"

definition less_cputype :: "cputype \<Rightarrow> cputype \<Rightarrow> bool" where
  "a < b \<longleftrightarrow> index_of a cputypes < index_of b cputypes"

instance
proof
  show "a \<le> b \<Longrightarrow> b \<le> a \<Longrightarrow> a = b" for a b :: cputype
    using index_of_nth [OF cputypes_all] unfolding less_eq_cputype_def by (metis le_antisym)
qed (auto simp: less_eq_cputype_def less_cputype_def)

end

definition is_intel_cpu :: "cputype \<Rightarrow> bool" where
  "is_intel_cpu cpu \<longleftrightarrow> cpu \<ge> CPU_INTEL"

section \<open>Processor type and memory error support\<close>

definition intel_cpu_init :: "cputype \<Rightarrow> 'a memdb_state_scheme \<Rightarrow> 'a memdb_state_scheme" where
  "intel_cpu_init cpu s =
     s\<lparr>memory_error_support := cpu \<notin> {CPU_ATOM, CPU_CORE2, CPU_DUNNINGTON, CPU_GENERIC, CPU_K8, CPU_P4, CPU_P6OLD, CPU_TULSA}\<rparr>"

definition select_intel_cputype :: "int \<Rightarrow> int \<Rightarrow> 'a memdb_state_scheme \<Rightarrow> cputype \<times> 'a memdb_state_scheme" where
  "select_intel_cputype family model s =
     (let u = (\<lambda>n::int. PU (word_of_int n :: u32));
          only = ''Family %u Model %u CPU: only decoding architectural errors\<newline>''
      in if family = 15 then (if model = 6 then CPU_TULSA else CPU_P4, s)
         else
           let s = (if family = 6 \<and> model \<ge> 0x1a \<and> model \<noteq> 28 then s\<lparr>memory_error_support := True\<rparr> else s)
           in case (if family = 6 then lookup_intel_cputype model else None) of
                Some t \<Rightarrow> (t, s)
              | None \<Rightarrow>
                  if family = 6 \<and> model > 0x1a
                  then (CPU_INTEL, Eprintf ''Family 6 Model %u CPU: only decoding architectural errors\<newline>'' [u model] s)
                  else if family > 0xf
                  then (case lookup_intel_cputype (push_bit 8 family OR model) of
                          Some t \<Rightarrow> (t, s)
                        | None \<Rightarrow> (CPU_INTEL, Eprintf only [u family, u model] s))
                  else if family > 6 then (CPU_INTEL, Eprintf only [u family, u model] s)
                  else (if family = 6 then CPU_P6OLD else CPU_GENERIC,
                        Eprintf ''Unknown Intel CPU type family %u model %u\<newline>'' [u family, u model] s))"

section \<open>Memory errors\<close>

record intel_state = page_state +
  imc_log :: int
  filter_memory_errors :: bool

text \<open>The arrays \<open>channel\<close> and \<open>dimm\<close> after the dispatch on the processor.\<close>

definition memerr_location :: "mce \<Rightarrow> 'a intel_state_scheme \<Rightarrow> memloc" where
  "memerr_location m s =
     (let mca = ucast (m_status m AND 0xffff) :: u32;
          l = \<lparr>channel0 = (if mca AND 0xf = 0xf then - 1 else uint (mca AND 0xf)), dimm0 = - 1, channel1 = - 1, dimm1 = - 1\<rparr>;
          cpu = cpu_type s
      in if cpu = CPU_NEHALEM then nehalem_memerr_misc m l
         else if cpu = CPU_SANDY_BRIDGE_EP then sandy_bridge_ep_memerr_misc (imc_log s) s m l
         else if cpu = CPU_IVY_BRIDGE_EPEX then ivy_bridge_ep_memerr_misc (imc_log s) s m l
         else if cpu \<in> {CPU_HASWELL_EPEX, CPU_BROADWELL_EPEX} then haswell_memerr_misc m l
         else if cpu = CPU_SKYLAKE_XEON then skylake_memerr_misc m l
         else if cpu \<in> {CPU_ICELAKE_XEON, CPU_ICELAKE_DE, CPU_TREMONT_D} then i10nm_memerr_misc m l
         else if cpu \<in> {CPU_SAPPHIRERAPIDS, CPU_EMERALDRAPIDS} then sapphire_memerr_misc m l
         else if cpu \<in> {CPU_GRANITERAPIDS, CPU_SIERRAFOREST, CPU_CLEARWATERFOREST} then granite_memerr_misc m l
         else if cpu = CPU_DIAMONDRAPIDS then diamond_memerr_misc m l
         else l)"

definition offsetof :: "string \<Rightarrow> nat" where
  "offsetof f = (case map_of mce_fields f of Some n \<Rightarrow> endof_field f - n | None \<Rightarrow> 0)"

definition is_intel_memory_error :: "mce \<Rightarrow> bool" where
  "is_intel_memory_error m \<longleftrightarrow> drop_bit 7 (ucast (m_status m AND 0xffff) :: u32) = 1"

definition lost_errors :: "mce \<Rightarrow> nat \<Rightarrow> u32" where
  "lost_errors m recordlen =
     (if recordlen > offsetof ''mcgcap'' \<and> has (m_mcgcap m) MCG_CMCI_P then ucast (EXTRACT (m_status m) 38 52) else 0)"

definition intel_memory_error :: "mce \<Rightarrow> nat \<Rightarrow> 'a intel_state_scheme \<Rightarrow> ('a intel_state_scheme, bool) outcome" where
  "intel_memory_error m recordlen s =
     (if is_intel_memory_error m
      then let l = memerr_location m s;
               n = lost_errors m recordlen
           in andthen (account_page_error m (channel0 l) (dimm0 l) (memory_error m (channel0 l) (dimm0 l) n recordlen s)) (\<lambda>_ s.
              andthen (if channel1 l \<noteq> - 1
                       then account_page_error m (channel1 l) (dimm1 l) (memory_error m (channel1 l) (dimm1 l) n recordlen s)
                       else Ret () s) (\<lambda>_ s.
              Ret True s))
      else Ret False s)"

text \<open>The result tells whether the event is to be reported.\<close>

definition mce_filter_intel :: "mce \<Rightarrow> nat \<Rightarrow> 'a intel_state_scheme \<Rightarrow> ('a intel_state_scheme, bool) outcome" where
  "mce_filter_intel m recordlen s =
     andthen (intel_memory_error m recordlen s) (\<lambda>memory s. Ret (if memory then \<not> filter_memory_errors s else True) s)"


section \<open>Accounting DIMMs leaves the pages alone and vice versa\<close>

lemma same_pages_md_update: "same_pages s (md_update k f s)"
  by (simp add: same_pages_def same_env_def md_update_change)

lemma account_err_pages [frame]: "same_pages s t \<Longrightarrow> same_pages s (account_err uc bc n u msg tt reporter k t)"
  unfolding account_err_def Let_def split_beta
  by (cases "md_at k t", simp_all only: option.case) (intro frame same_pages_trans [OF _ same_pages_md_update])

lemma memory_error_pages [frame]: "same_pages s t \<Longrightarrow> same_pages s (memory_error m ch d n len t)"
proof (erule same_pages_trans)
  have w: "same_pages t (t\<lparr>me_warned := b\<rparr>)" for b and t :: "'a page_state_scheme" by (simp add: same_pages_def same_env_def)
  show "same_pages t (memory_error m ch d n len t)"
    unfolding memory_error_def account_memdb_def account_over_def Let_def split_beta
    by (intro frame same_pages_trans [OF _ w])
qed

lemma final_andthen:
  "R s (final m) \<Longrightarrow> (\<And>r t. m = Ret r t \<Longrightarrow> R s t \<Longrightarrow> R s (final (f r t))) \<Longrightarrow> R s (final (andthen m f))"
  by (cases m) auto

lemmas keeps_db_prints = msg_step_printf [OF msg_step_refl, THEN msg_trig_step, THEN keeps_db_trig]

lemma keeps_db_pages:
  "keeps_db s (mp_mod mp f s)" "keeps_db s (init_bucket mp s)" "keeps_db s (s\<lparr>corr_err_counters := n\<rparr>)"
  "keeps_db s (s\<lparr>mr_count := c, mr_bucket := b\<rparr>)"
  "keeps_db s (mempage_cluster_lru_list_insert cl s)" "keeps_db s (mempage_cluster_lru_list_update cl s)"
  by (intro keeps_db_same; simp add: same_conf_def mp_mod_def init_bucket_def mempage_cluster_lru_list_insert_def
      mempage_cluster_lru_list_update_def)+

lemma mempage_alloc_db: "keeps_db s (final (mempage_alloc s))"
proof -
  have e: "keeps_db s (Eprintf f a s)" for f a by (rule keeps_db_prints)
  show ?thesis
    unfolding mempage_alloc_def Enomem_def Let_def
    by (auto split: option.split simp: e intro: keeps_db_same simp: same_conf_def)
qed

lemma mempage_replace_db: "keeps_db s (final (mempage_replace s))"
  unfolding mempage_replace_def Let_def
  by (auto split: option.split list_ptr.split simp: mp_mod_def same_conf_def intro!: keeps_db_same)

lemma mempage_insert_db: "mempage_insert a mp s = Some (r, s') \<Longrightarrow> keeps_db s s'"
  by (intro keeps_db_same)
    (auto simp: mempage_insert_def mempage_insert_lookup_def mp_mod_def same_conf_def split: option.splits if_splits bind_splits)

lemma mempage_rb_tree_update_db: "mempage_rb_tree_update a mp s = Some s' \<Longrightarrow> keeps_db s s'"
proof -
  assume "mempage_rb_tree_update a mp s = Some s'"
  then obtain t r where "mempage_insert a mp (s\<lparr>mempage_root := t\<rparr>) = Some (r, s')"
    by (auto simp: mempage_rb_tree_update_def split: bind_splits)
  then have "keeps_db (s\<lparr>mempage_root := t\<rparr>) s'" by (rule mempage_insert_db)
  moreover have "keeps_db s (s\<lparr>mempage_root := t\<rparr>)" by (intro keeps_db_same) (simp_all add: same_conf_def)
  ultimately show ?thesis by (rule keeps_db_trans [rotated])
qed


lemmas keeps_db_steps [frame] =
  keeps_db_pages [THEN keeps_db_trans [rotated]]
  keeps_db_prints [THEN keeps_db_trans [rotated]]
  keeps_db_memdimm [THEN keeps_db_trans [rotated]]
  memdb_trigger_frame [THEN keeps_db_trig, THEN keeps_db_trans [rotated]]
  sysfs_write_frame [OF msg_step_refl, THEN msg_trig_step, THEN keeps_db_trig, THEN keeps_db_trans [rotated]]

lemma counter_trigger_db [frame]: "keeps_db s t \<Longrightarrow> keeps_db s (counter_trigger msg n bc sync t)"
proof (erule keeps_db_trans)
  show "keeps_db t (counter_trigger msg n bc sync t)"
    unfolding counter_trigger_def Let_def
    by (cases "bc_trigger bc") (simp_all add: keeps_db_trig trig_step_run trig_step_refl msg_steps_trig)
qed

lemma replacement_event_db [frame]: "keeps_db s t \<Longrightarrow> keeps_db s (replacement_event n t)"
proof (erule keeps_db_trans)
  show "keeps_db t (replacement_event n t)"
    unfolding replacement_event_def Let_def split_beta
    by (auto intro!: counter_trigger_db keeps_db_pages)
qed

lemma memory_offline_db [frame]: "keeps_db s t \<Longrightarrow> keeps_db s (snd (memory_offline a t))"
  unfolding memory_offline_def do_memory_offline_def split_beta Let_def if_distrib [of snd] snd_conv by (intro frame)

lemma page_threshold_db [frame]: "keeps_db s t \<Longrightarrow> keeps_db s (page_threshold mp a n m ch d t)"
  unfolding page_threshold_def soft_trigger_def offline_action_def split_beta Let_def by (intro frame)

lemma page_counter_db: "keeps_db s (final (page_counter a t s))"
  unfolding page_counter_def Let_def
  by (auto split: option.split intro!: final_andthen [where R = keeps_db] mempage_alloc_db mempage_replace_db keeps_db_refl keeps_db_pages frame
      dest!: mempage_insert_db mempage_rb_tree_update_db elim: keeps_db_trans [OF keeps_db_steps(2)])

lemma account_page_error_db: "keeps_db s (final (account_page_error m ch d s))"
  unfolding account_page_error_def Let_def split_beta
  by (auto intro!: final_andthen [where R = keeps_db] page_counter_db keeps_db_refl frame)


section \<open>A memory error is accounted for its DIMM, its socket and its page\<close>

definition spec_error :: "mce \<Rightarrow> int \<Rightarrow> int \<Rightarrow> u32 \<Rightarrow> 'a memdb_state_scheme \<Rightarrow> counters \<Rightarrow> counters" where
  "spec_error m ch d n s = spec_memory_error (memdb_enabled s) (sockdb_enabled s) (sint (m_socketid m)) ch d
     (has (m_status m) MCI_STATUS_UC) n"

text \<open>The pages after an event, and what one memory error does to both tables.\<close>

definition spec_page :: "mce \<Rightarrow> 'a page_state_scheme \<Rightarrow> (u64 \<rightharpoonup> u32) \<Rightarrow> (u64 \<rightharpoonup> u32)" where
  "spec_page m s p = (if page_error_ignored m s then p else count_page (page_of (m_addr m)) p)"

definition spec_intel :: "mce \<Rightarrow> nat \<Rightarrow> 'a intel_state_scheme \<Rightarrow> counters \<times> (u64 \<rightharpoonup> u32) \<Rightarrow> counters \<times> (u64 \<rightharpoonup> u32)" where
  "spec_intel m recordlen s = (\<lambda>(c, p).
     if \<not> is_intel_memory_error m then (c, p)
     else let l = memerr_location m s; n = lost_errors m recordlen;
              c = spec_error m (channel0 l) (dimm0 l) n s c; p = spec_page m s p
          in if channel1 l = - 1 then (c, p) else (spec_error m (channel1 l) (dimm1 l) n s c, spec_page m s p))"

definition page_room :: "mce \<Rightarrow> 'a page_state_scheme \<Rightarrow> bool" where
  "page_room m s \<longleftrightarrow> page_error_ignored m s \<or>
     card (insert (page_of (m_addr m)) (dom (page_count s))) \<le> nat (max_corr_err_counters s)"

text \<open>The invariants of both tables, with memory for the counters.\<close>

definition tables_ok :: "'a page_state_scheme \<Rightarrow> bool" where
  "tables_ok s \<longleftrightarrow> db_ok s \<and> page_ok s \<and> (\<forall>c. os_mmap s c)"

definition same_setup :: "'a page_state_scheme \<Rightarrow> 'a page_state_scheme \<Rightarrow> bool" where
  "same_setup s s' \<longleftrightarrow> same_conf s s' \<and> same_env s s'"

lemma same_setup_trans: "same_setup s t \<Longrightarrow> same_setup t u \<Longrightarrow> same_setup s u"
  using same_conf_trans same_env_trans unfolding same_setup_def by blast

lemma same_setup_refl: "same_setup s s"
  by (simp add: same_setup_def same_conf_def same_env_def)

lemma same_setup_ignored: "same_setup s s' \<Longrightarrow> page_error_ignored m s' = page_error_ignored m s"
  by (simp add: same_setup_def same_env_def page_error_ignored_def)

lemma same_setup_spec:
  assumes "same_setup s s'"
  shows "spec_error m ch d n s' = spec_error m ch d n s" "spec_page m s' = spec_page m s"
  using assms same_setup_ignored [OF assms]
  by (simp_all add: same_setup_def same_conf_def same_env_def spec_error_def spec_page_def fun_eq_iff)

lemma page_more_intel: "page_state.more s' = page_state.more s \<Longrightarrow> intel_state.more s' = intel_state.more s"
  "page_state.more s' = page_state.more s \<Longrightarrow> imc_log s' = imc_log s"
  "page_state.more s' = page_state.more s \<Longrightarrow> filter_memory_errors s' = filter_memory_errors s"
  by (cases s; cases s'; simp)+

text \<open>On Sandy Bridge and Ivy Bridge servers with extended logging the location depends on the DIMMs that are known.\<close>

definition fixed_locations :: "'a intel_state_scheme \<Rightarrow> bool" where
  "fixed_locations s \<longleftrightarrow> cpu_type s \<notin> {CPU_SANDY_BRIDGE_EP, CPU_IVY_BRIDGE_EPEX} \<or> imc_log s = 0"

lemma same_setup_intel:
  assumes "same_setup s s'" "fixed_locations s"
  shows "memerr_location m s' = memerr_location m s" "spec_intel m len s' = spec_intel m len s"
proof -
  have "cpu_type s' = cpu_type s" "imc_log s' = imc_log s"
    using assms page_more_intel(2) by (auto simp: same_setup_def same_env_def)
  then show "memerr_location m s' = memerr_location m s"
    using assms(2) by (auto simp: memerr_location_def fixed_locations_def Let_def sandy_bridge_ep_memerr_misc_def
        ivy_bridge_ep_memerr_misc_def ep_memerr_misc_def)
  then show "spec_intel m len s' = spec_intel m len s" by (simp add: spec_intel_def same_setup_spec [OF assms(1)] cong: if_cong)
qed

lemma account_both:
  assumes "tables_ok s" "endof_field ''socketid'' \<le> recordlen" "page_room m s"
  shows "\<exists>s'. account_page_error m ch d (memory_error m ch d n recordlen s) = Ret () s' \<and> tables_ok s' \<and> same_setup s s' \<and>
    counts s' = spec_error m ch d n s (counts s) \<and> page_count s' = spec_page m s (page_count s)"
proof -
  define s1 where "s1 = memory_error m ch d n recordlen s"
  have 1: "db_ok s1" "same_conf s s1" "counts s1 = spec_error m ch d n s (counts s)"
    using memory_error_step [of s recordlen m ch d n] assms(1,2) by (simp_all add: s1_def spec_error_def tables_ok_def)
  have p: "same_pages s s1" unfolding s1_def by (intro frame)
  then have e: "same_env s s1" by (simp add: same_pages_def)
  then have env: "page_error_ignored m s1 = page_error_ignored m s" "os_mmap s1 = os_mmap s"
    "max_corr_err_counters s1 = max_corr_err_counters s" by (simp_all add: same_env_def page_error_ignored_def)
  have ok: "page_ok s1" "page_count s1 = page_count s" "same_setup s s1"
    using same_pages_ok [OF p] same_pages_count [OF p] assms(1) 1(2) e by (simp_all add: tables_ok_def same_setup_def)
  show ?thesis
  proof (cases "page_error_ignored m s")
    case True
    then show ?thesis using 1 ok env assms(1)
      unfolding s1_def [symmetric] by (auto simp: account_page_error_def tables_ok_def spec_page_def)
  next
    case False
    obtain s2 where 2: "account_page_error m ch d s1 = Ret () s2" "page_ok s2" "same_env s1 s2"
      "page_count s2 = count_page (page_of (m_addr m)) (page_count s1)"
      using account_page_error_refines [OF ok(1), of m ch d] assms(1,3) False
      by (auto simp: env ok(2) tables_ok_def page_room_def)
    have "keeps_db s1 s2" using account_page_error_db [of s1 m ch d] 2(1) by simp
    then have "db_ok s2" "same_conf s1 s2" "counts s2 = counts s1" using 1(1) by (simp_all add: keeps_db_def)
    moreover have "tables_ok s2" using 2 calculation(1) assms(1) env by (simp add: tables_ok_def same_env_def)
    ultimately show ?thesis
      using 1 2 ok False unfolding s1_def [symmetric] spec_page_def
      by (auto simp: same_setup_def intro: same_conf_trans same_env_trans)
  qed
qed

lemma page_room_again: "page_room m s \<Longrightarrow> same_setup s s' \<Longrightarrow> page_count s' = spec_page m s (page_count s) \<Longrightarrow> page_room m s'"
  by (auto simp: page_room_def same_setup_ignored spec_page_def same_setup_def same_env_def dom_count_page insert_absorb)

text \<open>The front end refines the specification, memory error or not.\<close>

lemma intel_memory_error_step:
  assumes "tables_ok s" "endof_field ''socketid'' \<le> recordlen" "page_room m s"
  shows "\<exists>s'. intel_memory_error m recordlen s = Ret (is_intel_memory_error m) s' \<and> tables_ok s' \<and> same_setup s s' \<and>
    (counts s', page_count s') = spec_intel m recordlen s (counts s, page_count s)"
proof (cases "is_intel_memory_error m")
  case False
  then show ?thesis using assms(1) by (simp add: intel_memory_error_def spec_intel_def same_setup_refl)
next
  case True
  define l n where "l = memerr_location m s" and "n = lost_errors m recordlen"
  obtain s1 where 1: "account_page_error m (channel0 l) (dimm0 l) (memory_error m (channel0 l) (dimm0 l) n recordlen s) = Ret () s1"
    "tables_ok s1" "same_setup s s1" "counts s1 = spec_error m (channel0 l) (dimm0 l) n s (counts s)"
    "page_count s1 = spec_page m s (page_count s)"
    using account_both [OF assms] by blast
  obtain s2 where 2: "account_page_error m (channel1 l) (dimm1 l) (memory_error m (channel1 l) (dimm1 l) n recordlen s1) = Ret () s2"
    "tables_ok s2" "same_setup s1 s2" "counts s2 = spec_error m (channel1 l) (dimm1 l) n s (counts s1)"
    "page_count s2 = spec_page m s (page_count s1)"
    using account_both [OF 1(2) assms(2) page_room_again [OF assms(3) 1(3,5)], of "channel1 l" "dimm1 l" n]
    by (auto simp: same_setup_spec [OF 1(3)])
  show ?thesis
    using 1 2 True same_setup_trans [OF 1(3) 2(3)]
    by (cases "channel1 l = - 1") (simp_all add: intel_memory_error_def spec_intel_def l_def [symmetric] n_def [symmetric])
qed

text \<open>
  C5: A memory error goes to all three kinds of counters. When the error code says memory, the front end of the decoder
  returns that it was one, the counters of the DIMM where the decoder of the processor locates it and of its socket
  grow as the specification says and the counter of its page grows by one; when the processor names a second DIMM, as
  for a mirrored pair, that one is accounted as well and the page once more. All three invariants are kept.
\<close>

theorem intel_error_accounted:
  assumes "db_ok s" "page_ok s" "\<forall>c. os_mmap s c" "endof_field ''socketid'' \<le> recordlen"
    and "is_intel_memory_error m" "\<not> page_error_ignored m s"
    and "card (insert (page_of (m_addr m)) (dom (page_count s))) \<le> nat (max_corr_err_counters s)"
  defines "l \<equiv> memerr_location m s" and "n \<equiv> lost_errors m recordlen" and "p \<equiv> page_of (m_addr m)"
  shows "\<exists>s'. intel_memory_error m recordlen s = Ret True s' \<and> db_ok s' \<and> page_ok s' \<and>
    counts s' = (let c = spec_error m (channel0 l) (dimm0 l) n s (counts s)
       in if channel1 l = - 1 then c else spec_error m (channel1 l) (dimm1 l) n s c) \<and>
    page_count s' = (let c = count_page p (page_count s) in if channel1 l = - 1 then c else count_page p c)"
proof -
  have "tables_ok s" "page_room m s" using assms(1-3,6,7) by (simp_all add: tables_ok_def page_room_def)
  from intel_memory_error_step [OF this(1) assms(4) this(2)] assms(5,6) show ?thesis
    by (auto simp: spec_intel_def tables_ok_def spec_page_def Let_def l_def n_def p_def split: if_splits)
qed

definition intel_start :: intel_state where
  "intel_start = no_pages (intel_state.fields 1 False)"

definition memory_mce :: mce where
  "memory_mce = (page_mce 0x5123)\<lparr>m_status := MCI_STATUS_ADDRV OR 0x80 OR 3\<rparr>"

lemma memory_mce_sel:
  "is_intel_memory_error memory_mce" "\<not> page_error_ignored memory_mce (no_pages x)" "page_of (m_addr memory_mce) = 0x5000"
  "m_socketid memory_mce = 0" "\<not> has (m_status memory_mce) MCI_STATUS_UC" "m_mcgcap memory_mce = 0"
  by (simp_all add: memory_mce_def page_mce_def blank_mce_def is_intel_memory_error_def page_error_ignored_def no_pages_sel
      has_def mci_defs page_of_def PAGE_SIZE_def PAGE_SHIFT_def)

lemma intel_start_ok: "db_ok intel_start" "page_ok intel_start" "page_count intel_start = Map.empty" "counts intel_start k = (0, 0)"
  by (simp_all add: intel_start_def no_pages_ok no_pages_count db_ok_def no_pages_sel dimm.placed_empty dimm.keys_def
      dimm.entries_def counts_def md_at_lookup dimm.lookup_empty)

theorem intel_error_accounted_witness:
  "\<exists>s'. intel_memory_error memory_mce 128 intel_start = Ret True s' \<and> counts s' (Key 0 3 (-1)) = (1, 0) \<and>
     counts s' (Key 0 (-1) (-1)) = (1, 0) \<and> page_count s' 0x5000 = Some 1"
proof -
  have "memerr_location memory_mce intel_start = \<lparr>channel0 = 3, dimm0 = - 1, channel1 = - 1, dimm1 = - 1\<rparr>"
    by (simp add: memerr_location_def intel_start_def no_pages_sel memory_mce_def mci_defs Let_def)
  then show ?thesis
    using intel_error_accounted [of intel_start 128 memory_mce]
    by (auto simp: intel_start_ok memory_mce_sel intel_start_def [symmetric] mce_offsets)
       (auto simp: intel_start_def no_pages_sel memory_mce_sel count_page_def spec_error_def spec_memory_error_def bump_def
          lost_errors_def has_def [of 0] intel_start_ok [unfolded intel_start_def])
qed

text \<open>
  C32: A corrected memory error with the filtering bit set is not accounted. The decoder clears that bit and reports a
  memory error, but the front end tests the code with the bit and takes the event for something else: no counter
  changes.
\<close>

theorem filtered_error_not_accounted:
  assumes "unat (mca_code (m_status m)) \<in> {0x80..0xFF}" and "bit (m_status m) 12"
  shows "intel_memory_error m recordlen s = Ret False s \<and>
    fst (snd (decode_mca (m_status m) misc track cpu ismemerr socket bank r))"
proof -
  have "bit (drop_bit 7 (ucast (m_status m AND 0xffff) :: u32)) 5"
    using assms(2) by (simp add: bit_simps)
  moreover have "\<not> bit (1 :: u32) 5" by simp
  ultimately have "\<not> is_intel_memory_error m" unfolding is_intel_memory_error_def by metis
  then show ?thesis using assms(1) by (simp add: decode_mca_verdict intel_memory_error_def)
qed

definition filtered_mce :: mce where
  "filtered_mce = memory_mce\<lparr>m_status := m_status memory_mce OR push_bit 12 1\<rparr>"

theorem filtered_error_not_accounted_witness:
  "intel_memory_error filtered_mce 128 intel_start = Ret False intel_start \<and>
   fst (snd (decode_mca (m_status filtered_mce) 0 0 0 False 0 0 intel_start))"
  by (rule filtered_error_not_accounted) (simp_all add: filtered_mce_def memory_mce_def mca_code_def mci_defs)


end
