(* ===== verification/ZhaoxinModel.thy ===== *)
theory ZhaoxinModel
  imports Intel
begin

text \<open>
  The model-specific decoders of the Zhaoxin server processors, \<^verbatim>\<open>src/zhaoxin-kh40000.c\<close> and
  \<^verbatim>\<open>src/zhaoxin-kh50000.c\<close>. Both files use the same names for their static functions and tables; here they
  have the prefixes \<open>kh40_\<close> and \<open>kh50_\<close>.
\<close>

section \<open>Tables of KH-40000\<close>

definition kh40_bank_name_str :: "string option list" where
  "kh40_bank_name_str = tbl
    [(0, ''CPU Error Bank''),
     (1, ''PL2 Cache Error Bank''),
     (2, ''Reserved Error Bank''),
     (3, ''Reserved Error Bank''),
     (4, ''SVID Error Bank''),
     (5, ''ZPI Error Bank''),
     (6, ''PCIE Error Bank''),
     (7, ''Reserved Error Bank''),
     (8, ''Reserved Error Bank''),
     (9, ''Memory Error Bank9''),
     (10, ''Memory Error Bank10''),
     (11, ''Reserved Error Bank''),
     (12, ''Reserved Error Bank''),
     (13, ''Reserved Error Bank''),
     (14, ''Reserved Error Bank''),
     (15, ''Reserved Error Bank''),
     (16, ''Reserved Error Bank''),
     (17, ''LLC Cache Error Bank'')]"

definition kh40_cpu_error_str :: "string option list" where
  "kh40_cpu_error_str = tbl
    [(0, ''Unknown Error''),
     (1, ''Thermal Trip''),
     (2, ''Machine Hung''),
     (3, ''Undefined Ucode Address'')]"

definition kh40_cpu_error_fields :: "field list" where
  "kh40_cpu_error_fields =
    [FIELD 24 kh40_cpu_error_str]"

definition kh40_error_coreid :: "numfield list" where
  "kh40_error_coreid =
    [NUMBERFORCE 16 17 ''Core id'',
     NUMBERFORCE 18 19 ''Cluster id'',
     NUMBERFORCE 20 22 ''Subnode id'',
     NUMBERFORCE 23 23 ''Socket id'']"

definition kh40_cache_error_str :: "string option list" where
  "kh40_cache_error_str = tbl
    [(0, ''Unknown Error''),
     (1, ''ECC single bit for data part in the same line''),
     (2, ''ECC single bit for different line''),
     (3, ''ECC multi bit for data part'')]"

definition kh40_cache_error_fields :: "field list" where
  "kh40_cache_error_fields =
    [FIELD 24 kh40_cache_error_str]"

definition kh40_svid_error_str :: "string option list" where
  "kh40_svid_error_str = tbl
    [(0, ''No error''),
     (1, ''SVID Resend fail error''),
     (2, ''VRM Over current error''),
     (3, ''VRM Over temp error''),
     (4, ''VRM Parity error'')]"

definition kh40_svid_error_fields :: "field list" where
  "kh40_svid_error_fields =
    [FIELD 24 kh40_svid_error_str]"

definition kh40_zpi_error_str :: "string option list" where
  "kh40_zpi_error_str = tbl
    [(0, ''Unknown error''),
     (1, ''Receiver Overflow Status''),
     (2, ''Flow Control Protocol Error Status''),
     (3, ''Surprise Down Error Status''),
     (4, ''Data Link Protocol Error Status''),
     (5, ''Replay Timer Timeout Error Status''),
     (6, ''REPLAY_NUM Rollover Status''),
     (7, ''Bad Data Link Layer Packet Status''),
     (8, ''Bad TLP Status''),
     (9, ''Receiver Error Status''),
     (10, ''Unsupported/Undefined Packet''),
     (11, ''Link-Width down-mode due to Link Unreliable''),
     (12, ''Link-Speed down-mode due to Link Unreliable'')]"

definition kh40_zpi_error_fields :: "field list" where
  "kh40_zpi_error_fields =
    [FIELD 16 kh40_zpi_error_str]"

definition kh40_zpi_dev_flag_str :: "string option list" where
  "kh40_zpi_dev_flag_str = tbl
    [(0, ''opi0''),
     (1, ''opi1(reserved)''),
     (2, ''zpi''),
     (3, ''unknown'')]"

definition kh40_pcie_error_str :: "string option list" where
  "kh40_pcie_error_str = tbl
    [(0, ''Fatal error''),
     (1, ''Non-fatal error''),
     (2, ''Correctable error'')]"

definition kh40_pcie_error_fields :: "field list" where
  "kh40_pcie_error_fields =
    [FIELD 16 kh40_pcie_error_str]"

definition kh40_mem_specific_error_str :: "string option list" where
  "kh40_mem_specific_error_str = tbl
    [(0, ''Unknown error''),
     (1, ''Single bit ECC error''),
     (2, ''Multiple bit ECC error''),
     (3, ''command parity error''),
     (4, ''CRC error''),
     (5, ''Parity error retry failed''),
     (6, ''CRC error retry failed''),
     (7, ''CPUIF DVAD decode error''),
     (8, ''MCUTRF DVAD decode error'')]"

definition kh40_mem_specific_fields :: "field list" where
  "kh40_mem_specific_fields =
    [FIELD 16 kh40_mem_specific_error_str]"

definition kh40_mem_addmod_str :: "string option list" where
  "kh40_mem_addmod_str = tbl
    [(0, ''Unknown''),
     (1, ''Unknown''),
     (2, ''DRAMC''),
     (3, ''DVAD'')]"

section \<open>Tables of KH-50000\<close>

definition kh50_bank_name_str :: "string option list" where
  "kh50_bank_name_str = tbl
    [(0, ''CPU Error Bank''),
     (1, ''PL2 Cache Error Bank''),
     (2, ''CRMCA0 PCIE Error Bank''),
     (3, ''CRMCA0 IOD ZDI Error Bank''),
     (4, ''SVID0 Error Bank''),
     (5, ''CRMCA1 IOD ZDI Error Bank''),
     (6, ''CRMCA1 PCIE Error Bank''),
     (7, ''CCD ZDI Error Bank''),
     (8, ''Reserved Error Bank''),
     (9, ''Memory Error Bank9''),
     (10, ''Memory Error Bank10''),
     (11, ''Memory Error Bank11''),
     (12, ''Memory Error Bank12''),
     (13, ''Memory Error Bank13''),
     (14, ''Memory Error Bank14''),
     (15, ''Memory Error Bank15''),
     (16, ''Memory Error Bank16''),
     (17, ''LLC Cache Error Bank''),
     (18, ''Memory Error Bank18''),
     (19, ''Memory Error Bank19''),
     (20, ''Memory Error Bank20''),
     (21, ''Memory Error Bank21''),
     (22, ''SVID2 Error Bank''),
     (23, ''Reserved Error Bank''),
     (24, ''Reserved Error Bank''),
     (25, ''Reserved Error Bank''),
     (26, ''ZPI Error Bank''),
     (27, ''SVID1 Error Bank''),
     (28, ''HIF H0 Error Bank''),
     (29, ''HIF H1 Error Bank''),
     (30, ''HIF H2 Error Bank''),
     (31, ''HIF H3 Error Bank'')]"

definition kh50_cpu_error_str :: "string option list" where
  "kh50_cpu_error_str = tbl
    [(0, ''Unknown error''),
     (1, ''Unknown error''),
     (2, ''Machine hung error''),
     (3, ''Undefined ucode address error'')]"

definition kh50_error_coreid :: "numfield list" where
  "kh50_error_coreid =
    [NUMBERFORCE 23 24 ''siod_id'',
     NUMBERFORCE 19 22 ''ccd_id'',
     NUMBERFORCE 16 18 ''core_id'']"

definition kh50_cpu_error_fields :: "field list" where
  "kh50_cpu_error_fields =
    [FIELD 25 kh50_cpu_error_str]"

definition kh50_cache_error_str :: "string option list" where
  "kh50_cache_error_str = tbl
    [(0, ''Unknown Error''),
     (1, ''ECC single bit error for data part in the same line''),
     (2, ''ECC single bit error for different line''),
     (3, ''ECC multi bit error for data part'')]"

definition kh50_pl2_cache_error_fields :: "field list" where
  "kh50_pl2_cache_error_fields =
    [FIELD 24 kh50_cache_error_str]"

definition kh50_llc_cache_error_fields :: "field list" where
  "kh50_llc_cache_error_fields =
    [FIELD 25 kh50_cache_error_str]"

definition kh50_pcie_error_str :: "string option list" where
  "kh50_pcie_error_str = tbl
    [(0, ''Fatal error''),
     (1, ''Non-fatal error''),
     (2, ''Correctable error'')]"

definition kh50_pcie_error_fields :: "field list" where
  "kh50_pcie_error_fields =
    [FIELD 16 kh50_pcie_error_str]"

definition kh50_iod_zdi_zpi_error_str :: "string option list" where
  "kh50_iod_zdi_zpi_error_str = tbl
    [(0, ''Unknown error''),
     (1, ''Receiver overflow status error(TL)''),
     (2, ''Flow control protocol error(TL)''),
     (3, ''Surprise down error''),
     (4, ''Data link protocol error(DLL)''),
     (5, ''Replay timer timeout error(DLL)''),
     (6, ''REPLAY_NUM Rollover error(DLL)''),
     (7, ''Bad data link layer packet error(DLL)''),
     (8, ''Bad transaction layer packet error(DLL)''),
     (9, ''Receiver error(PHY)''),
     (10, ''PHY training error(PHY)''),
     (11, ''Link-width down-mode due to link unreliable''),
     (12, ''Unknown error''),
     (13, ''Unknown error''),
     (14, ''Link-speed down-mode due to link unreliable''),
     (15, ''Unknown error''),
     (16, ''X32X24 Link-width down-mode due to link unreliable''),
     (17, ''X16X12 Link-width down-mode due to link unreliable''),
     (18, ''X8 Link-width down-mode due to link unreliable''),
     (19, ''X4 Link-width down-mode due to link unreliable''),
     (20, ''X2 Link-width down-mode due to link unreliable''),
     (21, ''GEN4 Link-speed down-mode due to link unreliable''),
     (22, ''GEN3 Link-speed down-mode due to link unreliable''),
     (23, ''GEN2 Link-speed down-mode due to link unreliable'')]"

definition kh50_iod_zdi_zpi_error_fields :: "field list" where
  "kh50_iod_zdi_zpi_error_fields =
    [FIELD 16 kh50_iod_zdi_zpi_error_str]"

definition kh50_ccd_zdi_error_str :: "string option list" where
  "kh50_ccd_zdi_error_str = tbl
    [(0, ''Unknown error''),
     (1, ''Receive overflow error''),
     (2, ''PHY training error''),
     (3, ''FC protocol error''),
     (4, ''Surprise down error''),
     (5, ''DLLM protocol error''),
     (6, ''DLLM replay timeout error''),
     (7, ''DLLM replay number rollover report''),
     (8, ''Bad DLLP error''),
     (9, ''Bad TLP error''),
     (10, ''Gen2 unreliable error''),
     (11, ''Gen3 unreliable error''),
     (12, ''Gen4 unreliable error''),
     (13, ''X2 unreliable error''),
     (14, ''X4 unreliable error''),
     (15, ''X8 unreliable error''),
     (16, ''X16/X12 unreliable error''),
     (17, ''X32/X24 unreliable error'')]"

definition kh50_ccd_zdi_error_fields :: "field list" where
  "kh50_ccd_zdi_error_fields =
    [FIELD 25 kh50_ccd_zdi_error_str]"

definition kh50_svid_error_str :: "string option list" where
  "kh50_svid_error_str = tbl
    [(0, ''No error''),
     (1, ''SVID Resend fail error''),
     (2, ''VRM Over current error''),
     (3, ''VRM Over temp error''),
     (4, ''VRM Parity error'')]"

definition kh50_svid_error_fields :: "field list" where
  "kh50_svid_error_fields =
    [FIELD 24 kh50_svid_error_str]"

definition kh50_mem_error_mccod_str :: "string option list" where
  "kh50_mem_error_mccod_str = tbl
    [(0, ''Generic undefined request error''),
     (1, ''Memory read error''),
     (2, ''Memory write error''),
     (3, ''Address/Command error''),
     (4, ''Memory scrubbing error''),
     (5, ''data poison enable, Error source is dramc, master normal read''),
     (6, ''data poison enable, Error source is dramc, patrol read''),
     (7, ''key hit error'')]"

definition kh50_mem_channel_str :: "string option list" where
  "kh50_mem_channel_str = tbl
    [(0, ''channel A0''),
     (1, ''channel B0''),
     (2, ''channel A1''),
     (3, ''channel B1''),
     (4, ''channel C0''),
     (5, ''channel C1''),
     (6, ''channel A2''),
     (7, ''channel B2''),
     (8, ''channel C2''),
     (9, ''channel A3''),
     (10, ''channel B3''),
     (11, ''channel C3'')]"

definition kh50_mem_specific_error_str :: "string option list" where
  "kh50_mem_specific_error_str = tbl
    [(0, ''Unknown error''),
     (1, ''Single bit ECC error''),
     (2, ''Multiple bit ECC error''),
     (3, ''Command parity error''),
     (4, ''CRC error''),
     (5, ''Parity error retry failed''),
     (6, ''CRC error retry failed''),
     (7, ''CPUIF CHA0 DVAD decode error(reserved)''),
     (8, ''CPUIF CHB0 DVAD decode error(reserved)''),
     (9, ''CPUIF CHA1 DVAD decode error(reserved)''),
     (10, ''CPUIF CHB1 DVAD decode error(reserved)''),
     (11, ''MCUTRF DVAD decode error(reserved)''),
     (12, ''GMINT CHA0 DVAD decode error(reserved)''),
     (13, ''GMINT CHB0 DVAD decode error(reserved)''),
     (14, ''GMINT CHA1 DVAD decode error(reserved)''),
     (15, ''GMINT CHB1 DVAD decode error(reserved)''),
     (16, ''Key not hit error'')]"

definition kh50_mem_specific_error_fields :: "field list" where
  "kh50_mem_specific_error_fields =
    [FIELD 16 kh50_mem_specific_error_str]"

definition kh50_hif_error_str :: "string option list" where
  "kh50_hif_error_str = tbl
    [(0, ''Unknown error''),
     (1, ''HIF dvad error''),
     (2, ''SNT multi bit ecc error''),
     (3, ''SNT single bit ecc error''),
     (4, ''CXL decpoison uc error''),
     (5, ''CXL decpoison ce error''),
     (6, ''CXL parity error'')]"

definition kh50_hif_error_fields :: "field list" where
  "kh50_hif_error_fields =
    [FIELD 16 kh50_hif_error_str]"

section \<open>KH-40000\<close>

text \<open>\<open>unsigned\<close> values printed with \<open>%u\<close>.\<close>

definition kh40000_bank_name :: "u32 \<Rightarrow> string" where
  "kh40000_bank_name bank =
     (if unat bank < length kh40_bank_name_str then tab_at kh40_bank_name_str (unat bank)
      else printf ''BANK %u'' [PU bank])"

definition kh40_decode_cpu_error :: "mce \<Rightarrow> 'a msg_state_scheme \<Rightarrow> 'a msg_state_scheme" where
  "kh40_decode_cpu_error m s =
     (if EXTRACT (m_status m) 30 31 = 1
      then decode_numfield (m_status m) kh40_error_coreid
             (decode_bitfield (m_status m) kh40_cpu_error_fields (Wput ''CPU: '' [] s))
      else s)"

text \<open>The condition under which the cache decoders of both processors run the cache threshold trigger.\<close>

definition zx_yellow :: "mce \<Rightarrow> bool" where
  "zx_yellow m \<longleftrightarrow> \<not> (\<not> has (m_mcgcap m) MCG_TES_P \<or> has (m_status m) MCI_STATUS_UC \<or>
     EXTRACT (m_status m) 0 15 \<noteq> 1 \<or> EXTRACT (m_status m) 53 54 \<noteq> 2)"

definition zx_run_yellow :: "mce \<Rightarrow> int \<Rightarrow> string \<Rightarrow> 'a report_state_scheme \<Rightarrow> 'a report_state_scheme" where
  "zx_run_yellow m level level_str s =
     (if zx_yellow m then run_yellow_trigger (mce_cpu m) 2 level ''Generic'' level_str (sint (m_socketid m)) s else s)"

definition kh40_decode_cache_error :: "mce \<Rightarrow> 'a report_state_scheme \<Rightarrow> 'a report_state_scheme" where
  "kh40_decode_cache_error m s =
     (if EXTRACT (m_status m) 30 31 \<noteq> 1 then s
      else if m_bank m = 0x1 then
        zx_run_yellow m 2 ''Level-2'' (decode_numfield (m_status m) kh40_error_coreid
          (decode_bitfield (m_status m) kh40_cache_error_fields (Wput ''PL2 cache: '' [] s)))
      else if m_bank m = 0x11 then
        zx_run_yellow m 3 ''Level-3'' (decode_numfield (m_status m) kh40_error_coreid
          (decode_bitfield (m_status m) kh40_cache_error_fields (Wput ''LLC cache: '' [] s)))
      else s)"

definition kh40_decode_svid_error :: "mce \<Rightarrow> 'a msg_state_scheme \<Rightarrow> 'a msg_state_scheme" where
  "kh40_decode_svid_error m s =
     (let s = Wput ''SVID: '' [] s;
          s = (if has (m_status m) MCI_STATUS_MISCV
               then Wput ''vrm %u '' [PU (ucast (EXTRACT (m_misc m) 24 25) :: u32)] s else s)
      in decode_bitfield (m_status m) kh40_svid_error_fields s)"

definition kh40_decode_zpi_error :: "mce \<Rightarrow> 'a msg_state_scheme \<Rightarrow> 'a msg_state_scheme" where
  "kh40_decode_zpi_error m s =
     (let s = Wput ''ZPI: '' [] s;
          s = (if has (m_status m) MCI_STATUS_MISCV
               then Wput ''%s '' [PS (tab_at kh40_zpi_dev_flag_str (unat (EXTRACT (m_misc m) 25 26)))] s else s)
      in decode_bitfield (m_status m) kh40_zpi_error_fields s)"

definition kh40_decode_pcie_error :: "mce \<Rightarrow> 'a msg_state_scheme \<Rightarrow> 'a msg_state_scheme" where
  "kh40_decode_pcie_error m s = decode_bitfield (m_status m) kh40_pcie_error_fields (Wput ''PCIe: '' [] s)"

definition kh40_decode_mem_error :: "mce \<Rightarrow> 'a msg_state_scheme \<Rightarrow> 'a msg_state_scheme" where
  "kh40_decode_mem_error m s =
     (let mca_err_code = (ucast (EXTRACT (m_status m) 0 15) :: u32);
          s = Wput ''Model specific (KH-40000): '' [] s;
          s = (if mca_err_code = 1 then Wput ''DVAD Error, '' [] s else s);
          s = Wput ''Internal Error Code: '' [] s;
          s = decode_bitfield (m_status m) kh40_mem_specific_fields s
      in if has (m_status m) MCI_STATUS_MISCV
         then let addmod = unat (EXTRACT (m_misc m) 6 8);
                  s = Wput ''CRC/PAR MRP Log: 0x%llx\<newline>'' [PU (EXTRACT (m_misc m) 31 63)] s;
                  s = Wput ''Rank: %llu\<newline>'' [PU (EXTRACT (m_misc m) 25 26)] s;
                  s = Wput ''ECC ERROR Syndrome Single Bit: 0x%llx\<newline>'' [PU (EXTRACT (m_misc m) 9 16)] s
              in Wput ''Addr Mode: %s\<newline>''
                   [PS (if addmod < length kh40_mem_addmod_str then tab_at kh40_mem_addmod_str addmod else ''Unknown'')] s
         else s)"

definition kh40000_decode_model :: "mce \<Rightarrow> 'a report_state_scheme \<Rightarrow> 'a report_state_scheme" where
  "kh40000_decode_model m s =
     (let bank = m_bank m
      in if bank = 0x0 then kh40_decode_cpu_error m s
         else if bank \<in> {0x1, 0x11} then kh40_decode_cache_error m s
         else if bank = 0x4 then kh40_decode_svid_error m s
         else if bank = 0x5 then kh40_decode_zpi_error m s
         else if bank = 0x6 then kh40_decode_pcie_error m s
         else if bank \<in> {0x9, 0xA} then kh40_decode_mem_error m s
         else s)"

definition kh40000_memerr_misc :: "mce \<Rightarrow> int \<Rightarrow> int" where
  "kh40000_memerr_misc m channel = (if m_bank m < 9 \<or> m_bank m > 10 then - 1 else channel)"

section \<open>KH-50000\<close>

definition kh50000_bank_name :: "u32 \<Rightarrow> string" where
  "kh50000_bank_name bank =
     (if unat bank < length kh50_bank_name_str then tab_at kh50_bank_name_str (unat bank)
      else printf ''BANK %u'' [PU bank])"

definition kh50_decode_cpu_error :: "mce \<Rightarrow> 'a msg_state_scheme \<Rightarrow> 'a msg_state_scheme" where
  "kh50_decode_cpu_error m s =
     decode_bitfield (m_status m) kh50_cpu_error_fields (decode_numfield (m_status m) kh50_error_coreid s)"

definition kh50_decode_cache_error :: "mce \<Rightarrow> 'a report_state_scheme \<Rightarrow> 'a report_state_scheme" where
  "kh50_decode_cache_error m s =
     (if EXTRACT (m_status m) 30 31 \<noteq> 1 then s
      else if m_bank m = 0x1 then
        zx_run_yellow m 2 ''Level-2'' (decode_bitfield (m_status m) kh50_pl2_cache_error_fields (Wput ''PL2 cache: '' [] s))
      else if m_bank m = 0x11 then
        zx_run_yellow m 3 ''Level-3'' (decode_bitfield (m_status m) kh50_llc_cache_error_fields
          (Wput ''LLC cache: '' [] (decode_numfield (m_status m) kh50_error_coreid s)))
      else s)"

definition kh50_decode_pcie_error :: "mce \<Rightarrow> 'a msg_state_scheme \<Rightarrow> 'a msg_state_scheme" where
  "kh50_decode_pcie_error m s = decode_bitfield (m_status m) kh50_pcie_error_fields (Wput ''PCIe: '' [] s)"

text \<open>The device whose bit is the highest one set, if it is below \<open>count\<close>: the loop over \<open>idx\<close>.\<close>

definition kh50_dev :: "nat \<Rightarrow> u32 \<Rightarrow> nat option" where
  "kh50_dev count devnum = find (\<lambda>idx. test_prefix idx devnum) [0..<count]"

definition kh50_print_dev :: "string \<Rightarrow> nat option \<Rightarrow> 'a msg_state_scheme \<Rightarrow> 'a msg_state_scheme" where
  "kh50_print_dev fmt idx s = (case idx of None \<Rightarrow> s | Some i \<Rightarrow> Wput fmt [PN (int i)] s)"

definition kh50_decode_zdi_zpi_error :: "mce \<Rightarrow> 'a msg_state_scheme \<Rightarrow> 'a msg_state_scheme" where
  "kh50_decode_zdi_zpi_error m s =
     (if m_bank m \<in> {0x3, 0x5} then
        let s = Wput ''IOD_ZDI: '' [] s;
            s = (if has (m_status m) MCI_STATUS_MISCV
                 then kh50_print_dev ''zdi%d '' (kh50_dev 6 (ucast (EXTRACT (m_misc m) 25 30))) s else s)
        in decode_bitfield (m_status m) kh50_iod_zdi_zpi_error_fields s
      else if m_bank m = 0x7 then
        decode_bitfield (m_status m) kh50_ccd_zdi_error_fields
          (Wput ''CCD_ZDI: '' [] (decode_numfield (m_status m) kh50_error_coreid s))
      else if m_bank m = 0x1A then
        let s = Wput ''ZPI: '' [] s;
            s = (if has (m_status m) MCI_STATUS_MISCV
                 then kh50_print_dev ''zpi%d '' (kh50_dev 3 (ucast (EXTRACT (m_misc m) 25 27))) s else s)
        in decode_bitfield (m_status m) kh50_iod_zdi_zpi_error_fields s
      else s)"

definition kh50_decode_svid_error :: "mce \<Rightarrow> 'a msg_state_scheme \<Rightarrow> 'a msg_state_scheme" where
  "kh50_decode_svid_error m s =
     (let svid_str = (if m_bank m = 0x4 then ''svid0'' else if m_bank m = 0x1B then ''svid1''
            else if m_bank m = 0x16 then ''svid2'' else ''svid'');
          s = Wput ''SVID: %s '' [PS svid_str] s;
          s = (if has (m_status m) MCI_STATUS_MISCV
               then Wput ''vrm %u '' [PU (ucast (EXTRACT (m_misc m) 24 25) :: u32)] s else s)
      in decode_bitfield (m_status m) kh50_svid_error_fields s)"

definition kh50_decode_mem_error :: "mce \<Rightarrow> 'a msg_state_scheme \<Rightarrow> 'a msg_state_scheme" where
  "kh50_decode_mem_error m s =
     (let mca_err_code = (ucast (EXTRACT (m_status m) 0 15) :: u32);
          s = Wput ''Model specific (KH-50000): '' [] s;
          s = (if mca_err_code = 1 then Wput ''DVAD Error, '' [] s
               else if mca_err_code AND push_bit 7 1 \<noteq> 0
               then let channel_code = unat (EXTRACT (ucast mca_err_code) 0 3);
                        mem_err_code = unat (EXTRACT (ucast mca_err_code) 4 6);
                        s = (if channel_code < length kh50_mem_channel_str
                             then Wput ''%s, '' [PS (tab_at kh50_mem_channel_str channel_code)] s else s)
                    in if mem_err_code \<ge> 5 \<and> mem_err_code < length kh50_mem_error_mccod_str
                       then Wput ''%s, '' [PS (tab_at kh50_mem_error_mccod_str mem_err_code)] s else s
               else s);
          s = Wput ''Internal Error Code: '' [] s;
          s = decode_bitfield (m_status m) kh50_mem_specific_error_fields s
      in if has (m_status m) MCI_STATUS_MISCV
         then let s = Wput ''CRC/PAR MRP Log: 0x%llx\<newline>'' [PU (EXTRACT (m_misc m) 31 63)] s;
                  s = Wput ''Rank: %llu\<newline>'' [PU (EXTRACT (m_misc m) 25 26)] s;
                  s = Wput ''ECC ERROR Syndrome Single Bit: 0x%llx\<newline>'' [PU (EXTRACT (m_misc m) 9 16)] s
              in Wput ''Addr Mode: %s\<newline>'' [PS (if EXTRACT (m_misc m) 6 8 = 2 then ''SVA'' else ''Unknown'')] s
         else s)"

definition kh50_decode_hif_error :: "mce \<Rightarrow> 'a msg_state_scheme \<Rightarrow> 'a msg_state_scheme" where
  "kh50_decode_hif_error m s =
     (let hif_str = (if m_bank m = 0x1C then ''hif0'' else if m_bank m = 0x1D then ''hif1''
            else if m_bank m = 0x1E then ''hif2'' else if m_bank m = 0x1F then ''hif3'' else ''hif'')
      in decode_bitfield (m_status m) kh50_hif_error_fields (Wput ''HIF: %s '' [PS hif_str] s))"

definition kh50000_decode_model :: "mce \<Rightarrow> 'a report_state_scheme \<Rightarrow> 'a report_state_scheme" where
  "kh50000_decode_model m s =
     (let bank = m_bank m
      in if bank = 0x0 then kh50_decode_cpu_error m s
         else if bank \<in> {0x1, 0x11} then kh50_decode_cache_error m s
         else if bank \<in> {0x2, 0x6} then kh50_decode_pcie_error m s
         else if bank \<in> {0x3, 0x5, 0x7, 0x1A} then kh50_decode_zdi_zpi_error m s
         else if bank \<in> {0x4, 0x1B, 0x16} then kh50_decode_svid_error m s
         else if bank \<in> {0x9, 0xA, 0xB, 0xC, 0xD, 0xE, 0xF, 0x10, 0x12, 0x13, 0x14, 0x15} then kh50_decode_mem_error m s
         else if bank \<in> {0x1C, 0x1D, 0x1E, 0x1F} then kh50_decode_hif_error m s
         else s)"

definition kh50000_memerr_misc :: "mce \<Rightarrow> int \<Rightarrow> int" where
  "kh50000_memerr_misc m channel = (if m_bank m < 9 \<or> m_bank m > 21 \<or> m_bank m = 17 then - 1 else channel)"

section \<open>Decoding changes nothing but the output and the cache triggers\<close>

lemma zx_run_yellow_frame [frame]: "rep_step s t \<Longrightarrow> rep_step s (zx_run_yellow m l ls t)"
  unfolding zx_run_yellow_def by (intro frame)

lemma kh50_print_dev_frame [frame]: "msg_step s t \<Longrightarrow> msg_step s (kh50_print_dev fmt i t)"
  unfolding kh50_print_dev_def by (auto split: option.split intro: frame)

lemmas kh40_defs = kh40_decode_cpu_error_def kh40_decode_svid_error_def kh40_decode_zpi_error_def
  kh40_decode_pcie_error_def kh40_decode_mem_error_def

lemmas kh50_defs = kh50_decode_cpu_error_def kh50_decode_pcie_error_def kh50_decode_zdi_zpi_error_def
  kh50_decode_svid_error_def kh50_decode_mem_error_def kh50_decode_hif_error_def

lemma kh40_msg [frame]:
  "msg_step s t \<Longrightarrow> msg_step s (kh40_decode_cpu_error m t)" "msg_step s t \<Longrightarrow> msg_step s (kh40_decode_svid_error m t)"
  "msg_step s t \<Longrightarrow> msg_step s (kh40_decode_zpi_error m t)" "msg_step s t \<Longrightarrow> msg_step s (kh40_decode_pcie_error m t)"
  "msg_step s t \<Longrightarrow> msg_step s (kh40_decode_mem_error m t)"
  unfolding kh40_defs Let_def by (intro frame; assumption)+

lemma kh50_msg [frame]:
  "msg_step s t \<Longrightarrow> msg_step s (kh50_decode_cpu_error m t)" "msg_step s t \<Longrightarrow> msg_step s (kh50_decode_pcie_error m t)"
  "msg_step s t \<Longrightarrow> msg_step s (kh50_decode_zdi_zpi_error m t)" "msg_step s t \<Longrightarrow> msg_step s (kh50_decode_svid_error m t)"
  "msg_step s t \<Longrightarrow> msg_step s (kh50_decode_mem_error m t)" "msg_step s t \<Longrightarrow> msg_step s (kh50_decode_hif_error m t)"
  unfolding kh50_defs Let_def by (intro frame; assumption)+

lemmas rep_step_kh40 [frame] = kh40_msg [OF msg_step_refl, THEN rep_step_msg, THEN rep_step_trans [rotated]]

lemmas rep_step_kh50 [frame] = kh50_msg [OF msg_step_refl, THEN rep_step_msg, THEN rep_step_trans [rotated]]

lemma kh40000_decode_model_frame: "rep_step s (kh40000_decode_model m s)"
  unfolding kh40000_decode_model_def kh40_decode_cache_error_def Let_def
  by (intro frame)

lemma kh50000_decode_model_frame: "rep_step s (kh50000_decode_model m s)"
  unfolding kh50000_decode_model_def kh50_decode_cache_error_def Let_def
  by (intro frame)

end
