(* ===== verification/Zhaoxin.thy ===== *)
theory Zhaoxin
  imports ZhaoxinModel
begin

text \<open>
  The Zhaoxin processors, \<^verbatim>\<open>src/zhaoxin.c\<close>: the processor type, the accounting of memory errors and the decoder
  of the architectural registers, which is a variant of the one of \<^verbatim>\<open>src/p4.c\<close>. Functions that the two files
  name alike have the prefix \<open>zx_\<close> here.
\<close>

section \<open>Processor type and memory errors\<close>

definition select_zhaoxin_cputype :: "int \<Rightarrow> int \<Rightarrow> 'a memdb_state_scheme \<Rightarrow> cputype \<times> 'a memdb_state_scheme" where
  "select_zhaoxin_cputype family model s =
     (let s = s\<lparr>memory_error_support := True\<rparr>
      in if family = 7 \<and> model = 0x5b then (CPU_ZHAOXIN_KH40000, s)
         else if family = 7 \<and> model = 0x7b then (CPU_ZHAOXIN_KH50000, s)
         else (CPU_ZHAOXIN, Eprintf ''Zhaoxin family %x model %x CPU: only generic decoding\<newline>''
                 [PU (word_of_int family :: u32), PU (word_of_int model :: u32)] s))"

definition zx_channel :: "mce \<Rightarrow> int" where
  "zx_channel m = (if m_status m AND 0xf = 0xf then - 1 else uint (m_status m AND 0xf))"

definition zhaoxin_memory_error :: "mce \<Rightarrow> nat \<Rightarrow> 'a intel_state_scheme \<Rightarrow> ('a intel_state_scheme, bool) outcome" where
  "zhaoxin_memory_error m recordlen s =
     (let mca = (ucast (m_status m AND 0xffff) :: u32) AND NOT (push_bit 12 1)
      in if drop_bit 7 mca = 1
         then let channel = zx_channel m;
                  channel = (if cpu_type s = CPU_ZHAOXIN_KH40000 then kh40000_memerr_misc m channel
                             else if cpu_type s = CPU_ZHAOXIN_KH50000 then kh50000_memerr_misc m channel
                             else channel);
                  corr_err_cnt = lost_errors m recordlen
              in andthen (account_page_error m channel (- 1) (memory_error m channel (- 1) corr_err_cnt recordlen s)) (\<lambda>_ s.
                 Ret True s)
         else Ret False s)"

definition mce_filter_zhaoxin :: "mce \<Rightarrow> nat \<Rightarrow> 'a intel_state_scheme \<Rightarrow> ('a intel_state_scheme, bool) outcome" where
  "mce_filter_zhaoxin m recordlen s =
     andthen (zhaoxin_memory_error m recordlen s) (\<lambda>memory s. Ret (if memory then \<not> filter_memory_errors s else True) s)"

definition zhaoxin_bank_name :: "u32 \<Rightarrow> cputype \<Rightarrow> string" where
  "zhaoxin_bank_name num cpu =
     (if cpu = CPU_ZHAOXIN_KH40000 then kh40000_bank_name num
      else if cpu = CPU_ZHAOXIN_KH50000 then kh50000_bank_name num
      else printf ''BANK %u'' [PU num])"

section \<open>The registers\<close>

definition zx_decode_mcg :: "u64 \<Rightarrow> 'a msg_state_scheme \<Rightarrow> 'a msg_state_scheme" where
  "zx_decode_mcg mcgstatus s =
    (let s = Wput ''MCG status:'' [] s;
         s = (if has mcgstatus MCG_STATUS_RIPV then Wput ''RIPV '' [] s else s);
         s = (if has mcgstatus MCG_STATUS_EIPV then Wput ''EIPV '' [] s else s);
         s = (if has mcgstatus MCG_STATUS_MCIP then Wput ''MCIP '' [] s else s);
         s = (if has mcgstatus MCG_STATUS_LMCES then Wput ''LMCE '' [] s else s)
     in Wput ''\<newline>'' [] s)"

definition zx_get_TT_str :: "u8 \<Rightarrow> string" where
  "zx_get_TT_str t = (let TT = [''Instruction'', ''Data'', ''Generic'', ''Unknown'']
     in if unat t \<ge> length TT then ''UNKNOWN'' else TT ! unat t)"

definition zx_get_LL_str :: "u8 \<Rightarrow> string" where
  "zx_get_LL_str ll = (let LL = [''Level-0'', ''Level-1'', ''Level-2'', ''Level-3'']
     in if unat ll \<ge> length LL then ''UNKNOWN'' else LL ! unat ll)"

definition zx_RRRR :: "(u8 \<times> string) list" where
  "zx_RRRR = [(0, ''Generic''), (1, ''Read''), (2, ''Write''), (3, ''Data-Read''), (4, ''Data-Write''),
     (5, ''Instruction-Fetch''), (6, ''Prefetch''), (7, ''Eviction''), (8, ''Snoop'')]"

definition zx_get_RRRR_str :: "u8 \<Rightarrow> string" where
  "zx_get_RRRR_str rrrr = (case map_of zx_RRRR rrrr of Some s \<Rightarrow> s | None \<Rightarrow> ''UNKNOWN'')"

definition zx_get_PP_str :: "u8 \<Rightarrow> string" where
  "zx_get_PP_str pp = (let PP = [''Local-CPU-originated-request'', ''Responded-to-request'',
       ''Observed-error-as-third-party'', ''Generic'']
     in if unat pp \<ge> length PP then ''UNKNOWN'' else PP ! unat pp)"

definition zx_get_T_str :: "u8 \<Rightarrow> string" where
  "zx_get_T_str t = (let T = [''Request-did-not-timeout'', ''Request-timed-out'']
     in if unat t \<ge> length T then ''UNKNOWN'' else T ! unat t)"

definition zx_get_II_str :: "u8 \<Rightarrow> string" where
  "zx_get_II_str i = (let II = [''Memory-access'', ''Reserved'', ''IO'', ''Other-transaction'']
     in if unat i \<ge> length II then ''UNKNOWN'' else II ! unat i)"

definition zx_mem_error_mccod_str :: "string list" where
  "zx_mem_error_mccod_str = [''Generic undefined request error'', ''Memory read error'', ''Memory write error'',
     ''Address/Command error'', ''Memory scrubbing error'', ''Reserved 5'', ''Reserved 6'', ''Reserved 7'']"

definition zx_decode_memory_error :: "mce \<Rightarrow> 'a msg_state_scheme \<Rightarrow> 'a msg_state_scheme" where
  "zx_decode_memory_error m s =
     (let channel = zx_channel m;
          mem_err_code = unat (EXTRACT (m_status m) 4 6);
          channel_str = (if channel = - 1 then ''unspecified'' else printf ''%d'' [PN channel])
      in Wput ''MCA Error Code: Memory Controller Channel %s %s\<newline>''
           [PS channel_str, PS (if mem_err_code < length zx_mem_error_mccod_str
              then zx_mem_error_mccod_str ! mem_err_code else ''Unknown error'')] s)"

definition zx_mca_msg :: "string list" where
  "zx_mca_msg = [''No Error'', ''Unclassified Error'', ''Microcode ROM parity error'', ''External error'',
     ''FRC error'', ''Internal parity error'', ''SMM Handler Code Access Violation'']"

text \<open>The result tells whether the error is unknown, then whether it is a memory error.\<close>

definition zx_decode_mca :: "mce \<Rightarrow> u64 \<Rightarrow> int \<Rightarrow> int \<Rightarrow> bool \<Rightarrow>
    'a report_state_scheme \<Rightarrow> bool \<times> bool \<times> 'a report_state_scheme" where
  "zx_decode_mca m track socket cpu ismemerr s =
    (let status = m_status m; misc = m_misc m;
         mca = (ucast status :: u32) AND 0xFFFF;
         s = (if mca AND push_bit 12 1 \<noteq> 0
              then Wput ''corrected filtering (some unreported errors in same region)\<newline>'' [] s else s);
         mca = mca_code status
     in
     if unat mca < length zx_mca_msg then (False, ismemerr, Wput ''%s\<newline>'' [PS (zx_mca_msg ! unat mca)] s)
     else if drop_bit 2 mca = 3 then
       let levelnum = mca AND 3;
           level = zx_get_LL_str (ucast levelnum);
           s = Wput ''%s Generic cache hierarchy error\<newline>'' [PS level] s;
           s = (if track = 2 then run_yellow_trigger cpu (-1) (uint levelnum) ''unknown'' level socket s else s)
       in (False, ismemerr, s)
     else if test_prefix 4 mca then
       let typenum = drop_bit 2 (mca AND 0xC);
           type = zx_get_TT_str (ucast typenum);
           levelnum = drop_bit 0 (mca AND 0x3);
           level = zx_get_LL_str (ucast levelnum);
           s = Wput ''%s TLB %s Error\<newline>'' [PS type, PS level] s;
           s = (if track = 2 then run_yellow_trigger cpu (uint typenum) (uint levelnum) type level socket s else s)
       in (False, ismemerr, s)
     else if test_prefix 7 mca then (False, True, zx_decode_memory_error m s)
     else if test_prefix 8 mca then
       let typenum = drop_bit 2 (mca AND 0xC);
           levelnum = drop_bit 0 (mca AND 0x3) + 1;
           type = zx_get_TT_str (ucast typenum);
           level = zx_get_LL_str (ucast levelnum);
           s = Wput ''%s CACHE %s %s Error\<newline>''
                 [PS type, PS level, PS (zx_get_RRRR_str (ucast (drop_bit 4 (mca AND 0xF0))))] s;
           s = (if track = 2 then run_yellow_trigger cpu (uint typenum) (uint levelnum) type level socket s else s)
       in (False, ismemerr, s)
     else if test_prefix 10 mca then
       (True, ismemerr,
        if mca = 0x400 then Wput ''Internal Timer error\<newline>'' [] s
        else if mca = 0x402 then Wput ''Internal SVID error\<newline>'' [] s
        else Wput ''Internal unclassified error: %x\<newline>'' [PU (mca AND 0xFFFF)] s)
     else if test_prefix 11 mca then
       let level = zx_get_LL_str (ucast (drop_bit 0 (mca AND 0x3)));
           pp = zx_get_PP_str (ucast (drop_bit 9 (mca AND 0x600)));
           rrrr = zx_get_RRRR_str (ucast (drop_bit 4 (mca AND 0xF0)));
           ii = zx_get_II_str (ucast (drop_bit 2 (mca AND 0xC)));
           timeout = zx_get_T_str (ucast (drop_bit 8 (mca AND 0x100)));
           s = Wput ''BUS error: %d %d %s %s %s %s %s\<newline>''
                 [PN socket, PN cpu, PS level, PS pp, PS rrrr, PS ii, PS timeout] s;
           s = run_bus_trigger socket cpu level pp rrrr ii timeout s
       in if has status MCI_STATUS_MISCV \<and> status AND 0xEFFF = 0x0E0B then
            let seg = (ucast (EXTRACT misc 32 39) :: u32);
                bus = (ucast (EXTRACT misc 24 31) :: u32);
                dev = (ucast (EXTRACT misc 19 23) :: u32);
                fn = (ucast (EXTRACT misc 16 18) :: u32);
                s = Wput ''IO MCA reported by PCIe device %x:%02x:%02x.%x\<newline>'' [PU seg, PU bus, PU dev, PU fn] s
            in (False, ismemerr, run_iomca_trigger socket cpu seg bus dev fn s)
          else (False, ismemerr, s)
     else (True, ismemerr, Wput ''Unknown Error %x\<newline>'' [PU mca] s))"

definition zx_arstate :: "string list" where
  "zx_arstate = [''Uncorrected No Action Required (UCNA)'', ''Action Required (AR)'',
     ''Software Recoverable Action Optional (SRAO)'', ''Software Recoverable Action Required (SRAR)'']"

definition zx_decode_mci :: "mce \<Rightarrow> int \<Rightarrow> int \<Rightarrow> bool \<Rightarrow> 'a report_state_scheme \<Rightarrow> bool \<times> bool \<times> 'a report_state_scheme" where
  "zx_decode_mci m socket cpu ismemerr s =
    (let status = m_status m;
         s = Wput ''MCi status:\<newline>'' [] s;
         s = (if \<not> has status MCI_STATUS_VAL then Wput ''Machine check not valid\<newline>'' [] s else s);
         s = (if has status MCI_STATUS_OVER then Wput ''Error overflow\<newline>'' [] s else s);
         s = (if has status MCI_STATUS_EN then Wput ''Error enabled\<newline>'' [] s else s);
         s = (if has status MCI_STATUS_MISCV then Wput ''MCi_MISC register valid\<newline>'' [] s else s);
         s = (if has status MCI_STATUS_ADDRV then Wput ''MCi_ADDR register valid\<newline>'' [] s else s);
         s = (if has status MCI_STATUS_UC
              then let s = Wput ''Uncorrected error\<newline>'' [] s
                   in if has status MCI_STATUS_PCC then Wput ''Processor context corrupt\<newline>'' [] s
                      else if has status (MCI_STATUS_S OR MCI_STATUS_AR)
                      then Wput ''%s\<newline>'' [PS (zx_arstate ! unat (drop_bit 55 status AND 3))] s else s
              else Wput ''Corrected error\<newline>'' [] s);
         tracked = has (m_mcgcap m) MCG_TES_P \<and> \<not> has status MCI_STATUS_UC;
         track = (if tracked then drop_bit 53 status AND 3 else 0);
         s = (if tracked \<and> track = 1 then Wput ''Threshold based error status: green\<newline>'' [] s
              else if tracked \<and> track = 2 then Wput ''Threshold based error status: yellow\<newline>'' [] s else s);
         s = Wput ''MCA: '' [] s
     in zx_decode_mca m track socket cpu ismemerr s)"

definition decode_zhaoxin_mc :: "mce \<Rightarrow> cputype \<Rightarrow> bool \<Rightarrow> nat \<Rightarrow> 'a report_state_scheme \<Rightarrow> bool \<times> 'a report_state_scheme" where
  "decode_zhaoxin_mc m cputype ismemerr recordlen s =
    (let socket = (if recordlen > offsetof ''socketid'' then sint (m_socketid m) else - 1);
         cpu = mce_cpu m;
         s = zx_decode_mcg (m_mcgstatus m) s;
         (unknown, ismemerr, s) = zx_decode_mci m socket cpu ismemerr s;
         s = (if unknown then run_unknown_trigger socket cpu m s else s)
     in (ismemerr, if cputype = CPU_ZHAOXIN_KH40000 then kh40000_decode_model m s
                   else if cputype = CPU_ZHAOXIN_KH50000 then kh50000_decode_model m s
                   else s))"


section \<open>Decoding changes nothing but the output and the caches\<close>

lemma zx_memory_frame [frame]: "msg_step s t \<Longrightarrow> msg_step s (zx_decode_memory_error m t)"
  unfolding zx_decode_memory_error_def Let_def by (intro frame)

lemma zx_mcg_frame [frame]: "msg_step s t \<Longrightarrow> msg_step s (zx_decode_mcg g t)"
  unfolding zx_decode_mcg_def Let_def by (intro frame)

lemmas rep_step_zx [frame] =
  zx_memory_frame [OF msg_step_refl, THEN rep_step_msg, THEN rep_step_trans [rotated]]
  zx_mcg_frame [OF msg_step_refl, THEN rep_step_msg, THEN rep_step_trans [rotated]]
  kh40000_decode_model_frame [THEN rep_step_trans [rotated]]
  kh50000_decode_model_frame [THEN rep_step_trans [rotated]]

lemma zx_decode_mca_frame [frame]: "rep_step s t \<Longrightarrow> rep_step s (snd (snd (zx_decode_mca m track socket cpu mem t)))"
  unfolding zx_decode_mca_def Let_def if_distrib [of snd] snd_conv by (intro frame)

lemma zx_decode_mci_frame [frame]: "rep_step s t \<Longrightarrow> rep_step s (snd (snd (zx_decode_mci m socket cpu mem t)))"
  unfolding zx_decode_mci_def Let_def by (intro frame)

lemma decode_zhaoxin_mc_frame: "rep_step s (snd (decode_zhaoxin_mc m cpu mem len s))"
  unfolding decode_zhaoxin_mc_def Let_def split_beta snd_conv by (intro frame)

section \<open>Accounting and decoding agree\<close>

lemma zx_decode_mca_memory:
  "fst (snd (zx_decode_mca m track socket cpu mem s)) = (mem \<or> test_prefix 7 (mca_code (m_status m)))"
proof -
  define c where "c = mca_code (m_status m)"
  have m: "length zx_mca_msg = 7" by (simp add: zx_mca_msg_def)
  have l: "drop_bit 2 c = 3 \<longleftrightarrow> unat c \<in> {12..<16}" unfolding word_unat_eq_iff unat_drop_div by auto
  show ?thesis
    unfolding zx_decode_mca_def c_def [symmetric] Let_def l m unfolding test_prefix_range
      if_distrib [of snd] if_distrib [of fst] snd_conv fst_conv by auto
qed

lemma account_page_error_returns:
  "page_ok s \<Longrightarrow> \<forall>c. os_mmap s c \<Longrightarrow> \<exists>s'. account_page_error m ch d s = Ret () s' \<and> page_ok s'"
  using account_page_error_moves [of s m ch d] by (cases "page_error_ignored m s") (auto simp: moved_def account_page_error_def)



text \<open>
  The cache threshold trigger is not run twice for one event. When the model-specific decoder of the caches runs
  it, the architectural decoder has only printed a message for the event, and for every event that the architectural
  decoder treats as a cache or TLB error the model-specific decoder does not run it.
\<close>

lemma zx_yellow_once:
  "if zx_yellow m
   then zx_decode_mca m track socket cpu mem s = (False, mem, Wput ''%s\<newline>'' [PS ''Unclassified Error''] s)
   else zx_run_yellow m level level_str s = s"
proof -
  have "mca_code (m_status m) = 1 \<and> (ucast (m_status m) AND (0xFFFF :: u32)) AND push_bit 12 1 = 0" if "zx_yellow m"
  proof -
    have e: "EXTRACT (m_status m) 0 15 = 1" using that by (simp add: zx_yellow_def)
    have "(ucast (m_status m) :: u32) AND 0xFFFF = ucast (EXTRACT (m_status m) 0 15)"
      by (rule bit_word_eqI) (auto simp: EXTRACT_def MASK_def bit_simps)
    then have "(ucast (m_status m) :: u32) AND 0xFFFF = 1" using e by simp
    then show ?thesis by (simp add: mca_code_def)
  qed
  then show ?thesis by (simp add: zx_decode_mca_def zx_mca_msg_def zx_run_yellow_def Let_def)
qed

end
