(* ===== verification/K8.thy ===== *)
theory K8
  imports Mce "HOL-Library.Monad_Syntax"
begin

text \<open>The decoder of the AMD K8 and its relatives, \<^verbatim>\<open>src/k8.c\<close>.\<close>

section \<open>Tables\<close>

definition K8_MCE_THRESHOLD_BASE :: nat where "K8_MCE_THRESHOLD_BASE = MCE_EXTENDED_BANK + 1"
definition K8_MCE_THRESHOLD_TOP :: nat where "K8_MCE_THRESHOLD_TOP = K8_MCE_THRESHOLD_BASE + 6 * 9"
definition K8_MCELOG_THRESHOLD_DRAM_ECC :: nat where "K8_MCELOG_THRESHOLD_DRAM_ECC = 4 * 9 + 0"
definition K8_MCELOG_THRESHOLD_LINK :: nat where "K8_MCELOG_THRESHOLD_LINK = 4 * 9 + 1"
definition K8_MCELOG_THRESHOLD_L3_CACHE :: nat where "K8_MCELOG_THRESHOLD_L3_CACHE = 4 * 9 + 2"
definition K8_MCELOG_THRESHOLD_FBDIMM :: nat where "K8_MCELOG_THRESHOLD_FBDIMM = 4 * 9 + 3"

lemmas k8_consts = K8_MCE_THRESHOLD_BASE_def K8_MCE_THRESHOLD_TOP_def K8_MCELOG_THRESHOLD_DRAM_ECC_def
  K8_MCELOG_THRESHOLD_LINK_def K8_MCELOG_THRESHOLD_L3_CACHE_def K8_MCELOG_THRESHOLD_FBDIMM_def

definition k8bank :: "string list" where
  "k8bank = [''data cache'', ''instruction cache'', ''bus unit'', ''load/store unit'', ''northbridge'', ''fixed-issue reoder'']"

definition k8_transaction :: "string list" where
  "k8_transaction = [''instruction'', ''data'', ''generic'', ''reserved'']"

definition k8_cachelevel :: "string list" where
  "k8_cachelevel = [''0'', ''1'', ''2'', ''generic'']"

definition k8_memtrans :: "string list" where
  "k8_memtrans = [''generic error'', ''generic read'', ''generic write'', ''data read'', ''data write'', ''instruction fetch'',
     ''prefetch'', ''evict'', ''snoop'', ''?'', ''?'', ''?'', ''?'', ''?'', ''?'', ''?'']"

definition k8_partproc :: "string list" where
  "k8_partproc = [''local node origin'', ''local node response'', ''local node observed'', ''generic participation'']"

definition k8_timeout :: "string list" where
  "k8_timeout = [''request didn'' @ CHR 0x27 # ''t time out'', ''request timed out'']"

definition k8_memoryio :: "string list" where
  "k8_memoryio = [''memory'', ''res.'', ''i/o'', ''generic'']"

definition k8_nbextendederr :: "string list" where
  "k8_nbextendederr = [''RAM ECC error'', ''CRC error'', ''Sync error'', ''Master abort'', ''Target abort'', ''GART error'', ''RMW error'',
     ''Watchdog error'', ''RAM Chipkill ECC error'', ''DEV Error'', ''Link Data Error'', ''Link Protocol Error'',
     ''NB Array Error'', ''DRAM Parity Error'', ''Link Retry'', ''Tablew Walk Data Error'', ''L3 Cache Data Error'',
     ''L3 Cache Tag Error'', ''L3 Cache LRU Error'']"

text \<open>Entries that the initialiser does not name are NULL.\<close>

definition k8_highbits :: "string option list" where
  "k8_highbits = tbl_n 32 [(31, ''valid''), (30, ''error overflow (multiple errors)''), (29, ''error uncorrected''),
     (28, ''error enable''), (27, ''misc error valid''), (26, ''error address valid''), (25, ''processor context corrupt''),
     (24, ''res24''), (23, ''res23''), (14, ''corrected ecc error''), (13, ''uncorrected ecc error''), (12, ''res12''),
     (11, ''L3 subcache in error bit 1''), (10, ''L3 subcache in error bit 0''), (9, ''sublink or DRAM channel''),
     (8, ''error found by scrub''), (3, ''err cpu3''), (2, ''err cpu2''), (1, ''err cpu1''), (0, ''err cpu0'')]"

definition k8threshold :: "string option list" where
  "k8threshold = tbl
    (tbl_range 0 (K8_MCELOG_THRESHOLD_DRAM_ECC - 1) ''Unknown threshold counter'' @
     [(K8_MCELOG_THRESHOLD_DRAM_ECC, ''MC4_MISC0 DRAM threshold''), (K8_MCELOG_THRESHOLD_LINK, ''MC4_MISC1 Link threshold''),
      (K8_MCELOG_THRESHOLD_L3_CACHE, ''MC4_MISC2 L3 Cache threshold''), (K8_MCELOG_THRESHOLD_FBDIMM, ''MC4_MISC3 FBDIMM threshold'')] @
     tbl_range (K8_MCELOG_THRESHOLD_FBDIMM + 1) (K8_MCE_THRESHOLD_TOP - K8_MCE_THRESHOLD_BASE - 1) ''Unknown threshold counter'')"

section \<open>Decoder\<close>

text \<open>The table lookups of the C code; out of bounds is \<open>None\<close>.\<close>

definition arr :: "string list \<Rightarrow> nat \<Rightarrow> string option" where
  "arr t i = (if i < length t then Some (t ! i) else None)"

definition k8_errcode :: "u64 \<Rightarrow> u16" where
  "k8_errcode status = ucast status"

definition k8_exterrcode :: "u64 \<Rightarrow> u16" where
  "k8_exterrcode status = ucast (drop_bit 16 status AND 0x0f)"

definition k8_bits_loop :: "u64 \<Rightarrow> 'a msg_state_scheme \<Rightarrow> 'a msg_state_scheme" where
  "k8_bits_loop status s =
     fold (\<lambda>i s. if i = 31 \<or> i = 28 \<or> i = 26 then s
        else case k8_highbits ! i of
               None \<Rightarrow> s
             | Some name \<Rightarrow> if status AND push_bit (i + 32) 1 \<noteq> 0
                 then Wput ''       bit%d = %s\<newline>'' [PN (int i + 32), PS name] s else s) [0..<32] s"

text \<open>The functions that look names up return \<open>None\<close> when an index is out of bounds.\<close>

definition decode_k8_generic_errcode :: "u64 \<Rightarrow> 'a msg_state_scheme \<Rightarrow> 'a msg_state_scheme option" where
  "decode_k8_generic_errcode status s =
     (let errcode = k8_errcode status;
          s = k8_bits_loop status s
      in if errcode AND 0xFFF0 = 0x0010 then do {
           t \<leftarrow> arr k8_transaction (unat (drop_bit 2 errcode AND 3));
           l \<leftarrow> arr k8_cachelevel (unat (errcode AND 3));
           Some (Wput (''  TLB error '' @ CHR 0x27 # ''%s transaction, level %s'' @ CHR 0x27 # ''\<newline>'') [PS t, PS l] s) }
         else if errcode AND 0xFF00 = 0x0100 then do {
           m \<leftarrow> arr k8_memtrans (unat (drop_bit 4 errcode AND 0xf));
           t \<leftarrow> arr k8_transaction (unat (drop_bit 2 errcode AND 3));
           l \<leftarrow> arr k8_cachelevel (unat (errcode AND 3));
           Some (Wput (''  memory/cache error '' @ CHR 0x27 # ''%s mem transaction, %s transaction, level %s'' @ CHR 0x27 # ''\<newline>'')
                   [PS m, PS t, PS l] s) }
         else if errcode AND 0xF800 = 0x0800 then do {
           p \<leftarrow> arr k8_partproc (unat (drop_bit 9 errcode AND 3));
           t \<leftarrow> arr k8_timeout (unat (drop_bit 8 errcode AND 1));
           m \<leftarrow> arr k8_memtrans (unat (drop_bit 4 errcode AND 0xf));
           i \<leftarrow> arr k8_memoryio (unat (drop_bit 2 errcode AND 3));
           l \<leftarrow> arr k8_cachelevel (unat (errcode AND 3));
           Some (Wput (''  bus error '' @ CHR 0x27 # ''%s, %s\<newline>             %s mem transaction\<newline>             %s access, level %s'' @
                   CHR 0x27 # ''\<newline>'') [PS p, PS t, PS m, PS i, PS l] s) }
         else Some s)"

definition k8_tlb_parity :: "u64 \<Rightarrow> 'a msg_state_scheme \<Rightarrow> 'a msg_state_scheme" where
  "k8_tlb_parity status s =
     (if k8_errcode status AND 0xFFF0 = 0x0010
      then Wput ''  TLB parity error in %s array\<newline>'' [PS (if k8_exterrcode status = 0 then ''physical'' else ''virtual'')] s
      else s)"

definition decode_k8_dc_mc :: "u64 \<Rightarrow> 'a msg_state_scheme \<Rightarrow> 'a msg_state_scheme option" where
  "decode_k8_dc_mc status s =
     (let s = (if status AND push_bit 45 3 \<noteq> 0
               then let s = Wput ''  Data cache ECC error (syndrome %x)'' [PU ((ucast (drop_bit 47 status) :: u32) AND 0xff)] s;
                        s = (if status AND push_bit 40 1 \<noteq> 0 then Wput '' found by scrubber'' [] s else s)
                    in Wput ''\<newline>'' [] s
               else s)
      in decode_k8_generic_errcode status (k8_tlb_parity status s))"

definition decode_k8_ic_mc :: "u64 \<Rightarrow> 'a msg_state_scheme \<Rightarrow> 'a msg_state_scheme option" where
  "decode_k8_ic_mc status s =
     (let s = (if status AND push_bit 45 3 \<noteq> 0 then Wput ''  Instruction cache ECC error\<newline>'' [] s else s)
      in decode_k8_generic_errcode status (k8_tlb_parity status s))"

definition decode_k8_bu_mc :: "u64 \<Rightarrow> 'a msg_state_scheme \<Rightarrow> 'a msg_state_scheme option" where
  "decode_k8_bu_mc status s =
     (let s = (if status AND push_bit 45 3 \<noteq> 0 then Wput ''  L2 cache ECC error\<newline>'' [] s else s);
          s = Wput ''  %s array error\<newline>'' [PS (if k8_exterrcode status = 0 then ''Bus or cache'' else ''Cache tag'')] s
      in decode_k8_generic_errcode status s)"

definition decode_k8_ls_mc :: "u64 \<Rightarrow> 'a msg_state_scheme \<Rightarrow> 'a msg_state_scheme option" where
  "decode_k8_ls_mc status s = decode_k8_generic_errcode status s"

text \<open>The second component tells whether this is a memory error.\<close>

definition decode_k8_nb_mc :: "u64 \<Rightarrow> bool \<Rightarrow> 'a msg_state_scheme \<Rightarrow> (bool \<times> 'a msg_state_scheme) option" where
  "decode_k8_nb_mc status memerr s =
     (let exterrcode = k8_exterrcode status in do {
        name \<leftarrow> arr k8_nbextendederr (unat exterrcode);
        let s = Wput ''  Northbridge %s\<newline>'' [PS name] s;
        let (memerr, s) =
          (if exterrcode = 0 then (True, Wput ''  ECC syndrome = %x\<newline>'' [PU ((ucast (drop_bit 47 status) :: u32) AND 0xff)] s)
           else if exterrcode = 8
           then (True, Wput ''  Chipkill ECC syndrome = %x\<newline>''
                   [PU (ucast (push_bit 8 (drop_bit 24 status AND 0xff) OR (drop_bit 47 status AND 0xff)) :: u32)] s)
           else if exterrcode \<in> {1, 2, 3, 4, 6}
           then (memerr, Wput ''  link number = %x\<newline>'' [PU ((ucast (drop_bit 36 status) :: u32) AND 0xf)] s)
           else (memerr, s));
        s \<leftarrow> decode_k8_generic_errcode status s;
        Some (memerr, s) })"

definition decode_k8_fr_mc :: "u64 \<Rightarrow> 'a msg_state_scheme \<Rightarrow> 'a msg_state_scheme option" where
  "decode_k8_fr_mc status s = decode_k8_generic_errcode status s"

definition decode_k8_threshold :: "u64 \<Rightarrow> 'a msg_state_scheme \<Rightarrow> 'a msg_state_scheme" where
  "decode_k8_threshold misc s =
     (if has misc MCI_THRESHOLD_OVER then Wput ''  Threshold error count overflow\<newline>'' [] s else s)"

definition decode_k8_mc :: "mce \<Rightarrow> bool \<Rightarrow> 'a msg_state_scheme \<Rightarrow> (bool \<times> 'a msg_state_scheme) option" where
  "decode_k8_mc m ismemerr s =
     (let bank = unat (m_bank m); status = m_status m; same = map_option (Pair ismemerr)
      in if bank = 0 then same (decode_k8_dc_mc status s)
         else if bank = 1 then same (decode_k8_ic_mc status s)
         else if bank = 2 then same (decode_k8_bu_mc status s)
         else if bank = 3 then same (decode_k8_ls_mc status s)
         else if bank = 4 then decode_k8_nb_mc status ismemerr s
         else if bank = 5 then same (decode_k8_fr_mc status s)
         else if bank \<ge> K8_MCE_THRESHOLD_BASE \<and> bank < K8_MCE_THRESHOLD_TOP
         then Some (ismemerr, decode_k8_threshold (m_misc m) s)
         else Some (ismemerr, Wput ''  no decoder for unknown bank %u\<newline>'' [PU (m_bank m)] s))"

text \<open>\<open>None\<close>: the index of a table is out of bounds. \<open>snprintf\<close> cuts at 62 characters.\<close>

definition k8_bank_name :: "u32 \<Rightarrow> string option" where
  "k8_bank_name num = do {
     name \<leftarrow> (if unat num < length k8bank then arr k8bank (unat num)
             else if unat num \<ge> K8_MCE_THRESHOLD_BASE \<and> unat num < K8_MCE_THRESHOLD_TOP
             then (if unat num - K8_MCE_THRESHOLD_BASE < length k8threshold
                   then k8threshold ! (unat num - K8_MCE_THRESHOLD_BASE) else None)
             else Some ''unknown'');
     Some (take 62 (printf ''%u %s'' [PU num, PS name])) }"

text \<open>The result tells whether the event is reported.\<close>

definition mce_filter_k8 :: "mce \<Rightarrow> bool" where
  "mce_filter_k8 m = (\<not> (m_bank m = 4 \<and> k8_exterrcode (m_status m) = 5 \<and> m_status m AND push_bit 61 1 \<noteq> 0))"


section \<open>No table is read out of bounds\<close>

lemma masked_lt:
  fixes x :: u16
  shows "unat (x AND 1) < 2" "unat (x AND 3) < 4" "unat (x AND 0xf) < 16"
proof -
  have "unat (x AND m) \<le> unat m" for m by (metis word_and_le1 word_le_nat_alt)
  from this [of 1] this [of 3] this [of "0xf"]
  show "unat (x AND 1) < 2" "unat (x AND 3) < 4" "unat (x AND 0xf) < 16" by simp_all
qed

lemma k8_exterrcode_lt: "unat (k8_exterrcode status) < 16"
proof -
  have "unat (k8_exterrcode status) \<le> unat (drop_bit 16 status AND 0x0f)"
    unfolding k8_exterrcode_def unsigned_ucast_eq by (rule take_bit_nat_less_eq_self)
  also have "\<dots> \<le> unat (0x0f :: u64)" by (metis word_and_le1 word_le_nat_alt)
  finally show ?thesis by simp
qed

lemma k8_lengths:
  "length k8_transaction = 4" "length k8_cachelevel = 4" "length k8_memtrans = 16" "length k8_partproc = 4"
  "length k8_timeout = 2" "length k8_memoryio = 4" "length k8_nbextendederr = 19" "length k8bank = 6"
  by (simp_all add: k8_transaction_def k8_cachelevel_def k8_memtrans_def k8_partproc_def k8_timeout_def k8_memoryio_def
      k8_nbextendederr_def k8bank_def)

lemma k8_generic_total: "\<exists>t. decode_k8_generic_errcode status s = Some t"
  by (simp add: decode_k8_generic_errcode_def Let_def arr_def k8_lengths masked_lt)

lemma k8threshold_full: "length k8threshold = 54 \<and> list_all (\<lambda>e. e \<noteq> None) k8threshold"
  by code_simp

lemma k8_decodes: "\<exists>r. decode_k8_mc m ismemerr s = Some r"
proof -
  have g: "decode_k8_generic_errcode status t = Some (the (decode_k8_generic_errcode status t))" for status and t :: "'a msg_state_scheme"
    using k8_generic_total [of status t] by auto
  have "unat (k8_exterrcode status) < 19" for status using k8_exterrcode_lt [of status] by simp
  then have "\<exists>r. decode_k8_nb_mc (m_status m) ismemerr s = Some r"
    by (subst decode_k8_nb_mc_def, subst g) (simp add: Let_def arr_def k8_lengths split_beta)
  then show ?thesis
    using k8_generic_total by (auto simp: decode_k8_mc_def Let_def decode_k8_dc_mc_def decode_k8_ic_mc_def decode_k8_bu_mc_def
        decode_k8_ls_mc_def decode_k8_fr_mc_def)
qed

lemma k8_bank_known: "\<exists>name. k8_bank_name num = Some name"
proof -
  have "unat num < K8_MCE_THRESHOLD_BASE + 54 \<longrightarrow> unat num \<ge> K8_MCE_THRESHOLD_BASE \<longrightarrow>
      k8threshold ! (unat num - K8_MCE_THRESHOLD_BASE) \<noteq> None"
    using k8threshold_full by (auto simp: list_all_length)
  then show ?thesis
    using k8threshold_full
    by (cases "k8threshold ! (unat num - K8_MCE_THRESHOLD_BASE)") (auto simp: k8_bank_name_def arr_def k8_consts MCE_EXTENDED_BANK_def Let_def)
qed

text \<open>
  C34: The K8 decoder reads no table out of bounds, whatever the bank and the registers: it always returns, and so does
  the name of every bank.
\<close>

theorem k8_in_bounds:
  "(\<exists>r. decode_k8_mc m ismemerr s = Some r) \<and> (\<exists>name. k8_bank_name num = Some name)"
  using k8_decodes k8_bank_known by blast

section \<open>Decoding only prints\<close>

lemma k8_bits_frame [frame]: "msg_step s t \<Longrightarrow> msg_step s (k8_bits_loop status t)"
proof -
  have "msg_step s t \<Longrightarrow> msg_step s (fold (\<lambda>i s. if i = 31 \<or> i = 28 \<or> i = 26 then s
        else case k8_highbits ! i of None \<Rightarrow> s
             | Some name \<Rightarrow> if status AND push_bit (i + 32) 1 \<noteq> 0
                 then Wput ''       bit%d = %s\<newline>'' [PN (int i + 32), PS name] s else s) is t)" for "is"
    by (induction "is" arbitrary: t) (auto split: option.split intro!: frame)
  then show "msg_step s t \<Longrightarrow> msg_step s (k8_bits_loop status t)" by (simp add: k8_bits_loop_def)
qed

lemma k8_generic_frame: "msg_step s t \<Longrightarrow> decode_k8_generic_errcode status t = Some u \<Longrightarrow> msg_step s u"
  by (auto simp: decode_k8_generic_errcode_def Let_def split: if_splits bind_splits intro!: frame)

lemma k8_tlb_frame [frame]: "msg_step s t \<Longrightarrow> msg_step s (k8_tlb_parity status t)"
  unfolding k8_tlb_parity_def by (intro frame)

lemma decode_k8_mc_frame: "decode_k8_mc m mem s = Some (mem', u) \<Longrightarrow> msg_step s u"
  by (auto simp: decode_k8_mc_def decode_k8_dc_mc_def decode_k8_ic_mc_def decode_k8_bu_mc_def decode_k8_ls_mc_def
      decode_k8_nb_mc_def decode_k8_fr_mc_def decode_k8_threshold_def Let_def split: if_splits bind_splits
      elim!: k8_generic_frame [rotated] intro!: frame)

end
