(* ===== verification/Dmi.thy ===== *)
theory Dmi
  imports Intel "HOL-Library.Monad_Syntax"
begin

text \<open>
  The SMBIOS tables of the firmware, \<^verbatim>\<open>src/dmi.c\<close>. The table is a list of bytes and a pointer into it an offset; a
  read outside of the table is \<open>None\<close>. The output of \<open>--dmi-verbose\<close> is not modelled.
\<close>

section \<open>Reading the table\<close>

type_synonym bytes = "u8 list"

definition rd8 :: "bytes \<Rightarrow> nat \<Rightarrow> u8 option" where
  "rd8 bs i = (if i < length bs then Some (bs ! i) else None)"

text \<open>Little endian, without alignment: the structures are packed.\<close>

definition rd16 :: "bytes \<Rightarrow> nat \<Rightarrow> u16 option" where
  "rd16 bs i = do { a \<leftarrow> rd8 bs i; b \<leftarrow> rd8 bs (i + 1); Some (ucast a OR push_bit 8 (ucast b)) }"

definition rd32 :: "bytes \<Rightarrow> nat \<Rightarrow> u32 option" where
  "rd32 bs i = do { a \<leftarrow> rd16 bs i; b \<leftarrow> rd16 bs (i + 2); Some (ucast a OR push_bit 16 (ucast b)) }"

text \<open>\<open>struct dmi_entry\<close> and the structures that begin with it, by the offsets of their members.\<close>

definition DMI_MEMORY_ARRAY :: nat where "DMI_MEMORY_ARRAY = 16"
definition DMI_MEMORY_DEVICE :: nat where "DMI_MEMORY_DEVICE = 17"
definition DMI_MEMORY_ARRAY_ADDR :: nat where "DMI_MEMORY_ARRAY_ADDR = 19"
definition DMI_MEMORY_MAPPED_ADDR :: nat where "DMI_MEMORY_MAPPED_ADDR = 20"

definition e_type :: "bytes \<Rightarrow> nat \<Rightarrow> u8 option" where "e_type bs e = rd8 bs e"
definition e_length :: "bytes \<Rightarrow> nat \<Rightarrow> u8 option" where "e_length bs e = rd8 bs (e + 1)"
definition e_handle :: "bytes \<Rightarrow> nat \<Rightarrow> u16 option" where "e_handle bs e = rd16 bs (e + 2)"

text \<open>\<open>struct dmi_memdev_addr\<close> and \<open>struct dmi_memarray_addr\<close>.\<close>

definition start_addr :: "bytes \<Rightarrow> nat \<Rightarrow> u32 option" where "start_addr bs e = rd32 bs (e + 4)"
definition end_addr :: "bytes \<Rightarrow> nat \<Rightarrow> u32 option" where "end_addr bs e = rd32 bs (e + 8)"
definition dev_handle :: "bytes \<Rightarrow> nat \<Rightarrow> u16 option" where "dev_handle bs e = rd16 bs (e + 12)"

text \<open>Offsets in \<open>struct dmi_memdev\<close>.\<close>

definition memdev_fields :: "(string \<times> nat) list" where
  "memdev_fields = [(''array_handle'', 4), (''memerr_handle'', 6), (''total_width'', 8), (''data_width'', 10), (''size'', 12),
     (''form_factor'', 14), (''device_set'', 15), (''device_locator'', 16), (''bank_locator'', 17), (''memory_type'', 18),
     (''type_details'', 19), (''speed'', 21), (''manufacturer'', 23), (''serial_number'', 24), (''asset_tag'', 25),
     (''part_number'', 26)]"

definition md8 :: "bytes \<Rightarrow> nat \<Rightarrow> string \<Rightarrow> u8 option" where
  "md8 bs e f = Option.bind (map_of memdev_fields f) (\<lambda>o'. rd8 bs (e + o'))"

definition md16 :: "bytes \<Rightarrow> nat \<Rightarrow> string \<Rightarrow> u16 option" where
  "md16 bs e f = Option.bind (map_of memdev_fields f) (\<lambda>o'. rd16 bs (e + o'))"

section \<open>Entries\<close>

definition checksum :: "bytes \<Rightarrow> u8" where
  "checksum bs = sum_list bs"

text \<open>The inner loop of \<open>check_entry\<close>: on to the end of a string, but not past the last byte but one.\<close>

function skip_str :: "bytes \<Rightarrow> nat \<Rightarrow> nat" where
  "skip_str bs s = (if s + 1 < length bs \<and> bs ! s \<noteq> 0 then skip_str bs (s + 1) else s)"
  by auto
termination by (relation "measure (\<lambda>(bs, s). length bs - s)") auto

text \<open>The outer loop, from the first string; \<open>None\<close>: truncated. The result is the offset of the next entry. The test
  for its being past the end of the table never succeeds, see \<open>strings_end\<close>.\<close>

function check_strings :: "bytes \<Rightarrow> nat \<Rightarrow> nat option" where
  "check_strings bs s =
     (let s = skip_str bs s
      in if s + 1 \<ge> length bs then None
         else if bs ! (s + 1) \<noteq> 0 then check_strings bs (s + 1)
         else Some (s + 1 + 1))"
  by auto

lemma skip_str_ge: "s \<le> skip_str bs s"
  by (induction bs s rule: skip_str.induct) (subst skip_str.simps, auto simp del: skip_str.simps)

termination check_strings
proof (relation "measure (\<lambda>(bs, s). length bs - s)")
  show "((bs, x + 1), bs, s) \<in> measure (\<lambda>(bs, s). length bs - s)"
    if "x = skip_str bs s" "\<not> length bs \<le> x + 1" for bs s x
    using that skip_str_ge [of s bs] by (simp del: skip_str.simps)
qed simp

text \<open>\<open>check_entry\<close>: \<open>None\<close> is a read past the table; otherwise the offset of the next entry, or \<open>None\<close> for an
  invalid one.\<close>

definition check_entry :: "bytes \<Rightarrow> nat \<Rightarrow> nat option option" where
  "check_entry bs e = map_option (\<lambda>n. check_strings bs (e + unat n)) (e_length bs e)"

text \<open>\<open>dmi_getstring\<close>: \<open>None\<close> is a read past the table, \<open>Some None\<close> the NULL pointer.\<close>

function end_of_str :: "bytes \<Rightarrow> nat \<Rightarrow> nat option" where
  "end_of_str bs s = (case rd8 bs s of None \<Rightarrow> None | Some c \<Rightarrow> if c \<noteq> 0 then end_of_str bs (s + 1) else Some s)"
  by auto
termination by (relation "measure (\<lambda>(bs, s). length bs - s)") (auto simp: rd8_def split: if_splits)

lemma end_of_str_ge: "end_of_str bs s = Some t \<Longrightarrow> s \<le> t \<and> t < length bs"
proof (induction bs s rule: end_of_str.induct)
  case (1 bs s)
  then show ?case by (subst (asm) (2) end_of_str.simps) (auto simp: rd8_def split: if_splits dest!: 1(1) simp del: end_of_str.simps)
qed

function getstring_loop :: "bytes \<Rightarrow> nat \<Rightarrow> nat \<Rightarrow> nat option option" where
  "getstring_loop bs s number =
     (if number - 1 = 0 then Some (Some s)
      else case end_of_str bs s of
             None \<Rightarrow> None
           | Some t \<Rightarrow>
               (case rd8 bs (t + 1) of
                  None \<Rightarrow> None
                | Some c \<Rightarrow> if c \<noteq> 0 then getstring_loop bs (t + 1) (number - 1) else Some None))"
  by auto
termination by (relation "measure (\<lambda>(bs, s, n). n)") auto

text \<open>The string itself, up to its NUL.\<close>

definition cstring_at :: "bytes \<Rightarrow> nat \<Rightarrow> string option" where
  "cstring_at bs s = map_option (\<lambda>t. map (\<lambda>b. char_of (unat b)) (take (t - s) (drop s bs))) (end_of_str bs s)"

definition dmi_getstring :: "bytes \<Rightarrow> nat \<Rightarrow> nat \<Rightarrow> string option option" where
  "dmi_getstring bs e number =
     (if number = 0 then Some (Some [])
      else do {
        n \<leftarrow> e_length bs e;
        p \<leftarrow> getstring_loop bs (e + unat n) number;
        (case p of None \<Rightarrow> Some None | Some s \<Rightarrow> map_option Some (cstring_at bs s)) })"

section \<open>Collecting entries\<close>

text \<open>\<open>xalloc(sizeof(void *) * 0xffff)\<close>: the table of handles has 65535 places.\<close>

definition HANDLES :: nat where "HANDLES = 0xffff"

fun fill_loop :: "nat \<Rightarrow> bytes \<Rightarrow> nat \<Rightarrow> (nat \<Rightarrow> nat option) \<Rightarrow> (nat \<Rightarrow> nat option) option" where
  "fill_loop 0 bs e h = Some h"
| "fill_loop (Suc n) bs e h =
     (case check_entry bs e of
        None \<Rightarrow> None
      | Some None \<Rightarrow> Some h
      | Some (Some next) \<Rightarrow>
          (case e_handle bs e of
             None \<Rightarrow> None
           | Some v \<Rightarrow> if unat v \<ge> HANDLES then None else fill_loop n bs next (h(unat v := Some e))))"

definition fill_handles :: "bytes \<Rightarrow> nat \<Rightarrow> (nat \<Rightarrow> nat option) option" where
  "fill_handles bs numentries = fill_loop numentries bs 0 Map.empty"

fun dmi_collect_loop :: "nat \<Rightarrow> bytes \<Rightarrow> nat \<Rightarrow> nat \<Rightarrow> nat \<Rightarrow> nat list option" where
  "dmi_collect_loop 0 bs type minsize e = Some []"
| "dmi_collect_loop (Suc n) bs type minsize e =
     (case check_entry bs e of
        None \<Rightarrow> None
      | Some None \<Rightarrow> Some []
      | Some (Some next) \<Rightarrow> do {
          t \<leftarrow> e_type bs e;
          l \<leftarrow> e_length bs e;
          take_it \<leftarrow> (if unat t \<noteq> type \<or> unat l < minsize then Some False
                     else if type = DMI_MEMORY_DEVICE then map_option (\<lambda>size. size \<noteq> 0) (md16 bs e ''size'')
                     else Some True);
          r \<leftarrow> dmi_collect_loop n bs type minsize next;
          Some (if take_it then e # r else r) })"

definition dmi_collect :: "bytes \<Rightarrow> nat \<Rightarrow> nat \<Rightarrow> nat \<Rightarrow> nat list option" where
  "dmi_collect bs numentries type minsize = dmi_collect_loop numentries bs type minsize 0"

text \<open>The comparison of ranges for \<open>qsort\<close>: unsigned kilobytes are converted to \<open>int\<close>. It is an order on disjoint ranges
  only; for these the result of \<open>qsort\<close> is determined, and what is proved below holds for every permutation.\<close>

definition cmp_range :: "bytes \<Rightarrow> nat \<Rightarrow> nat \<Rightarrow> int" where
  "cmp_range bs a b = sint (the (start_addr bs a)) - sint (the (end_addr bs b))"

definition cmp_arr_range :: "bytes \<Rightarrow> nat \<Rightarrow> nat \<Rightarrow> int" where
  "cmp_arr_range bs a b = sint (the (start_addr bs a)) - sint (the (end_addr bs b))"

fun insert_by :: "('a \<Rightarrow> 'a \<Rightarrow> int) \<Rightarrow> 'a \<Rightarrow> 'a list \<Rightarrow> 'a list" where
  "insert_by cmp x [] = [x]"
| "insert_by cmp x (y # ys) = (if cmp x y \<le> 0 then x # y # ys else y # insert_by cmp x ys)"

definition qsort :: "('a \<Rightarrow> 'a \<Rightarrow> int) \<Rightarrow> 'a list \<Rightarrow> 'a list" where
  "qsort cmp xs = foldr (insert_by cmp) xs []"


section \<open>State\<close>

record dmi_state = intel_state +
  dmi_forced :: bool
  do_dmi :: bool
  dmi_entries :: "bytes option"              \<comment> \<open>\<open>entries\<close>, \<open>dmi_length\<close> bytes; None: NULL\<close>
  numentries :: nat
  handle_to_entry :: "nat \<Rightarrow> nat option"
  dmi_dimms :: "nat list"
  dmi_arrays :: "nat list"
  dmi_ranges :: "nat list"
  dmi_array_ranges :: "nat list"
  dmi_warned :: bool
  dmi_checked :: bool
  os_dmi_raw :: "nat \<Rightarrow> nat \<Rightarrow> bytes option"  \<comment> \<open>the file of a type and an instance\<close>
  os_devmem :: bool                          \<comment> \<open>can /dev/mem be opened?\<close>
  os_mmap_mem :: "nat \<Rightarrow> nat \<Rightarrow> bytes option" \<comment> \<open>physical memory, by address and length\<close>
  os_systab :: "string list option"          \<comment> \<open>the lines of the EFI system table\<close>
  os_pagesize :: nat

section \<open>Opening the tables\<close>

text \<open>The instances of a type, up to the first that cannot be read. The kernel has at most 65536 entries.\<close>

fun sysfs_entries :: "nat \<Rightarrow> nat \<Rightarrow> nat \<Rightarrow> (nat \<Rightarrow> nat \<Rightarrow> bytes option) \<Rightarrow> bytes list" where
  "sysfs_entries 0 type i raw = []"
| "sysfs_entries (Suc n) type i raw =
     (case raw type i of None \<Rightarrow> [] | Some bs \<Rightarrow> bs # sysfs_entries n type (i + 1) raw)"

definition append_sysfs_dmi_entries :: "nat \<Rightarrow> 'a dmi_state_scheme \<Rightarrow> 'a dmi_state_scheme" where
  "append_sysfs_dmi_entries type s =
     (let es = sysfs_entries 65536 type 0 (os_dmi_raw s)
      in s\<lparr>dmi_entries := (if concat es = [] then dmi_entries s
             else Some ((case dmi_entries s of None \<Rightarrow> [] | Some bs \<Rightarrow> bs) @ concat es)),
           numentries := numentries s + length es\<rparr>)"

text \<open>The minimal size of an entry is the end of the member that is named in \<open>COLLECT\<close>. Without a table every loop
  stops at the NULL pointer.\<close>

definition collect_dmi_dimms :: "'a dmi_state_scheme \<Rightarrow> 'a dmi_state_scheme option" where
  "collect_dmi_dimms s =
     (case dmi_entries s of
        None \<Rightarrow> Some (s\<lparr>dmi_ranges := [], dmi_dimms := [], dmi_arrays := [], dmi_array_ranges := []\<rparr>)
      | Some bs \<Rightarrow> do {
          ranges \<leftarrow> dmi_collect bs (numentries s) DMI_MEMORY_MAPPED_ADDR (12 + 2);
          dimms \<leftarrow> dmi_collect bs (numentries s) DMI_MEMORY_DEVICE (16 + 1);
          arrays \<leftarrow> dmi_collect bs (numentries s) DMI_MEMORY_ARRAY (4 + 1);
          array_ranges \<leftarrow> dmi_collect bs (numentries s) DMI_MEMORY_ARRAY_ADDR (12 + 2);
          Some (s\<lparr>dmi_ranges := qsort (cmp_range bs) ranges, dmi_dimms := dimms, dmi_arrays := arrays,
                  dmi_array_ranges := qsort (cmp_arr_range bs) array_ranges\<rparr>) })"

definition fill_and_collect :: "'a dmi_state_scheme \<Rightarrow> ('a dmi_state_scheme, int) outcome" where
  "fill_and_collect s =
     (case (do {
        h \<leftarrow> (case dmi_entries s of None \<Rightarrow> Some Map.empty | Some bs \<Rightarrow> fill_handles bs (numentries s));
        collect_dmi_dimms (s\<lparr>handle_to_entry := h\<rparr>) }) of
        None \<Rightarrow> Abort s
      | Some s \<Rightarrow> Ret 0 s)"

text \<open>\<open>strtoul\<close> with base 0: the value and what is left.\<close>

definition strtoul0 :: "string \<Rightarrow> int \<times> string" where
  "strtoul0 s =
     (let (neg, r) = scan_sign (skipspace s);
          hex = map tolower (take 2 r) = ''0x'' \<and> (case drop 2 r of [] \<Rightarrow> False | c # _ \<Rightarrow> isxdigit c);
          oct = \<not> hex \<and> take 1 r = ''0'';
          ds = (if hex then takeWhile isxdigit (drop 2 r)
                else takeWhile (\<lambda>c. isdigit c \<and> (oct \<longrightarrow> c \<notin> {CHR ''8'', CHR ''9''})) r);
          v = radix_val (if hex then 16 else if oct then 8 else 10) (map tolower ds)
      in if ds = [] then (0, s) else (strtoul_val neg v, drop ((if hex then 2 else 0) + length ds) r))"

text \<open>\<open>get_efi_base_addr\<close>: a line \<open>SMBIOS=address\<close>; a line without \<open>=\<close> ends the search.\<close>

fun efi_loop :: "string list \<Rightarrow> int option" where
  "efi_loop [] = None"
| "efi_loop (l # ls) =
     (case strchr l (CHR ''='') of
        None \<Rightarrow> None
      | Some i \<Rightarrow> if take i l = ''SMBIOS'' then Some (fst (strtoul0 (drop (i + 1) l))) else efi_loop ls)"

definition get_efi_base_addr :: "'a dmi_state_scheme \<Rightarrow> u64 option \<times> 'a dmi_state_scheme" where
  "get_efi_base_addr s =
     (case os_systab s of
        None \<Rightarrow> (None, s)
      | Some ls \<Rightarrow>
          (case efi_loop ls of
             None \<Rightarrow> (None, Lprintf ''No valid SMBIOS entry point: Continue without DMI decoding'' [] s)
           | Some a \<Rightarrow> if a = 0 then (None, Lprintf ''No valid SMBIOS entry point: Continue without DMI decoding'' [] s)
               else (Some (word_of_int a), s)))"

text \<open>The macros of \<^verbatim>\<open>src/mcelog.h\<close>, in the width of the first argument: they wrap around.\<close>

definition round_down :: "'w::len word \<Rightarrow> nat \<Rightarrow> 'w word" where
  "round_down x y = x AND NOT (of_nat y - 1)"

definition round_up_w :: "'w::len word \<Rightarrow> nat \<Rightarrow> 'w word" where
  "round_up_w x y = (x + of_nat y - 1) AND NOT (of_nat y - 1)"

text \<open>The search for the anchor on paragraph boundaries. The length of the anchor is a \<open>char\<close>. \<open>None\<close> is a read outside
  of the mapping, \<open>Some None\<close> no anchor.\<close>

fun anchor_loop :: "nat list \<Rightarrow> bytes \<Rightarrow> nat option option" where
  "anchor_loop [] seg = Some None"
| "anchor_loop (p # ps) seg =
     (if take 4 (drop p seg) = [0x5F, 0x53, 0x4D, 0x5F]
      then case rd8 seg (p + 5) of
             None \<Rightarrow> None
           | Some l \<Rightarrow>
               let n = nat (sint l)
               in if p + n > length seg then None
                  else if checksum (take n (drop p seg)) = 0 then Some (Some p) else anchor_loop ps seg
      else anchor_loop ps seg)"

text \<open>From the label \<open>fill_entries\<close> on, with the anchor at \<open>p\<close> in \<open>seg\<close>.\<close>

definition fill_entries :: "bytes \<Rightarrow> nat \<Rightarrow> 'a dmi_state_scheme \<Rightarrow> ('a dmi_state_scheme, int) outcome" where
  "fill_entries seg p s =
     (case (do { len \<leftarrow> rd16 seg (p + 22); table \<leftarrow> rd32 seg (p + 24); n \<leftarrow> rd16 seg (p + 28); Some (len, table, n) }) of
        None \<Rightarrow> Abort s
      | Some (len, table, n) \<Rightarrow>
          let emapbase = round_down table (os_pagesize s);
              corr = table - emapbase;
              emapsize = (ucast (round_up_w (table + ucast len) (os_pagesize s)) - ucast emapbase :: u64)
          in case os_mmap_mem s (unat emapbase) (unat emapsize) of
               None \<Rightarrow> Ret (- 1) (Eprintf ''Cannot mmap SMBIOS tables at %x'' [PU table] s)
             | Some mem \<Rightarrow>
                 fill_and_collect (s\<lparr>dmi_entries := Some (take (unat len) (drop (unat corr) mem)), numentries := unat n\<rparr>))"

definition opendmi_legacy :: "'a dmi_state_scheme \<Rightarrow> ('a dmi_state_scheme, int) outcome" where
  "opendmi_legacy s =
     (case os_mmap_mem s 0xf0000 0xffff of
        None \<Rightarrow> Ret (- 1) (Eprintf ''Cannot mmap 0xf0000 for legacy mode: %s'' [PS (errno_msg s)] s)
      | Some seg \<Rightarrow>
          (case anchor_loop (map (\<lambda>i. i * 16) [0..<4096]) seg of
             None \<Rightarrow> Abort s
           | Some None \<Rightarrow> Ret (- 1) (Eprintf ''Cannot find SMBIOS DMI tables'' [] s)
           | Some (Some p) \<Rightarrow> fill_entries seg p s))"

definition opendmi :: "'a dmi_state_scheme \<Rightarrow> ('a dmi_state_scheme, int) outcome" where
  "opendmi s =
     (if dmi_entries s \<noteq> None then Ret 0 s
      else if os_access s ''/sys/firmware/dmi/entries/0-0/raw''
      then fill_and_collect (append_sysfs_dmi_entries DMI_MEMORY_MAPPED_ADDR (append_sysfs_dmi_entries DMI_MEMORY_ARRAY_ADDR
             (append_sysfs_dmi_entries DMI_MEMORY_DEVICE (append_sysfs_dmi_entries DMI_MEMORY_ARRAY (s\<lparr>numentries := 0\<rparr>)))))
      else if \<not> os_devmem s
      then Ret (- 1) (Eprintf ''Cannot open /dev/mem for DMI decoding: %s'' [PS (errno_msg s)] s)
      else case get_efi_base_addr s of
             (None, s) \<Rightarrow> opendmi_legacy s
           | (Some addr, s) \<Rightarrow>
               let addr_start = round_down addr (os_pagesize s);
                   addr_end = round_up_w (addr + 0x20) (os_pagesize s)
               in case os_mmap_mem s (unat addr_start) (unat (addr_end - addr_start)) of
                    None \<Rightarrow> opendmi_legacy (Eprintf ''Cannot mmap 0x%lx for efi mode: %s'' [PU addr, PS (errno_msg s)] s)
                  | Some seg \<Rightarrow> fill_entries seg (unat (addr - addr_start)) s)"

section \<open>Sanity check\<close>

text \<open>Sorted disjoint ranges: \<open>None\<close> when two overlap, otherwise the number of gaps, which are all but the first range.\<close>

fun ranges_loop :: "bytes \<Rightarrow> nat \<Rightarrow> nat list \<Rightarrow> nat \<Rightarrow> nat option" where
  "ranges_loop bs prev [] n = Some n"
| "ranges_loop bs prev (k # ks) n =
     (if the (start_addr bs k) \<le> the (end_addr bs prev) then None
      else ranges_loop bs k ks (if the (start_addr bs k) \<ge> the (end_addr bs prev) then n + 1 else n))"

definition locator :: "bytes \<Rightarrow> nat \<Rightarrow> string option option" where
  "locator bs e = do { n \<leftarrow> md8 bs e ''device_locator''; dmi_getstring bs e (unat n) }"

text \<open>The loop over the locators; \<open>seen\<close> are the entries before. \<open>None\<close> is a read past the table.\<close>

fun locators_loop :: "bytes \<Rightarrow> nat list \<Rightarrow> nat list \<Rightarrow> bool option" where
  "locators_loop bs seen [] = Some True"
| "locators_loop bs seen (k # ks) =
     (case locator bs k of
        None \<Rightarrow> None
      | Some None \<Rightarrow> Some False
      | Some (Some loc) \<Rightarrow>
          if \<exists>i\<in>set seen. locator bs i = None then None
          else if \<exists>i\<in>set seen. locator bs i = Some (Some loc) then Some False
          else locators_loop bs (seen @ [k]) ks)"

definition dmi_sanity_check :: "'a dmi_state_scheme \<Rightarrow> bool option" where
  "dmi_sanity_check s =
     (case (dmi_entries s, dmi_ranges s) of
        (Some bs, r # rs) \<Rightarrow>
          (case ranges_loop bs r rs 0 of
             None \<Rightarrow> Some False
           | Some n \<Rightarrow> if n = 1 \<and> length (dmi_dimms s) > 2 then Some False
               else locators_loop bs [] (dmi_dimms s))
      | _ \<Rightarrow> Some False)"

section \<open>Looking addresses up\<close>

text \<open>The unit and the number.\<close>

definition dmi_dimm_size :: "u16 \<Rightarrow> u32 \<times> string" where
  "dmi_dimm_size size' =
     (let mbflag = size' AND push_bit 15 1 = 0;
          sz = size' AND NOT (push_bit 15 1)
      in if mbflag
         then if sz \<ge> 1024 then (ucast (sz div 1024), ''GB'') else (ucast sz, ''MB'')
         else (ucast sz, ''KB''))"

definition form_factors :: "string list" where
  "form_factors = [''?'', ''Other'', ''Unknown'', ''SIMM'', ''SIP'', ''Chip'', ''DIP'', ''ZIP'', ''Proprietary Card'', ''DIMM'',
     ''TSOP'', ''Row of chips'', ''RIMM'', ''SODIMM'', ''SRIMM'', ''FB-DIMM'']"

definition memory_types :: "string list" where
  "memory_types = [''?'', ''Other'', ''Unknown'', ''DRAM'', ''EDRAM'', ''VRAM'', ''SRAM'', ''RAM'', ''ROM'', ''FLASH'', ''EEPROM'',
     ''FEPROM'', ''EPROM'', ''CDRAM'', ''3DRAM'', ''SDRAM'', ''SGRAM'', ''RDRAM'', ''DDR'', ''DDR2'', ''DDR2 FB-DIMM'',
     ''Reserved 0x15'', ''Reserved 0x16'', ''Reserved 0x17'', ''DDR3'', ''FBD2'', ''DDR4'', ''LPDDR'', ''LPDDR2'', ''LPDDR3'', ''LPDDR4'']"

definition LOOKUP :: "string list \<Rightarrow> u8 \<Rightarrow> string" where
  "LOOKUP arr v = (if unat v \<ge> length arr then printf ''<%u>'' [PU v] else arr ! unat v)"

definition type_details :: "string list" where
  "type_details = [''Reserved'', ''Other'', ''Unknown'', ''Fast-paged'', ''Static Column'', ''Pseudo static'', ''RAMBUS'', ''Synchronous'',
     ''CMOS'', ''EDO'', ''Window DRAM'', ''Cache DRAM'', ''Non-volatile'', ''Registered'', ''Unbuffered'', ''LRDIMM'']"

definition dump_type_details :: "u16 \<Rightarrow> 'a msg_state_scheme \<Rightarrow> 'a msg_state_scheme" where
  "dump_type_details td s =
     (if td = 0 then s
      else fold (\<lambda>i s. if td AND push_bit i 1 \<noteq> 0 then Wput ''%s '' [PS (type_details ! i)] s else s) [0..<16] s)"

definition dumpstr :: "string \<Rightarrow> string \<Rightarrow> bytes \<Rightarrow> nat \<Rightarrow> 'a msg_state_scheme \<Rightarrow> 'a msg_state_scheme option" where
  "dumpstr label field bs e s = do {
     n \<leftarrow> md8 bs e field;
     (if n = 0 then Some s
      else do {
        str \<leftarrow> dmi_getstring bs e (unat n);
        Some (case str of
                None \<Rightarrow> s
              | Some t \<Rightarrow> if t \<noteq> [] \<and> t \<noteq> ''None'' then Wput (label @ '': %s\<newline>'') [PS t] s else s) }) }"

definition dump_memdev :: "bytes \<Rightarrow> nat \<Rightarrow> 'a msg_state_scheme \<Rightarrow> 'a msg_state_scheme option" where
  "dump_memdev bs e s = do {
     n \<leftarrow> e_length bs e;
     (if n < 23 then Some s
      else do {
        mt \<leftarrow> md8 bs e ''memory_type'';
        ff \<leftarrow> md8 bs e ''form_factor'';
        speed \<leftarrow> md16 bs e ''speed'';
        td \<leftarrow> md16 bs e ''type_details'';
        tw \<leftarrow> md16 bs e ''total_width'';
        dw \<leftarrow> md16 bs e ''data_width'';
        sz \<leftarrow> md16 bs e ''size'';
        let s = Wput ''%s '' [PS (LOOKUP memory_types mt)] s;
        let s = (if ff \<ge> 3 then Wput ''%s '' [PS (LOOKUP form_factors ff)] s else s);
        let s = (if speed \<noteq> 0 then Wput ''%u Mhz '' [PU speed] s else s);
        let s = dump_type_details td s;
        let s = Wput ''Width %u Data Width %u Size %u %s\<newline>''
                  [PU tw, PU dw, PU (fst (dmi_dimm_size sz)), PS (snd (dmi_dimm_size sz))] s;
        s \<leftarrow> dumpstr ''Device Locator'' ''device_locator'' bs e s;
        s \<leftarrow> dumpstr ''Bank Locator'' ''bank_locator'' bs e s;
        s \<leftarrow> dumpstr ''Manufacturer'' ''manufacturer'' bs e s;
        s \<leftarrow> dumpstr ''Serial Number'' ''serial_number'' bs e s;
        s \<leftarrow> dumpstr ''Asset Tag'' ''asset_tag'' bs e s;
        dumpstr ''Part Number'' ''part_number'' bs e s }) }"

definition warnuser :: "'a dmi_state_scheme \<Rightarrow> 'a dmi_state_scheme" where
  "warnuser s =
     (if dmi_warned s then s
      else Wput ''WARNING: SMBIOS data is often unreliable. Take with a grain of salt!\<newline>'' [] (s\<lparr>dmi_warned := True\<rparr>))"

text \<open>The devices of an address. \<open>None\<close>: a handle outside of the table of handles.\<close>

fun find_loop :: "bytes \<Rightarrow> (nat \<Rightarrow> nat option) \<Rightarrow> u64 \<Rightarrow> nat list \<Rightarrow> nat list option" where
  "find_loop bs h addr [] = Some []"
| "find_loop bs h addr (r # rs) =
     (if addr < ucast (the (start_addr bs r)) * 1024 \<or> addr \<ge> ucast (the (end_addr bs r)) * 1024 then find_loop bs h addr rs
      else let hd' = unat (the (dev_handle bs r))
           in if hd' \<ge> HANDLES then None
              else map_option (\<lambda>ds. case h hd' of None \<Rightarrow> ds | Some d \<Rightarrow> d # ds) (find_loop bs h addr rs))"

definition dmi_find_addr :: "u64 \<Rightarrow> 'a dmi_state_scheme \<Rightarrow> nat list option" where
  "dmi_find_addr addr s =
     (case dmi_entries s of None \<Rightarrow> Some [] | Some bs \<Rightarrow> find_loop bs (handle_to_entry s) addr (dmi_ranges s))"

fun dump_memdevs :: "bytes \<Rightarrow> nat list \<Rightarrow> 'a msg_state_scheme \<Rightarrow> 'a msg_state_scheme option" where
  "dump_memdevs bs [] s = Some s"
| "dump_memdevs bs (d # ds) s = Option.bind (dump_memdev bs d s) (dump_memdevs bs ds)"

definition dmi_decodeaddr :: "u64 \<Rightarrow> 'a dmi_state_scheme \<Rightarrow> ('a dmi_state_scheme, unit) outcome" where
  "dmi_decodeaddr addr s =
     (case dmi_find_addr addr s of
        None \<Rightarrow> Abort s
      | Some devs \<Rightarrow>
          if devs = [] then Ret () (Wput ''No DIMM found for %llx in SMBIOS\<newline>'' [PU addr] s)
          else case dump_memdevs (the (dmi_entries s)) devs (warnuser s) of
                 None \<Rightarrow> Abort s
               | Some s \<Rightarrow> Ret () s)"

definition checkdmi :: "'a dmi_state_scheme \<Rightarrow> ('a dmi_state_scheme, unit) outcome" where
  "checkdmi s =
     (if dmi_checked s then Ret () s
      else
        let s = s\<lparr>dmi_checked := True\<rparr>
        in if dmi_forced s \<and> \<not> do_dmi s then Ret () s
           else andthen (opendmi s) (\<lambda>r s.
             if r < 0 then (if dmi_forced s then Exit 1 s else Ret () (s\<lparr>do_dmi := False\<rparr>))
             else if \<not> dmi_forced s
             then (case dmi_sanity_check s of None \<Rightarrow> Abort s | Some ok \<Rightarrow> Ret () (s\<lparr>do_dmi := ok\<rparr>))
             else Ret () s))"

text \<open>\<open>closedmi\<close> is called when the program ends. It leaves \<open>dmi_length\<close> as it is, so that the tables cannot be opened again
  after it.\<close>

definition closedmi :: "'a dmi_state_scheme \<Rightarrow> 'a dmi_state_scheme" where
  "closedmi s =
     (if dmi_entries s = None then s
      else s\<lparr>dmi_dimms := [], dmi_arrays := [], dmi_ranges := [], dmi_array_ranges := [],
             handle_to_entry := Map.empty, dmi_entries := None\<rparr>)"

section \<open>Reads stay in the table\<close>

declare skip_str.simps [simp del] check_strings.simps [simp del] end_of_str.simps [simp del] getstring_loop.simps [simp del]

text \<open>Where \<open>check_entry\<close> finds the end of a string, \<open>dmi_getstring\<close> finds the same.\<close>

lemma skip_str_end: "skip_str bs s = t \<Longrightarrow> t + 1 < length bs \<Longrightarrow> end_of_str bs s = Some t"
proof (induction bs s rule: skip_str.induct)
  case (1 bs s)
  then show ?case
    by (subst end_of_str.simps) (auto simp: rd8_def skip_str.simps [of bs s] split: if_splits)
qed

lemma strings_cases:
  assumes "check_strings bs s = Some next"
  obtains t where "end_of_str bs s = Some t" "t + 1 < length bs"
    "bs ! (t + 1) = 0 \<and> next = t + 2 \<or> bs ! (t + 1) \<noteq> 0 \<and> check_strings bs (t + 1) = Some next"
  using assms skip_str_end [OF refl, of bs s]
  by (subst (asm) check_strings.simps) (auto simp: Let_def split: if_splits)

text \<open>The next entry begins in the table or at its end.\<close>

lemma strings_end: "check_strings bs s = Some next \<Longrightarrow> s + 1 < length bs \<and> s + 2 \<le> next \<and> next \<le> length bs"
proof (induction bs s rule: check_strings.induct)
  case (1 bs s)
  obtain t where t: "end_of_str bs s = Some t" "t + 1 < length bs"
    "bs ! (t + 1) = 0 \<and> next = t + 2 \<or> bs ! (t + 1) \<noteq> 0 \<and> check_strings bs (t + 1) = Some next"
    by (rule strings_cases [OF 1(2)])
  have sk: "skip_str bs s + 1 < length bs"
    using 1(2) by (subst (asm) check_strings.simps) (auto simp: Let_def split: if_splits)
  have "t = skip_str bs s" using skip_str_end [OF refl sk] t(1) by simp
  then show ?case using t 1(1) [OF refl] sk end_of_str_ge [OF t(1)] by fastforce
qed

lemma getstring_in_table:
  "check_strings bs s = Some next \<Longrightarrow>
     \<exists>p. getstring_loop bs s number = Some p \<and> (\<forall>q. p = Some q \<longrightarrow> (\<exists>str. cstring_at bs q = Some str))"
proof (induction number arbitrary: s rule: less_induct)
  case (less number)
  obtain t where t: "end_of_str bs s = Some t" "t + 1 < length bs"
    "bs ! (t + 1) = 0 \<and> next = t + 2 \<or> bs ! (t + 1) \<noteq> 0 \<and> check_strings bs (t + 1) = Some next"
    by (rule strings_cases [OF less(2)])
  show ?case
  proof (cases "number - 1 = 0")
    case True
    with t(1) show ?thesis by (subst getstring_loop.simps) (simp add: cstring_at_def)
  next
    case False
    with t less(1) [of "number - 1" "t + 1"] show ?thesis
      by (subst getstring_loop.simps) (auto simp: rd8_def)
  qed
qed

definition valid_entry :: "bytes \<Rightarrow> nat \<Rightarrow> bool" where
  "valid_entry bs e \<longleftrightarrow> (\<exists>next. check_entry bs e = Some (Some next))"

lemma valid_entry_length: "valid_entry bs e \<Longrightarrow> e_length bs e = Some l \<Longrightarrow> e + unat l + 1 < length bs"
  using strings_end by (fastforce simp: valid_entry_def check_entry_def)

lemma valid_getstring: "valid_entry bs e \<Longrightarrow> \<exists>r. dmi_getstring bs e n = Some r"
proof -
  assume "valid_entry bs e"
  then obtain l nx where l: "e_length bs e = Some l" "check_strings bs (e + unat l) = Some nx"
    by (auto simp: valid_entry_def check_entry_def)
  obtain p where "getstring_loop bs (e + unat l) n = Some p" "\<forall>q. p = Some q \<longrightarrow> (\<exists>str. cstring_at bs q = Some str)"
    using getstring_in_table [OF l(2)] by blast
  with l(1) show ?thesis by (cases p) (auto simp: dmi_getstring_def)
qed

lemma collect_loop_valid:
  "dmi_collect_loop n bs type minsize e = Some es \<Longrightarrow> x \<in> set es \<Longrightarrow>
     valid_entry bs x \<and> (\<exists>t l. e_type bs x = Some t \<and> unat t = type \<and> e_length bs x = Some l \<and> minsize \<le> unat l)"
proof (induction n arbitrary: e es)
  case (Suc n)
  then show ?case
    by (auto simp: valid_entry_def bind_eq_Some_conv split: option.splits if_splits)
qed simp

lemma set_insert_by: "set (insert_by cmp x xs) = insert x (set xs)"
  by (induction xs) auto

lemma set_qsort: "set (qsort cmp xs) = set xs"
  by (induction xs) (auto simp: qsort_def set_insert_by)

lemma rd_in_table:
  "i < length bs \<Longrightarrow> \<exists>v. rd8 bs i = Some v"
  "i + 1 < length bs \<Longrightarrow> \<exists>v. rd16 bs i = Some v"
  "i + 3 < length bs \<Longrightarrow> \<exists>v. rd32 bs i = Some v"
  by (simp_all add: rd8_def rd16_def rd32_def)

lemma memdev_locator_offset: "map_of memdev_fields ''device_locator'' = Some 16"
  by (simp add: memdev_fields_def)

lemma collected_locator:
  assumes "dmi_collect bs n DMI_MEMORY_DEVICE (16 + 1) = Some es" "x \<in> set es"
  shows "\<exists>r. locator bs x = Some r"
proof -
  obtain l where x: "valid_entry bs x" "e_length bs x = Some l" "17 \<le> unat l"
    using collect_loop_valid [OF assms [unfolded dmi_collect_def]] by auto
  then have "x + 16 < length bs" using valid_entry_length [OF x(1,2)] by simp
  then obtain v where "md8 bs x ''device_locator'' = Some v"
    using rd_in_table(1) by (auto simp: md8_def memdev_locator_offset)
  then show ?thesis using valid_getstring [OF x(1)] by (auto simp: locator_def)
qed

lemma collected_range:
  assumes "dmi_collect bs n type (12 + 2) = Some es" "x \<in> set es"
  shows "\<exists>a. start_addr bs x = Some a" "\<exists>b. end_addr bs x = Some b" "\<exists>h. dev_handle bs x = Some h"
proof -
  obtain l where x: "valid_entry bs x" "e_length bs x = Some l" "14 \<le> unat l"
    using collect_loop_valid [OF assms [unfolded dmi_collect_def]] by auto
  then have "x + 13 < length bs" using valid_entry_length [OF x(1,2)] by simp
  then show "\<exists>a. start_addr bs x = Some a" "\<exists>b. end_addr bs x = Some b" "\<exists>h. dev_handle bs x = Some h"
    unfolding start_addr_def end_addr_def dev_handle_def by (auto intro!: rd_in_table)
qed

lemma locators_loop_in_table:
  "\<forall>x\<in>set seen \<union> set ks. \<exists>r. locator bs x = Some r \<Longrightarrow> \<exists>b. locators_loop bs seen ks = Some b"
proof (induction ks arbitrary: seen)
  case (Cons k ks)
  then obtain r where "locator bs k = Some r" by auto
  then show ?case using Cons.IH [of "seen @ [k]"] Cons.prems by (cases r) auto
qed auto

text \<open>The state after \<open>collect_dmi_dimms\<close>: what the pointers point to was checked.\<close>

definition dmi_ok :: "'a dmi_state_scheme \<Rightarrow> bool" where
  "dmi_ok s \<longleftrightarrow>
     (case dmi_entries s of
        None \<Rightarrow> dmi_ranges s = [] \<and> dmi_dimms s = []
      | Some bs \<Rightarrow>
          (\<forall>r\<in>set (dmi_ranges s). start_addr bs r \<noteq> None \<and> end_addr bs r \<noteq> None \<and> dev_handle bs r \<noteq> None) \<and>
          (\<forall>d\<in>set (dmi_dimms s). valid_entry bs d \<and> locator bs d \<noteq> None))"

lemma collect_dmi_dimms_ok: "collect_dmi_dimms s = Some s' \<Longrightarrow> dmi_ok s'"
  using collected_locator collected_range
  by (auto simp: collect_dmi_dimms_def dmi_ok_def set_qsort bind_eq_Some_conv dmi_collect_def
      dest: collect_loop_valid split: option.splits)


section \<open>One device per address\<close>

definition in_range :: "bytes \<Rightarrow> u64 \<Rightarrow> nat \<Rightarrow> bool" where
  "in_range bs addr r \<longleftrightarrow> ucast (the (start_addr bs r)) * 1024 \<le> addr \<and> addr < ucast (the (end_addr bs r)) * 1024"

lemma kb_addr: "unat (ucast (a :: u32) * 1024 :: u64) = unat a * 1024"
proof -
  have "unat a < 2 ^ 32" using unsigned_less [of a] by simp
  then show ?thesis by (simp add: unat_word_ariths unsigned_ucast_eq take_bit_nat_eq_self)
qed

lemma find_loop_le: "find_loop bs h addr rs = Some ds \<Longrightarrow> length ds \<le> length (filter (in_range bs addr) rs)"
proof (induction rs arbitrary: ds)
  case (Cons r rs)
  show ?case
  proof (cases "in_range bs addr r")
    case True
    then obtain ds' where "find_loop bs h addr rs = Some ds'" "length ds \<le> Suc (length ds')"
      using Cons.prems by (auto simp: in_range_def Let_def split: if_splits option.splits)
    with Cons.IH [OF this(1)] True show ?thesis by simp
  next
    case False
    then have "find_loop bs h addr rs = Some ds"
      using Cons.prems by (simp add: in_range_def not_le not_less split: if_splits)
    with Cons.IH False show ?thesis by simp
  qed
qed simp

lemma ranges_loop_above:
  "ranges_loop bs p rs n = Some m \<Longrightarrow> \<forall>r\<in>set (p # rs). the (start_addr bs r) \<le> the (end_addr bs r) \<Longrightarrow>
     \<forall>r\<in>set rs. the (end_addr bs p) < the (start_addr bs r)"
proof (induction rs arbitrary: p n)
  case (Cons k ks)
  then show ?case by (fastforce split: if_splits simp: not_le)
qed simp

lemma ranges_loop_one:
  "ranges_loop bs p rs n = Some m \<Longrightarrow> \<forall>r\<in>set (p # rs). the (start_addr bs r) \<le> the (end_addr bs r) \<Longrightarrow>
     length (filter (in_range bs addr) (p # rs)) \<le> 1"
proof (induction rs arbitrary: p n)
  case (Cons k ks)
  have up: "\<forall>r\<in>set (k # ks). the (end_addr bs p) < the (start_addr bs r)"
    by (rule ranges_loop_above [OF Cons.prems])
  have rest: "length (filter (in_range bs addr) (k # ks)) \<le> 1"
    using Cons.prems by (intro Cons.IH) (auto split: if_splits)
  have "\<not> in_range bs addr r" if "in_range bs addr p" "r \<in> set (k # ks)" for r
    using that up by (auto simp: in_range_def word_le_nat_alt word_less_nat_alt kb_addr)
  then have "filter (in_range bs addr) (k # ks) = []" if "in_range bs addr p"
    using that by (auto simp: filter_empty_conv)
  with rest show ?case by (cases "in_range bs addr p") auto
qed simp

lemma locators_distinct:
  "locators_loop bs seen ks = Some True \<Longrightarrow> distinct (map (locator bs) seen) \<Longrightarrow> distinct (map (locator bs) (seen @ ks))"
proof (induction ks arbitrary: seen)
  case (Cons k ks)
  then obtain loc where k: "locator bs k = Some (Some loc)" "\<forall>i\<in>set seen. locator bs i \<noteq> Some (Some loc)"
    "locators_loop bs (seen @ [k]) ks = Some True"
    by (auto split: option.splits if_splits)
  then have "distinct (map (locator bs) (seen @ [k]))" using Cons.prems by (auto simp: image_iff)
  from Cons.IH [OF k(3) this] show ?case by simp
qed simp


section \<open>A table with one memory device\<close>

definition dmi_table :: bytes where
  "dmi_table =
     [17, 17, 1, 0, 0, 0, 0, 0, 64, 0, 64, 0, 0, 4, 9, 0, 1, 65, 0, 0,
      20, 14, 2, 0, 0, 0, 0, 0, 0, 4, 0, 0, 1, 0, 0, 0]"

definition dmi_start :: dmi_state where
  "dmi_start = intel_state.extend intel_start
     (dmi_state.fields False True (Some dmi_table) 2 [1 \<mapsto> 0, 2 \<mapsto> 20] [] [] [] [] False False (\<lambda>_ _. None) False (\<lambda>_ _. None) None 4096)"

definition dmi_open :: dmi_state where
  "dmi_open = dmi_start\<lparr>dmi_ranges := [20], dmi_dimms := [0]\<rparr>"

lemma dmi_start_sel:
  "dmi_entries dmi_start = Some dmi_table" "numentries dmi_start = 2" "dmi_array_ranges dmi_start = []" "dmi_arrays dmi_start = []"
  by (simp_all add: dmi_start_def dmi_state.defs intel_state.defs)

lemma dmi_table_collect:
  "dmi_collect dmi_table 2 DMI_MEMORY_MAPPED_ADDR 14 = Some [20]" "dmi_collect dmi_table 2 DMI_MEMORY_DEVICE 17 = Some [0]"
  "dmi_collect dmi_table 2 DMI_MEMORY_ARRAY 5 = Some []" "dmi_collect dmi_table 2 DMI_MEMORY_ARRAY_ADDR 14 = Some []"
  by code_simp+

lemma dmi_table_range: "start_addr dmi_table 20 = Some 0" "end_addr dmi_table 20 = Some 1024" "locator dmi_table 0 = Some (Some ''A'')"
  by code_simp+

lemma dmi_open_collect: "collect_dmi_dimms dmi_start = Some dmi_open"
  by (simp add: collect_dmi_dimms_def dmi_table_collect dmi_start_sel qsort_def dmi_open_def)

lemma dmi_open_sane: "dmi_sanity_check dmi_open = Some True"
  by (simp add: dmi_sanity_check_def dmi_open_def dmi_start_sel dmi_table_range)



text \<open>The table of handles has no place for the handle 0xffff, which an entry may have.\<close>

lemma handle_ffff_outside:
  "check_entry bs 0 = Some (Some next) \<Longrightarrow> e_handle bs 0 = Some 0xffff \<Longrightarrow> 0 < n \<Longrightarrow> fill_handles bs n = None"
  by (cases n) (simp_all add: fill_handles_def HANDLES_def)

text \<open>A memory device that ends before the member \<open>manufacturer\<close> is printed with strings that are numbered by what follows it,
  and the last entry of the table lets \<open>dump_memdev\<close> read past the end.\<close>

definition short_memdev :: bytes where
  "short_memdev = [17, 23, 1, 0] @ replicate 19 0 @ [0, 0]"

lemma short_memdev_read_outside: "check_entry short_memdev 0 = Some (Some 25)" "dump_memdev short_memdev 0 s = None"
proof -
  show "check_entry short_memdev 0 = Some (Some 25)" by code_simp
  have f: "md8 short_memdev 0 ''device_locator'' = Some 0" "md8 short_memdev 0 ''bank_locator'' = Some 0"
    "md8 short_memdev 0 ''manufacturer'' = Some 0" "md8 short_memdev 0 ''serial_number'' = Some 0"
    "md8 short_memdev 0 ''asset_tag'' = None" "e_length short_memdev 0 = Some 23" by code_simp+
  show "dump_memdev short_memdev 0 s = None"
    by (simp add: dump_memdev_def dumpstr_def f Let_def bind_eq_None_conv)
qed

end
