(* ===== verification/Tsc.thy ===== *)
theory Tsc
  imports Dmi
begin

text \<open>
  Time stamps, \<^verbatim>\<open>src/tsc.c\<close>: the time stamp counter of an event as an uptime. A frequency is a \<open>double\<close>: a rational number
  that was rounded to 53 bits, with a sign. Infinities and NaN do not occur, since no number is read as one.
\<close>

section \<open>Doubles with a sign\<close>

definition rnds :: "rat \<Rightarrow> rat" where
  "rnds x = (if x < 0 then - rnd (- x) else rnd x)"

text \<open>Conversion to \<open>u64\<close>. C defines it for what fits; outside of it the model is the code of x86-64.\<close>

definition dbl_to_u64 :: "rat \<Rightarrow> u64" where
  "dbl_to_u64 x =
     (if x < - (2 ^ 63) then 2 ^ 63 else if x < 0 then word_of_int \<lceil>x\<rceil> else if x < 2 ^ 64 then word_of_int \<lfloor>x\<rfloor> else 0)"

text \<open>\<open>%.0f\<close>\<close>

definition show_dbl0 :: "rat \<Rightarrow> string" where
  "show_dbl0 x = (if x < 0 then CHR ''-'' # radix 10 (nat (round_even (- x))) else radix 10 (nat (round_even x)))"

section \<open>Uptime\<close>

record tsc_state = dmi_state +
  processor_flags :: "string option"

text \<open>A division by zero, which ends the process, is \<open>None\<close>.\<close>

definition scale :: "u64 \<Rightarrow> u32 \<Rightarrow> rat \<Rightarrow> (u32 \<times> u64) option" where
  "scale tsc unit mhz =
     (let v = dbl_to_u64 (rnds (mhz * 1000000)) * ucast unit
      in if v = 0 then None
         else let u = (ucast (tsc div v) :: u32) in Some (u, tsc - ucast u * v))"

definition uptime :: "u64 \<Rightarrow> rat \<Rightarrow> (u32 \<times> u32 \<times> u32 \<times> u32) option" where
  "uptime tsc mhz = do {
     (days, tsc) \<leftarrow> scale tsc (3600 * 24) mhz;
     (hours, tsc) \<leftarrow> scale tsc 3600 mhz;
     (mins, tsc) \<leftarrow> scale tsc 60 mhz;
     (secs, tsc) \<leftarrow> scale tsc 1 mhz;
     Some (days, hours, mins, secs) }"

text \<open>The text, or \<open>None\<close> for the result \<open>-1\<close>.\<close>

definition fmt_tsc :: "u64 \<Rightarrow> rat \<Rightarrow> 's \<Rightarrow> ('s, string option) outcome" where
  "fmt_tsc tsc mhz s =
     (if mhz = 0 then Ret None s
      else case uptime tsc mhz of
             None \<Rightarrow> Abort s
           | Some (days, hours, mins, secs) \<Rightarrow>
               Ret (Some (printf ''[at %s Mhz %u days %u:%u:%u uptime (unreliable)]''
                 [PS (show_dbl0 mhz), PU days, PU hours, PU mins, PU secs])) s)"

definition cpufreq_mhz :: "int \<Rightarrow> rat \<Rightarrow> 'a config_state_scheme \<Rightarrow> rat" where
  "cpufreq_mhz cpu infomhz s =
     (case os_read s (printf ''/sys/devices/system/cpu/cpu%d/cpufreq/cpuinfo_max_freq'' [PN cpu]) of
        None \<Rightarrow> if os_access s ''/sys/devices'' then infomhz else 0
      | Some text \<Rightarrow>
          (case sscanf text ''%lf'' of
             (n, [SF x]) \<Rightarrow> rnds (rnds x / 1000)
           | _ \<Rightarrow> 0))"

definition decode_tsc_forced :: "rat \<Rightarrow> u64 \<Rightarrow> 's \<Rightarrow> ('s, string option) outcome" where
  "decode_tsc_forced mhz tsc s = fmt_tsc tsc mhz s"

text \<open>\<open>strstr\<close>: the rest from the first occurrence.\<close>

fun strstr :: "string \<Rightarrow> string \<Rightarrow> string option" where
  "strstr s t = (if take (length t) s = t then Some s else case s of [] \<Rightarrow> None | _ # s \<Rightarrow> strstr s t)"

declare strstr.simps [simp del]

text \<open>A line of \<open>/proc/acpi/processor\<close> that tells that a state deeper than C1 was used.\<close>

definition deep_line :: "string \<Rightarrow> bool" where
  "deep_line line =
     (case sscanf line '' C%d:'' of
        (k, v # _) \<Rightarrow>
          sval_int v > 1 \<and>
          (case strstr line ''usage'' of
             None \<Rightarrow> False
           | Some p \<Rightarrow> (case sscanf p ''usage[%d]'' of (k, v # _) \<Rightarrow> sval_int v > 0 | _ \<Rightarrow> False))
      | _ \<Rightarrow> False)"

definition deep_sleep_states :: "int \<Rightarrow> 'a config_state_scheme \<Rightarrow> bool" where
  "deep_sleep_states cpu s \<longleftrightarrow>
     os_access s (printf ''/sys/devices/system/cpu/cpu%d/cpuidle'' [PN cpu]) \<or>
     (case os_read s (printf ''/proc/acpi/processor/CPU%d/power'' [PN cpu]) of
        None \<Rightarrow> False
      | Some text \<Rightarrow> list_ex deep_line (getlines text))"

definition tsc_reliable :: "cputype \<Rightarrow> int \<Rightarrow> 'a tsc_state_scheme \<Rightarrow> bool" where
  "tsc_reliable cputype cpunum s =
     (case processor_flags s of
        None \<Rightarrow> False
      | Some flags \<Rightarrow>
          if strstr flags ''nonstop_tsc'' \<noteq> None then True
          else if strstr flags ''constant_tsc'' = None then False
          else if \<not> is_intel_cpu cputype then False
          else \<not> (deep_sleep_states cpunum s \<and> cputype < CPU_NEHALEM))"

definition decode_tsc_current :: "int \<Rightarrow> cputype \<Rightarrow> rat \<Rightarrow> u64 \<Rightarrow> 'a tsc_state_scheme \<Rightarrow> ('a tsc_state_scheme, string option) outcome" where
  "decode_tsc_current cpunum cputype mhz tsc s =
     (if \<not> tsc_reliable cputype cpunum s then Ret None s
      else let cmhz = cpufreq_mhz cpunum mhz s
           in fmt_tsc tsc (if cmhz \<noteq> 0 then cmhz else mhz) s)"

section \<open>The uptime is exact\<close>

lemma scale_step:
  assumes v: "dbl_to_u64 (rnds (mhz * 1000000)) * ucast unit = v" "0 < unat v" and q: "unat tsc div unat v < 2 ^ 32"
  shows "\<exists>u t. scale tsc unit mhz = Some (u, t) \<and> unat u = unat tsc div unat v \<and> unat t = unat tsc mod unat v"
proof -
  define u where "u = (ucast (tsc div v) :: u32)"
  have u: "unat u = unat tsc div unat v"
    using q by (simp add: u_def unsigned_ucast_eq unat_div take_bit_nat_eq_self)
  have le: "unat tsc div unat v * unat v \<le> unat tsc" by (rule div_times_less_eq_dividend)
  have "unat tsc < 2 ^ 64" using unat_less [of tsc] by simp
  then have "unat tsc div unat v * unat v < 2 ^ 64" using le by (rule le_less_trans [rotated])
  then have "unat (ucast u * v :: u64) = unat tsc div unat v * unat v"
    using u by (simp add: unat_word_ariths unat_ucast_up)
  then have "unat (tsc - ucast u * v) = unat tsc mod unat v"
    using le by (simp add: unat_sub word_le_nat_alt minus_div_mult_eq_mod)
  moreover have "v \<noteq> 0" using v(2) by auto
  then have "scale tsc unit mhz = Some (u, tsc - ucast u * v)"
    using v(1) by (simp add: scale_def u_def Let_def)
  ultimately show ?thesis using u by blast
qed

lemma unat_mult_unit:
  assumes "unat (hz :: u64) * 86400 < 2 ^ 64" "unat unit \<le> 86400"
  shows "unat (hz * ucast (unit :: u32)) = unat hz * unat unit"
proof -
  have "unat hz * unat unit < 2 ^ 64" using assms by (meson le_less_trans mult_le_mono2)
  then show ?thesis by (simp add: unat_word_ariths unat_ucast_up)
qed

lemma div_split:
  assumes "0 < (h :: nat)" "0 < k"
  shows "a div h = a div (h * k) * k + a mod (h * k) div h" "a mod (h * k) div h < k"
proof -
  have "a = a mod (h * k) + h * (a div (h * k) * k)"
    using mod_mult_div_eq [of a "h * k"] by (simp add: algebra_simps)
  then have "a div h = (a mod (h * k) + h * (a div (h * k) * k)) div h" by (rule arg_cong)
  then show "a div h = a div (h * k) * k + a mod (h * k) div h" using assms(1) by simp
  show "a mod (h * k) div h < k" using assms by (simp add: less_mult_imp_div_less mult.commute)
qed

text \<open>
  C38: The uptime of an event is exact for every frequency from 50 kHz to 200 THz: days, hours, minutes and seconds are in
  their ranges and add up to the whole seconds that the counter has run.
\<close>

theorem uptime_exact:
  assumes hz: "dbl_to_u64 (rnds (mhz * 1000000)) = hz" "50000 \<le> unat hz" "unat hz \<le> 200000000000000"
  shows "\<exists>d h m s. uptime tsc mhz = Some (d, h, m, s) \<and> unat h < 24 \<and> unat m < 60 \<and> unat s < 60 \<and>
    unat tsc div unat hz = 86400 * unat d + 3600 * unat h + 60 * unat m + unat s"
proof -
  let ?H = "unat hz"
  have u: "unat (hz * ucast (unit :: u32)) = ?H * unat unit" if "unat unit \<le> 86400" for unit
    using hz(3) that by (intro unat_mult_unit) simp_all
  have t64: "unat tsc < 2 ^ 64" using unat_less [of tsc] by simp
  have "unat tsc div (?H * 86400) \<le> unat tsc div (50000 * 86400)" using hz(2) by (intro div_le_mono2) auto
  also have "\<dots> < 2 ^ 32" using t64 by (simp add: div_less_iff_less_mult)
  finally have q: "unat tsc div (?H * 86400) < 2 ^ 32" .
  obtain d t1 where d: "scale tsc 86400 mhz = Some (d, t1)" "unat d = unat tsc div (?H * 86400)" "unat t1 = unat tsc mod (?H * 86400)"
    using scale_step [of mhz 86400 _ tsc] u [of 86400] hz q by fastforce
  have t1: "unat t1 div (?H * 3600) < 24" using div_split(2) [of "?H * 3600" 24 "unat tsc"] hz(2) d(3) by (simp add: mult.assoc)
  obtain h t2 where h: "scale t1 3600 mhz = Some (h, t2)" "unat h = unat t1 div (?H * 3600)" "unat t2 = unat t1 mod (?H * 3600)"
    using scale_step [of mhz 3600 _ t1] u [of 3600] hz t1 by fastforce
  have t2: "unat t2 div (?H * 60) < 60" using div_split(2) [of "?H * 60" 60 "unat t1"] hz(2) h(3) by (simp add: mult.assoc)
  obtain m t3 where m: "scale t2 60 mhz = Some (m, t3)" "unat m = unat t2 div (?H * 60)" "unat t3 = unat t2 mod (?H * 60)"
    using scale_step [of mhz 60 _ t2] u [of 60] hz t2 by fastforce
  have t3: "unat t3 div ?H < 60" using div_split(2) [of "?H" 60 "unat t2"] hz(2) m(3) by simp
  obtain s t4 where s: "scale t3 1 mhz = Some (s, t4)" "unat s = unat t3 div ?H"
    using scale_step [of mhz 1 _ t3] u [of 1] hz t3 by fastforce
  have "unat tsc div ?H = unat d * 86400 + unat t1 div ?H" "unat t1 div ?H = unat h * 3600 + unat t2 div ?H"
    "unat t2 div ?H = unat m * 60 + unat t3 div ?H"
    using div_split(1) [of ?H] hz(2) d h m by simp_all
  moreover have "uptime tsc mhz = Some (d, h, m, s)" using d h m s by (simp add: uptime_def)
  ultimately show ?thesis using t1 t2 t3 h(2) m(2) s(2) by (intro exI [of _ d] exI [of _ h] exI [of _ m] exI [of _ s]) simp
qed

theorem uptime_exact_witness:
  "\<exists>d h m s. uptime 259200000000000 2400 = Some (d, h, m, s) \<and> unat h < 24 \<and> unat m < 60 \<and> unat s < 60 \<and>
    108000 = 86400 * unat d + 3600 * unat h + 60 * unat m + unat s"
proof -
  have "dbl_to_u64 (rnds (2400 * 1000000)) = 2400000000"
    using rnd_of_nat [of 2400000000] by (simp add: rnds_def dbl_to_u64_def)
  from uptime_exact [OF this, of 259200000000000] show ?thesis by simp
qed

text \<open>A frequency below one Hertz, as \<open>--cpumhz 0.0000001\<close> sets it, divides by zero.\<close>

lemma tiny_frequency_crash: "0 < mhz \<Longrightarrow> mhz < 1 / 10000000 \<Longrightarrow> fmt_tsc tsc mhz s = Abort s"
proof -
  assume m: "0 < mhz" "mhz < 1 / 10000000"
  have "rnd (mhz * 1000000) < 1" using m rnd_rel [of "mhz * 1000000"] by simp
  then have "\<lfloor>rnd (mhz * 1000000)\<rfloor> = 0" using rnd_nonneg [of "mhz * 1000000"] by (simp add: floor_eq_iff)
  then have "dbl_to_u64 (rnds (mhz * 1000000)) = 0"
    using m \<open>rnd (mhz * 1000000) < 1\<close> rnd_nonneg [of "mhz * 1000000"] by (simp add: rnds_def dbl_to_u64_def not_less)
  with m show ?thesis by (simp add: fmt_tsc_def uptime_def scale_def)
qed

end
