(* ===== verification/Mcelog.thy ===== *)
theory Mcelog
  imports Tsc Zhaoxin K8
begin

text \<open>
  The main program, \<^verbatim>\<open>src/mcelog.c\<close>, first part: names of banks and processors, the preparation, the filter and the output
  of a record, and the loop over the records that the kernel returns. The decoder of ASCII logs and the command line are in
  \<open>Ascii\<close> and \<open>Main_Program\<close>.
\<close>

section \<open>State\<close>

record mcelog_state = tsc_state +
  filter_bogus :: bool
  cpu_forced :: bool
  cpumhz :: rat
  cpumhz_forced :: bool
  dump_raw_ascii :: bool
  numerrors :: int
  debug_numerrors :: bool
  cpuid_warned :: bool                \<comment> \<open>static in mce_cpuid\<close>
  cpu_checked :: bool                 \<comment> \<open>static in is_cpu_supported\<close>
  os_ctime :: "u64 \<Rightarrow> string"        \<comment> \<open>ctime\<close>

section \<open>Names\<close>

definition disclaimer :: "'a msg_state_scheme \<Rightarrow> 'a msg_state_scheme" where
  "disclaimer s = Wput ''Hardware event. This is not a software error.\<newline>'' [] s"

text \<open>\<open>None\<close> stands for an index outside of a table of names.\<close>

definition extended_bankname :: "u32 \<Rightarrow> string option" where
  "extended_bankname bank =
     (if unat bank = MCE_THERMAL_BANK then Some ''THERMAL EVENT''
      else if unat bank = MCE_TIMEOUT_BANK then Some ''Timeout waiting for exception on other CPUs''
      else if K8_MCE_THRESHOLD_BASE \<le> unat bank \<and> unat bank \<le> K8_MCE_THRESHOLD_TOP then k8_bank_name bank
      else if unat bank = MCE_APEI_BANK then Some ''ACPI/APEI reported error''
      else Some (printf ''Undecoded extended event %x'' [PU bank]))"

definition is_zhaoxin_cpu :: "cputype \<Rightarrow> bool" where
  "is_zhaoxin_cpu cpu \<longleftrightarrow> CPU_ZHAOXIN \<le> cpu \<and> cpu \<le> CPU_ZHAOXIN_KH50000"

definition bankname :: "u32 \<Rightarrow> cputype \<Rightarrow> string option" where
  "bankname bank cpu =
     (if unat bank \<ge> MCE_EXTENDED_BANK then extended_bankname bank
      else if cpu \<ge> CPU_INTEL then Some (intel_bank_name (sint bank))
      else if cpu = CPU_K8 then k8_bank_name bank
      else if is_zhaoxin_cpu cpu then Some (zhaoxin_bank_name bank cpu)
      else Some (printf ''BANK %d'' [PN (sint bank)]))"

definition resolveaddr :: "u64 \<Rightarrow> 'a dmi_state_scheme \<Rightarrow> ('a dmi_state_scheme, unit) outcome" where
  "resolveaddr addr s = (if addr \<noteq> 0 \<and> do_dmi s \<and> dmi_forced s then dmi_decodeaddr addr s else Ret () s)"

definition mce_filter :: "mce \<Rightarrow> nat \<Rightarrow> 'a mcelog_state_scheme \<Rightarrow> ('a mcelog_state_scheme, bool) outcome" where
  "mce_filter m recordlen s =
     (if \<not> filter_bogus s then Ret True s
      else if cpu_type s \<ge> CPU_INTEL then mce_filter_intel m recordlen s
      else if cpu_type s = CPU_K8 then Ret (mce_filter_k8 m) s
      else if is_zhaoxin_cpu (cpu_type s) then mce_filter_zhaoxin m recordlen s
      else Ret True s)"

definition print_tsc :: "int \<Rightarrow> u64 \<Rightarrow> u64 \<Rightarrow> 'a mcelog_state_scheme \<Rightarrow> ('a mcelog_state_scheme, unit) outcome" where
  "print_tsc cpunum tsc time s =
     andthen (if cpumhz_forced s then decode_tsc_forced (cpumhz s) tsc s
              else if time = 0 then decode_tsc_current cpunum (cpu_type s) (cpumhz s) tsc s
              else Ret None s) (\<lambda>buf s.
     Ret () (Wput ''TSC %llx %s'' [PU tsc, PS (case buf of None \<Rightarrow> [] | Some t \<Rightarrow> t)] s))"

text \<open>\<open>print_cputypes\<close> and \<open>lookup_cputype\<close>; the output goes to standard error.\<close>

definition print_cputypes :: "'a msg_state_scheme \<Rightarrow> 'a msg_state_scheme" where
  "print_cputypes s =
     emit [EPrint Stderr (''Valid CPUs:'' @ concat (map (\<lambda>c. CHR '' '' # fst c) cpu_choices) @ ''\<newline>'')] s"

fun find_cputype :: "string \<Rightarrow> (string \<times> cputype) list \<Rightarrow> cputype option" where
  "find_cputype name [] = None"
| "find_cputype name ((n, c) # cs) = (if strcaseeq name n then Some c else find_cputype name cs)"

definition lookup_cputype :: "string \<Rightarrow> 'a msg_state_scheme \<Rightarrow> ('a msg_state_scheme, cputype) outcome" where
  "lookup_cputype name s =
     (case find_cputype name cpu_choices of
        Some c \<Rightarrow> Ret c s
      | None \<Rightarrow> Exit 1 (print_cputypes (emit [EPrint Stderr (printf (''Unknown CPU type `%s'' @ CHR 0x27 # '' specified\<newline>'') [PS name])] s)))"

definition vendor :: "string list" where
  "vendor = [''Intel'', ''Cyrix'', ''AMD'', ''UMC'', ''vendor 4'', ''Centaur'', ''vendor 6'', ''Transmeta'', ''NSC'', ''vendor 9'', ''Zhaoxin'']"

definition cpuvendor_to_num :: "string \<Rightarrow> u32" where
  "cpuvendor_to_num name =
     (let (v, rest) = strtoul0 name
      in if length rest < length name then word_of_int v
         else case find (\<lambda>i. name = vendor ! i) [0..<length vendor] of Some i \<Rightarrow> of_nat i | None \<Rightarrow> 0)"

definition cpuvendor_name :: "u32 \<Rightarrow> string" where
  "cpuvendor_name cpuvendor = (if unat cpuvendor < length vendor then vendor ! unat cpuvendor else ''Unknown vendor'')"

section \<open>Processor type of a record\<close>

definition X86_VENDOR_INTEL :: u32 where "X86_VENDOR_INTEL = 0"
definition X86_VENDOR_AMD :: u32 where "X86_VENDOR_AMD = 2"
definition X86_VENDOR_CENTAUR :: u32 where "X86_VENDOR_CENTAUR = 5"
definition X86_VENDOR_ZHAOXIN :: u32 where "X86_VENDOR_ZHAOXIN = 10"

definition setup_cpuid :: "u32 \<Rightarrow> u32 \<Rightarrow> 'a memdb_state_scheme \<Rightarrow> cputype \<times> 'a memdb_state_scheme" where
  "setup_cpuid cpuvendor cpuid s =
     (let (family, model, stepping) = parse_cpuid cpuid
      in if cpuvendor = X86_VENDOR_INTEL then select_intel_cputype (sint family) (sint model) s
         else if cpuvendor = X86_VENDOR_CENTAUR \<or> cpuvendor = X86_VENDOR_ZHAOXIN
         then select_zhaoxin_cputype (sint family) (sint model) s
         else if cpuvendor = X86_VENDOR_AMD \<and> 15 \<le> family \<and> family \<le> 17 then (CPU_K8, s)
         else (CPU_GENERIC, Eprintf ''Unknown CPU type vendor %u family %u model %u'' [PU cpuvendor, PU family, PU model] s))"

text \<open>The loop over \<open>/proc/cpuinfo\<close>: what was seen, and the values read so far.\<close>

record cpuinfo =
  seen_vendor :: bool
  seen_family :: bool
  seen_model :: bool
  seen_mhz :: bool
  seen_flags :: bool
  ci_vendor :: string
  ci_family :: int
  ci_model :: int

definition seen_all :: "cpuinfo \<Rightarrow> bool" where
  "seen_all c \<longleftrightarrow> seen_vendor c \<and> seen_family c \<and> seen_model c \<and> seen_mhz c \<and> seen_flags c"

definition cpuinfo_line :: "string \<Rightarrow> cpuinfo \<Rightarrow> 'a mcelog_state_scheme \<Rightarrow> cpuinfo \<times> 'a mcelog_state_scheme" where
  "cpuinfo_line line c s =
     (let c = (case sscanf line ''vendor_id : %63[^\<newline>]'' of (_, [SS v]) \<Rightarrow> c\<lparr>ci_vendor := v, seen_vendor := True\<rparr> | _ \<Rightarrow> c);
          c = (case sscanf line ''cpu family : %d'' of (_, [v]) \<Rightarrow> c\<lparr>ci_family := sval_int v, seen_family := True\<rparr> | _ \<Rightarrow> c);
          c = (case sscanf line ''model : %d'' of (_, [v]) \<Rightarrow> c\<lparr>ci_model := sval_int v, seen_model := True\<rparr> | _ \<Rightarrow> c);
          (c, s) = (case sscanf line ''cpu MHz : %lf'' of
                      (_, [SF x]) \<Rightarrow> (c\<lparr>seen_mhz := True\<rparr>, if cpumhz_forced s then s else s\<lparr>cpumhz := rnds x\<rparr>)
                    | _ \<Rightarrow> (c, s))
      in if strneq line ''flags'' 5 \<and> (case drop 5 line of [] \<Rightarrow> False | x # _ \<Rightarrow> isspace x)
         then (c\<lparr>seen_flags := True\<rparr>, s\<lparr>processor_flags := Some line\<rparr>) else (c, s))"

fun cpuinfo_loop :: "string list \<Rightarrow> cpuinfo \<Rightarrow> 'a mcelog_state_scheme \<Rightarrow> cpuinfo \<times> 'a mcelog_state_scheme" where
  "cpuinfo_loop [] c s = (c, s)"
| "cpuinfo_loop (l # ls) c s = (if seen_all c then (c, s) else let (c, s) = cpuinfo_line l c s in cpuinfo_loop ls c s)"

definition unsupported :: string where
  "unsupported = '' Processor family %d: mcelog does not support this processor.  Please use the edac_mce_amd module instead.\<newline>''"

definition is_cpu_supported :: "'a mcelog_state_scheme \<Rightarrow> bool \<times> 'a mcelog_state_scheme" where
  "is_cpu_supported s =
     (if cpu_checked s then (True, s)
      else
        let s = s\<lparr>cpu_checked := True\<rparr>
        in case os_read s ''/proc/cpuinfo'' of
             None \<Rightarrow> (True, Eprintf ''warning: Cannot open /proc/cpuinfo\<newline>'' [] s)
           | Some text \<Rightarrow>
               let (c, s) = cpuinfo_loop (getlines text) \<lparr>seen_vendor = False, seen_family = False, seen_model = False,
                     seen_mhz = False, seen_flags = False, ci_vendor = [], ci_family = 0, ci_model = 0\<rparr> s
               in if \<not> seen_all c then (True, Eprintf ''warning: Cannot parse /proc/cpuinfo\<newline>'' [] s)
                  else if ci_vendor c = ''AuthenticAMD''
                  then if ci_family c = 15 then (True, s\<lparr>cpu_type := CPU_K8\<rparr>)
                       else if ci_family c \<ge> 16 then (False, Eprintf (''ERROR: AMD'' @ unsupported) [PN (ci_family c)] s)
                       else (True, s)
                  else if ci_vendor c = ''HygonGenuine''
                  then (False, Eprintf (''ERROR: Hygon'' @ unsupported) [PN (ci_family c)] s)
                  else if ci_vendor c = ''GenuineIntel''
                  then let (t, s) = select_intel_cputype (ci_family c) (ci_model c) s in (True, s\<lparr>cpu_type := t\<rparr>)
                  else if ci_vendor c = ''CentaurHauls'' \<or> ci_vendor c = ''Shanghai  ''
                  then let (t, s) = select_zhaoxin_cputype (ci_family c) (ci_model c) s in (True, s\<lparr>cpu_type := t\<rparr>)
                  else (True, s))"

definition mce_cpuid :: "mce \<Rightarrow> 'a mcelog_state_scheme \<Rightarrow> 'a mcelog_state_scheme" where
  "mce_cpuid m s =
     (if m_cpuid m \<noteq> 0
      then let (t, s) = setup_cpuid (ucast (m_cpuvendor m)) (m_cpuid m) s
           in if \<not> cpu_forced s then s\<lparr>cpu_type := t\<rparr>
              else if t \<noteq> cpu_type s \<and> t \<noteq> CPU_GENERIC \<and> \<not> cpuid_warned s
              then (Eprintf ''Forced cputype %s does not match cpu type %s from mcelog\<newline>''
                      [PS (cputype_name (cpu_type s)), PS (cputype_name t)] s)\<lparr>cpuid_warned := True\<rparr>
              else s
      else if cpu_type s = CPU_GENERIC \<and> \<not> cpu_forced s then snd (is_cpu_supported s)
      else s)"

definition mce_prepare :: "mce \<Rightarrow> 'a mcelog_state_scheme \<Rightarrow> mce \<times> 'a mcelog_state_scheme" where
  "mce_prepare m s =
     (let s = mce_cpuid m s in (if m_time m = 0 then m\<lparr>m_time := word_of_int (now s)\<rparr> else m, s))"

section \<open>Output of a record\<close>

text \<open>\<open>n += Wprintf(...)\<close>\<close>

definition Wadd :: "string \<Rightarrow> parg list \<Rightarrow> nat \<times> 'a msg_state_scheme \<Rightarrow> nat \<times> 'a msg_state_scheme" where
  "Wadd fmt args = (\<lambda>(n, s). let (k, s) = Wprintf fmt args s in (n + k, s))"

definition Wnl :: "nat \<times> 'a msg_state_scheme \<Rightarrow> 'a msg_state_scheme" where
  "Wnl = (\<lambda>(n, s). if n > 0 then Wput ''\<newline>'' [] s else s)"

definition mce_cpunum :: "mce \<Rightarrow> u32" where
  "mce_cpunum m = (if m_extcpu m \<noteq> 0 then m_extcpu m else ucast (m_cpu m))"

text \<open>Up to the time: what is common to all processors.\<close>

definition dump_place :: "mce \<Rightarrow> 'a mcelog_state_scheme \<Rightarrow> 'a mcelog_state_scheme" where
  "dump_place m s =
     (let s = Wput ''\<newline>'' [] s;
          s = (if m_ip m \<noteq> 0
               then Wput ''RIP%s %02x:%llx\<newline>''
                      [PS (if \<not> has (m_mcgstatus m) MCG_STATUS_EIPV then '' !INEXACT!'' else []), PU (m_cs m), PU (m_ip m)] s
               else s);
          ns = (0, s);
          ns = (if has (m_status m) MCI_STATUS_MISCV then Wadd ''MISC %llx '' [PU (m_misc m)] ns else ns);
          ns = (if has (m_status m) MCI_STATUS_ADDRV then Wadd ''ADDR %llx '' [PU (m_addr m)] ns else ns);
          s = Wnl ns
      in if m_time m \<noteq> 0 then Wput ''TIME %llu %s'' [PU (m_time m), PS (os_ctime s (m_time m))] s else s)"

definition dump_head :: "mce \<Rightarrow> 'a mcelog_state_scheme \<Rightarrow> ('a mcelog_state_scheme, unit) outcome" where
  "dump_head m s =
     (let cpu = mce_cpunum m;
          s = (if m_finished m = 0 then Wput ''not finished?\<newline>'' [] s else s)
      in case bankname (ucast (m_bank m)) (cpu_type s) of
           None \<Rightarrow> Abort s
         | Some name \<Rightarrow>
             andthen (let s = Wput ''CPU %d %s '' [PN (sint cpu), PS name] s
                      in if m_tsc m \<noteq> 0 then print_tsc (sint cpu) (m_tsc m) (m_time m) s else Ret () s) (\<lambda>_ s.
             Ret () (dump_place m s)))"

definition dump_model :: "mce \<Rightarrow> nat \<Rightarrow> 'a mcelog_state_scheme \<Rightarrow> ('a mcelog_state_scheme, unit) outcome" where
  "dump_model m recordlen s =
     (if cpu_type s = CPU_K8
      then (case decode_k8_mc m False s of None \<Rightarrow> Abort s | Some (_, s) \<Rightarrow> Ret () s)
      else if cpu_type s \<ge> CPU_INTEL then Ret () (snd (decode_intel_mc m (cpu_type s) False recordlen s))
      else if is_zhaoxin_cpu (cpu_type s) then Ret () (snd (decode_zhaoxin_mc m (cpu_type s) False recordlen s))
      else Ret () s)"

text \<open>\<open>recordlen > offsetof(struct mce, f)\<close>: the kernel reports the field, at least in part.\<close>

definition reported :: "nat \<Rightarrow> string \<Rightarrow> bool" where
  "reported recordlen f \<longleftrightarrow> recordlen > offsetof f"

definition dump_tail :: "mce \<Rightarrow> nat \<Rightarrow> 'a msg_state_scheme \<Rightarrow> 'a msg_state_scheme" where
  "dump_tail m recordlen s =
     (let s = Wput ''STATUS %llx MCGSTATUS %llx\<newline>'' [PU (m_status m), PU (m_mcgstatus m)] s;
          ns = (0, s);
          ns = (if reported recordlen ''cpuid'' \<and> m_mcgcap m \<noteq> 0 then Wadd ''MCGCAP %llx '' [PU (m_mcgcap m)] ns else ns);
          ns = (if reported recordlen ''apicid'' then Wadd ''APICID %x '' [PU (m_apicid m)] ns else ns);
          ns = (if reported recordlen ''socketid'' then Wadd ''SOCKETID %x '' [PU (m_socketid m)] ns else ns);
          s = Wnl ns;
          s = (if reported recordlen ''ppin'' \<and> m_ppin m \<noteq> 0 then Wput ''PPIN %llx\<newline>'' [PU (m_ppin m)] s else s);
          s = (if reported recordlen ''microcode'' \<and> m_microcode m \<noteq> 0 then Wput ''MICROCODE %x\<newline>'' [PU (m_microcode m)] s else s)
      in if reported recordlen ''cpuid'' \<and> m_cpuid m \<noteq> 0
         then let (fam, model, step) = parse_cpuid (m_cpuid m)
              in Wput ''CPUID Vendor %s Family %u Model %u Step %u\<newline>''
                   [PS (cpuvendor_name (ucast (m_cpuvendor m))), PU fam, PU model, PU step] s
         else s)"

text \<open>The processors whose addresses are looked up in the SMBIOS tables.\<close>

definition resolving_cpus :: "cputype set" where
  "resolving_cpus = {CPU_ATOM, CPU_CORE2, CPU_DUNNINGTON, CPU_GENERIC, CPU_HASWELL, CPU_ICELAKE, CPU_INTEL, CPU_IVY_BRIDGE, CPU_K8,
     CPU_NEHALEM, CPU_P4, CPU_P6OLD, CPU_SANDY_BRIDGE, CPU_TULSA, CPU_XEON75XX, CPU_ZHAOXIN, CPU_ZHAOXIN_KH50000, CPU_ZHAOXIN_KH40000}"

definition dump_mce :: "mce \<Rightarrow> nat \<Rightarrow> 'a mcelog_state_scheme \<Rightarrow> ('a mcelog_state_scheme, unit) outcome" where
  "dump_mce m recordlen s =
     andthen (dump_head m s) (\<lambda>_ s.
     andthen (dump_model m recordlen s) (\<lambda>_ s.
     let s = dump_tail m recordlen s
     in if cpu_type s \<in> resolving_cpus then resolveaddr (m_addr m) s else Ret () s))"

definition dump_mce_raw_ascii :: "mce \<Rightarrow> nat \<Rightarrow> 'a msg_state_scheme \<Rightarrow> 'a msg_state_scheme" where
  "dump_mce_raw_ascii m recordlen s =
     (let s = (if m_finished m = 0 then Wput ''not finished?\<newline>'' [] s else s);
          s = Wput ''CPU %u\<newline>'' [PU (mce_cpunum m)] s;
          s = Wput ''BANK %d\<newline>'' [PU (m_bank m)] s;
          s = Wput ''TSC %#llx\<newline>'' [PU (m_tsc m)] s;
          s = Wput ''RIP %#02x:%#llx\<newline>'' [PU (m_cs m), PU (m_ip m)] s;
          s = Wput ''MISC %#llx\<newline>'' [PU (m_misc m)] s;
          s = Wput ''ADDR %#llx\<newline>'' [PU (m_addr m)] s;
          s = Wput ''STATUS %#llx\<newline>'' [PU (m_status m)] s;
          s = Wput ''MCGSTATUS %#llx\<newline>'' [PU (m_mcgstatus m)] s;
          s = (if reported recordlen ''cpuid'' then Wput ''PROCESSOR %u:%#x\<newline>'' [PU (m_cpuvendor m), PU (m_cpuid m)] s else s);
          s = (if reported recordlen ''time'' then Wput ''TIME %llu\<newline>'' [PU (m_time m)] s else s);
          s = (if reported recordlen ''socketid'' then Wput ''SOCKETID %u\<newline>'' [PU (m_socketid m)] s else s);
          s = (if reported recordlen ''apicid'' then Wput ''APICID %u\<newline>'' [PU (m_apicid m)] s else s);
          s = (if reported recordlen ''mcgcap'' then Wput ''MCGCAP %#llx\<newline>'' [PU (m_mcgcap m)] s else s)
      in Wput ''\<newline>'' [] s)"

section \<open>Records from the kernel\<close>

text \<open>\<open>struct mce\<close> from its bytes: little endian, at the offsets of the C layout.\<close>

fun le_val :: "u8 list \<Rightarrow> int" where
  "le_val [] = 0"
| "le_val (b # bs) = uint b + 256 * le_val bs"

definition field_at :: "string \<Rightarrow> u8 list \<Rightarrow> 'w::len word" where
  "field_at f bs = word_of_int (le_val (take (endof_field f - offsetof f) (drop (offsetof f) bs)))"

definition mce_of_bytes :: "u8 list \<Rightarrow> mce" where
  "mce_of_bytes bs =
     \<lparr>m_status = field_at ''status'' bs, m_misc = field_at ''misc'' bs, m_addr = field_at ''addr'' bs,
      m_mcgstatus = field_at ''mcgstatus'' bs, m_ip = field_at ''ip'' bs, m_tsc = field_at ''tsc'' bs, m_time = field_at ''time'' bs,
      m_cpuvendor = field_at ''cpuvendor'' bs, m_pad1 = field_at ''pad1'' bs, m_pad2 = field_at ''pad2'' bs,
      m_cpuid = field_at ''cpuid'' bs, m_cs = field_at ''cs'' bs, m_bank = field_at ''bank'' bs, m_cpu = field_at ''cpu'' bs,
      m_finished = field_at ''finished'' bs, m_extcpu = field_at ''extcpu'' bs, m_socketid = field_at ''socketid'' bs,
      m_apicid = field_at ''apicid'' bs, m_mcgcap = field_at ''mcgcap'' bs, m_synd = field_at ''synd'' bs, m_ipid = field_at ''ipid'' bs,
      m_ppin = field_at ''ppin'' bs, m_microcode = field_at ''microcode'' bs, m_kflags = field_at ''kflags'' bs\<rparr>"

text \<open>The zero padded copy of record number \<open>i\<close>.\<close>

definition record_at :: "nat \<Rightarrow> nat \<Rightarrow> u8 list \<Rightarrow> mce" where
  "record_at recordlen i buf =
     (let r = take (min recordlen sizeof_mce) (drop (i * recordlen) buf)
      in mce_of_bytes (r @ replicate (sizeof_mce - length r) 0))"

text \<open>One round of the loop; the result tells whether this was the last record asked for.\<close>

definition process_record :: "nat \<Rightarrow> nat \<Rightarrow> mce \<Rightarrow> 'a mcelog_state_scheme \<Rightarrow> ('a mcelog_state_scheme, bool) outcome" where
  "process_record recordlen i m s =
     (let (m, s) = mce_prepare m s;
          finish = (numerrors s = 1);
          s = (if numerrors s > 0 then s\<lparr>numerrors := numerrors s - 1\<rparr> else s)
      in andthen (mce_filter m recordlen s) (\<lambda>ok s.
         if \<not> ok then Ret finish s
         else andthen (if \<not> dump_raw_ascii s
                       then dump_mce m recordlen (Wput ''MCE %d\<newline>'' [PN (int i)] (disclaimer s))
                       else Ret () (dump_mce_raw_ascii m recordlen s)) (\<lambda>_ s.
              Ret finish (flushlog s))))"

fun process_loop :: "nat \<Rightarrow> nat \<Rightarrow> mce list \<Rightarrow> 'a mcelog_state_scheme \<Rightarrow> ('a mcelog_state_scheme, bool) outcome" where
  "process_loop recordlen i [] s = Ret False s"
| "process_loop recordlen i (m # ms) s =
     andthen (process_record recordlen i m s) (\<lambda>finish s. if finish then Ret True s else process_loop recordlen (i + 1) ms s)"

definition MCE_OVERFLOW :: nat where "MCE_OVERFLOW = 0"

text \<open>\<open>process\<close>: \<open>rd\<close> is what \<open>read\<close> returns, or \<open>None\<close> for an error, and \<open>fl\<close> the flags of the buffer if they can be had.\<close>

definition process :: "u8 list option \<Rightarrow> u32 option \<Rightarrow> nat \<Rightarrow> nat \<Rightarrow> 'a mcelog_state_scheme \<Rightarrow> ('a mcelog_state_scheme, unit) outcome" where
  "process rd fl recordlen loglen s =
     (if recordlen = 0 then Ret () (Wput ''no data in mce record\<newline>'' [] s)
      else case rd of
        None \<Rightarrow> Ret () (SYSERRprintf ''mcelog read'' [] s)
      | Some buf \<Rightarrow>
          let count = length buf div recordlen;
              s = (case fl of
                     Some flags \<Rightarrow> if count = loglen \<and> flags AND push_bit MCE_OVERFLOW 1 \<noteq> 0
                                   then Eprintf ''Warning: MCE buffer is overflowed.\<newline>'' [] s else s
                   | None \<Rightarrow> s)
          in andthen (process_loop recordlen 0 (map (\<lambda>i. record_at recordlen i buf) [0..<count]) s) (\<lambda>finish s.
             let finish = finish \<or> debug_numerrors s \<and> numerrors s \<le> 0;
                 s = (if recordlen > sizeof_mce
                      then Eprintf ''consider an update\<newline>'' []
                             (Eprintf ''warning: %lu bytes ignored in each record\<newline>'' [PN (int (recordlen - sizeof_mce))] s)
                      else s)
             in if finish then Exit 0 s else Ret () s))"

end
