(* ===== verification/Process.thy ===== *)
theory Process
  imports Mcelog
begin

text \<open>
  The loop over the records of the kernel, from \<^verbatim>\<open>src/mcelog.c\<close> down to the tables: what is decoded does not disturb the
  counters, and every record is accounted as the specification of \<open>Intel\<close> says.
\<close>

section \<open>Steps that leave the tables and the settings alone\<close>

definition settings_of :: "'a mcelog_state_scheme \<Rightarrow> _" where
  "settings_of s = (cpu_type s, offline s, max_corr_err_counters s, imc_log s, filter_memory_errors s, now s,
     (cpu_forced s, filter_bogus s, cpumhz_forced s, dmi_forced s, dump_raw_ascii s, numerrors s, debug_numerrors s), mcelog_state.more s)"

definition calm :: "'a mcelog_state_scheme \<Rightarrow> 'a mcelog_state_scheme \<Rightarrow> bool" where
  "calm s s' \<longleftrightarrow> settings_of s' = settings_of s \<and>
     (tables_ok s \<longrightarrow> tables_ok s' \<and> same_conf s s' \<and> counts s' = counts s \<and> page_count s' = page_count s)"

lemma calm_refl: "calm s s"
  by (simp add: calm_def same_conf_def)

lemma calm_trans: "calm s t \<Longrightarrow> calm t u \<Longrightarrow> calm s u"
  using same_conf_trans unfolding calm_def by metis

lemma page_more_settings: "page_state.more s' = page_state.more s \<Longrightarrow>
    (cpu_forced s', filter_bogus s', cpumhz_forced s', dmi_forced s', dump_raw_ascii s', numerrors s', debug_numerrors s', mcelog_state.more s') =
    (cpu_forced s, filter_bogus s, cpumhz_forced s, dmi_forced s, dump_raw_ascii s, numerrors s, debug_numerrors s, mcelog_state.more s)"
  by (cases s; cases s'; simp)

lemma same_env_settings: "same_env s s' \<Longrightarrow> settings_of s' = settings_of s"
  using page_more_settings [of s' s] page_more_intel(2,3) [of s' s] by (auto simp: same_env_def settings_of_def)

lemma calm_pages: "keeps_db s s' \<Longrightarrow> same_pages s s' \<Longrightarrow> calm s s'"
proof -
  assume a: "keeps_db s s'" "same_pages s s'"
  then have e: "same_env s s'" by (simp add: same_pages_def)
  then have "\<forall>c. os_mmap s c \<Longrightarrow> \<forall>c. os_mmap s' c" by (simp add: same_env_def)
  then show ?thesis
    using a e same_env_settings [OF e] same_pages_ok [OF a(2)] same_pages_count [OF a(2)]
    unfolding calm_def tables_ok_def keeps_db_def by blast
qed

lemma calm_rep: "rep_step s s' \<Longrightarrow> calm s s'"
proof -
  assume "rep_step s s'"
  then obtain t c where t: "trig_step s t" "s' = t\<lparr>caches := c\<rparr>" by (auto simp: rep_step_def)
  have "calm s t" by (intro calm_pages keeps_db_trig same_pages_trig t(1))
  moreover have "calm t (t\<lparr>caches := c\<rparr>)"
    by (intro calm_pages keeps_db_same) (simp_all add: same_conf_def same_pages_def same_env_def)
  ultimately show ?thesis using t(2) calm_trans by blast
qed

lemma calm_msg: "msg_step s s' \<Longrightarrow> calm s s'"
  by (intro calm_rep rep_step_msg)

lemma calm_support: "calm s (s\<lparr>memory_error_support := b\<rparr>)"
  by (intro calm_pages keeps_db_same) (simp_all add: same_conf_def same_pages_def same_env_def)

lemma page_ok_warned: "page_ok (s\<lparr>cpuid_warned := b\<rparr>) = page_ok s" "page_count (s\<lparr>cpuid_warned := b\<rparr>) = page_count s"
proof -
  have k: "key_at (s\<lparr>cpuid_warned := b\<rparr>) = key_at s" by (simp add: fun_eq_iff key_at_def)
  then show "page_ok (s\<lparr>cpuid_warned := b\<rparr>) = page_ok s" by (simp add: page_ok_def slots_ok_def fresh_ok_def cong: option.case_cong)
  show "page_count (s\<lparr>cpuid_warned := b\<rparr>) = page_count s" by (intro ext) (simp add: page_count_def mempage_lookup_def k cong: option.case_cong if_cong)
qed

lemma calm_warned: "calm s (s\<lparr>cpuid_warned := b\<rparr>)"
  by (simp add: calm_def settings_of_def tables_ok_def page_ok_warned same_conf_def db_ok_def counts_def md_at_def fun_eq_iff)

lemma calm_Eprintf: "calm s t \<Longrightarrow> calm s (Eprintf f a t)"
  using calm_msg [OF msg_step_printf(2) [OF msg_step_refl]] calm_trans by blast

section \<open>Preparation and output\<close>

lemma select_intel_calm: "calm s (snd (select_intel_cputype f model s))"
  unfolding select_intel_cputype_def Let_def
  by (auto simp: split_beta intro!: calm_Eprintf calm_support calm_refl split: option.split)

lemma select_zhaoxin_calm: "calm s (snd (select_zhaoxin_cputype f model s))"
  unfolding select_zhaoxin_cputype_def Let_def by (auto intro!: calm_Eprintf calm_support)

lemma mce_cpuid_calm:
  assumes "cpu_forced s"
  shows "calm s (mce_cpuid m s)"
proof -
  define r where "r = setup_cpuid (ucast (m_cpuvendor m)) (m_cpuid m) s"
  have r: "calm s (snd r)"
    by (auto simp: r_def setup_cpuid_def split_beta Let_def intro!: select_intel_calm select_zhaoxin_calm calm_Eprintf calm_refl)
  then have "cpu_forced (snd r)" using assms by (simp add: calm_def settings_of_def)
  then show ?thesis
    using r calm_trans [OF calm_Eprintf [OF r] calm_warned] assms
    by (auto simp: mce_cpuid_def r_def [symmetric] split_beta calm_refl)
qed

lemma Wadd_frame: "msg_step s (snd ns) \<Longrightarrow> msg_step s (snd (Wadd f a ns))"
  unfolding Wadd_def by (auto simp: split_beta intro!: frame)

lemma Wnl_frame: "msg_step s (snd ns) \<Longrightarrow> msg_step s (Wnl ns)"
  unfolding Wnl_def by (auto simp: split_beta intro!: frame)

lemma bankname_known: "\<exists>name. bankname bank cpu = Some name"
  using k8_bank_known [of bank] by (auto simp: bankname_def extended_bankname_def)

lemma dump_place_frame: "msg_step s t \<Longrightarrow> msg_step s (dump_place m t)"
  unfolding dump_place_def Let_def by (auto intro!: frame Wadd_frame Wnl_frame)

text \<open>With the time of the event known and no frequency given no uptime is computed.\<close>

lemma dump_head_calm:
  assumes "\<not> cpumhz_forced s" "m_time m \<noteq> 0"
  shows "\<exists>s'. dump_head m s = Ret () s' \<and> calm s s'"
proof -
  define s0 where "s0 = (if m_finished m = 0 then Wput ''not finished?\<newline>'' [] s else s)"
  have 0: "msg_step s s0" by (auto simp: s0_def intro!: frame)
  obtain name where n: "bankname (ucast (m_bank m)) (cpu_type s0) = Some name" using bankname_known by blast
  define s1 where "s1 = Wput ''CPU %d %s '' [PN (sint (mce_cpunum m)), PS name] s0"
  have 1: "msg_step s s1" unfolding s1_def by (intro frame 0)
  then have "\<not> cpumhz_forced s1" using assms(1) by (auto simp: msg_step_def)
  then have p: "print_tsc c t (m_time m) s1 = Ret () (Wput ''TSC %llx %s'' [PU t, PS []] s1)" for c t
    using assms(2) by (simp add: print_tsc_def)
  have "dump_head m s = Ret () (dump_place m (if m_tsc m \<noteq> 0 then Wput ''TSC %llx %s'' [PU (m_tsc m), PS []] s1 else s1))"
    by (simp add: dump_head_def s0_def [symmetric] n s1_def [symmetric] p Let_def)
  moreover have "msg_step s (dump_place m (if m_tsc m \<noteq> 0 then Wput ''TSC %llx %s'' [PU (m_tsc m), PS []] s1 else s1))"
    by (intro dump_place_frame) (auto intro!: frame 1)
  ultimately show ?thesis using calm_msg by blast
qed

lemma dump_model_calm: "\<exists>s'. dump_model m recordlen s = Ret () s' \<and> calm s s'"
  using k8_decodes [of m False s] decode_k8_mc_frame [of m False s] calm_rep [OF decode_intel_mc_frame [OF rep_step_refl]]
    calm_rep [OF decode_zhaoxin_mc_frame] calm_msg calm_refl
  by (auto simp: dump_model_def)

lemma dump_tail_calm: "calm s (dump_tail m recordlen s)"
  unfolding dump_tail_def Let_def
  by (auto simp: split_beta intro!: calm_msg frame Wadd_frame Wnl_frame)

lemma dump_mce_calm:
  assumes "\<not> cpumhz_forced s" "\<not> dmi_forced s" "m_time m \<noteq> 0"
  shows "\<exists>s'. dump_mce m recordlen s = Ret () s' \<and> calm s s'"
proof -
  obtain s1 where 1: "dump_head m s = Ret () s1" "calm s s1" using dump_head_calm [OF assms(1,3)] by blast
  obtain s2 where 2: "dump_model m recordlen s1 = Ret () s2" "calm s1 s2" using dump_model_calm by blast
  have 3: "calm s (dump_tail m recordlen s2)" using 1(2) 2(2) dump_tail_calm calm_trans by blast
  then have "\<not> dmi_forced (dump_tail m recordlen s2)" using assms(2) by (simp add: calm_def settings_of_def)
  with 1 2 3 show ?thesis by (auto simp: dump_mce_def resolveaddr_def Let_def)
qed

section \<open>The loop refines the specification\<close>

text \<open>The record as it is accounted: with a time.\<close>

definition timed :: "int \<Rightarrow> mce \<Rightarrow> mce" where
  "timed t m = (if m_time m = 0 then m\<lparr>m_time := word_of_int t\<rparr> else m)"

text \<open>A daemon on an Intel processor whose type was given, with the defaults: filter on, no limit for the number of errors, and
  neither SMBIOS tables nor a frequency asked for.\<close>

definition plain_intel :: "'a mcelog_state_scheme \<Rightarrow> bool" where
  "plain_intel s \<longleftrightarrow> cpu_type s \<ge> CPU_INTEL \<and> cpu_forced s \<and> filter_bogus s \<and> numerrors s \<le> 0 \<and> \<not> cpumhz_forced s \<and>
     \<not> dmi_forced s \<and> fixed_locations s \<and> (word_of_int (now s) :: u64) \<noteq> 0"

lemma settings_plain: "settings_of s' = settings_of s \<Longrightarrow> plain_intel s' = plain_intel s"
  by (simp add: plain_intel_def settings_of_def fixed_locations_def)

lemma settings_spec:
  assumes "settings_of s' = settings_of s" "same_conf s s'" "fixed_locations s"
  shows "spec_intel m len s' = spec_intel m len s" "page_error_ignored m s' = page_error_ignored m s"
proof -
  show i: "page_error_ignored m s' = page_error_ignored m s" using assms(1) by (simp add: settings_of_def page_error_ignored_def)
  have "memerr_location m s' = memerr_location m s"
    using assms(1,3) by (auto simp: memerr_location_def fixed_locations_def Let_def sandy_bridge_ep_memerr_misc_def
        ivy_bridge_ep_memerr_misc_def ep_memerr_misc_def settings_of_def)
  then show "spec_intel m len s' = spec_intel m len s"
    using assms(2) i by (simp add: spec_intel_def spec_error_def spec_page_def same_conf_def fun_eq_iff cong: if_cong)
qed

lemma mce_filter_step:
  assumes "cpu_type s \<ge> CPU_INTEL" "filter_bogus s" "tables_ok s" "endof_field ''socketid'' \<le> len" "page_room m s"
  shows "\<exists>ok s'. mce_filter m len s = Ret ok s' \<and> tables_ok s' \<and> same_setup s s' \<and>
    (counts s', page_count s') = spec_intel m len s (counts s, page_count s)"
proof -
  obtain s1 where "intel_memory_error m len s = Ret (is_intel_memory_error m) s1" "tables_ok s1" "same_setup s s1"
    "(counts s1, page_count s1) = spec_intel m len s (counts s, page_count s)"
    using intel_memory_error_step [OF assms(3-5)] by blast
  with assms(1,2) show ?thesis by (simp add: mce_filter_def mce_filter_intel_def)
qed

lemma output_calm:
  assumes "\<not> cpumhz_forced s" "\<not> dmi_forced s" "m_time m \<noteq> 0"
  shows "\<exists>s'. (if \<not> dump_raw_ascii s then dump_mce m len (Wput f a (disclaimer s)) else Ret () (dump_mce_raw_ascii m len s)) =
    Ret () s' \<and> calm s s'"
proof (cases "dump_raw_ascii s")
  case True
  have "calm s (dump_mce_raw_ascii m len s)"
    unfolding dump_mce_raw_ascii_def Let_def by (intro calm_msg frame)
  with True show ?thesis by simp
next
  case False
  have c: "calm s (Wput f a (disclaimer s))" unfolding disclaimer_def by (intro calm_msg frame)
  then have "\<not> cpumhz_forced (Wput f a (disclaimer s))" "\<not> dmi_forced (Wput f a (disclaimer s))"
    using assms(1,2) by (simp_all add: calm_def settings_of_def)
  from dump_mce_calm [OF this assms(3), of len] False show ?thesis using c calm_trans by auto
qed

lemma process_record_step:
  assumes s: "plain_intel s" "tables_ok s" and len: "endof_field ''socketid'' \<le> len" and room: "page_room (timed (now s) m) s"
  shows "\<exists>s'. process_record len i m s = Ret False s' \<and> settings_of s' = settings_of s \<and> tables_ok s' \<and> same_conf s s' \<and>
    (counts s', page_count s') = spec_intel (timed (now s) m) len s (counts s, page_count s)"
proof -
  define s1 m' where "s1 = mce_cpuid m s" and "m' = timed (now s) m"
  have c: "calm s s1" using s(1) by (simp add: s1_def plain_intel_def mce_cpuid_calm)
  then have 1: "settings_of s1 = settings_of s" "tables_ok s1" "same_conf s s1" "counts s1 = counts s" "page_count s1 = page_count s"
    using s(2) by (simp_all add: calm_def)
  have p: "mce_prepare m s = (m', s1)"
    using 1(1) by (simp add: mce_prepare_def s1_def [symmetric] m'_def timed_def settings_of_def)
  have s1: "plain_intel s1" using settings_plain [OF 1(1)] s(1) by simp
  have fl: "fixed_locations s" using s(1) by (simp add: plain_intel_def)
  have filt: "cpu_type s1 \<ge> CPU_INTEL" "filter_bogus s1" using s1 by (simp_all add: plain_intel_def)
  have "page_room m' s1"
    using room 1 settings_spec(2) [OF 1(1,3) fl] by (simp add: page_room_def m'_def settings_of_def)
  then obtain ok s2 where 2: "mce_filter m' len s1 = Ret ok s2" "tables_ok s2" "same_setup s1 s2"
    "(counts s2, page_count s2) = spec_intel m' len s1 (counts s1, page_count s1)"
    using mce_filter_step [OF filt 1(2) len] by blast
  have st2: "settings_of s2 = settings_of s" "same_conf s s2"
    using 1(1,3) 2(3) same_env_settings [of s1 s2] same_conf_trans by (auto simp: same_setup_def)
  have t: "m_time m' \<noteq> 0" using s(1) by (simp add: m'_def timed_def plain_intel_def)
  have s2: "\<not> cpumhz_forced s2" "\<not> dmi_forced s2" "numerrors s1 \<le> 0"
    using st2(1) 1(1) s(1) by (simp_all add: settings_of_def plain_intel_def)
  obtain s3 where 3: "(if \<not> dump_raw_ascii s2 then dump_mce m' len (Wput ''MCE %d\<newline>'' [PN (int i)] (disclaimer s2))
      else Ret () (dump_mce_raw_ascii m' len s2)) = Ret () s3" "calm s2 s3"
    using output_calm [OF s2(1,2) t] by blast
  have "calm s3 (flushlog s3)" by (intro calm_msg frame)
  then have "calm s2 (flushlog s3)" using 3(2) calm_trans by blast
  then have 4: "settings_of (flushlog s3) = settings_of s" "tables_ok (flushlog s3)" "same_conf s (flushlog s3)"
      "counts (flushlog s3) = counts s2" "page_count (flushlog s3) = page_count s2"
    using 2(2) st2 same_conf_trans by (auto simp: calm_def)
  have "process_record len i m s = Ret False (if ok then flushlog s3 else s2)"
    using s2(3) 3(1) by (simp add: process_record_def p 2(1))
  moreover have "(counts s2, page_count s2) = spec_intel m' len s (counts s, page_count s)"
    using 2(4) settings_spec(1) [OF 1(1,3) fl] 1(4,5) by simp
  ultimately show ?thesis using 4 2(2) st2 unfolding m'_def by (cases ok) auto
qed

lemma spec_intel_pages: "dom (snd (spec_intel m len s (c, p))) \<subseteq> insert (page_of (m_addr m)) (dom p)"
  by (auto simp: spec_intel_def spec_page_def dom_count_page Let_def split: if_splits)

lemma timed_addr [simp]: "m_addr (timed t m) = m_addr m"
  by (simp add: timed_def)

lemma process_loop_step:
  assumes "plain_intel s" "tables_ok s" "endof_field ''socketid'' \<le> len"
    and "card (dom (page_count s) \<union> (page_of \<circ> m_addr) ` set ms) \<le> nat (max_corr_err_counters s)"
  shows "\<exists>s'. process_loop len i ms s = Ret False s' \<and> settings_of s' = settings_of s \<and> same_conf s s' \<and> tables_ok s' \<and>
    (counts s', page_count s') = fold (\<lambda>m. spec_intel (timed (now s) m) len s) ms (counts s, page_count s)"
  using assms
proof (induction ms arbitrary: i s)
  case Nil
  then show ?case by (simp add: same_conf_def)
next
  case (Cons m ms)
  have fin: "finite (dom (page_count s))" using Cons.prems(2) page_count_dom by (auto simp: tables_ok_def)
  let ?all = "dom (page_count s) \<union> (page_of \<circ> m_addr) ` set (m # ms)"
  have "card (insert (page_of (m_addr m)) (dom (page_count s))) \<le> card ?all" using fin by (intro card_mono) auto
  then have "page_room (timed (now s) m) s" using Cons.prems(4) by (simp add: page_room_def)
  then obtain s1 where 1: "process_record len i m s = Ret False s1" "settings_of s1 = settings_of s" "tables_ok s1" "same_conf s s1"
    "(counts s1, page_count s1) = spec_intel (timed (now s) m) len s (counts s, page_count s)"
    using process_record_step [OF Cons.prems(1-3)] by blast
  have "dom (page_count s1) \<subseteq> insert (page_of (m_addr m)) (dom (page_count s))"
    using spec_intel_pages [of "timed (now s) m" len s "counts s" "page_count s"] 1(5) by (metis snd_conv timed_addr)
  then have "card (dom (page_count s1) \<union> (page_of \<circ> m_addr) ` set ms) \<le> card ?all" using fin by (intro card_mono) auto
  then have "card (dom (page_count s1) \<union> (page_of \<circ> m_addr) ` set ms) \<le> nat (max_corr_err_counters s1)"
    using Cons.prems(4) 1(2) by (simp add: settings_of_def)
  moreover have "plain_intel s1" using settings_plain [OF 1(2)] Cons.prems(1) by simp
  ultimately obtain s2 where 2: "process_loop len (i + 1) ms s1 = Ret False s2" "settings_of s2 = settings_of s1" "same_conf s1 s2" "tables_ok s2"
    "(counts s2, page_count s2) = fold (\<lambda>m. spec_intel (timed (now s1) m) len s1) ms (counts s1, page_count s1)"
    using Cons.IH [OF _ 1(3) Cons.prems(3)] by blast
  have "now s1 = now s" "\<And>m. spec_intel m len s1 = spec_intel m len s"
    using 1(2) settings_spec(1) [OF 1(2,4)] Cons.prems(1) by (simp_all add: settings_of_def plain_intel_def)
  with 1 2 show ?case using same_conf_trans by auto
qed

definition records :: "nat \<Rightarrow> u8 list \<Rightarrow> mce list" where
  "records recordlen buf = map (\<lambda>i. record_at recordlen i buf) [0..<length buf div recordlen]"

lemma process_step:
  assumes "plain_intel s" "tables_ok s" "\<not> debug_numerrors s" "endof_field ''socketid'' \<le> recordlen"
    and "card (dom (page_count s) \<union> (page_of \<circ> m_addr) ` set (records recordlen buf)) \<le> nat (max_corr_err_counters s)"
  shows "\<exists>s'. process (Some buf) fl recordlen loglen s = Ret () s' \<and> settings_of s' = settings_of s \<and> same_conf s s' \<and> tables_ok s' \<and>
    (counts s', page_count s') = fold (\<lambda>m. spec_intel (timed (now s) m) recordlen s) (records recordlen buf) (counts s, page_count s)"
proof -
  define s0 where "s0 = (case fl of
     Some flags \<Rightarrow> if length buf div recordlen = loglen \<and> flags AND push_bit MCE_OVERFLOW 1 \<noteq> 0
                   then Eprintf ''Warning: MCE buffer is overflowed.\<newline>'' [] s else s
   | None \<Rightarrow> s)"
  have c: "calm s s0" unfolding s0_def by (auto split: option.split intro!: calm_Eprintf calm_refl)
  then have 0: "settings_of s0 = settings_of s" "tables_ok s0" "same_conf s s0" "counts s0 = counts s" "page_count s0 = page_count s"
    using assms(2) by (simp_all add: calm_def)
  have p: "plain_intel s0" using settings_plain [OF 0(1)] assms(1) by simp
  obtain s1 where 1: "process_loop recordlen 0 (records recordlen buf) s0 = Ret False s1" "settings_of s1 = settings_of s0" "same_conf s0 s1" "tables_ok s1"
    "(counts s1, page_count s1) = fold (\<lambda>m. spec_intel (timed (now s0) m) recordlen s0) (records recordlen buf) (counts s0, page_count s0)"
    using process_loop_step [OF p 0(2) assms(4), of "records recordlen buf" 0] assms(5) 0(1,5) by (auto simp: settings_of_def)
  have spec: "now s0 = now s" "\<And>m. spec_intel m recordlen s0 = spec_intel m recordlen s"
    using 0(1) settings_spec(1) [OF 0(1,3)] assms(1) by (simp_all add: settings_of_def plain_intel_def)
  define s2 where "s2 = (if recordlen > sizeof_mce
     then Eprintf ''consider an update\<newline>'' [] (Eprintf ''warning: %lu bytes ignored in each record\<newline>'' [PN (int (recordlen - sizeof_mce))] s1)
     else s1)"
  have "calm s1 s2" unfolding s2_def by (auto intro!: calm_Eprintf calm_refl)
  then have 2: "settings_of s2 = settings_of s1" "same_conf s1 s2" "tables_ok s2" "counts s2 = counts s1" "page_count s2 = page_count s1" using 1(4) by (simp_all add: calm_def)
  have "\<not> debug_numerrors s1" "recordlen \<noteq> 0" using 1(2) 0(1) assms(3,4) by (auto simp: settings_of_def mce_offsets)
  then have "process (Some buf) fl recordlen loglen s = Ret () s2"
    using 1(1) by (simp add: process_def s0_def [symmetric] records_def Let_def s2_def)
  moreover have "same_conf s s2" by (intro same_conf_trans [OF 0(3) same_conf_trans [OF 1(3) 2(2)]])
  ultimately show ?thesis using 2 1 0 spec by auto
qed


section \<open>One memory error\<close>

definition mcelog_boot :: mcelog_state where
  "mcelog_boot = tsc_state.extend (dmi_state.extend dmi_start (tsc_state.fields None))
     (mcelog_state.fields True True 0 False False 0 False False False (\<lambda>_. []))"

definition mcelog_start :: mcelog_state where
  "mcelog_start = mcelog_boot\<lparr>now := 1700000000\<rparr>"

lemma mcelog_boot_pages: "mcelog_boot = no_pages (page_state.more mcelog_boot)"
  by (simp add: mcelog_boot_def dmi_start_def intel_start_def no_pages_def page_state.defs tsc_state.defs dmi_state.defs intel_state.defs
      mcelog_state.defs)

definition one_record :: "u8 list" where
  "one_record = [0x83, 0, 0, 0, 0, 0, 0, 4] @ replicate 8 0 @ [0x23, 0x51] @ replicate 110 0"

lemma one_record_read: "records 128 one_record = [memory_mce]"
  by code_simp

lemma page_ok_now: "page_ok (s\<lparr>now := t\<rparr>) = page_ok s" "page_count (s\<lparr>now := t\<rparr>) = page_count s"
proof -
  have k: "key_at (s\<lparr>now := t\<rparr>) = key_at s" by (simp add: fun_eq_iff key_at_def)
  then show "page_ok (s\<lparr>now := t\<rparr>) = page_ok s" by (simp add: page_ok_def slots_ok_def fresh_ok_def cong: option.case_cong)
  show "page_count (s\<lparr>now := t\<rparr>) = page_count s"
    by (intro ext) (simp add: page_count_def mempage_lookup_def k cong: option.case_cong if_cong)
qed

lemma mcelog_start_ok: "tables_ok mcelog_start" "page_count mcelog_start = Map.empty" "max_corr_err_counters mcelog_start = 63"
  "\<not> page_error_ignored memory_mce mcelog_start"
proof -
  have db: "db_ok (no_pages x)" for x
    by (simp add: db_ok_def no_pages_sel dimm.placed_empty dimm.keys_def dimm.entries_def)
  have "page_ok mcelog_boot" "page_count mcelog_boot = Map.empty" "db_ok mcelog_boot" "os_mmap mcelog_boot = (\<lambda>_. True)"
    "max_corr_err_counters mcelog_boot = 63" "\<not> page_error_ignored memory_mce mcelog_boot"
    by (subst mcelog_boot_pages, simp add: no_pages_ok no_pages_count db no_pages_sel memory_mce_sel)+
  then show "tables_ok mcelog_start" "page_count mcelog_start = Map.empty" "max_corr_err_counters mcelog_start = 63"
    "\<not> page_error_ignored memory_mce mcelog_start"
    by (simp_all add: mcelog_start_def tables_ok_def page_ok_now db_ok_def page_error_ignored_def)
qed

lemma mcelog_start_plain: "plain_intel mcelog_start" "\<not> debug_numerrors mcelog_start" "cpu_type mcelog_start = CPU_INTEL"
proof -
  show c: "cpu_type mcelog_start = CPU_INTEL"
    unfolding mcelog_start_def by (simp, subst mcelog_boot_pages, simp add: no_pages_sel)
  show "plain_intel mcelog_start" "\<not> debug_numerrors mcelog_start"
    using c by (simp_all add: plain_intel_def fixed_locations_def)
      (simp_all add: mcelog_start_def mcelog_boot_def mcelog_state.defs tsc_state.defs dmi_state.defs dmi_start_def intel_state.defs)
qed


end
