(* ===== verification/Ascii.thy ===== *)
theory Ascii
  imports Mcelog
begin

text \<open>
  The decoder of ASCII logs, \<open>mcelog --ascii\<close>: \<open>decodefatal\<close> of \<^verbatim>\<open>src/mcelog.c\<close> and its helpers. The input is a list of lines with
  their newlines, as \<open>getdelim\<close> returns them.
\<close>

section \<open>Helpers\<close>

definition skip_syslog :: "string \<Rightarrow> string" where
  "skip_syslog s = (case strstr s ''mcelog: '' of Some p \<Rightarrow> drop 8 p | None \<Rightarrow> s)"

text \<open>A leading part in brackets.\<close>

definition skip_bracket :: "char \<Rightarrow> char \<Rightarrow> string \<Rightarrow> string" where
  "skip_bracket l r s =
     (case s of
        [] \<Rightarrow> s
      | c # _ \<Rightarrow> if c = l then (let t = drop (strcspn s r) s in case t of [] \<Rightarrow> [] | _ # t \<Rightarrow> t) else s)"

definition skipgunk :: "string \<Rightarrow> string" where
  "skipgunk s =
     (let s = skip_syslog s;
          s = skip_bracket (CHR ''<'') (CHR ''>'') (skipspace s);
          s = skip_bracket (CHR ''['') (CHR '']'') (skipspace s);
          s = skipspace s;
          s = (if strneq s ''mce: [Hardware Error]:'' 22 then drop 22 s else s)
      in skipspace s)"

definition urange :: "u32 \<Rightarrow> u32 \<Rightarrow> u32 \<Rightarrow> bool" where
  "urange val lo hi \<longleftrightarrow> val \<ge> lo \<and> val \<le> hi"

fun is_short :: "string \<Rightarrow> bool" where
  "is_short [a, b, c] \<longleftrightarrow> isupper a \<and> islower b \<and> islower c"
| "is_short _ \<longleftrightarrow> False"

definition skip_date :: "string \<Rightarrow> nat" where
  "skip_date s =
     (case sscanf s ''%10s %10s %u %u:%u:%u %u%n'' of
        (_, [SS dayname, SS month, d, h, mi, se, y, SN n]) \<Rightarrow>
          if is_short dayname \<and> is_short month \<and> urange (sval_u32 d) 1 31 \<and> urange (sval_u32 h) 0 24 \<and>
             urange (sval_u32 mi) 0 59 \<and> urange (sval_u32 se) 0 59 \<and> sval_u32 y \<ge> 1900
          then nat n else 0
      | _ \<Rightarrow> 0)"

text \<open>\<open>fnmatch\<close> for patterns with \<open>*\<close> and \<open>?\<close>.\<close>

fun fnmatch :: "string \<Rightarrow> string \<Rightarrow> bool" where
  "fnmatch [] s \<longleftrightarrow> s = []"
| "fnmatch (p # ps) [] \<longleftrightarrow> p = CHR ''*'' \<and> fnmatch ps []"
| "fnmatch (p # ps) (c # s) \<longleftrightarrow>
     (if p = CHR ''*'' then fnmatch ps (c # s) \<or> fnmatch (p # ps) s
      else (p = CHR ''?'' \<or> p = c) \<and> fnmatch ps s)"

definition skip_patterns :: "string list" where
  "skip_patterns = [''MCA:*'', ''MCi_MISC register valid*'', ''MC? status*'', ''Unsupported new Family*'',
     ''Kernel does not support page offline interface'']"

text \<open>True when a pattern matches, for the result 0.\<close>

definition match_patterns :: "string \<Rightarrow> string list \<Rightarrow> bool" where
  "match_patterns s pats \<longleftrightarrow> list_ex (\<lambda>p. fnmatch p s) pats"

section \<open>Items of a record\<close>

text \<open>The record that is being collected.\<close>

record ascii =
  a_m :: mce
  a_missing :: nat
  a_symbol :: string
  a_data :: bool
  a_recordlen :: nat
  a_dseen :: bool

definition fresh_ascii :: ascii where
  "fresh_ascii = \<lparr>a_m = \<lparr>m_status = 0, m_misc = 0, m_addr = 0, m_mcgstatus = 0, m_ip = 0, m_tsc = 0, m_time = 0,
     m_cpuvendor = 0, m_pad1 = 0, m_pad2 = 0, m_cpuid = 0, m_cs = 0, m_bank = 0, m_cpu = 0, m_finished = 0,
     m_extcpu = 0, m_socketid = 0, m_apicid = 0, m_mcgcap = 0, m_synd = 0, m_ipid = 0, m_ppin = 0,
     m_microcode = 0, m_kflags = 0\<rparr>, a_missing = 0, a_symbol = [], a_data = False, a_recordlen = 0, a_dseen = False\<rparr>"

definition FIELD :: "string \<Rightarrow> ascii \<Rightarrow> ascii" where
  "FIELD f a = (if a_recordlen a < endof_field f then a\<lparr>a_recordlen := endof_field f\<rparr> else a)"

definition miss :: "ascii \<Rightarrow> ascii" where
  "miss a = a\<lparr>a_missing := a_missing a + 1\<rparr>"

definition in_mce :: "(mce \<Rightarrow> mce) \<Rightarrow> ascii \<Rightarrow> ascii" where
  "in_mce f a = a\<lparr>a_m := f (a_m a)\<rparr>"

fun sval_word :: "sval \<Rightarrow> 'w::len word" where
  "sval_word (SN i) = word_of_int i"
| "sval_word _ = 0"

fun sval_nat :: "sval \<Rightarrow> nat" where
  "sval_nat (SN i) = nat i"
| "sval_nat _ = 0"

text \<open>The items that are one number: the count of conversions, the characters read, the record. \<open>set_it\<close> stores the number.\<close>

definition number_item :: "string \<Rightarrow> string \<Rightarrow> (sval \<Rightarrow> mce \<Rightarrow> mce) \<Rightarrow> string \<Rightarrow> ascii \<Rightarrow> int \<times> nat \<times> ascii" where
  "number_item fmt f set_it s a =
     (case sscanf s fmt of
        (n, [v, k]) \<Rightarrow> (n, sval_nat k, FIELD f (in_mce (set_it v) a))
      | (n, _) \<Rightarrow> (n, 0, miss a))"

text \<open>The line of the kernel with CPU and bank, and its short forms.\<close>

definition set_bank :: "sval \<Rightarrow> ascii \<Rightarrow> ascii" where
  "set_bank v a = FIELD ''bank'' (in_mce (m_bank_update (\<lambda>_. sval_word v)) a)"

definition cpu_item :: "string \<Rightarrow> ascii \<Rightarrow> int \<times> nat \<times> ascii" where
  "cpu_item s a =
     (case sscanf s ''CPU %u: Machine Check%*[ :Ec-x]%16Lx Bank %d: %016Lx%n'' of
        (n, []) \<Rightarrow> (n, 0, miss a)
      | (n, [cpu]) \<Rightarrow>
          let (n, vals) = sscanf s ''CPU %u BANK %u%n'';
              (n, vals) = (if n \<noteq> 2 then sscanf s ''CPU %u %u%n'' else (n, vals));
              a = in_mce (m_cpu_update (\<lambda>_. sval_word cpu)) a
          in (case vals of
                [_, bank, k] \<Rightarrow> (n, sval_nat k, set_bank bank a)
              | _ \<Rightarrow> (n, 0, miss a))
      | (n, cpu # mcg # vals) \<Rightarrow>
          let a = in_mce (m_mcgstatus_update (\<lambda>_. sval_word mcg)) (FIELD ''mcgstatus'' a);
              a = in_mce (m_cpu_update (\<lambda>_. sval_word cpu)) a;
              a = (case vals of [] \<Rightarrow> a | bank # _ \<Rightarrow> set_bank bank a)
          in (case vals of
                bank # status # vals \<Rightarrow>
                  (n, (case vals of [] \<Rightarrow> 0 | k # _ \<Rightarrow> sval_nat k),
                   FIELD ''status'' (in_mce (m_status_update (\<lambda>_. sval_word status)) a))
              | _ \<Rightarrow> (n, 0, miss a)))"

definition rip_item :: "string \<Rightarrow> ascii \<Rightarrow> int \<times> nat \<times> ascii" where
  "rip_item s a =
     (let (n, vals) = sscanf s ''%02x:<%016Lx> {%99s}%n'';
          a = in_mce (m_cs_update (\<lambda>_. case vals of [] \<Rightarrow> 0 | v # _ \<Rightarrow> sval_word v)) a;
          a = (case vals of _ # v # _ \<Rightarrow> in_mce (m_ip_update (\<lambda>_. sval_word v)) a | _ \<Rightarrow> a);
          a = (case vals of _ # _ # SS t # _ \<Rightarrow> a\<lparr>a_symbol := t\<rparr> | _ \<Rightarrow> a)
      in (n, (case vals of [_, _, _, k] \<Rightarrow> sval_nat k | _ \<Rightarrow> 0), if n < 2 then miss a else FIELD ''ip'' a))"

definition processor_item :: "string \<Rightarrow> ascii \<Rightarrow> int \<times> nat \<times> ascii" where
  "processor_item s a =
     (case sscanf s ''PROCESSOR %u:%x%n'' of
        (n, [v, c, k]) \<Rightarrow>
          (n, sval_nat k, FIELD ''cpuvendor'' (FIELD ''cpuid''
             (in_mce (m_cpuvendor_update (\<lambda>_. sval_word v)) (in_mce (m_cpuid_update (\<lambda>_. sval_word c)) a))))
      | (n, _) \<Rightarrow> (n, 0, miss a))"

definition time_item :: "string \<Rightarrow> ascii \<Rightarrow> int \<times> nat \<times> ascii" where
  "time_item s a =
     (let (n, next, a) = number_item ''TIME %llu%n'' ''time'' (\<lambda>v. m_time_update (\<lambda>_. sval_word v)) s a
      in (n, next + skip_date (drop next s), a))"

definition cpuid_item :: "string \<Rightarrow> ascii \<Rightarrow> int \<times> nat \<times> ascii" where
  "cpuid_item s a =
     (case sscanf s ''CPUID Vendor %30s Family %u Model %u\<newline>'' of
        (n, [SS v, fam, model]) \<Rightarrow>
          (n, 0, FIELD ''cpuvendor'' (FIELD ''cpuid''
             (in_mce (m_cpuvendor_update (\<lambda>_. ucast (cpuvendor_to_num v)))
               (in_mce (m_cpuid_update (\<lambda>_. unparse_cpuid (sval_word fam) (sval_word model))) a))))
      | (n, _) \<Rightarrow> (n, 0, miss a))"

text \<open>Messages of Xen. When the line ends after \<open>CPU\<close>, \<open>sscanf\<close> returns \<open>EOF\<close>, which is taken for a success, and the number of the
  processor is the value \<open>junk\<close> of an uninitialised variable.\<close>

definition xen_item :: "u32 \<Rightarrow> string \<Rightarrow> ascii \<Rightarrow> int \<times> nat \<times> ascii" where
  "xen_item junk s a =
     (if strstr s ''The hardware reports a non fatal, correctable incident occurred'' \<noteq> None
      then (case strstr s ''CPU'' of
              None \<Rightarrow> (0, 0, a)
            | Some w \<Rightarrow>
                (case sscanf w ''CPU %d'' of
                   (k, vals) \<Rightarrow>
                     if k = 0 then (0, 0, a)
                     else (0, 0, FIELD ''cpu'' (in_mce (m_cpu_update
                            (\<lambda>_. case vals of v # _ \<Rightarrow> sval_word v | [] \<Rightarrow> ucast junk)) a))))
      else (case sscanf s ''(XEN) Bank %d: %llx at %llx'' of
              (n, []) \<Rightarrow> (n, 0, a)
            | (n, bank # vals) \<Rightarrow>
                let a = set_bank bank a;
                    a = (case vals of [] \<Rightarrow> a | v # _ \<Rightarrow> FIELD ''status'' (in_mce (m_status_update (\<lambda>_. sval_word v)) a));
                    a = (case vals of _ # v # _ \<Rightarrow> FIELD ''addr'' (in_mce (m_addr_update (\<lambda>_. sval_word v)) a) | _ \<Rightarrow> a)
                in (n, 0, a)))"

text \<open>One item at \<open>s\<close>: how many conversions succeeded, the text after it when something is left to read on the line, and the record. \<open>None\<close>
  is any other text.\<close>

definition rest_of :: "string \<Rightarrow> int \<times> nat \<times> ascii \<Rightarrow> (int \<times> string option \<times> ascii) option" where
  "rest_of s = (\<lambda>(n, next, a). Some (n, if next > 0 then Some (drop next s) else None, a))"

definition ascii_item :: "u32 \<Rightarrow> string \<Rightarrow> ascii \<Rightarrow> (int \<times> string option \<times> ascii) option" where
  "ascii_item junk s a =
     (if strneq s ''CPU '' 4 then rest_of s (cpu_item s a)
      else if strneq s ''STATUS'' 6 then rest_of s (number_item ''STATUS %llx%n'' ''status'' (\<lambda>v. m_status_update (\<lambda>_. sval_word v)) s a)
      else if strneq s ''MCGSTATUS'' 6
      then rest_of s (number_item ''MCGSTATUS %llx%n'' ''mcgstatus'' (\<lambda>v. m_mcgstatus_update (\<lambda>_. sval_word v)) s a)
      else if strneq s ''RIP'' 3
      then (let s = (if strneq s ''RIP !INEXACT!'' 13 then drop 13 s else drop 3 s) in rest_of s (rip_item s a))
      else if strneq s ''TSC'' 3 then rest_of s (number_item ''TSC %llx%n'' ''tsc'' (\<lambda>v. m_tsc_update (\<lambda>_. sval_word v)) s a)
      else if strneq s ''ADDR'' 4 then rest_of s (number_item ''ADDR %llx%n'' ''addr'' (\<lambda>v. m_addr_update (\<lambda>_. sval_word v)) s a)
      else if strneq s ''MISC'' 4 then rest_of s (number_item ''MISC %llx%n'' ''misc'' (\<lambda>v. m_misc_update (\<lambda>_. sval_word v)) s a)
      else if strneq s ''PROCESSOR'' 9 then rest_of s (processor_item s a)
      else if strneq s ''TIME'' 4 then rest_of s (time_item s a)
      else if strneq s ''MCGCAP'' 6 then rest_of s (number_item ''MCGCAP %llx%n'' ''mcgcap'' (\<lambda>v. m_mcgcap_update (\<lambda>_. sval_word v)) s a)
      else if strneq s ''APICID'' 6 then rest_of s (number_item ''APICID %x%n'' ''apicid'' (\<lambda>v. m_apicid_update (\<lambda>_. sval_word v)) s a)
      else if strneq s ''SOCKETID'' 8
      then rest_of s (number_item ''SOCKETID %u%n'' ''socketid'' (\<lambda>v. m_socketid_update (\<lambda>_. sval_word v)) s a)
      else if strneq s ''SOCKET'' 6
      then rest_of s (number_item ''SOCKET %u%n'' ''socketid'' (\<lambda>v. m_socketid_update (\<lambda>_. sval_word v)) s a)
      else if strneq s ''CPUID'' 5 then rest_of s (cpuid_item s a)
      else if strstr s ''HARDWARE ERROR'' \<noteq> None then Some (0, None, a\<lparr>a_dseen := True\<rparr>)
      else if strneq s ''(XEN)'' 5 then rest_of s (xen_item junk s a)
      else if strneq s ''PPIN'' 4 then rest_of s (number_item ''PPIN %llx%n'' ''ppin'' (\<lambda>v. m_ppin_update (\<lambda>_. sval_word v)) s a)
      else if match_patterns s skip_patterns then Some (0, None, a)
      else None)"

section \<open>The loop\<close>

definition dump_mce_final :: "ascii \<Rightarrow> 'a mcelog_state_scheme \<Rightarrow> ('a mcelog_state_scheme, unit) outcome" where
  "dump_mce_final a s =
     (let m = (a_m a)\<lparr>m_finished := 1\<rparr>;
          s = (if m_cpuid m \<noteq> 0 then mce_cpuid m s else s)
      in andthen (if \<not> dump_raw_ascii s
                  then andthen (dump_mce m (a_recordlen a) (if a_dseen a then s else disclaimer s)) (\<lambda>_ s.
                       let s = (if a_symbol a \<noteq> [] then Wput ''RIP: %s\<newline>'' [PS (a_symbol a)] s else s)
                       in Ret () (if a_missing a > 0 then Wput ''(Fields were incomplete)\<newline>'' [] s else s))
                  else Ret () (dump_mce_raw_ascii m (a_recordlen a) s)) (\<lambda>_ s.
         Ret () (flushlog s)))"

lemma strstr_length: "strstr s t = Some p \<Longrightarrow> length p \<le> length s"
proof (induction s t rule: strstr.induct)
  case (1 s t)
  then show ?case by (subst (asm) (2) strstr.simps) (fastforce split: if_splits list.splits)
qed

lemma length_skipspace: "length (skipspace s) \<le> length s"
  by (simp add: skipspace_def length_dropWhile_le)

lemma length_skip_bracket: "length (skip_bracket l r s) \<le> length s"
  by (auto simp: skip_bracket_def Let_def split: list.split dest: arg_cong [of _ _ length])

lemma length_skipgunk: "length (skipgunk s) \<le> length s"
proof -
  have "length (skip_syslog s) \<le> length s"
    using strstr_length by (auto simp: skip_syslog_def split: option.split) (meson le_diff_conv trans_le_add1)
  then have "length (skipspace (skip_bracket l' r' (skipspace (skip_bracket l r (skipspace (skip_syslog s)))))) \<le> length s" for l r l' r'
    by (meson le_trans length_skip_bracket length_skipspace)
  then show ?thesis
    unfolding skipgunk_def Let_def by (intro le_trans [OF length_skipspace]) (simp add: le_diff_conv trans_le_add1)
qed

text \<open>What is left of a line gets shorter with every item.\<close>

lemma ascii_item_shorter: "ascii_item junk s a = Some (n, Some r, a') \<Longrightarrow> length r < length s"
proof -
  have r: "length r < length s" if "rest_of t x = Some (n, Some r, a')" "t = s \<or> t = drop 13 s \<or> t = drop 3 s" "s \<noteq> []" for t x
    using that by (auto simp: rest_of_def split: if_splits prod.splits)
  have p: "s \<noteq> []" if "strneq s t k" "take k t \<noteq> []" for t k using that by (auto simp: strneq_def)
  assume "ascii_item junk s a = Some (n, Some r, a')"
  then show ?thesis
    unfolding ascii_item_def Let_def by (auto split: if_splits elim!: r dest!: p)
qed

text \<open>The text left on the line, or else the next line.\<close>

function (sequential) ascii_loop ::
  "u32 \<Rightarrow> string option \<Rightarrow> string list \<Rightarrow> ascii \<Rightarrow> 'a mcelog_state_scheme \<Rightarrow> ('a mcelog_state_scheme, unit) outcome" where
  "ascii_loop junk None [] a s = (if a_data a then dump_mce_final a s else Ret () s)"
| "ascii_loop junk None (l # ls) a s = ascii_loop junk (Some l) ls a s"
| "ascii_loop junk (Some t) ls a s =
     (let start = skipgunk t
      in case ascii_item junk start a of
           Some (n, rest, a) \<Rightarrow> ascii_loop junk rest ls (if n > 0 then a\<lparr>a_data := True\<rparr> else a) s
         | None \<Rightarrow>
             let flush = (skipspace start \<noteq> [] \<and> a_data a)
             in andthen (if flush then dump_mce_final a s else Ret () s) (\<lambda>_ s.
                let s = (if \<not> dump_raw_ascii s then Wput ''%s'' [PS start] s else s)
                in ascii_loop junk None ls (if flush then fresh_ascii else a) s))"
  by pat_completeness auto

termination
proof (relation "measure (\<lambda>(junk, t, ls, a, s). (case t of None \<Rightarrow> 0 | Some t \<Rightarrow> Suc (length t)) + sum_list (map (\<lambda>l. length l + 2) ls))")
  fix junk t and ls :: "string list" and a :: ascii and s :: "'a mcelog_state_scheme" and start x n y rest a'
  assume "start = skipgunk t" "ascii_item junk start a = Some x" "(n, y) = x" "(rest, a') = y"
  then have "length r < length t" if "rest = Some r" for r
    using that ascii_item_shorter [of junk start a n r a'] length_skipgunk [of t] by simp
  then show "((junk, rest, ls, if n > 0 then a'\<lparr>a_data := True\<rparr> else a', s), junk, Some t, ls, a, s) \<in>
      measure (\<lambda>(junk, t, ls, a, s). (case t of None \<Rightarrow> 0 | Some t \<Rightarrow> Suc (length t)) + sum_list (map (\<lambda>l. length l + 2) ls))"
    by (simp split: option.split)
qed (auto split: option.split)

declare ascii_loop.simps [simp del]

definition decodefatal :: "u32 \<Rightarrow> string list \<Rightarrow> 'a mcelog_state_scheme \<Rightarrow> ('a mcelog_state_scheme, unit) outcome" where
  "decodefatal junk input s =
     (let s = (if do_dmi s \<and> dmi_forced s
               then Wput (''WARNING: with --dmi mcelog --ascii must run on the same machine with the\<newline>'' @
                          ''     same BIOS/memory configuration as where the machine check occurred.\<newline>'') [] s else s)
      in ascii_loop junk None input fresh_ascii s)"

section \<open>What the program prints is read back\<close>

lemma isxdigit_digit_char: "d < 16 \<Longrightarrow> isxdigit (digit_char d)"
  by (auto simp: isxdigit_def digit_char_def isdigit_def tolower_def isupper_def)

lemma tolower_digit_char: "d < 16 \<Longrightarrow> tolower (digit_char d) = digit_char d"
  by (auto simp: digit_char_def tolower_def isupper_def)

lemma radix16_digits: "list_all (\<lambda>c. isxdigit c \<and> tolower c = c) (radix 16 n)"
proof (induction "16 :: nat" n rule: radix.induct)
  case (1 n)
  then show ?case by (subst radix.simps) (simp add: isxdigit_digit_char tolower_digit_char)
qed

lemma xdigit_facts: "isxdigit c \<Longrightarrow> \<not> isspace c \<and> c \<noteq> CHR ''-'' \<and> c \<noteq> CHR ''+'' \<and> tolower c \<noteq> CHR ''x''"
proof -
  assume x: "isxdigit c"
  have "tolower c \<noteq> CHR ''x''" using x by (auto simp: isxdigit_def tolower_digit isdigit_def)
  moreover have "\<not> isspace c \<and> c \<noteq> CHR ''-'' \<and> c \<noteq> CHR ''+''"
    using x by (auto simp: isxdigit_def isdigit_def isspace_def tolower_def isupper_def split: if_splits)
  ultimately show ?thesis by blast
qed

lemma radix16_conv: obtains d ds where "radix 16 n = d # ds" "isxdigit d" "list_all isxdigit ds"
  using radix16_digits [of n] by (cases "radix 16 n") (auto simp: list_all_iff)

lemma scan_num_hex:
  assumes rest: "rest = [] \<or> \<not> isxdigit (hd rest) \<and> tolower (hd rest) \<noteq> CHR ''x''" and n: "int n < 2 ^ 64"
  shows "scan_num 0 (CHR ''x'') (radix 16 n @ rest) = Some (SN (int n), rest)"
proof -
  obtain d ds where d: "radix 16 n = d # ds" "isxdigit d" "list_all isxdigit ds" by (rule radix16_conv)
  have sign: "scan_sign (radix 16 n @ rest) = (False, radix 16 n @ rest)"
    using d xdigit_facts [of d] by (simp add: scan_sign_def)
  have "tolower c \<noteq> CHR ''x''" if "c # cs = ds @ rest" for c cs
    using that d(3) rest xdigit_facts by (cases ds) auto
  then have h: "\<not> hex_prefix (radix 16 n @ rest)"
    using d(1) by (cases "ds @ rest") (auto simp: hex_prefix_def)
  have all: "list_all isxdigit (radix 16 n)" using radix16_digits [of n] by (auto simp: list_all_iff)
  then have tw: "takeWhile (base_digit 16) (radix 16 n @ rest) = radix 16 n"
    using rest by (cases rest) (auto simp: takeWhile_append2 list_all_iff base_digit_def)
  have "map tolower (radix 16 n) = radix 16 n"
    using radix16_digits [of n] by (intro map_idI) (auto simp: list_all_iff)
  then show ?thesis using n
    by (simp add: scan_num_def Let_def sign num_base_def h tw strtoul_val_def radix_val_radix del: map_map)
qed

text \<open>An item with one hexadecimal number.\<close>

lemma scan_lit_prefix: "scan n (map DLit w @ ds) (w @ s) k acc = scan n ds s k acc"
  by (induction w) auto

lemma skipspace_hex [simp]: "skipspace (radix 16 n @ rest) = radix 16 n @ rest"
proof -
  obtain d ds where "radix 16 n = d # ds" "isxdigit d" by (rule radix16_conv)
  then show ?thesis using xdigit_facts [of d] by (simp add: skipspace_def)
qed

lemma hex_item_read:
  assumes rest: "rest = [] \<or> \<not> isxdigit (hd rest) \<and> tolower (hd rest) \<noteq> CHR ''x''"
    and fmt: "scanf_fmt STxt fmt = map DLit w @ [DSpace, DConv 0 (CHR ''x''), DConv 0 (CHR ''n'')]" and w: "w \<noteq> []"
  shows "rest_of s (number_item fmt f set_it (w @ CHR '' '' # radix 16 (unat (v :: u64)) @ rest) a) =
    Some (1, Some (drop (length w + 1 + length (radix 16 (unat v))) s), FIELD f (in_mce (set_it (SN (uint v))) a))"
proof -
  have lt: "int (unat v) < 2 ^ 64" using unat_less [of v] unfolding of_nat_less_iff [where 'a = int, symmetric] by simp
  have ne: "radix 16 (unat v) @ rest \<noteq> []" using radix_nonempty by simp
  have sp: "skipspace (CHR '' '' # radix 16 (unat v) @ rest) = radix 16 (unat v) @ rest"
    by (subst skipspace_simps) (simp_all add: isspace_def)
  have "sscanf (w @ CHR '' '' # radix 16 (unat v) @ rest) fmt =
      (1, [SN (uint v), SN (int (length w + 1 + length (radix 16 (unat v))))])"
    using ne by (simp add: sscanf_def fmt scan_lit_prefix sp scan_num_hex [OF rest lt] isspace_def)
  moreover have "nat (int (length w + 1 + length (radix 16 (unat v)))) = length w + 1 + length (radix 16 (unat v))" by (rule nat_int)
  ultimately show ?thesis by (simp only: number_item_def rest_of_def split_conv prod.case list.case sval_nat.simps) simp
qed

text \<open>Text without the letter m has no prefix of syslog.\<close>

lemma strstr_absent: "c \<in> set t \<Longrightarrow> c \<notin> set s \<Longrightarrow> strstr s t = None"
proof (induction s t rule: strstr.induct)
  case (1 s t)
  then have "take (length t) s \<noteq> t" by (metis in_set_takeD)
  with 1 show ?case by (subst strstr.simps) (auto split: list.split)
qed

lemma hex_no_m: "CHR ''m'' \<notin> set (radix 16 n)"
  using radix16_digits [of n] by (auto simp: list_all_iff isxdigit_def isdigit_def tolower_def isupper_def)

lemma skipgunk_plain:
  assumes "CHR ''m'' \<notin> set s" "skipspace s = c # t" "c \<noteq> CHR ''<''" "c \<noteq> CHR ''[''"
  shows "skipgunk s = c # t"
proof -
  have c: "c \<noteq> CHR ''m''" "\<not> isspace c"
    using assms(1,2) hd_dropWhile [of isspace s] set_dropWhileD [of c isspace s] by (auto simp: skipspace_def)
  have "skip_syslog s = s" using strstr_absent [of "CHR ''m''" "''mcelog: ''" s] assms(1) by (simp add: skip_syslog_def)
  with assms(2-4) c show ?thesis by (simp add: skipgunk_def skip_bracket_def Let_def strneq_def)
qed

definition status_line :: "u64 \<Rightarrow> u64 \<Rightarrow> string" where
  "status_line status mcgstatus = printf ''STATUS %llx MCGSTATUS %llx\<newline>'' [PU status, PU mcgstatus]"

lemma status_line_text:
  "status_line st mcg = ''STATUS'' @ CHR '' '' # radix 16 (unat st) @ CHR '' '' # ''MCGSTATUS'' @ CHR '' '' # radix 16 (unat mcg) @ ''\<newline>''"
  by (simp add: status_line_def printf_def isdigit_def pad_def)

lemma status_fmts:
  "scanf_fmt STxt ''STATUS %llx%n'' = map DLit ''STATUS'' @ [DSpace, DConv 0 (CHR ''x''), DConv 0 (CHR ''n'')]"
  "scanf_fmt STxt ''MCGSTATUS %llx%n'' = map DLit ''MCGSTATUS'' @ [DSpace, DConv 0 (CHR ''x''), DConv 0 (CHR ''n'')]"
  by (simp_all add: isspace_def isdigit_def)

definition with_status :: "u64 \<Rightarrow> u64 \<Rightarrow> ascii \<Rightarrow> ascii" where
  "with_status st mcg a =
     (FIELD ''mcgstatus'' (in_mce (m_mcgstatus_update (\<lambda>_. mcg)) (FIELD ''status'' (in_mce (m_status_update (\<lambda>_. st)) a))))\<lparr>a_data := True\<rparr>"

lemma item_status:
  "ascii_item junk (''STATUS'' @ CHR '' '' # radix 16 (unat st) @ CHR '' '' # r) a =
     Some (1, Some (CHR '' '' # r), FIELD ''status'' (in_mce (m_status_update (\<lambda>_. st)) a))"
  using hex_item_read [OF _ status_fmts(1), of "CHR '' '' # r" "''STATUS'' @ CHR '' '' # radix 16 (unat st) @ CHR '' '' # r" "''status''"
      "\<lambda>v. m_status_update (\<lambda>_. sval_word v)" st a]
  by (simp add: ascii_item_def strneq_def isxdigit_def isdigit_def tolower_def isupper_def)

lemma item_mcgstatus:
  "ascii_item junk (''MCGSTATUS'' @ CHR '' '' # radix 16 (unat mcg) @ ''\<newline>'') a =
     Some (1, Some ''\<newline>'', FIELD ''mcgstatus'' (in_mce (m_mcgstatus_update (\<lambda>_. mcg)) a))"
  using hex_item_read [OF _ status_fmts(2), of "''\<newline>''" "''MCGSTATUS'' @ CHR '' '' # radix 16 (unat mcg) @ ''\<newline>''" "''mcgstatus''"
      "\<lambda>v. m_mcgstatus_update (\<lambda>_. sval_word v)" mcg a]
  by (simp add: ascii_item_def strneq_def isxdigit_def isdigit_def tolower_def isupper_def)

lemma item_empty: "ascii_item junk [] a = None"
  by (simp add: ascii_item_def strneq_def strstr.simps match_patterns_def skip_patterns_def)

lemma ascii_loop_item:
  "ascii_item junk (skipgunk t) a = Some (1, r, a') \<Longrightarrow> ascii_loop junk (Some t) ls a s = ascii_loop junk r ls (a'\<lparr>a_data := True\<rparr>) s"
  by (simp add: ascii_loop.simps(3))

text \<open>
  C37: The line with the status registers that the program prints for every event is read back from a log, for all values of the
  registers: both are stored in the record, the record is marked as having them, nothing is missed, and the rest of the line is empty.
\<close>

theorem status_line_read:
  "ascii_loop junk None (status_line st mcg # ls) a s =
   ascii_loop junk None ls (with_status st mcg a) (if dump_raw_ascii s then s else Wput ''%s'' [PS []] s)"
proof -
  have g1: "skipgunk (status_line st mcg) = status_line st mcg"
    by (simp add: status_line_text skipgunk_plain isspace_def hex_no_m)
  have g2: "skipgunk (CHR '' '' # ''MCGSTATUS'' @ CHR '' '' # radix 16 (unat mcg) @ ''\<newline>'') = ''MCGSTATUS'' @ CHR '' '' # radix 16 (unat mcg) @ ''\<newline>''"
    by (simp add: skipgunk_plain isspace_def hex_no_m)
  have g3: "skipgunk ''\<newline>'' = []"
    by code_simp
  let ?r = "''MCGSTATUS'' @ CHR '' '' # radix 16 (unat mcg) @ ''\<newline>''"
  let ?a = "(FIELD ''status'' (in_mce (m_status_update (\<lambda>_. st)) a))\<lparr>a_data := True\<rparr>"
  let ?b = "(FIELD ''mcgstatus'' (in_mce (m_mcgstatus_update (\<lambda>_. mcg)) ?a))\<lparr>a_data := True\<rparr>"
  have "ascii_loop junk None (status_line st mcg # ls) a s = ascii_loop junk (Some (status_line st mcg)) ls a s"
    by (simp add: ascii_loop.simps(2))
  also have "\<dots> = ascii_loop junk (Some (CHR '' '' # ?r)) ls ?a s"
    by (rule ascii_loop_item) (simp_all only: g1, simp_all only: status_line_text item_status)
  also have "\<dots> = ascii_loop junk (Some ''\<newline>'') ls ?b s"
    by (rule ascii_loop_item) (simp_all only: g2 item_mcgstatus)
  also have "\<dots> = ascii_loop junk None ls ?b (if dump_raw_ascii s then s else Wput ''%s'' [PS []] s)"
    by (subst ascii_loop.simps(3)) (simp add: g3 item_empty)
  also have "?b = with_status st mcg a" by (simp add: with_status_def FIELD_def in_mce_def)
  finally show ?thesis .
qed

text \<open>The number of the socket is printed in hexadecimal and read in decimal: socket 16 comes back as 10, and socket 10 is missed.\<close>

lemma socketid_misread:
  "number_item ''SOCKETID %u%n'' ''socketid'' (\<lambda>v. m_socketid_update (\<lambda>_. sval_word v)) (printf ''SOCKETID %x '' [PU (16 :: u32)]) a =
     (1, 11, FIELD ''socketid'' (in_mce (m_socketid_update (\<lambda>_. 10)) a))"
  "number_item ''SOCKETID %u%n'' ''socketid'' (\<lambda>v. m_socketid_update (\<lambda>_. sval_word v)) (printf ''SOCKETID %x '' [PU (10 :: u32)]) a =
     (0, 0, miss a)"
proof -
  have "sscanf (printf ''SOCKETID %x '' [PU (16 :: u32)]) ''SOCKETID %u%n'' = (1, [SN 10, SN 11])" by code_simp
  then show "number_item ''SOCKETID %u%n'' ''socketid'' (\<lambda>v. m_socketid_update (\<lambda>_. sval_word v)) (printf ''SOCKETID %x '' [PU (16 :: u32)]) a =
     (1, 11, FIELD ''socketid'' (in_mce (m_socketid_update (\<lambda>_. 10)) a))" by (simp add: number_item_def)
  have "sscanf (printf ''SOCKETID %x '' [PU (10 :: u32)]) ''SOCKETID %u%n'' = (0, [])" by code_simp
  then show "number_item ''SOCKETID %u%n'' ''socketid'' (\<lambda>v. m_socketid_update (\<lambda>_. sval_word v)) (printf ''SOCKETID %x '' [PU (10 :: u32)]) a =
     (0, 0, miss a)" by (simp add: number_item_def)
qed

text \<open>The raw output has a line with the bank alone, which the reader does not know: it ends the record.\<close>

lemma raw_bank_unknown: "ascii_item junk (''BANK '' @ r) a = None \<or> strstr (''BANK '' @ r) ''HARDWARE ERROR'' \<noteq> None"
proof -
  have "fnmatch p (''BANK '' @ r) \<Longrightarrow> p \<in> set skip_patterns \<Longrightarrow> False" for p by (auto simp: skip_patterns_def)
  then show ?thesis by (auto simp: ascii_item_def strneq_def match_patterns_def list_ex_iff)
qed

end
