(* ===== verification/EventLoop.thy ===== *)
theory EventLoop
  imports Process
begin

text \<open>
  The event loop of the daemon, \<^verbatim>\<open>src/eventloop.c\<close>: the table of file descriptors and callbacks, the round over the descriptors that
  are ready, and the loop. The callbacks and signal handlers are arguments, as the function pointers of the source are; the locale
  \<open>poll_rounds\<close> is the rule for one round.
\<close>

section \<open>Table\<close>

type_synonym pollbits = "16 word"

definition POLLIN :: pollbits where "POLLIN = 0x001"
definition POLLOUT :: pollbits where "POLLOUT = 0x004"
definition POLLERR :: pollbits where "POLLERR = 0x008"
definition POLLHUP :: pollbits where "POLLHUP = 0x010"
definition POLLNVAL :: pollbits where "POLLNVAL = 0x020"

record pollfd =
  pf_fd :: int
  pf_events :: pollbits
  pf_revents :: pollbits

text \<open>The callbacks of the program, and the data they are registered with: nothing, the length of the log and of a record, or a
  connection.\<close>

datatype poll_cb_t = Process_mcefd | Client_accept | Client_event
datatype poll_data = No_data | Mcefd_data nat nat | Conn nat

record pollcb =
  pc_cb :: poll_cb_t
  pc_fd :: int
  pc_data :: poll_data

definition MAX_POLLFD :: nat where "MAX_POLLFD = 10"

record poll_state = mcelog_state +
  pollfds :: "pollfd list"
  pollcbs :: "pollcb list"
  max_pollfd :: nat
  event_first :: bool                   \<comment> \<open>static in event_signal\<close>
  event_sigs :: "int set"
  sigmask :: "int set"                  \<comment> \<open>the blocked signals of the process\<close>
  os_cloexec :: "int \<Rightarrow> bool"          \<comment> \<open>both fcntl calls succeed\<close>
  os_sigprocmask :: bool

definition closeonexec :: "int \<Rightarrow> 'a poll_state_scheme \<Rightarrow> int \<times> 'a poll_state_scheme" where
  "closeonexec fd s =
     (if os_cloexec s fd then (0, s) else (- 1, SYSERRprintf ''Cannot set FD_CLOEXEC flag on fd'' [] s))"

text \<open>The new entry keeps the \<open>revents\<close> that its place held before.\<close>

definition register_pollcb :: "int \<Rightarrow> pollbits \<Rightarrow> poll_cb_t \<Rightarrow> poll_data \<Rightarrow> 'a poll_state_scheme \<Rightarrow> int \<times> 'a poll_state_scheme" where
  "register_pollcb fd evs cb data s =
     (let i = max_pollfd s; (r, s) = closeonexec fd s
      in if r < 0 then (- 1, s)
         else if i \<ge> MAX_POLLFD then (- 1, Eprintf ''poll table overflow'' [] s)
         else (0, s\<lparr>max_pollfd := max_pollfd s + 1,
                pollfds := (pollfds s)[i := (pollfds s ! i)\<lparr>pf_fd := fd, pf_events := evs\<rparr>],
                pollcbs := (pollcbs s)[i := (pollcbs s ! i)\<lparr>pc_cb := cb, pc_data := data\<rparr>]\<rparr>))"

text \<open>\<open>memmove\<close> of the entries from \<open>i + 1\<close> below \<open>n\<close> one place down.\<close>

definition move_down :: "nat \<Rightarrow> nat \<Rightarrow> 'x list \<Rightarrow> 'x list" where
  "move_down i n xs = take i xs @ take (n - i - 1) (drop (i + 1) xs) @ drop (n - 1) xs"

definition unregister_pollcb :: "nat \<Rightarrow> 'a poll_state_scheme \<Rightarrow> ('a poll_state_scheme, unit) outcome" where
  "unregister_pollcb i s =
     (if \<not> i < max_pollfd s then Abort s
      else Ret () (s\<lparr>pollfds := move_down i (max_pollfd s) (pollfds s), pollcbs := move_down i (max_pollfd s) (pollcbs s),
                    max_pollfd := max_pollfd s - 1\<rparr>))"

section \<open>Loop\<close>

text \<open>The callback is called with its entry of the table, by index. The indices below \<open>MAX_POLLFD\<close> are all there are:
  \<open>max_pollfd\<close> never exceeds it.\<close>

type_synonym 's callback = "poll_cb_t \<Rightarrow> poll_data \<Rightarrow> nat \<Rightarrow> 's \<Rightarrow> ('s, unit) outcome"

fun poll_loop :: "'a poll_state_scheme callback \<Rightarrow> nat list \<Rightarrow> nat \<Rightarrow> 'a poll_state_scheme \<Rightarrow> ('a poll_state_scheme, unit) outcome" where
  "poll_loop call [] n s = Ret () s"
| "poll_loop call (k # ks) n s =
     (if k < max_pollfd s \<and> n > 0
      then if pf_revents (pollfds s ! k) \<noteq> 0
           then andthen (call (pc_cb (pollcbs s ! k)) (pc_data (pollcbs s ! k)) k s) (\<lambda>_ s. poll_loop call ks (n - 1) s)
           else poll_loop call ks n s
      else Ret () s)"

definition poll_callbacks :: "'a poll_state_scheme callback \<Rightarrow> nat \<Rightarrow> 'a poll_state_scheme \<Rightarrow> ('a poll_state_scheme, unit) outcome" where
  "poll_callbacks call n s = poll_loop call [0..<MAX_POLLFD] n s"

definition event_signal :: "int \<Rightarrow> 'a poll_state_scheme \<Rightarrow> int \<times> 'a poll_state_scheme" where
  "event_signal sig s =
     (if \<not> os_sigprocmask s then (- 1, s)
      else let s = (if event_first s then s\<lparr>event_sigs := sigmask s\<rparr> else s)
           in (0, s\<lparr>event_first := False, sigmask := insert sig (sigmask s)\<rparr>))"

text \<open>\<open>ppoll\<close>: what is ready on a descriptor is reported when it was asked for; errors always are. The result is the number of
  entries that report something.\<close>

definition ppoll :: "(int \<Rightarrow> pollbits) \<Rightarrow> 'a poll_state_scheme \<Rightarrow> nat \<times> 'a poll_state_scheme" where
  "ppoll ready s =
     (let fds = map (\<lambda>f. f\<lparr>pf_revents := ready (pf_fd f) AND (pf_events f OR POLLERR OR POLLHUP OR POLLNVAL)\<rparr>) (take (max_pollfd s) (pollfds s))
      in (length (filter (\<lambda>f. pf_revents f \<noteq> 0) fds), s\<lparr>pollfds := fds @ drop (max_pollfd s) (pollfds s)\<rparr>))"

text \<open>How the process wakes up from \<open>ppoll\<close>, and when: descriptors are ready, a signal handler ran, or another error. Signals that
  \<open>event_signal\<close> was called for arrive nowhere else.\<close>

datatype signal = SIGCHLD int | SIGUSR1 | SIGTERM
datatype wakeup = Ready int "int \<Rightarrow> pollbits" | Interrupted int signal | Poll_error int

fun wake :: "'a poll_state_scheme callback \<Rightarrow> (signal \<Rightarrow> 'a poll_state_scheme \<Rightarrow> ('a poll_state_scheme, unit) outcome) \<Rightarrow> wakeup \<Rightarrow>
    'a poll_state_scheme \<Rightarrow> ('a poll_state_scheme, unit) outcome" where
  "wake call handler (Ready t ready) s =
     (let (n, s) = ppoll ready (s\<lparr>now := t\<rparr>) in if n = 0 then Ret () s else poll_callbacks call n s)"
| "wake call handler (Interrupted t sig) s = handler sig (s\<lparr>now := t\<rparr>)"
| "wake call handler (Poll_error t) s = Ret () (SYSERRprintf ''poll error'' [] (s\<lparr>now := t\<rparr>))"

text \<open>The loop never ends by itself: its state after a sequence of wakeups.\<close>

fun eventloop :: "'a poll_state_scheme callback \<Rightarrow> (signal \<Rightarrow> 'a poll_state_scheme \<Rightarrow> ('a poll_state_scheme, unit) outcome) \<Rightarrow>
    wakeup list \<Rightarrow> 'a poll_state_scheme \<Rightarrow> ('a poll_state_scheme, unit) outcome" where
  "eventloop call handler [] s = Ret () s"
| "eventloop call handler (w # ws) s = andthen (wake call handler w s) (\<lambda>_ s. eventloop call handler ws s)"

section \<open>Lemmas\<close>

lemma eventloop_append:
  "eventloop call handler (ws @ vs) s = andthen (eventloop call handler ws s) (\<lambda>_ s. eventloop call handler vs s)"
proof (induction ws arbitrary: s)
  case (Cons w ws)
  then have "eventloop call handler (ws @ vs) = (\<lambda>s. andthen (eventloop call handler ws s) (\<lambda>_ s. eventloop call handler vs s))" by (rule ext)
  then show ?case by (simp add: andthen_assoc)
qed simp

lemma length_move_down: "i < n \<Longrightarrow> n \<le> length xs \<Longrightarrow> length (move_down i n xs) = length xs"
  by (simp add: move_down_def)

lemma nth_move_down:
  assumes "i < n" "n \<le> length xs" "j < n - 1"
  shows "move_down i n xs ! j = (if j < i then xs ! j else xs ! Suc j)"
  using assms by (auto simp: move_down_def nth_append min_def)

text \<open>One round: \<open>P k n\<close> holds before slot \<open>k\<close> is looked at with \<open>n\<close> entries left to handle, \<open>Q\<close> after the round.\<close>

locale poll_rounds =
  fixes call :: "'a poll_state_scheme callback"
    and P :: "nat \<Rightarrow> nat \<Rightarrow> 'a poll_state_scheme \<Rightarrow> bool"
    and Q :: "'a poll_state_scheme \<Rightarrow> bool"
  assumes bound: "P k n s \<Longrightarrow> max_pollfd s \<le> MAX_POLLFD"
    and finish: "P k n s \<Longrightarrow> max_pollfd s \<le> k \<or> n = 0 \<Longrightarrow> Q s"
    and idle: "P k n s \<Longrightarrow> k < max_pollfd s \<Longrightarrow> n > 0 \<Longrightarrow> pf_revents (pollfds s ! k) = 0 \<Longrightarrow> P (Suc k) n s"
    and callback: "P k n s \<Longrightarrow> k < max_pollfd s \<Longrightarrow> n > 0 \<Longrightarrow> pf_revents (pollfds s ! k) \<noteq> 0 \<Longrightarrow>
      \<exists>s'. call (pc_cb (pollcbs s ! k)) (pc_data (pollcbs s ! k)) k s = Ret () s' \<and> P (Suc k) (n - 1) s'"
begin

lemma poll_loop_round:
  "P k n s \<Longrightarrow> \<exists>s'. poll_loop call [k..<MAX_POLLFD] n s = Ret () s' \<and> Q s'"
proof (induction "MAX_POLLFD - k" arbitrary: k n s)
  case 0
  then show ?case using bound [of k n s] finish [of k n s] by simp
next
  case (Suc m)
  then have k: "[k..<MAX_POLLFD] = k # [Suc k..<MAX_POLLFD]" and m: "m = MAX_POLLFD - Suc k" by (simp_all add: upt_rec)
  show ?case
  proof (cases "k < max_pollfd s \<and> n > 0")
    case False
    then show ?thesis using Suc.prems finish by (auto simp: k)
  next
    case True
    show ?thesis
    proof (cases "pf_revents (pollfds s ! k) = 0")
      case z: True
      from idle [OF Suc.prems] True z have "P (Suc k) n s" by simp
      from Suc.hyps(1) [OF m this] show ?thesis using True z by (simp add: k)
    next
      case False
      then obtain s1 where 1: "call (pc_cb (pollcbs s ! k)) (pc_data (pollcbs s ! k)) k s = Ret () s1" "P (Suc k) (n - 1) s1"
        using callback [OF Suc.prems] True by blast
      from Suc.hyps(1) [OF m 1(2)] show ?thesis using True False 1(1) by (simp add: k)
    qed
  qed
qed

lemma poll_callbacks_round: "P 0 n s \<Longrightarrow> \<exists>s'. poll_callbacks call n s = Ret () s' \<and> Q s'"
  unfolding poll_callbacks_def by (rule poll_loop_round)

end

end
