(* ===== verification/Server.thy ===== *)
theory Server
  imports EventLoop
begin

text \<open>
  The server of the daemon, \<^verbatim>\<open>src/server.c\<close>: connections of clients on a local socket, the commands they send, and the buffered
  answers.
\<close>

section \<open>State\<close>

text \<open>\<open>NULL\<close> is \<open>None\<close>. \<open>inptr\<close> is set together with \<open>inbuf\<close> and never read.\<close>

record clientcon =
  cc_inbuf :: "string option"
  cc_outbuf :: "string option"
  cc_outcur :: nat
  cc_outlen :: nat

record ucred =
  uc_pid :: u32
  uc_uid :: u32
  uc_gid :: u32

text \<open>The first control message: none, one of another kind (with its address as it is printed), or credentials.\<close>

datatype cmsg = Cmsg_null | Cmsg_other string | Cmsg_cred ucred

text \<open>What the other side of a socket sees, and the removal of the socket.\<close>

datatype netev = Sent int string | Closed int | Unlinked string

record server_state = poll_state +
  conns :: "nat \<rightharpoonup> clientcon"              \<comment> \<open>the allocated connections\<close>
  conn_next :: nat
  client_path :: string
  initial_ping_timeout :: int
  listen_backlog :: int
  acc :: config_cred_t
  net :: "netev list"
  os_accept :: "int list"                   \<comment> \<open>results of the coming accept calls\<close>
  os_passcred :: "int \<Rightarrow> bool"
  os_fionread :: "int list"                 \<comment> \<open>results of FIONREAD, negative for an error\<close>
  os_recv :: "(string \<times> cmsg) option list" \<comment> \<open>what recvmsg reads\<close>
  os_send :: "int list"                     \<comment> \<open>how many bytes send takes, negative for an error\<close>
  os_memstream :: bool
  os_mce :: "(u8 list option \<times> u32 option) list"  \<comment> \<open>reads of the machine check device and its flags\<close>
  os_socket :: "int list"
  os_ping :: "bool \<times> bool \<times> bool \<times> string option"
    \<comment> \<open>another server: the alarm comes first, connect and write succeed, what read returns\<close>
  os_bind :: bool
  os_listen :: bool

section \<open>Output buffers\<close>

definition free_outbuf :: "clientcon \<Rightarrow> clientcon" where
  "free_outbuf cc = cc\<lparr>cc_outbuf := None, cc_outcur := 0, cc_outlen := 0\<rparr>"

definition free_inbuf :: "clientcon \<Rightarrow> clientcon" where
  "free_inbuf cc = cc\<lparr>cc_inbuf := None\<rparr>"

definition free_cc :: "nat \<Rightarrow> 'a server_state_scheme \<Rightarrow> 'a server_state_scheme" where
  "free_cc c s = s\<lparr>conns := (conns s)(c := None)\<rparr>"

text \<open>\<open>send\<close>: at most what is there is taken.\<close>

definition sock_send :: "int \<Rightarrow> string \<Rightarrow> 'a server_state_scheme \<Rightarrow> int \<times> 'a server_state_scheme" where
  "sock_send fd msg s =
     (case os_send s of
        [] \<Rightarrow> (- 1, s)
      | r # rs \<Rightarrow>
          if r < 0 then (- 1, s\<lparr>os_send := rs\<rparr>)
          else let n = min (nat r) (length msg) in (int n, s\<lparr>os_send := rs, net := net s @ [Sent fd (take n msg)]\<rparr>))"

definition sendstring :: "int \<Rightarrow> string \<Rightarrow> 'a server_state_scheme \<Rightarrow> 'a server_state_scheme" where
  "sendstring fd msg s = snd (sock_send fd msg s)"

definition sock_close :: "int \<Rightarrow> 'a server_state_scheme \<Rightarrow> 'a server_state_scheme" where
  "sock_close fd s = s\<lparr>net := net s @ [Closed fd]\<rparr>"

section \<open>Commands\<close>

text \<open>The tokens that a loop over \<open>strsep\<close> sees, the empty ones too.\<close>

fun strsep_all :: "char \<Rightarrow> string \<Rightarrow> string list" where
  "strsep_all d [] = [[]]"
| "strsep_all d (c # s) =
     (if c = d then [] # strsep_all d s
      else case strsep_all d s of t # ts \<Rightarrow> (c # t) # ts | [] \<Rightarrow> [[c]])"

fun dump_params :: "string list \<Rightarrow> u32 \<Rightarrow> string \<times> u32" where
  "dump_params [] flags = ([], flags)"
| "dump_params (p # ps) flags =
     (if p = ''dump'' then dump_params ps flags
      else if p = ''bios'' then dump_params ps (flags OR DUMP_BIOS)
      else if p = ''all'' then dump_params ps (flags OR DUMP_ALL)
      else let (t, flags) = dump_params ps flags in (''Unknown dump parameter\<newline>'' @ t, flags))"

definition dispatch_dump :: "string \<Rightarrow> 'a memdb_state_scheme \<Rightarrow> string \<times> 'a memdb_state_scheme" where
  "dispatch_dump line s =
     (let (t, flags) = dump_params (strsep_all (CHR '' '') line) 0;
          (r, s) = dump_memory_errors flags s
      in (t @ r @ ''done\<newline>'', s))"

definition dispatch_pages :: "'a page_state_scheme \<Rightarrow> ('a page_state_scheme, string) outcome" where
  "dispatch_pages s = (case dump_page_errors s of None \<Rightarrow> Abort s | Some t \<Rightarrow> Ret (t @ ''done\<newline>'') s)"

definition dispatch_command :: "string \<Rightarrow> 'a page_state_scheme \<Rightarrow> ('a page_state_scheme, string) outcome" where
  "dispatch_command line s =
     (let line = skipspace line
      in if strneq line ''dump'' 4 then (let (t, s) = dispatch_dump line s in Ret t s)
         else if strneq line ''pages'' 5 then dispatch_pages s
         else if line = ''ping'' then Ret ''pong\<newline>'' s
         else if line \<noteq> [] then Ret ''Unknown command\<newline>'' s
         else Ret [] s)"

fun dispatch_lines :: "string list \<Rightarrow> 'a page_state_scheme \<Rightarrow> ('a page_state_scheme, string) outcome" where
  "dispatch_lines [] s = Ret [] s"
| "dispatch_lines (l # ls) s =
     andthen (dispatch_command l s) (\<lambda>t s. andthen (dispatch_lines ls s) (\<lambda>r s. Ret (t @ r) s))"

text \<open>A string of C ends at the first zero byte. Without input there is no line.\<close>

definition dispatch_commands :: "string option \<Rightarrow> 'a page_state_scheme \<Rightarrow> ('a page_state_scheme, string) outcome" where
  "dispatch_commands line s =
     dispatch_lines (case line of None \<Rightarrow> [] | Some l \<Rightarrow> strsep_all (CHR ''\<newline>'') (cstr l)) s"

definition process_cmd :: "clientcon \<Rightarrow> 'a server_state_scheme \<Rightarrow> ('a server_state_scheme, clientcon) outcome" where
  "process_cmd cc s =
     (if cc_outbuf cc \<noteq> None then Abort s
      else if \<not> os_memstream s then Enomem s
      else andthen (dispatch_commands (cc_inbuf cc) s) (\<lambda>t s.
           Ret (cc\<lparr>cc_outbuf := Some t, cc_outcur := 0, cc_outlen := length t\<rparr>) s))"

section \<open>Events of a client\<close>

definition permitted :: "config_cred_t \<Rightarrow> ucred \<Rightarrow> bool" where
  "permitted a uc \<longleftrightarrow> uc_uid uc = 0 \<or> (cred_uid a \<noteq> - 1 \<and> uc_uid uc = cred_uid a) \<or> (cred_gid a \<noteq> - 1 \<and> uc_gid uc = cred_gid a)"

definition access_check :: "int \<Rightarrow> cmsg \<Rightarrow> 'a server_state_scheme \<Rightarrow> bool \<times> 'a server_state_scheme" where
  "access_check fd cmsg s =
     (case cmsg of
        Cmsg_cred uc \<Rightarrow>
          if permitted (acc s) uc then (True, s)
          else (False, sendstring fd ''permission denied\<newline>''
                  (Eprintf ''rejected client access from pid:%u uid:%u gid:%u\<newline>'' [PU (uc_pid uc), PU (uc_uid uc), PU (uc_gid uc)] s))
      | Cmsg_null \<Rightarrow> (False, Eprintf ''Did not receive credentials over client unix socket %s\<newline>'' [PS ''(nil)''] s)
      | Cmsg_other p \<Rightarrow> (False, Eprintf ''Did not receive credentials over client unix socket %s\<newline>'' [PS p] s))"

text \<open>The result is the number of bytes or \<open>-1\<close>. A read of fewer bytes than announced is an error.\<close>

definition client_input :: "int \<Rightarrow> clientcon \<Rightarrow> 'a server_state_scheme \<Rightarrow> ('a server_state_scheme, int \<times> clientcon) outcome" where
  "client_input fd cc s =
     (if cc_inbuf cc \<noteq> None then Abort s
      else case os_fionread s of
        [] \<Rightarrow> Ret (- 1, cc) s
      | n # ns \<Rightarrow>
          let s = s\<lparr>os_fionread := ns\<rparr>
          in if n < 0 then Ret (- 1, cc) s
             else if n = 0 then Ret (0, cc) s
             else case os_recv s of
               [] \<Rightarrow> Ret (- 1, cc) s
             | None # rs \<Rightarrow> Ret (- 1, cc) (s\<lparr>os_recv := rs\<rparr>)
             | Some (bytes, cmsg) # rs \<Rightarrow>
                 let s = s\<lparr>os_recv := rs\<rparr>; cc = cc\<lparr>cc_inbuf := Some (take (nat n) bytes)\<rparr>
                 in if int (length bytes) < n then Ret (- 1, cc) s
                    else let (ok, s) = access_check fd cmsg s in Ret (if ok then n else - 1, cc) s)"

definition client_error :: "nat \<Rightarrow> nat \<Rightarrow> 'a server_state_scheme \<Rightarrow> ('a server_state_scheme, unit) outcome" where
  "client_error k c s =
     (let s = (if pf_revents (pollfds s ! k) AND POLLERR \<noteq> 0 then SYSERRprintf ''error while reading from client'' [] s else s);
          s = sock_close (pf_fd (pollfds s ! k)) s
      in andthen (unregister_pollcb k s) (\<lambda>_ s. Ret () (free_cc c s)))"

definition client_output :: "int \<Rightarrow> clientcon \<Rightarrow> 'a server_state_scheme \<Rightarrow> (clientcon \<times> bool) \<times> 'a server_state_scheme" where
  "client_output fd cc s =
     (let (n, s) = (if cc_outcur cc < cc_outlen cc
                    then sock_send fd (drop (cc_outcur cc) (take (cc_outlen cc) (case cc_outbuf cc of None \<Rightarrow> [] | Some b \<Rightarrow> b))) s
                    else (0, s));
          cc = (if n < 0 then cc else cc\<lparr>cc_outcur := cc_outcur cc + nat n\<rparr>)
      in if n < 0 then ((cc, False), s)
         else ((if cc_outcur cc = cc_outlen cc then free_outbuf cc else cc, True), s))"

definition client_ready :: "nat \<Rightarrow> nat \<Rightarrow> clientcon \<Rightarrow> 'a server_state_scheme \<Rightarrow> 'a server_state_scheme" where
  "client_ready k c cc s =
     s\<lparr>conns := (conns s)(c \<mapsto> cc),
       pollfds := (pollfds s)[k := (pollfds s ! k)\<lparr>pf_events := if cc_outbuf cc \<noteq> None then POLLOUT else POLLIN\<rparr>]\<rparr>"

text \<open>A connection that is not allocated any more cannot be used.\<close>

definition client_event :: "nat \<Rightarrow> nat \<Rightarrow> 'a server_state_scheme \<Rightarrow> ('a server_state_scheme, unit) outcome" where
  "client_event k c s =
     (case conns s c of
        None \<Rightarrow> Abort s
      | Some cc \<Rightarrow>
          let evs = pf_revents (pollfds s ! k); fd = pf_fd (pollfds s ! k)
          in if evs AND NOT (POLLIN OR POLLOUT) \<noteq> 0 then client_error k c s
             else
               let ((cc, ok), s) = (if evs AND POLLOUT \<noteq> 0 then client_output fd cc s else ((cc, True), s))
               in if \<not> ok then client_error k c s
                  else if evs AND POLLIN \<noteq> 0
                  then andthen (client_input fd cc s) (\<lambda>(n, cc) s.
                       if n < 0 then client_error k c s
                       else andthen (process_cmd cc s) (\<lambda>cc s. Ret () (client_ready k c (free_inbuf cc) s)))
                  else Ret () (client_ready k c cc s))"

definition client_accept :: "nat \<Rightarrow> 'a server_state_scheme \<Rightarrow> 'a server_state_scheme" where
  "client_accept k s =
     (let (nfd, s) = (case os_accept s of [] \<Rightarrow> (- 1, s) | r # rs \<Rightarrow> (r, s\<lparr>os_accept := rs\<rparr>))
      in if nfd < 0 then SYSERRprintf ''accept failed on client socket'' [] s
         else if \<not> os_passcred s nfd
         then sock_close nfd (SYSERRprintf ''Cannot enable credentials passing on client socket'' [] s)
         else
           let c = conn_next s;
               s = s\<lparr>conn_next := c + 1, conns := (conns s)(c \<mapsto> \<lparr>cc_inbuf = None, cc_outbuf = None, cc_outcur = 0, cc_outlen = 0\<rparr>)\<rparr>;
               (r, s) = register_pollcb nfd POLLIN Client_event (Conn c) s
           in if r < 0 then sock_close nfd (free_cc c (sendstring nfd ''mcelog server too busy\<newline>'' s)) else s)"

section \<open>Setup\<close>

definition server_config :: "'a server_state_scheme \<Rightarrow> ('a server_state_scheme, unit) outcome" where
  "server_config s =
     (let (a, s) = config_cred ''server'' ''client'' (acc s) s;
          s = s\<lparr>acc := a\<rparr>;
          s = (case config_string ''server'' ''socket-path'' s of None \<Rightarrow> s | Some p \<Rightarrow> s\<lparr>client_path := p\<rparr>)
      in andthen (config_number ''server'' ''initial-ping-timeout'' ''%d'' s) (\<lambda>v s.
         let s = (case v of None \<Rightarrow> s | Some v \<Rightarrow> s\<lparr>initial_ping_timeout := sval_int v\<rparr>)
         in andthen (config_number ''server'' ''listen-backlog'' ''%d'' s) (\<lambda>v s.
            Ret () (case v of None \<Rightarrow> s | Some v \<Rightarrow> s\<lparr>listen_backlog := sval_int v\<rparr>))))"

definition sock_open :: "'a server_state_scheme \<Rightarrow> int \<times> 'a server_state_scheme" where
  "sock_open s = (case os_socket s of [] \<Rightarrow> (- 1, s) | r # rs \<Rightarrow> (r, s\<lparr>os_socket := rs\<rparr>))"

definition server_ping :: "'a server_state_scheme \<Rightarrow> int \<times> 'a server_state_scheme" where
  "server_ping s =
     (let (fd, s) = sock_open s; (late, connected, written, answer) = os_ping s
      in if fd < 0 then (0, s)
         else (if \<not> late \<and> connected \<and> written \<and> answer = Some ''pong\<newline>'' then 0 else - 1, sock_close fd s))"

definition SUN_PATH :: nat where "SUN_PATH = 108"

definition server_setup :: "'a server_state_scheme \<Rightarrow> ('a server_state_scheme, unit) outcome" where
  "server_setup s =
     andthen (server_config s) (\<lambda>_ s.
     if client_path s = [] then Ret () s
     else if length (client_path s) \<ge> SUN_PATH - 1
     then Ret () (Eprintf (''Client socket path `%s'' @ CHR 0x27 # '' too long for unix socket'') [PS (client_path s)] s)
     else
       andthen (if os_access s (client_path s)
                then let (r, s) = server_ping s
                     in if r = 0 then Exit 1 (Eprintf ''mcelog server already running\<newline>'' [] s)
                        else Ret () (s\<lparr>net := net s @ [Unlinked (client_path s)]\<rparr>)
                else Ret () s) (\<lambda>_ s.
       let (fd, s) = sock_open s
       in if fd < 0 then Ret () (SYSERRprintf ''cannot open listening socket'' [] s)
          else if \<not> os_bind s
          then Exit 1 (sock_close fd (SYSERRprintf (''Cannot bind to client unix socket `%s'' @ [CHR 0x27]) [PS (client_path s)] s))
          else if \<not> os_listen s
          then Exit 1 (sock_close fd (SYSERRprintf ''cannot listen for connections on client unix socket'' [] s))
          else Ret () (snd (register_pollcb fd POLLIN Client_accept No_data s))))"

end
