(* ===== verification/Daemon.thy ===== *)
theory Daemon
  imports Server
begin

text \<open>
  The running daemon: the callback for machine check events of \<^verbatim>\<open>src/mcelog.c\<close>, and how the event loop, the server and the accounting
  work together. The invariant of the table of descriptors covers the connections of \<open>Server\<close>; requests of clients do not disturb
  the counters of \<open>Process\<close>.
\<close>

section \<open>Callbacks\<close>

definition process_mcefd :: "nat \<Rightarrow> nat \<Rightarrow> nat \<Rightarrow> 'a server_state_scheme \<Rightarrow> ('a server_state_scheme, unit) outcome" where
  "process_mcefd k loglen recordlen s =
     (if pf_revents (pollfds s ! k) AND POLLIN = 0 then Abort s
      else case os_mce s of
        [] \<Rightarrow> process None None recordlen loglen s
      | (rd, fl) # rs \<Rightarrow> process rd fl recordlen loglen (s\<lparr>os_mce := rs\<rparr>))"

fun run_callback :: "'a server_state_scheme callback" where
  "run_callback Process_mcefd (Mcefd_data loglen recordlen) k s = process_mcefd k loglen recordlen s"
| "run_callback Client_accept No_data k s = Ret () (client_accept k s)"
| "run_callback Client_event (Conn c) k s = client_event k c s"
| "run_callback _ _ k s = Abort s"

section \<open>Steps that leave the tables and the settings alone\<close>

text \<open>\<open>hush\<close> is \<open>calm\<close> for the part of the state without the server.\<close>

definition hush :: "'a mcelog_state_scheme \<Rightarrow> 'a mcelog_state_scheme \<Rightarrow> bool" where
  "hush s s' \<longleftrightarrow> calm (mcelog_state.truncate s) (mcelog_state.truncate s')"

lemma truncate_sel [simp]:
  "mp_at (mcelog_state.truncate s) = mp_at s"
  "mempage_root (mcelog_state.truncate s) = mempage_root s"
  "corr_err_counters (mcelog_state.truncate s) = corr_err_counters s"
  "max_corr_err_counters (mcelog_state.truncate s) = max_corr_err_counters s"
  "mp_cluster (mcelog_state.truncate s) = mp_cluster s"
  "mp_used (mcelog_state.truncate s) = mp_used s"
  "mp_clusters (mcelog_state.truncate s) = mp_clusters s"
  "cluster_lru_list (mcelog_state.truncate s) = cluster_lru_list s"
  "os_mmap (mcelog_state.truncate s) = os_mmap s"
  "md_dimms (mcelog_state.truncate s) = md_dimms s"
  "md_numdimms (mcelog_state.truncate s) = md_numdimms s"
  "dimms (mcelog_state.truncate s) = dimms s"
  "sockets (mcelog_state.truncate s) = sockets s"
  "memdb_enabled (mcelog_state.truncate s) = memdb_enabled s"
  "sockdb_enabled (mcelog_state.truncate s) = sockdb_enabled s"
  "cpu_type (mcelog_state.truncate s) = cpu_type s"
  "offline (mcelog_state.truncate s) = offline s"
  "imc_log (mcelog_state.truncate s) = imc_log s"
  "filter_memory_errors (mcelog_state.truncate s) = filter_memory_errors s"
  "now (mcelog_state.truncate s) = now s"
  "cpu_forced (mcelog_state.truncate s) = cpu_forced s"
  "filter_bogus (mcelog_state.truncate s) = filter_bogus s"
  "cpumhz_forced (mcelog_state.truncate s) = cpumhz_forced s"
  "dmi_forced (mcelog_state.truncate s) = dmi_forced s"
  "dump_raw_ascii (mcelog_state.truncate s) = dump_raw_ascii s"
  "numerrors (mcelog_state.truncate s) = numerrors s"
  "debug_numerrors (mcelog_state.truncate s) = debug_numerrors s"
  by (simp_all add: mcelog_state.defs)

lemma page_ok_truncate: "page_ok (mcelog_state.truncate s) = page_ok s" "page_count (mcelog_state.truncate s) = page_count s"
proof -
  have k: "key_at (mcelog_state.truncate s) = key_at s" by (simp add: fun_eq_iff key_at_def)
  then show "page_ok (mcelog_state.truncate s) = page_ok s"
    by (simp add: page_ok_def slots_ok_def fresh_ok_def cong: option.case_cong)
  show "page_count (mcelog_state.truncate s) = page_count s"
    by (intro ext) (simp add: page_count_def mempage_lookup_def k cong: option.case_cong if_cong)
qed

lemma tables_truncate: "tables_ok (mcelog_state.truncate s) = tables_ok s" "counts (mcelog_state.truncate s) = counts s"
  "same_conf (mcelog_state.truncate s) (mcelog_state.truncate s') = same_conf s s'"
  by (simp_all add: tables_ok_def page_ok_truncate counts_def md_at_def fun_eq_iff db_ok_def same_conf_def)

lemma settings_truncate:
  "settings_of s' = settings_of s \<Longrightarrow> settings_of (mcelog_state.truncate s') = settings_of (mcelog_state.truncate s)"
  by (simp add: settings_of_def)

lemma hush_calm: "calm s s' \<Longrightarrow> hush s s'"
  using settings_truncate [of s' s] by (simp add: hush_def calm_def tables_truncate page_ok_truncate)

lemma hush_refl: "hush s s"
  by (simp add: hush_calm calm_refl)

lemma hush_trans: "hush s t \<Longrightarrow> hush t u \<Longrightarrow> hush s u"
  unfolding hush_def by (rule calm_trans)

lemma hush_same: "mcelog_state.truncate s' = mcelog_state.truncate s \<Longrightarrow> hush s s'"
  by (simp add: hush_def calm_refl)

lemma hush_tables: "hush s s' \<Longrightarrow> tables_ok s \<Longrightarrow> tables_ok s' \<and> same_conf s s' \<and> counts s' = counts s \<and> page_count s' = page_count s"
  unfolding hush_def calm_def tables_truncate page_ok_truncate by simp

lemma calm_more: "calm s s' \<Longrightarrow> mcelog_state.more s' = mcelog_state.more s"
  by (simp add: calm_def settings_of_def)

text \<open>The server's part of the state.\<close>

lemma more_server:
  fixes s :: "'a server_state_scheme"
  assumes "mcelog_state.more s' = mcelog_state.more s"
  shows "pollfds s' = pollfds s" "pollcbs s' = pollcbs s" "max_pollfd s' = max_pollfd s" "conns s' = conns s"
    "conn_next s' = conn_next s" "net s' = net s" "os_recv s' = os_recv s" "acc s' = acc s" "os_mce s' = os_mce s"
    "os_memstream s' = os_memstream s" "server_state.more s' = server_state.more s"
  using assms by (cases s; cases s'; simp)+

lemma calm_server:
  fixes s :: "'a server_state_scheme"
  assumes "calm s s'"
  shows "pollfds s' = pollfds s" "pollcbs s' = pollcbs s" "max_pollfd s' = max_pollfd s" "conns s' = conns s"
    "conn_next s' = conn_next s" "net s' = net s" "os_recv s' = os_recv s" "acc s' = acc s" "os_mce s' = os_mce s"
    "os_memstream s' = os_memstream s" "server_state.more s' = server_state.more s"
  by (rule more_server [OF calm_more [OF assms]])+

lemma calm_SYSERRprintf: "calm s (SYSERRprintf f a s)"
  by (intro calm_msg frame)

lemma calm_dump: "calm s (snd (dump_memory_errors flags s))"
proof -
  have "same_pages t (snd (dump_loop first mds flags t))" for first mds and t :: "'a mcelog_state_scheme"
  proof (induction mds arbitrary: first t)
    case (Cons md mds)
    show ?case
      using Cons [of "md_update (md_key md) (\<lambda>_. snd (dump_dimm md flags t)) t" False] same_pages_trans [OF same_pages_md_update]
      by (simp add: split_beta Let_def)
  qed (simp add: same_pages_refl)
  then show ?thesis by (intro calm_pages keeps_db_dump) (simp add: dump_memory_errors_def)
qed

section \<open>The table of descriptors\<close>

text \<open>The input buffer of a connection is only used during an event. The output buffer is not sent completely, or empty.\<close>

definition conn_ok :: "clientcon \<Rightarrow> bool" where
  "conn_ok cc \<longleftrightarrow> cc_inbuf cc = None \<and>
     (case cc_outbuf cc of None \<Rightarrow> cc_outcur cc = 0 \<and> cc_outlen cc = 0
      | Some b \<Rightarrow> cc_outlen cc = length b \<and> cc_outcur cc \<le> cc_outlen cc)"

definition asks_for :: "clientcon \<Rightarrow> pollbits" where
  "asks_for cc = (if cc_outbuf cc \<noteq> None then POLLOUT else POLLIN)"

definition client_slot :: "'a server_state_scheme \<Rightarrow> nat \<Rightarrow> nat \<Rightarrow> clientcon \<Rightarrow> bool" where
  "client_slot s i c cc \<longleftrightarrow> pc_cb (pollcbs s ! i) = Client_event \<and> pc_data (pollcbs s ! i) = Conn c \<and> conns s c = Some cc \<and>
     conn_ok cc \<and> pf_events (pollfds s ! i) = asks_for cc"

text \<open>The first \<open>b\<close> entries belong to the daemon, all others to clients, each with a connection of its own.\<close>

definition table_ok :: "nat \<Rightarrow> 'a server_state_scheme \<Rightarrow> bool" where
  "table_ok b s \<longleftrightarrow> length (pollfds s) = MAX_POLLFD \<and> length (pollcbs s) = MAX_POLLFD \<and> b \<le> max_pollfd s \<and> max_pollfd s \<le> MAX_POLLFD \<and>
     (\<forall>i<b. pf_events (pollfds s ! i) = POLLIN) \<and>
     (\<forall>i. b \<le> i \<and> i < max_pollfd s \<longrightarrow> (\<exists>c cc. client_slot s i c cc)) \<and>
     inj_on (\<lambda>i. pc_data (pollcbs s ! i)) {b..<max_pollfd s} \<and>
     (\<forall>c. conn_next s \<le> c \<longrightarrow> conns s c = None)"

text \<open>Entries that the round has not come to: input is only reported for a client whose answer has been sent.\<close>

definition unvisited :: "nat \<Rightarrow> nat \<Rightarrow> 'a server_state_scheme \<Rightarrow> bool" where
  "unvisited b k s \<longleftrightarrow> (\<forall>i. b \<le> i \<and> k \<le> i \<and> i < max_pollfd s \<and> pf_revents (pollfds s ! i) AND POLLIN \<noteq> 0 \<longrightarrow>
     (\<forall>c cc. client_slot s i c cc \<longrightarrow> cc_outbuf cc = None))"

text \<open>Nothing but refusals has been sent, and no credentials to come are accepted.\<close>

definition refusal :: "netev \<Rightarrow> bool" where
  "refusal ev \<longleftrightarrow> (\<forall>fd m. ev = Sent fd m \<longrightarrow> (\<exists>n. m = take n ''permission denied\<newline>'' \<or> m = take n ''mcelog server too busy\<newline>''))"

definition silent_conn :: "clientcon \<Rightarrow> bool" where
  "silent_conn cc \<longleftrightarrow> cc_outbuf cc = None \<or> cc_outbuf cc = Some []"

definition denied :: "config_cred_t \<Rightarrow> (string \<times> cmsg) option \<Rightarrow> bool" where
  "denied a r \<longleftrightarrow> (\<forall>bytes uc. r = Some (bytes, Cmsg_cred uc) \<longrightarrow> \<not> permitted a uc)"

definition silent :: "'a server_state_scheme \<Rightarrow> bool" where
  "silent s \<longleftrightarrow> (\<forall>r\<in>set (os_recv s). denied (acc s) r) \<and> (\<forall>c cc. conns s c = Some cc \<longrightarrow> silent_conn cc) \<and> list_all refusal (net s)"

section \<open>Steps within an event\<close>

definition same_table :: "'a server_state_scheme \<Rightarrow> 'a server_state_scheme \<Rightarrow> bool" where
  "same_table s s' \<longleftrightarrow> hush s s' \<and> pollfds s' = pollfds s \<and> pollcbs s' = pollcbs s \<and> max_pollfd s' = max_pollfd s \<and>
     conns s' = conns s \<and> conn_next s' = conn_next s \<and> os_mce s' = os_mce s \<and> os_memstream s' = os_memstream s \<and>
     server_state.more s' = server_state.more s \<and> (silent s \<longrightarrow> silent s')"

lemma same_table_refl: "same_table s s"
  by (simp add: same_table_def hush_refl)

lemma same_table_trans: "same_table s t \<Longrightarrow> same_table t u \<Longrightarrow> same_table s u"
  using hush_trans unfolding same_table_def by metis

lemma same_table_calm: "calm s s' \<Longrightarrow> same_table s s'"
  using hush_calm [of s s'] calm_server [of s s'] by (simp add: same_table_def silent_def)

lemma same_table_ok: "same_table s s' \<Longrightarrow> table_ok b s' = table_ok b s" "same_table s s' \<Longrightarrow> unvisited b k s' = unvisited b k s"
  by (simp_all add: same_table_def table_ok_def unvisited_def client_slot_def)

lemma sock_send_table:
  assumes "silent s \<Longrightarrow> \<forall>n. refusal (Sent fd (take n m))"
  shows "same_table s (snd (sock_send fd m s))"
proof -
  have "hush s (snd (sock_send fd m s))"
    by (rule hush_same) (simp add: sock_send_def mcelog_state.defs Let_def split: list.split)
  then show ?thesis using assms by (auto simp: same_table_def sock_send_def silent_def Let_def split: list.split)
qed

lemma sendstring_refusal:
  "same_table s (sendstring fd ''permission denied\<newline>'' s)" "same_table s (sendstring fd ''mcelog server too busy\<newline>'' s)"
  unfolding sendstring_def by (rule sock_send_table, unfold refusal_def, blast)+

lemma sock_close_table: "same_table s (sock_close fd s)"
proof -
  have "hush s (sock_close fd s)" by (rule hush_same) (simp add: sock_close_def mcelog_state.defs)
  then show ?thesis by (simp add: same_table_def sock_close_def silent_def refusal_def)
qed

lemma access_check_table:
  "same_table s (snd (access_check fd cm s))"
  "fst (access_check fd cm s) \<Longrightarrow> \<exists>uc. cm = Cmsg_cred uc \<and> permitted (acc s) uc"
proof -
  have e: "same_table s (Eprintf f a s)" for f a by (intro same_table_calm calm_Eprintf calm_refl)
  show "same_table s (snd (access_check fd cm s))"
    using e same_table_trans [OF e sendstring_refusal(1)] by (auto simp: access_check_def same_table_refl split: cmsg.split)
  show "fst (access_check fd cm s) \<Longrightarrow> \<exists>uc. cm = Cmsg_cred uc \<and> permitted (acc s) uc"
    by (auto simp: access_check_def split: cmsg.splits if_splits)
qed

lemma same_table_input: "set rs \<subseteq> set (os_recv s) \<Longrightarrow> same_table s (s\<lparr>os_fionread := ns, os_recv := rs\<rparr>)"
proof -
  assume "set rs \<subseteq> set (os_recv s)"
  moreover have "hush s (s\<lparr>os_fionread := ns, os_recv := rs\<rparr>)" by (rule hush_same) (simp add: mcelog_state.defs)
  ultimately show ?thesis by (auto simp: same_table_def silent_def)
qed

lemma client_input_table:
  assumes "cc_inbuf cc = None"
  shows "\<exists>n i s'. client_input fd cc s = Ret (n, cc\<lparr>cc_inbuf := i\<rparr>) s' \<and> same_table s s' \<and> (silent s \<and> 0 \<le> n \<longrightarrow> i = None)"
proof (cases "os_fionread s")
  case Nil
  then show ?thesis using assms by (intro exI [of _ "- 1"] exI [of _ None] exI [of _ s]) (simp add: client_input_def same_table_refl)
next
  case (Cons n ns)
  have f: "same_table s (s\<lparr>os_fionread := ns\<rparr>)" using same_table_input [of "os_recv s" s ns] by simp
  show ?thesis
  proof (cases "n \<le> 0 \<or> os_recv s = []")
    case True
    then have "client_input fd cc s = Ret (if n = 0 then 0 else - 1, cc\<lparr>cc_inbuf := None\<rparr>) (s\<lparr>os_fionread := ns\<rparr>)"
      using assms Cons by (auto simp: client_input_def Let_def)
    then show ?thesis using f by blast
  next
    case False
    then obtain r rs where r: "os_recv s = r # rs" "n > 0" by (cases "os_recv s") auto
    let ?s = "s\<lparr>os_fionread := ns, os_recv := rs\<rparr>"
    have t: "same_table s ?s" by (rule same_table_input) (auto simp: r)
    show ?thesis
    proof (cases r)
      case None
      then show ?thesis using assms Cons r t by (intro exI [of _ "- 1"] exI [of _ None] exI [of _ ?s]) (simp add: client_input_def)
    next
      case (Some x)
      obtain bytes cm where x: "x = (bytes, cm)" by fastforce
      show ?thesis
      proof (cases "int (length bytes) < n")
        case True
        then show ?thesis using assms Cons r t Some x
          by (intro exI [of _ "- 1"] exI [of _ "Some (take (nat n) bytes)"] exI [of _ ?s]) (simp add: client_input_def)
      next
        case False
        let ?a = "access_check fd cm ?s"
        have d: "silent s \<Longrightarrow> \<not> fst ?a"
          using access_check_table(2) [of fd cm ?s] r(1) Some x by (auto simp: silent_def denied_def)
        have "same_table s (snd ?a)" using t access_check_table(1) same_table_trans by blast
        with d show ?thesis using False assms Cons r Some x
          by (intro exI [of _ "if fst ?a then n else - 1"] exI [of _ "Some (take (nat n) bytes)"] exI [of _ "snd ?a"])
            (auto simp: client_input_def split_beta)
      qed
    qed
  qed
qed

lemma dispatch_lines_calm:
  assumes "tables_ok s"
  shows "\<exists>t s'. dispatch_lines ls s = Ret t s' \<and> calm s s'"
  using assms
proof (induction ls arbitrary: s)
  case Nil
  then show ?case by (simp add: calm_refl)
next
  case (Cons l ls)
  obtain t where "dump_page_errors s = Some t" using page_report_list [of s] Cons.prems by (auto simp: tables_ok_def)
  then have "\<exists>t s'. dispatch_command l s = Ret t s' \<and> calm s s'"
    using calm_dump [of s] calm_refl [of s]
    by (auto simp: dispatch_command_def dispatch_dump_def dispatch_pages_def Let_def split_beta)
  then obtain t1 s1 where 1: "dispatch_command l s = Ret t1 s1" "calm s s1" by blast
  then have "tables_ok s1" using Cons.prems by (simp add: calm_def)
  then obtain t2 s2 where "dispatch_lines ls s1 = Ret t2 s2" "calm s1 s2" using Cons.IH by blast
  then show ?case using 1 calm_trans by auto
qed

lemma process_cmd_table:
  assumes "tables_ok s" "os_memstream s" "cc_outbuf cc = None"
  shows "\<exists>t s'. process_cmd cc s = Ret (cc\<lparr>cc_outbuf := Some t, cc_outcur := 0, cc_outlen := length t\<rparr>) s' \<and> same_table s s' \<and>
    (cc_inbuf cc = None \<longrightarrow> t = [])"
proof -
  obtain t s' where t: "dispatch_commands (cc_inbuf cc) s = Ret t s'" "calm s s'"
    using dispatch_lines_calm [OF assms(1)] unfolding dispatch_commands_def by blast
  then have "cc_inbuf cc = None \<longrightarrow> t = []" by (auto simp: dispatch_commands_def)
  with t show ?thesis using assms(2,3) same_table_calm
    by (intro exI [of _ t] exI [of _ s']) (simp add: process_cmd_def)
qed

lemma client_output_table:
  assumes "conn_ok cc" "silent s \<Longrightarrow> silent_conn cc"
  shows "\<exists>cc' ok s'. client_output fd cc s = ((cc', ok), s') \<and> same_table s s' \<and> conn_ok cc' \<and> (silent s \<longrightarrow> silent_conn cc') \<and>
    (cc_outbuf cc = None \<longrightarrow> cc_outbuf cc' = None)"
proof -
  define r where "r = (if cc_outcur cc < cc_outlen cc
    then sock_send fd (drop (cc_outcur cc) (take (cc_outlen cc) (case cc_outbuf cc of None \<Rightarrow> [] | Some b \<Rightarrow> b))) s else (0, s))"
  have "\<not> cc_outcur cc < cc_outlen cc" if "silent s" using assms that by (auto simp: conn_ok_def silent_conn_def)
  then have t: "same_table s (snd r)" unfolding r_def using sock_send_table same_table_refl by auto
  have n: "nat (fst r) + cc_outcur cc \<le> cc_outlen cc"
    using assms(1) by (auto simp: r_def sock_send_def conn_ok_def Let_def split: list.split option.splits)
  define cc1 where "cc1 = (if fst r < 0 then cc else cc\<lparr>cc_outcur := cc_outcur cc + nat (fst r)\<rparr>)"
  define cc' where "cc' = (if \<not> fst r < 0 \<and> cc_outcur cc1 = cc_outlen cc1 then free_outbuf cc1 else cc1)"
  have "client_output fd cc s = ((cc', \<not> fst r < 0), snd r)"
    by (simp add: client_output_def r_def [symmetric] split_beta Let_def cc1_def cc'_def)
  moreover have "conn_ok cc'" "silent s \<longrightarrow> silent_conn cc'" "cc_outbuf cc = None \<longrightarrow> cc_outbuf cc' = None"
    using assms n by (auto simp: conn_ok_def silent_conn_def cc'_def cc1_def free_outbuf_def split: option.splits)
  ultimately show ?thesis using t by (intro exI [of _ cc'] exI [of _ "\<not> fst r < 0"] exI [of _ "snd r"]) simp
qed


section \<open>Events of clients\<close>

text \<open>The round has handled slot \<open>k\<close>: the invariant holds, and the entries of the daemon are as they were.\<close>

definition served :: "nat \<Rightarrow> nat \<Rightarrow> 'a server_state_scheme \<Rightarrow> 'a server_state_scheme \<Rightarrow> bool" where
  "served b k s s' \<longleftrightarrow> hush s s' \<and> table_ok b s' \<and> unvisited b (Suc k) s' \<and>
     (\<forall>i<b. pollfds s' ! i = pollfds s ! i \<and> pollcbs s' ! i = pollcbs s ! i) \<and>
     os_mce s' = os_mce s \<and> os_memstream s' = os_memstream s \<and> server_state.more s' = server_state.more s \<and> (silent s \<longrightarrow> silent s')"

lemma served_after: "same_table s t \<Longrightarrow> served b k t u \<Longrightarrow> served b k s u"
  using hush_trans unfolding same_table_def served_def by metis

lemma served_idle: "same_table s s' \<Longrightarrow> table_ok b s \<Longrightarrow> unvisited b (Suc k) s \<Longrightarrow> served b k s s'"
  using same_table_ok unfolding served_def same_table_def by metis

lemma served_before: "served b k s t \<Longrightarrow> same_table t u \<Longrightarrow> served b k s u"
  using same_table_ok [of t u] hush_trans [of s t u] unfolding served_def same_table_def by simp

lemma drop_slot:
  assumes t: "table_ok b s" and k: "b \<le> k" "k < max_pollfd s" "pc_data (pollcbs s ! k) = Conn c" and u: "unvisited b (Suc k) s"
  shows "\<exists>s'. unregister_pollcb k s = Ret () s' \<and> served b k s (free_cc c s')"
proof -
  let ?n = "max_pollfd s"
  define s1 where "s1 = s\<lparr>pollfds := move_down k ?n (pollfds s), pollcbs := move_down k ?n (pollcbs s), max_pollfd := ?n - 1\<rparr>"
  define s2 where "s2 = free_cc c s1"
  define old where "old i = (if i < k then i else Suc i)" for i
  have len: "length (pollfds s) = MAX_POLLFD" "length (pollcbs s) = MAX_POLLFD" "?n \<le> MAX_POLLFD" using t by (simp_all add: table_ok_def)
  have slot: "pollfds s2 ! i = pollfds s ! old i" "pollcbs s2 ! i = pollcbs s ! old i" if "i < ?n - 1" for i
    using that k(2) len by (simp_all add: s2_def s1_def free_cc_def nth_move_down old_def)
  have inj: "inj_on (\<lambda>i. pc_data (pollcbs s ! i)) {b..<?n}" using t by (simp add: table_ok_def)
  have client: "client_slot s2 i c' cc \<longleftrightarrow> client_slot s (old i) c' cc" if "b \<le> i" "i < ?n - 1" for i c' cc
  proof -
    have "old i \<noteq> k" "old i \<in> {b..<?n}" using that by (auto simp: old_def)
    then have "pc_data (pollcbs s ! old i) \<noteq> Conn c" using inj_onD [OF inj, of "old i" k] k by auto
    then show ?thesis using slot that by (auto simp: client_slot_def s2_def s1_def free_cc_def)
  qed
  have "table_ok b s2"
  proof -
    have "inj_on old {b..<?n - 1}" by (auto simp: inj_on_def old_def split: if_splits)
    moreover have "inj_on (\<lambda>i. pc_data (pollcbs s ! i)) (old ` {b..<?n - 1})"
      by (rule inj_on_subset [OF inj]) (auto simp: old_def)
    ultimately have "inj_on ((\<lambda>i. pc_data (pollcbs s ! i)) \<circ> old) {b..<?n - 1}" by (rule comp_inj_on)
    then have "inj_on (\<lambda>i. pc_data (pollcbs s2 ! i)) {b..<?n - 1}"
      by (rule inj_on_cong [THEN iffD1, rotated]) (simp add: slot)
    moreover have "\<exists>c cc. client_slot s2 i c cc" if "b \<le> i" "i < ?n - 1" for i
      using client [OF that] t that by (auto simp: table_ok_def old_def)
    moreover have "pf_events (pollfds s2 ! i) = POLLIN" if "i < b" for i
      using slot [of i] that k t by (auto simp: old_def table_ok_def)
    ultimately show ?thesis
      using t k len by (auto simp: table_ok_def s2_def s1_def free_cc_def length_move_down)
  qed
  moreover have "unvisited b (Suc k) s2"
    unfolding unvisited_def
  proof (intro allI impI)
    fix i c' cc assume i: "b \<le> i \<and> Suc k \<le> i \<and> i < max_pollfd s2 \<and> pf_revents (pollfds s2 ! i) AND POLLIN \<noteq> 0" "client_slot s2 i c' cc"
    then have "i < ?n - 1" "old i = Suc i" by (auto simp: s2_def s1_def free_cc_def old_def)
    then show "cc_outbuf cc = None" using i client [of i c' cc] slot [of i] u [unfolded unvisited_def, rule_format, of "Suc i" c' cc] by simp
  qed
  moreover have "hush s s2" by (rule hush_same) (simp add: s2_def s1_def free_cc_def mcelog_state.defs)
  moreover have "pollfds s2 ! i = pollfds s ! i \<and> pollcbs s2 ! i = pollcbs s ! i" if "i < b" for i
    using slot [of i] that k by (auto simp: old_def)
  moreover have "silent s \<longrightarrow> silent s2" by (auto simp: silent_def s2_def s1_def free_cc_def)
  ultimately have "served b k s s2" by (simp add: served_def s2_def s1_def free_cc_def)
  then show ?thesis using k(2) by (simp add: unregister_pollcb_def s2_def s1_def)
qed

lemma client_error_served:
  assumes "table_ok b s" "b \<le> k" "k < max_pollfd s" "pc_data (pollcbs s ! k) = Conn c" "unvisited b (Suc k) s"
  shows "\<exists>s'. client_error k c s = Ret () s' \<and> served b k s s'"
proof -
  define s1 where "s1 = (if pf_revents (pollfds s ! k) AND POLLERR \<noteq> 0 then SYSERRprintf ''error while reading from client'' [] s else s)"
  define s2 where "s2 = sock_close (pf_fd (pollfds s1 ! k)) s1"
  have "same_table s s1" unfolding s1_def using same_table_calm [OF calm_SYSERRprintf [of s]] same_table_refl [of s] by simp
  then have 2: "same_table s s2" unfolding s2_def using sock_close_table same_table_trans by blast
  then have "table_ok b s2" "k < max_pollfd s2" "pc_data (pollcbs s2 ! k) = Conn c" "unvisited b (Suc k) s2"
    using assms same_table_ok [OF 2] by (simp_all add: same_table_def)
  from drop_slot [OF this(1) assms(2) this(2-4)] obtain s3 where "unregister_pollcb k s2 = Ret () s3" "served b k s2 (free_cc c s3)" by blast
  then show ?thesis using served_after [OF 2] by (auto simp: client_error_def s1_def [symmetric] s2_def [symmetric] Let_def)
qed

lemma client_ready_served:
  assumes st: "same_table s0 s" and t0: "table_ok b s0" and k0: "b \<le> k" "k < max_pollfd s0" "pc_data (pollcbs s0 ! k) = Conn c"
      "pc_cb (pollcbs s0 ! k) = Client_event" and u0: "unvisited b (Suc k) s0"
    and cc: "conn_ok cc" "silent s0 \<Longrightarrow> silent_conn cc" and c0: "c < conn_next s0"
  shows "served b k s0 (client_ready k c cc s)"
proof -
  let ?s = "client_ready k c cc s"
  have t: "table_ok b s" and u: "unvisited b (Suc k) s" using same_table_ok [OF st] t0 u0 by simp_all
  have k: "k < max_pollfd s" "pc_data (pollcbs s ! k) = Conn c" "pc_cb (pollcbs s ! k) = Client_event" and c: "c < conn_next s"
    using st k0 c0 by (simp_all add: same_table_def)
  have len: "length (pollfds s) = MAX_POLLFD" "max_pollfd s \<le> MAX_POLLFD" using t by (simp_all add: table_ok_def)
  have inj: "inj_on (\<lambda>i. pc_data (pollcbs s ! i)) {b..<max_pollfd s}" using t by (simp add: table_ok_def)
  have other: "client_slot ?s i c' cc' = client_slot s i c' cc'" if "b \<le> i" "i < max_pollfd s" "i \<noteq> k" for i c' cc'
    using that inj_onD [OF inj, of i k] k k0(1) by (auto simp: client_slot_def client_ready_def)
  have this_one: "client_slot ?s k c cc" using k cc(1) len by (simp add: client_slot_def client_ready_def asks_for_def)
  have "\<exists>c cc. client_slot ?s i c cc" if "b \<le> i" "i < max_pollfd s" for i
    using that this_one other t by (cases "i = k") (auto simp: table_ok_def)
  then have "table_ok b ?s" using t k k0(1) c by (auto simp: table_ok_def client_ready_def)
  moreover have "unvisited b (Suc k) ?s" using u other by (auto simp: unvisited_def client_ready_def)
  moreover have "hush s ?s" by (rule hush_same) (simp add: client_ready_def mcelog_state.defs)
  moreover have "silent s0 \<longrightarrow> silent ?s" using cc(2) st by (auto simp: silent_def client_ready_def same_table_def)
  ultimately show ?thesis using k k0(1) st hush_trans [of s0 s ?s] by (auto simp: served_def client_ready_def same_table_def)
qed

lemma unvisited_Suc: "unvisited b k s \<Longrightarrow> unvisited b (Suc k) s"
  unfolding unvisited_def by (meson Suc_leD)

lemma client_slot_unique: "client_slot s i c cc \<Longrightarrow> client_slot s i c' cc' \<Longrightarrow> cc = cc'"
  by (auto simp: client_slot_def)

lemma slot_conn: "table_ok b s \<Longrightarrow> client_slot s k c cc \<Longrightarrow> c < conn_next s"
  by (rule ccontr) (auto simp: table_ok_def client_slot_def)

text \<open>No assertion of \<open>process_cmd\<close>, \<open>client_input\<close> or \<open>unregister_pollcb\<close> fails, and no connection is used after it was freed.\<close>

lemma client_event_served:
  assumes s: "tables_ok s" "os_memstream s" and t: "table_ok b s" and k: "b \<le> k" "k < max_pollfd s" and u: "unvisited b k s"
    and slot: "client_slot s k c cc"
  shows "\<exists>s'. client_event k c s = Ret () s' \<and> served b k s s'"
proof -
  let ?e = "pf_revents (pollfds s ! k)" and ?fd = "pf_fd (pollfds s ! k)"
  have c: "conns s c = Some cc" "conn_ok cc" "pc_data (pollcbs s ! k) = Conn c" "pc_cb (pollcbs s ! k) = Client_event" "c < conn_next s"
    using slot slot_conn [OF t slot] by (simp_all add: client_slot_def)
  have u': "unvisited b (Suc k) s" using u by (rule unvisited_Suc)
  have err: "\<exists>s'. client_error k c t = Ret () s' \<and> served b k s s'" if "same_table s t" for t
    using client_error_served [of b t k c] served_after [OF that] same_table_ok [OF that] that t k c(3) u' by (auto simp: same_table_def)
  note ready = client_ready_served [OF _ t k c(3,4) u' _ _ c(5)]
  have sc: "silent s \<Longrightarrow> silent_conn cc" using c(1) by (simp add: silent_def)
  define o1 where "o1 = (if ?e AND POLLOUT \<noteq> 0 then client_output ?fd cc s else ((cc, True), s))"
  have "\<exists>cc1 ok s1. o1 = ((cc1, ok), s1) \<and> same_table s s1 \<and> conn_ok cc1 \<and> (silent s \<longrightarrow> silent_conn cc1) \<and>
      (cc_outbuf cc = None \<longrightarrow> cc_outbuf cc1 = None)"
  proof (cases "?e AND POLLOUT \<noteq> 0")
    case True
    then show ?thesis using client_output_table [OF c(2), of s ?fd] sc by (simp add: o1_def)
  next
    case False
    then have "o1 = ((cc, True), s)" by (simp add: o1_def)
    with sc c(2) same_table_refl [of s] show ?thesis by blast
  qed
  then obtain cc1 ok s1 where 1: "o1 = ((cc1, ok), s1)" "same_table s s1" "conn_ok cc1" "silent s \<longrightarrow> silent_conn cc1"
      "cc_outbuf cc = None \<longrightarrow> cc_outbuf cc1 = None" by (elim exE conjE)
  have in1: "cc_inbuf cc1 = None" using 1(3) by (simp add: conn_ok_def)
  obtain n i s2 where 2: "client_input ?fd cc1 s1 = Ret (n, cc1\<lparr>cc_inbuf := i\<rparr>) s2" "same_table s1 s2" "silent s1 \<and> 0 \<le> n \<longrightarrow> i = None"
    using client_input_table [OF in1] by blast
  have st2: "same_table s s2" using 1(2) 2(2) same_table_trans by blast
  have ev: "client_event k c s =
      (if ?e AND NOT (POLLIN OR POLLOUT) \<noteq> 0 then client_error k c s
       else if \<not> ok then client_error k c s1
       else if ?e AND POLLIN \<noteq> 0
       then if n < 0 then client_error k c s2
            else andthen (process_cmd (cc1\<lparr>cc_inbuf := i\<rparr>) s2) (\<lambda>cc s. Ret () (client_ready k c (free_inbuf cc) s))
       else Ret () (client_ready k c cc1 s1))"
    unfolding client_event_def c(1) option.case Let_def o1_def [symmetric] 1(1) prod.case 2(1) andthen.simps ..
  show ?thesis
  proof (cases "?e AND NOT (POLLIN OR POLLOUT) \<noteq> 0 \<or> \<not> ok \<or> ?e AND POLLIN = 0 \<or> n < 0")
    case True
    then show ?thesis
      using err [OF same_table_refl] err [OF 1(2)] err [OF st2] ready [OF 1(2,3)] 1(1,4) 2(1)
      by (auto simp: ev)
  next
    case False
    have "cc_outbuf (cc1\<lparr>cc_inbuf := i\<rparr>) = None" using u slot k False 1(5) by (auto simp: unvisited_def)
    moreover have "tables_ok s2" "os_memstream s2" using st2 s hush_tables by (auto simp: same_table_def)
    ultimately obtain x s3 where 3: "process_cmd (cc1\<lparr>cc_inbuf := i\<rparr>) s2 =
        Ret (cc1\<lparr>cc_inbuf := i, cc_outbuf := Some x, cc_outcur := 0, cc_outlen := length x\<rparr>) s3" "same_table s2 s3" "i = None \<longrightarrow> x = []"
      using process_cmd_table [of s2 "cc1\<lparr>cc_inbuf := i\<rparr>"] by auto
    define cc3 where "cc3 = free_inbuf (cc1\<lparr>cc_inbuf := i, cc_outbuf := Some x, cc_outcur := 0, cc_outlen := length x\<rparr>)"
    have "conn_ok cc3" "silent s \<Longrightarrow> silent_conn cc3"
      using 3(3) 2(3) 1(2) False by (auto simp: cc3_def conn_ok_def free_inbuf_def silent_conn_def same_table_def)
    then have "served b k s (client_ready k c cc3 s3)" using ready [OF same_table_trans [OF st2 3(2)]] by blast
    then show ?thesis using False 1(1) 2(1) 3(1) by (simp add: ev cc3_def)
  qed
qed

definition blank_conn :: clientcon where
  "blank_conn = \<lparr>cc_inbuf = None, cc_outbuf = None, cc_outcur = 0, cc_outlen = 0\<rparr>"

definition with_conn :: "'a server_state_scheme \<Rightarrow> 'a server_state_scheme" where
  "with_conn s = s\<lparr>conn_next := conn_next s + 1, conns := (conns s)(conn_next s \<mapsto> blank_conn)\<rparr>"

lemma with_conn_hush: "hush s (with_conn s)" "silent s \<Longrightarrow> silent (with_conn s)"
  by (rule hush_same, simp add: with_conn_def mcelog_state.defs) (auto simp: silent_def with_conn_def silent_conn_def blank_conn_def)

lemma silent_free: "silent s \<Longrightarrow> silent (free_cc c s)"
  by (auto simp: silent_def free_cc_def)

lemma register_fails_served:
  assumes t: "table_ok b s" and u: "unvisited b (Suc k) s" and st: "same_table (with_conn s) s'"
  shows "served b k s (free_cc (conn_next s) s')"
proof -
  let ?s = "free_cc (conn_next s) s'"
  have f: "pollfds ?s = pollfds s" "pollcbs ?s = pollcbs s" "max_pollfd ?s = max_pollfd s" "os_mce ?s = os_mce s" "os_memstream ?s = os_memstream s"
      "conn_next ?s = conn_next s + 1" "server_state.more ?s = server_state.more s"
    using st by (simp_all add: same_table_def with_conn_def free_cc_def)
  have "conns s (conn_next s) = None" using t by (simp add: table_ok_def)
  then have c: "conns ?s = conns s" using st by (auto simp: same_table_def with_conn_def free_cc_def fun_eq_iff)
  have slot: "client_slot ?s i c cc = client_slot s i c cc" for i c cc by (simp add: client_slot_def f c)
  have "table_ok b ?s" "unvisited b (Suc k) ?s" using t u by (simp_all add: table_ok_def unvisited_def f c slot)
  moreover have "hush s' ?s" by (rule hush_same) (simp add: free_cc_def mcelog_state.defs)
  then have "hush s ?s" using with_conn_hush(1) [of s] st hush_trans unfolding same_table_def by metis
  moreover have "silent s \<Longrightarrow> silent s'" using with_conn_hush(2) [of s] st by (simp add: same_table_def)
  then have "silent s \<longrightarrow> silent ?s" using silent_free by blast
  ultimately show ?thesis by (simp add: served_def f)
qed

lemma register_served:
  assumes t: "table_ok b s" and u: "unvisited b (Suc k) s" and i: "max_pollfd s < MAX_POLLFD"
  shows "served b k s ((with_conn s)\<lparr>max_pollfd := max_pollfd s + 1,
    pollfds := (pollfds s)[max_pollfd s := (pollfds s ! max_pollfd s)\<lparr>pf_fd := fd, pf_events := POLLIN\<rparr>],
    pollcbs := (pollcbs s)[max_pollfd s := (pollcbs s ! max_pollfd s)\<lparr>pc_cb := Client_event, pc_data := Conn (conn_next s)\<rparr>]\<rparr>)"
    (is "served b k s ?s")
proof -
  let ?n = "max_pollfd s"
  have len: "length (pollfds s) = MAX_POLLFD" "length (pollcbs s) = MAX_POLLFD" "b \<le> ?n" using t by (simp_all add: table_ok_def)
  have old: "client_slot ?s j c cc \<longleftrightarrow> client_slot s j c cc" if "b \<le> j" "j < ?n" for j c cc
  proof -
    obtain c' cc' where c': "client_slot s j c' cc'" using t \<open>b \<le> j\<close> \<open>j < ?n\<close> unfolding table_ok_def by blast
    then have "pc_data (pollcbs s ! j) \<noteq> Conn (conn_next s)" using slot_conn [OF t c'] by (simp add: client_slot_def)
    then show ?thesis using that len by (auto simp: client_slot_def with_conn_def)
  qed
  have new: "client_slot ?s ?n (conn_next s) blank_conn"
    using i len by (simp add: client_slot_def with_conn_def conn_ok_def blank_conn_def asks_for_def)
  have clients: "\<exists>c cc. client_slot ?s j c cc" if "b \<le> j" "j < ?n + 1" for j
    using that new old t by (cases "j = ?n") (auto simp: table_ok_def)
  have fresh: "pc_data (pollcbs s ! j) \<noteq> Conn (conn_next s)" if j: "b \<le> j" "j < ?n" for j
  proof -
    obtain c cc where "client_slot s j c cc" using t j unfolding table_ok_def by blast
    then show ?thesis using slot_conn [OF t] by (fastforce simp: client_slot_def)
  qed
  have data: "pc_data (pollcbs ?s ! j) = (if j = ?n then Conn (conn_next s) else pc_data (pollcbs s ! j))" for j
    using i len by (simp add: nth_list_update)
  have inj: "inj_on (\<lambda>j. pc_data (pollcbs s ! j)) {b..<?n}" using t by (simp add: table_ok_def)
  have "inj_on (\<lambda>j. pc_data (pollcbs ?s ! j)) {b..<?n + 1}"
  proof (rule inj_onI)
    fix x y assume "x \<in> {b..<?n + 1}" "y \<in> {b..<?n + 1}" "pc_data (pollcbs ?s ! x) = pc_data (pollcbs ?s ! y)"
    then show "x = y" unfolding data using fresh [of x] fresh [of y] inj_onD [OF inj, of x y] by (cases "x = ?n"; cases "y = ?n") auto
  qed
  then have "table_ok b ?s" using clients t i len by (auto simp: table_ok_def with_conn_def)
  moreover have "unvisited b (Suc k) ?s"
    unfolding unvisited_def
  proof (intro allI impI)
    fix j c cc
    assume j: "b \<le> j \<and> Suc k \<le> j \<and> j < max_pollfd ?s \<and> pf_revents (pollfds ?s ! j) AND POLLIN \<noteq> 0" "client_slot ?s j c cc"
    show "cc_outbuf cc = None"
    proof (cases "j = ?n")
      case True
      then have "cc = blank_conn" using client_slot_unique [OF _ new] j(2) by simp
      then show ?thesis by (simp add: blank_conn_def)
    next
      case False
      then have "j < ?n" "client_slot s j c cc" "pf_revents (pollfds s ! j) AND POLLIN \<noteq> 0" using j old [of j c cc] by auto
      then show ?thesis using u j(1) by (auto simp: unvisited_def)
    qed
  qed
  moreover have "hush (with_conn s) ?s" by (rule hush_same) (simp add: mcelog_state.defs)
  then have "hush s ?s" by (rule hush_trans [OF with_conn_hush(1)])
  moreover have "silent s \<longrightarrow> silent ?s" using with_conn_hush(2) [of s] by (auto simp: silent_def)
  ultimately show ?thesis using len by (simp add: served_def with_conn_def)
qed

lemma client_accept_served:
  assumes "table_ok b s" and "unvisited b (Suc k) s"
  shows "served b k s (client_accept k s)"
proof -
  define a where "a = (case os_accept s of [] \<Rightarrow> (- 1, s) | r # rs \<Rightarrow> (r, s\<lparr>os_accept := rs\<rparr>))"
  have "hush s (snd a)" by (rule hush_same) (simp add: a_def mcelog_state.defs split: list.split)
  then have 1: "same_table s (snd a)" by (auto simp: same_table_def a_def silent_def split: list.split)
  have t: "table_ok b (snd a)" and u: "unvisited b (Suc k) (snd a)" using same_table_ok [OF 1] assms by simp_all
  have msg: "same_table x (SYSERRprintf f g x)" "same_table x (Eprintf f g x)" for f g and x :: "'a server_state_scheme"
    by (intro same_table_calm calm_SYSERRprintf calm_Eprintf calm_refl)+
  define r where "r = register_pollcb (fst a) POLLIN Client_event (Conn (conn_next (snd a))) (with_conn (snd a))"
  define busy where "busy = sendstring (fst a) ''mcelog server too busy\<newline>'' (snd r)"
  have acc: "client_accept k s =
      (if fst a < 0 then SYSERRprintf ''accept failed on client socket'' [] (snd a)
       else if \<not> os_passcred (snd a) (fst a)
       then sock_close (fst a) (SYSERRprintf ''Cannot enable credentials passing on client socket'' [] (snd a))
       else if fst r < 0 then sock_close (fst a) (free_cc (conn_next (snd a)) busy) else snd r)"
    by (simp add: client_accept_def a_def [symmetric] r_def busy_def with_conn_def blank_conn_def split_beta Let_def)
  have failed: "served b k (snd a) (sock_close (fst a) (free_cc (conn_next (snd a)) busy))" if "fst r < 0"
  proof -
    have "same_table (with_conn (snd a)) (snd r)"
      using that msg same_table_refl unfolding r_def register_pollcb_def closeonexec_def by (auto simp: Let_def)
    then have "served b k (snd a) (free_cc (conn_next (snd a)) busy)"
      unfolding busy_def using register_fails_served [OF t u] same_table_trans sendstring_refusal(2) by blast
    then show ?thesis by (rule served_before [OF _ sock_close_table])
  qed
  have entered: "served b k (snd a) (snd r)" if "\<not> fst r < 0"
  proof -
    have "max_pollfd (snd a) < MAX_POLLFD" using that by (auto simp: r_def register_pollcb_def closeonexec_def Let_def with_conn_def split: if_splits)
    from register_served [OF t u this, of "fst a"] show ?thesis
      using that by (auto simp: r_def register_pollcb_def closeonexec_def Let_def with_conn_def split: if_splits)
  qed
  have refused: "served b k (snd a) (SYSERRprintf f g (snd a))" "served b k (snd a) (sock_close fd (SYSERRprintf f g (snd a)))" for f g fd
    by (intro served_idle [OF _ t u] msg same_table_trans [OF msg(1) sock_close_table])+
  have "served b k (snd a) (client_accept k s)"
  proof (cases "fst a < 0 \<or> \<not> os_passcred (snd a) (fst a)")
    case True
    then show ?thesis using refused by (auto simp: acc)
  next
    case False
    then show ?thesis using failed entered by (cases "fst r < 0") (simp_all add: acc)
  qed
  then show ?thesis by (rule served_after [OF 1])
qed

end
