(* ===== verification/Rounds.thy ===== *)
theory Rounds
  imports Daemon
begin

text \<open>
  Rounds of the event loop, from \<^verbatim>\<open>src/eventloop.c\<close> over the callbacks down to the counters: the daemon accounts exactly the records
  that the kernel delivers, whatever the clients do in between, and no assertion fails.
\<close>

section \<open>Settings across rounds\<close>

text \<open>The settings are those of the start; only the clock differs.\<close>

definition kept :: "'a mcelog_state_scheme \<Rightarrow> 'a mcelog_state_scheme \<Rightarrow> bool" where
  "kept s0 s \<longleftrightarrow> tables_ok s \<and> same_conf s0 s \<and>
     settings_of (mcelog_state.truncate s) = settings_of (mcelog_state.truncate (s0\<lparr>now := now s\<rparr>))"

lemma hush_now: "hush s s' \<Longrightarrow> now s' = now s"
  by (simp add: hush_def calm_def settings_of_def)

lemma kept_hush: "kept s0 s \<Longrightarrow> hush s s' \<Longrightarrow> kept s0 s'"
proof -
  assume k: "kept s0 s" and h: "hush s s'"
  have "settings_of (mcelog_state.truncate s') = settings_of (mcelog_state.truncate s)" using h by (simp add: hush_def calm_def)
  then show ?thesis using k hush_tables [OF h] hush_now [OF h] same_conf_trans [of s0 s s'] by (simp add: kept_def)
qed

lemma kept_now: "kept s0 s \<Longrightarrow> kept s0 (s\<lparr>now := t\<rparr>)"
proof -
  assume k: "kept s0 s"
  then have "tables_ok (s\<lparr>now := t\<rparr>)" by (simp add: kept_def tables_ok_def page_ok_now db_ok_def)
  then show ?thesis using k by (simp add: kept_def same_conf_def settings_of_def)
qed

lemma kept_plain: "kept s0 s \<Longrightarrow> plain_intel s0 \<Longrightarrow> (word_of_int (now s) :: u64) \<noteq> 0 \<Longrightarrow> plain_intel s"
  by (simp add: kept_def settings_of_def plain_intel_def fixed_locations_def)

lemma kept_spec:
  assumes "kept s0 s" "fixed_locations s0"
  shows "spec_intel m len s = spec_intel m len s0"
proof -
  have e: "cpu_type s = cpu_type s0" "offline s = offline s0" "imc_log s = imc_log s0" "filter_memory_errors s = filter_memory_errors s0"
    and c: "same_conf s0 s" using assms(1) by (simp_all add: kept_def settings_of_def)
  have i: "page_error_ignored m s = page_error_ignored m s0" using e by (simp add: page_error_ignored_def)
  have "memerr_location m s = memerr_location m s0"
    using e assms(2) by (auto simp: memerr_location_def fixed_locations_def Let_def sandy_bridge_ep_memerr_misc_def
        ivy_bridge_ep_memerr_misc_def ep_memerr_misc_def)
  then show ?thesis
    using c i by (simp add: spec_intel_def spec_error_def spec_page_def same_conf_def fun_eq_iff cong: if_cong)
qed

section \<open>One read of the machine check device\<close>

type_synonym mce_read = "u8 list option \<times> u32 option"
type_synonym all_counters = "counters \<times> (u64 \<rightharpoonup> u32)"

definition all_counts :: "'a page_state_scheme \<Rightarrow> all_counters" where
  "all_counts s = (counts s, page_count s)"

fun spec_read :: "nat \<Rightarrow> int \<Rightarrow> 'a intel_state_scheme \<Rightarrow> mce_read list \<Rightarrow> all_counters \<Rightarrow> all_counters" where
  "spec_read len t s0 ((Some buf, fl) # rs) cp = fold (\<lambda>m. spec_intel (timed t m) len s0) (records len buf) cp"
| "spec_read len t s0 _ cp = cp"

text \<open>All pages of all records to come.\<close>

fun pages_of_reads :: "nat \<Rightarrow> mce_read list \<Rightarrow> u64 set" where
  "pages_of_reads len [] = {}"
| "pages_of_reads len ((rd, fl) # rs) =
     (case rd of None \<Rightarrow> {} | Some buf \<Rightarrow> (page_of \<circ> m_addr) ` set (records len buf)) \<union> pages_of_reads len rs"

lemma fold_spec_pages:
  "dom (snd (fold (\<lambda>m. spec_intel (timed t m) len s0) ms cp)) \<subseteq> (page_of \<circ> m_addr) ` set ms \<union> dom (snd cp)"
proof (induction ms arbitrary: cp)
  case (Cons m ms)
  have "dom (snd (spec_intel (timed t m) len s0 cp)) \<subseteq> insert (page_of (m_addr m)) (dom (snd cp))"
    using spec_intel_pages [of "timed t m" len s0 "fst cp" "snd cp"] by simp
  then show ?case using Cons [of "spec_intel (timed t m) len s0 cp"] by simp blast
qed simp

lemma spec_read_pages: "dom (snd (spec_read len t s0 rds cp)) \<subseteq> pages_of_reads len rds \<union> dom (snd cp)"
proof (cases rds)
  case (Cons r rs)
  then show ?thesis using fold_spec_pages [of t len s0 "records len (the (fst r))" cp] by (cases r; cases "fst r") (simp_all del: comp_apply, blast)
qed simp

lemma pages_of_reads_tl: "pages_of_reads len (tl rds) \<subseteq> pages_of_reads len rds"
  by (cases rds) auto

definition mce_ready :: "'a server_state_scheme \<Rightarrow> nat \<Rightarrow> bool" where
  "mce_ready s j \<longleftrightarrow> pf_revents (pollfds s ! j) AND POLLIN \<noteq> 0"

lemma process_mcefd_step:
  assumes "kept s0 s" "plain_intel s0" "\<not> debug_numerrors s0" "(word_of_int (now s) :: u64) \<noteq> 0" "endof_field ''socketid'' \<le> len"
    and room: "finite U" "card U \<le> nat (max_corr_err_counters s0)" "dom (page_count s) \<union> pages_of_reads len (os_mce s) \<subseteq> U"
    and "mce_ready s k"
  shows "\<exists>s'. process_mcefd k loglen len s = Ret () s' \<and> kept s0 s' \<and> now s' = now s \<and>
    mcelog_state.more s' = mcelog_state.more (s\<lparr>os_mce := tl (os_mce s)\<rparr>) \<and>
    all_counts s' = spec_read len (now s) s0 (os_mce s) (all_counts s)"
proof -
  let ?s = "s\<lparr>os_mce := tl (os_mce s)\<rparr>"
  have h: "hush s ?s" by (rule hush_same) (simp add: mcelog_state.defs)
  then have k: "kept s0 ?s" using kept_hush assms(1) by blast
  then have t: "tables_ok ?s" by (simp add: kept_def)
  have c: "counts ?s = counts s" "page_count ?s = page_count s" using hush_tables [OF h] assms(1) by (simp_all add: kept_def)
  have p: "plain_intel ?s" using kept_plain [OF k assms(2)] assms(4) by simp
  have set: "\<not> debug_numerrors ?s" "max_corr_err_counters ?s = max_corr_err_counters s0"
    using k assms(3) by (simp_all add: kept_def settings_of_def)
  have len: "len \<noteq> 0" using assms(5) by (auto simp: mce_offsets)
  define rd fl where "rd = (case os_mce s of [] \<Rightarrow> None | r # _ \<Rightarrow> fst r)" and "fl = (case os_mce s of [] \<Rightarrow> None | r # _ \<Rightarrow> snd r)"
  have nil: "process None None len loglen (s\<lparr>os_mce := []\<rparr>) = process None None len loglen s" if "os_mce s = []"
    using that by (intro arg_cong [of _ _ "process None None len loglen"]) simp
  have call: "process_mcefd k loglen len s = process rd fl len loglen ?s"
    using assms(9) nil by (cases "os_mce s") (simp_all add: process_mcefd_def mce_ready_def rd_def fl_def split_beta)
  show ?thesis
  proof (cases rd)
    case None
    let ?e = "SYSERRprintf ''mcelog read'' [] ?s"
    have e: "calm ?s ?e" by (rule calm_SYSERRprintf)
    have "spec_read len (now s) s0 (os_mce s) cp = cp" for cp using None by (cases "os_mce s"; cases "hd (os_mce s)") (auto simp: rd_def)
    moreover have "process rd fl len loglen ?s = Ret () ?e" using None len by (simp add: process_def)
    moreover have "kept s0 ?e" "mcelog_state.more ?e = mcelog_state.more ?s" "now ?e = now s" "all_counts ?e = all_counts s"
      using kept_hush [OF k hush_calm [OF e]] calm_more [OF e] hush_now [OF hush_calm [OF e]] hush_tables [OF hush_calm [OF e] t] c
      by (simp_all add: all_counts_def)
    ultimately show ?thesis using call by (intro exI [of _ ?e]) simp
  next
    case (Some buf)
    then obtain rs where rs: "os_mce s = (Some buf, fl) # rs" by (auto simp: rd_def fl_def split: list.splits)
    have "card (dom (page_count ?s) \<union> (page_of \<circ> m_addr) ` set (records len buf)) \<le> card U"
      using room(1,3) rs c by (intro card_mono) auto
    then have "card (dom (page_count ?s) \<union> (page_of \<circ> m_addr) ` set (records len buf)) \<le> nat (max_corr_err_counters ?s)"
      using room(2) set(2) by simp
    from process_step [OF p t set(1) assms(5) this] obtain s' where s': "process (Some buf) fl len loglen ?s = Ret () s'"
      "settings_of s' = settings_of ?s" "same_conf ?s s'" "tables_ok s'"
      "(counts s', page_count s') = fold (\<lambda>m. spec_intel (timed (now ?s) m) len ?s) (records len buf) (counts ?s, page_count ?s)" by blast
    have "kept s0 s'" using k s'(2-4) settings_truncate [OF s'(2)] same_conf_trans [of s0 ?s s'] by (auto simp: kept_def settings_of_def)
    moreover have "fixed_locations s0" using assms(2) by (simp add: plain_intel_def)
    then have "spec_intel m len ?s = spec_intel m len s0" for m by (rule kept_spec [OF k])
    ultimately show ?thesis using call Some s' rs c by (simp add: all_counts_def settings_of_def)
  qed
qed


section \<open>One round\<close>

text \<open>The entries of the daemon: the machine check device \<open>fd\<close> at \<open>j\<close>, and at most the socket on which clients connect.\<close>

definition daemon_slots :: "nat \<Rightarrow> nat \<Rightarrow> int \<Rightarrow> nat \<Rightarrow> nat \<Rightarrow> 'a server_state_scheme \<Rightarrow> bool" where
  "daemon_slots b j fd loglen len s \<longleftrightarrow> j < b \<and> pc_cb (pollcbs s ! j) = Process_mcefd \<and> pc_data (pollcbs s ! j) = Mcefd_data loglen len \<and>
     pf_fd (pollfds s ! j) = fd \<and> (\<forall>i<b. i \<noteq> j \<longrightarrow> pc_cb (pollcbs s ! i) = Client_accept \<and> pc_data (pollcbs s ! i) = No_data)"

text \<open>What the daemon runs on: the settings it started with, and enough counters for all pages to come.\<close>

definition run_setup :: "nat \<Rightarrow> 'a server_state_scheme \<Rightarrow> u64 set \<Rightarrow> bool" where
  "run_setup len s0 U \<longleftrightarrow> plain_intel s0 \<and> \<not> debug_numerrors s0 \<and> endof_field ''socketid'' \<le> len \<and> finite U \<and>
     card U \<le> nat (max_corr_err_counters s0)"

definition running :: "nat \<Rightarrow> nat \<Rightarrow> int \<Rightarrow> nat \<Rightarrow> nat \<Rightarrow> 'a server_state_scheme \<Rightarrow> u64 set \<Rightarrow> bool \<Rightarrow> mce_read list \<Rightarrow> all_counters \<Rightarrow>
    'a server_state_scheme \<Rightarrow> bool" where
  "running b j fd loglen len s0 U shut rds cp s \<longleftrightarrow> table_ok b s \<and> daemon_slots b j fd loglen len s \<and> kept s0 s \<and> os_memstream s \<and>
     server_state.more s = server_state.more s0 \<and> (shut \<longrightarrow> silent s) \<and> os_mce s = rds \<and> all_counts s = cp \<and> pages_of_reads len rds \<union> dom (snd cp) \<subseteq> U"

text \<open>Entries up to the machine check device that report something and have not been handled.\<close>

definition pending :: "nat \<Rightarrow> nat \<Rightarrow> 'a server_state_scheme \<Rightarrow> nat set" where
  "pending j k s = {i. k \<le> i \<and> i \<le> j \<and> pf_revents (pollfds s ! i) \<noteq> 0}"

definition in_round :: "nat \<Rightarrow> nat \<Rightarrow> int \<Rightarrow> nat \<Rightarrow> nat \<Rightarrow> 'a server_state_scheme \<Rightarrow> u64 set \<Rightarrow> bool \<Rightarrow> int \<Rightarrow> bool \<Rightarrow> mce_read list \<Rightarrow>
    all_counters \<Rightarrow> nat \<Rightarrow> nat \<Rightarrow> 'a server_state_scheme \<Rightarrow> bool" where
  "in_round b j fd loglen len s0 U shut t rdy rds cp k n s \<longleftrightarrow> run_setup len s0 U \<and> now s = t \<and> (word_of_int t :: u64) \<noteq> 0 \<and> unvisited b k s \<and>
     (if k \<le> j
      then running b j fd loglen len s0 U shut rds cp s \<and> card (pending j k s) \<le> n \<and>
        (rdy \<longleftrightarrow> mce_ready s j) \<and> (rdy \<longleftrightarrow> pf_revents (pollfds s ! j) \<noteq> 0)
      else running b j fd loglen len s0 U shut (if rdy then tl rds else rds) (if rdy then spec_read len t s0 rds cp else cp) s)"

definition round_done :: "nat \<Rightarrow> nat \<Rightarrow> int \<Rightarrow> nat \<Rightarrow> nat \<Rightarrow> 'a server_state_scheme \<Rightarrow> u64 set \<Rightarrow> bool \<Rightarrow> int \<Rightarrow> bool \<Rightarrow> mce_read list \<Rightarrow>
    all_counters \<Rightarrow> 'a server_state_scheme \<Rightarrow> bool" where
  "round_done b j fd loglen len s0 U shut t rdy rds cp s \<longleftrightarrow>
     running b j fd loglen len s0 U shut (if rdy then tl rds else rds) (if rdy then spec_read len t s0 rds cp else cp) s"

lemma in_round_running:
  assumes "in_round b j fd loglen len s0 U shut t rdy rds cp k n s"
  obtains rds' cp' where "running b j fd loglen len s0 U shut rds' cp' s"
proof (cases "k \<le> j")
  case True
  then have "running b j fd loglen len s0 U shut rds cp s" using assms by (simp add: in_round_def)
  then show thesis by (rule that)
next
  case False
  then show thesis using assms that [of "if rdy then tl rds else rds" "if rdy then spec_read len t s0 rds cp else cp"]
    by (simp add: in_round_def)
qed

lemma finite_pending: "finite (pending j k s)"
  by (rule finite_subset [of _ "{..j}"]) (auto simp: pending_def)

lemma pending_Suc: "pending j (Suc k) s = pending j k s - {k}"
  by (auto simp: pending_def)

lemma running_served:
  assumes "running b j fd loglen len s0 U shut rds cp s" "served b k s s'"
  shows "running b j fd loglen len s0 U shut rds cp s'" "j < b \<Longrightarrow> pollfds s' ! j = pollfds s ! j" "pending j m s' = pending j m s" "now s' = now s"
proof -
  have h: "hush s s'" and d: "\<And>i. i < b \<Longrightarrow> pollfds s' ! i = pollfds s ! i \<and> pollcbs s' ! i = pollcbs s ! i"
    using assms(2) by (simp_all add: served_def)
  have j: "j < b" using assms(1) by (simp add: running_def daemon_slots_def)
  show "pending j m s' = pending j m s" using d j by (auto simp: pending_def)
  show "pollfds s' ! j = pollfds s ! j" if "j < b" using d [OF that] by simp
  show "now s' = now s" by (rule hush_now [OF h])
  have "daemon_slots b j fd loglen len s'" using assms(1) d by (auto simp: running_def daemon_slots_def)
  moreover have k: "kept s0 s" using assms(1) by (simp add: running_def)
  moreover have "all_counts s' = all_counts s" using hush_tables [OF h] k by (simp add: all_counts_def kept_def)
  ultimately show "running b j fd loglen len s0 U shut rds cp s'"
    using assms kept_hush [OF k h] by (simp add: running_def served_def)
qed

lemma table_slot: "table_ok b s \<Longrightarrow> b \<le> i \<Longrightarrow> i < max_pollfd s \<Longrightarrow> \<exists>c cc. client_slot s i c cc"
  by (simp add: table_ok_def)

text \<open>The three callbacks.\<close>

lemma daemon_callback:
  assumes p: "in_round b j fd loglen len s0 U shut t rdy rds cp k n s" and k: "k < max_pollfd s" "n > 0" "pf_revents (pollfds s ! k) \<noteq> 0"
  shows "\<exists>s'. run_callback (pc_cb (pollcbs s ! k)) (pc_data (pollcbs s ! k)) k s = Ret () s' \<and>
    in_round b j fd loglen len s0 U shut t rdy rds cp (Suc k) (n - 1) s'"
proof -
  obtain rds' cp' where r: "running b j fd loglen len s0 U shut rds' cp' s" using p by (rule in_round_running)
  have t: "table_ok b s" and d: "daemon_slots b j fd loglen len s" and kp: "kept s0 s" and ms: "os_memstream s"
    using r by (simp_all add: running_def)
  have u: "unvisited b k s" "unvisited b (Suc k) s" using p unvisited_Suc by (auto simp: in_round_def)
  have served: "in_round b j fd loglen len s0 U shut t rdy rds cp (Suc k) (n - 1) s'" if s': "served b k s s'" and kj: "k \<noteq> j" for s'
  proof -
    have "card (pending j (Suc k) s') \<le> n - 1" if "card (pending j k s) \<le> n" "k \<le> j"
    proof -
      have "k \<in> pending j k s" using that(2) k(3) by (simp add: pending_def)
      then show ?thesis using that(1) card_Diff_singleton [of k "pending j k s"] running_served(3) [OF r s'] by (simp add: pending_Suc)
    qed
    moreover have "now s' = now s" "pollfds s' ! j = pollfds s ! j" "unvisited b (Suc k) s'"
      using running_served(2,4) [OF r s'] d s' by (auto simp: daemon_slots_def served_def)
    ultimately show ?thesis
      using p kj running_served(1) [OF _ s'] by (cases "k \<le> j") (auto simp: in_round_def mce_ready_def)
  qed
  show ?thesis
  proof (cases "k = j")
    case True
    have rdy: "mce_ready s j" "rdy" "rds' = rds" "cp' = cp" "now s = t" "run_setup len s0 U" "(word_of_int t :: u64) \<noteq> 0"
      using p r k(3) True by (auto simp: in_round_def running_def)
    have room: "dom (page_count s) \<union> pages_of_reads len (os_mce s) \<subseteq> U" using r by (auto simp: running_def all_counts_def)
    obtain s' where s': "process_mcefd k loglen len s = Ret () s'" "kept s0 s'" "now s' = now s"
        "mcelog_state.more s' = mcelog_state.more (s\<lparr>os_mce := tl (os_mce s)\<rparr>)"
        "all_counts s' = spec_read len (now s) s0 (os_mce s) (all_counts s)"
      using process_mcefd_step [OF kp _ _ _ _ _ _ room, of k loglen] rdy True by (auto simp: run_setup_def)
    note m = more_server [OF s'(4)]
    have tab: "table_ok b s'" "daemon_slots b j fd loglen len s'" "shut \<longrightarrow> silent s'" "unvisited b (Suc k) s'"
      using t d r u(2) by (simp_all add: table_ok_def daemon_slots_def running_def silent_def unvisited_def client_slot_def m)
    have "pages_of_reads len (tl rds) \<union> dom (snd (spec_read len t s0 rds cp)) \<subseteq> U"
      using r rdy pages_of_reads_tl [of len rds] spec_read_pages [of len t s0 rds cp] unfolding running_def by blast
    then have "in_round b j fd loglen len s0 U shut t rdy rds cp (Suc k) (n - 1) s'"
      using p tab s'(2,3,5) True rdy r m by (simp add: in_round_def running_def)
    then show ?thesis using s'(1) True d by (auto simp: daemon_slots_def)
  next
    case False
    show ?thesis
    proof (cases "k < b")
      case True
      then show ?thesis using False d served [OF client_accept_served [OF t u(2)]] by (auto simp: daemon_slots_def)
    next
      case fb: False
      then obtain c cc where c: "client_slot s k c cc" using table_slot [OF t _ k(1)] by auto
      have "tables_ok s" using kp by (simp add: kept_def)
      from client_event_served [OF this ms t _ k(1) u(1) c] fb obtain s' where "client_event k c s = Ret () s'" "served b k s s'" by auto
      then show ?thesis using c served [OF _ False] by (auto simp: client_slot_def)
    qed
  qed
qed

interpretation daemon: poll_rounds run_callback "in_round b j fd loglen len s0 U shut t rdy rds cp"
    "round_done b j fd loglen len s0 U shut t rdy rds cp" for b j fd loglen len s0 U shut t rdy rds cp
proof
  fix k n and s :: "'a server_state_scheme"
  assume p: "in_round b j fd loglen len s0 U shut t rdy rds cp k n s"
  then obtain rds' cp' where r: "running b j fd loglen len s0 U shut rds' cp' s" by (rule in_round_running)
  then show "max_pollfd s \<le> MAX_POLLFD" by (simp add: running_def table_ok_def)
  have j: "j < max_pollfd s" using r by (auto simp: running_def table_ok_def daemon_slots_def)
  show "round_done b j fd loglen len s0 U shut t rdy rds cp s" if "max_pollfd s \<le> k \<or> n = 0"
  proof (cases "k \<le> j")
    case True
    then have "pending j k s = {}" using p that j finite_pending [of j k s] by (auto simp: in_round_def)
    then have "\<not> rdy" using p True by (auto simp: in_round_def pending_def)
    then show ?thesis using p True by (simp add: in_round_def round_done_def)
  qed (use p in \<open>simp add: in_round_def round_done_def\<close>)
  show "in_round b j fd loglen len s0 U shut t rdy rds cp (Suc k) n s" if "k < max_pollfd s" "n > 0" "pf_revents (pollfds s ! k) = 0"
  proof -
    have "pending j (Suc k) s = pending j k s" using that(3) by (auto simp: pending_def Suc_le_eq le_less)
    then show ?thesis using p that(3) unvisited_Suc by (auto simp: in_round_def split: if_splits) (use le_less_Suc_eq in fastforce)+
  qed
qed (rule daemon_callback)


section \<open>The loop\<close>

lemma ppoll_slot:
  assumes "length (pollfds s) = MAX_POLLFD" "max_pollfd s \<le> MAX_POLLFD" "i < max_pollfd s"
  shows "pollfds (snd (ppoll ready s)) ! i =
    (pollfds s ! i)\<lparr>pf_revents := ready (pf_fd (pollfds s ! i)) AND (pf_events (pollfds s ! i) OR POLLERR OR POLLHUP OR POLLNVAL)\<rparr>"
  using assms by (simp add: ppoll_def nth_append)

lemma ppoll_rest:
  "pollcbs (snd (ppoll ready s)) = pollcbs s" "max_pollfd (snd (ppoll ready s)) = max_pollfd s" "conns (snd (ppoll ready s)) = conns s"
  "conn_next (snd (ppoll ready s)) = conn_next s" "os_mce (snd (ppoll ready s)) = os_mce s" "os_memstream (snd (ppoll ready s)) = os_memstream s"
  "silent (snd (ppoll ready s)) = silent s" "now (snd (ppoll ready s)) = now s" "hush s (snd (ppoll ready s))"
  "max_pollfd s \<le> length (pollfds s) \<Longrightarrow> length (pollfds (snd (ppoll ready s))) = length (pollfds s)"
  "server_state.more (snd (ppoll ready s)) = server_state.more s"
  by (simp_all add: ppoll_def silent_def Let_def) (rule hush_same, simp add: mcelog_state.defs)

lemma only_in: "(x AND (POLLOUT OR POLLERR OR POLLHUP OR POLLNVAL)) AND POLLIN = 0"
proof -
  have "(POLLOUT OR POLLERR OR POLLHUP OR POLLNVAL) AND POLLIN = 0"
    by (simp add: POLLIN_def POLLOUT_def POLLERR_def POLLHUP_def POLLNVAL_def)
  then show ?thesis by (simp add: and.assoc)
qed

lemma ppoll_table:
  assumes t: "table_ok b s"
  shows "table_ok b (snd (ppoll ready s))" "unvisited b 0 (snd (ppoll ready s))" "j < b \<Longrightarrow> card (pending j 0 (snd (ppoll ready s))) \<le> fst (ppoll ready s)"
proof -
  let ?s = "snd (ppoll ready s)"
  have len: "length (pollfds s) = MAX_POLLFD" "max_pollfd s \<le> MAX_POLLFD" "b \<le> max_pollfd s" using t by (simp_all add: table_ok_def)
  note slot = ppoll_slot [OF len(1,2)] and rest = ppoll_rest [where ready = ready and s = s]
  have c: "client_slot ?s i c cc = client_slot s i c cc" if "i < max_pollfd s" for i c cc
    using slot [OF that, of ready] by (simp add: client_slot_def rest)
  show "table_ok b ?s" using t c slot rest len by (auto simp: table_ok_def)
  show "unvisited b 0 ?s"
    unfolding unvisited_def
  proof (intro allI impI)
    fix i c' cc
    assume i: "b \<le> i \<and> 0 \<le> i \<and> i < max_pollfd ?s \<and> pf_revents (pollfds ?s ! i) AND POLLIN \<noteq> 0" "client_slot ?s i c' cc"
    then have "i < max_pollfd s" by (simp add: rest)
    then have "client_slot s i c' cc" "(ready (pf_fd (pollfds s ! i)) AND (pf_events (pollfds s ! i) OR POLLERR OR POLLHUP OR POLLNVAL)) AND POLLIN \<noteq> 0"
      using i c slot [of i ready] by simp_all
    then show "cc_outbuf cc = None" using only_in by (auto simp: client_slot_def asks_for_def split: if_splits)
  qed
  show "card (pending j 0 ?s) \<le> fst (ppoll ready s)" if "j < b"
  proof -
    let ?f = "\<lambda>f. f\<lparr>pf_revents := ready (pf_fd f) AND (pf_events f OR POLLERR OR POLLHUP OR POLLNVAL)\<rparr>"
    let ?l = "map ?f (take (max_pollfd s) (pollfds s))"
    have "pending j 0 ?s \<subseteq> {i. i < length ?l \<and> pf_revents (?l ! i) \<noteq> 0}"
      using that len slot by (auto simp: pending_def)
    then have "card (pending j 0 ?s) \<le> card {i. i < length ?l \<and> pf_revents (?l ! i) \<noteq> 0}" by (intro card_mono) auto
    then show ?thesis by (simp add: ppoll_def Let_def length_filter_conv_card)
  qed
qed

text \<open>The device reports input only: \<open>ppoll\<close> on the machine check device returns no error.\<close>

definition device_ok :: "int \<Rightarrow> (int \<Rightarrow> pollbits) \<Rightarrow> bool" where
  "device_ok fd ready \<longleftrightarrow> ready fd AND (POLLERR OR POLLHUP OR POLLNVAL) = 0"

fun wakeup_ok :: "int \<Rightarrow> wakeup \<Rightarrow> bool" where
  "wakeup_ok fd (Ready t ready) \<longleftrightarrow> (word_of_int t :: u64) \<noteq> 0 \<and> device_ok fd ready"
| "wakeup_ok fd (Interrupted t sig) \<longleftrightarrow> sig = SIGUSR1"
| "wakeup_ok fd (Poll_error t) \<longleftrightarrow> True"

text \<open>What the loop is to do: one read of the device for every wakeup on which it is ready.\<close>

fun spec_wake :: "int \<Rightarrow> nat \<Rightarrow> 'a intel_state_scheme \<Rightarrow> wakeup \<Rightarrow> mce_read list \<times> all_counters \<Rightarrow> mce_read list \<times> all_counters" where
  "spec_wake fd len s0 (Ready t ready) (rds, cp) =
     (if ready fd AND POLLIN \<noteq> 0 then (tl rds, spec_read len t s0 rds cp) else (rds, cp))"
| "spec_wake fd len s0 _ x = x"

lemma running_frame:
  assumes "running b j fd loglen len s0 U shut rds cp s" "kept s0 s'" "mcelog_state.more s' = mcelog_state.more s" "all_counts s' = all_counts s"
  shows "running b j fd loglen len s0 U shut rds cp s'"
  using assms by (simp add: running_def table_ok_def daemon_slots_def silent_def client_slot_def more_server [OF assms(3)])

lemma counts_now: "counts (s\<lparr>now := t\<rparr>) = counts s"
  by (rule ext) (simp add: counts_def md_at_def)

lemma running_now:
  assumes "running b j fd loglen len s0 U shut rds cp s"
  shows "running b j fd loglen len s0 U shut rds cp (s\<lparr>now := t\<rparr>)"
proof -
  have "kept s0 s" using assms by (simp add: running_def)
  from kept_now [OF this] show ?thesis by (rule running_frame [OF assms]) (simp_all add: all_counts_def counts_now page_ok_now)
qed

lemma running_calm:
  assumes "running b j fd loglen len s0 U shut rds cp s" "calm s s'"
  shows "running b j fd loglen len s0 U shut rds cp s'"
proof -
  have k: "kept s0 s" using assms(1) by (simp add: running_def)
  have h: "hush s s'" by (rule hush_calm [OF assms(2)])
  show ?thesis
    using hush_tables [OF h] k by (intro running_frame [OF assms(1) kept_hush [OF k h] calm_more [OF assms(2)]]) (simp add: all_counts_def kept_def)
qed

lemma ready_step:
  assumes r: "running b j fd loglen len s0 U shut rds cp s" and su: "run_setup len s0 U" and w: "wakeup_ok fd (Ready t ready)"
  shows "\<exists>s'. wake run_callback handler (Ready t ready) s = Ret () s' \<and>
    running b j fd loglen len s0 U shut (fst (spec_wake fd len s0 (Ready t ready) (rds, cp))) (snd (spec_wake fd len s0 (Ready t ready) (rds, cp))) s'"
proof -
  define s1 where "s1 = snd (ppoll ready (s\<lparr>now := t\<rparr>))"
  define n where "n = fst (ppoll ready (s\<lparr>now := t\<rparr>))"
  let ?s = "s\<lparr>now := t\<rparr>" and ?rdy = "ready fd AND POLLIN \<noteq> 0"
  have rn: "running b j fd loglen len s0 U shut rds cp ?s" by (rule running_now [OF r])
  then have t: "table_ok b ?s" and d: "daemon_slots b j fd loglen len ?s" and k: "kept s0 ?s" by (simp_all add: running_def)
  have len: "length (pollfds ?s) = MAX_POLLFD" "max_pollfd ?s \<le> MAX_POLLFD" "b \<le> max_pollfd ?s" using t by (simp_all add: table_ok_def)
  note rest = ppoll_rest [where ready = ready and s = ?s, folded s1_def]
  have slot: "pollfds s1 ! i = (pollfds s ! i)\<lparr>pf_revents := ready (pf_fd (pollfds s ! i)) AND (pf_events (pollfds s ! i) OR POLLERR OR POLLHUP OR POLLNVAL)\<rparr>"
    if "i < b" for i using ppoll_slot [OF len(1,2), of i ready] that len(3) by (simp add: s1_def)
  have j: "j < b" "pf_fd (pollfds s ! j) = fd" "pf_events (pollfds s ! j) = POLLIN" using d t by (auto simp: daemon_slots_def table_ok_def)
  have "daemon_slots b j fd loglen len s1" using d slot rest by (auto simp: daemon_slots_def)
  moreover have "kept s0 s1" by (rule kept_hush [OF k rest(9)])
  moreover have "all_counts s1 = cp" using hush_tables [OF rest(9)] k rn by (simp add: all_counts_def kept_def running_def)
  ultimately have r1: "running b j fd loglen len s0 U shut rds cp s1"
    using rn ppoll_table(1) [OF t, where ready = ready] rest by (simp add: running_def s1_def)
  have rev: "pf_revents (pollfds s1 ! j) = ready fd AND POLLIN"
    using slot [OF j(1)] j w by (simp add: device_ok_def bit.conj_disj_distrib)
  then have "in_round b j fd loglen len s0 U shut t ?rdy rds cp 0 n s1"
    using r1 su w ppoll_table(2) [OF t, where ready = ready] ppoll_table(3) [OF t j(1), where ready = ready] rest
    by (simp add: in_round_def mce_ready_def s1_def n_def)
  then obtain s' where s': "poll_callbacks run_callback n s1 = Ret () s'" "round_done b j fd loglen len s0 U shut t ?rdy rds cp s'"
    using daemon.poll_callbacks_round by blast
  have "\<not> ?rdy" if "n = 0"
  proof -
    have "pending j 0 s1 = {}" using ppoll_table(3) [OF t j(1), where ready = ready] that finite_pending [of j 0 s1] by (simp add: n_def s1_def)
    then show ?thesis using rev by (auto simp: pending_def)
  qed
  then show ?thesis using s' r1 by (auto simp: split_beta s1_def [symmetric] n_def [symmetric] round_done_def)
qed

lemma calm_reopenlog: "calm s (reopenlog s)"
proof -
  have fh: "calm s (s\<lparr>output_fh := x\<rparr>)" "calm s (s\<lparr>output_fh := x, output_fn := y\<rparr>)" for x y and s :: "'a mcelog_state_scheme"
    by (intro calm_pages keeps_db_same; simp add: same_conf_def same_pages_def same_env_def)+
  have e: "calm s (emit es s)" for es by (intro calm_msg frame)
  have "calm s (snd (open_logfile fn ((emit es s)\<lparr>output_fh := None\<rparr>)))" for fn es
    using calm_trans [OF e fh(1)] calm_trans [OF e fh(2)] by (simp add: open_logfile_def)
  then show ?thesis using calm_trans [OF _ calm_SYSERRprintf]
    by (auto simp: reopenlog_def calm_refl split_beta Let_def split: option.split intro!: calm_trans [OF _ calm_SYSERRprintf])
qed

lemma eventloop_step:
  assumes "running b j fd loglen len s0 U shut rds cp s" "run_setup len s0 U" "list_all (wakeup_ok fd) ws"
    and handler: "\<And>s. handler SIGUSR1 s = Ret () (reopenlog s)"
  shows "\<exists>s'. eventloop run_callback handler ws s = Ret () s' \<and>
    running b j fd loglen len s0 U shut (fst (fold (spec_wake fd len s0) ws (rds, cp))) (snd (fold (spec_wake fd len s0) ws (rds, cp))) s'"
  using assms(1,3)
proof (induction ws arbitrary: rds cp s)
  case (Cons w ws)
  have "\<exists>s1. wake run_callback handler w s = Ret () s1 \<and>
      running b j fd loglen len s0 U shut (fst (spec_wake fd len s0 w (rds, cp))) (snd (spec_wake fd len s0 w (rds, cp))) s1"
  proof (cases w)
    case (Ready t ready)
    then show ?thesis using ready_step [OF Cons.prems(1) assms(2)] Cons.prems(2) by simp
  next
    case (Interrupted t sig)
    then show ?thesis using Cons.prems(2) handler running_calm [OF running_now [OF Cons.prems(1)] calm_reopenlog] by auto
  next
    case (Poll_error t)
    then show ?thesis using Cons.prems(2) running_calm [OF running_now [OF Cons.prems(1)] calm_SYSERRprintf] by auto
  qed
  then obtain s1 where 1: "wake run_callback handler w s = Ret () s1"
    "running b j fd loglen len s0 U shut (fst (spec_wake fd len s0 w (rds, cp))) (snd (spec_wake fd len s0 w (rds, cp))) s1" by blast
  from Cons.IH [OF 1(2)] Cons.prems(2) show ?case using 1(1) by simp
qed simp

end
