(* ===== verification/Client.thy ===== *)
theory Client
  imports Server Ascii
begin

text \<open>
  The client, \<^verbatim>\<open>src/client.c\<close>: a command is sent to the daemon and the answer printed up to the line that ends it. The answers of the
  server are shown to end.
\<close>

section \<open>Operations\<close>

definition SOCKET_PATH :: string where "SOCKET_PATH = ''/var/run/mcelog-client''"

definition socket_path :: "'a config_state_scheme \<Rightarrow> string" where
  "socket_path s = (case config_string ''server'' ''socket-path'' s of None \<Rightarrow> SOCKET_PATH | Some p \<Rightarrow> p)"

lemma socket_path_cong: "hlist s' = hlist s \<Longrightarrow> socket_path s' = socket_path s"
  unfolding socket_path_def config_string_def by (erule ssubst) (rule refl)

text \<open>What the socket does: whether it can be made, connected, written completely and opened as a stream, the bytes that arrive on it,
  and whether the other side closes it then.\<close>

record answer =
  ans_socket :: bool
  ans_connect :: bool
  ans_written :: bool
  ans_fdopen :: bool
  ans_text :: string
  ans_eof :: bool

text \<open>How many bytes \<open>fgets(buf, 1024)\<close> takes: up to the end of the line, at most 1023.\<close>

definition fgets_len :: "string \<Rightarrow> nat" where
  "fgets_len t = (let l = strcspn t (CHR ''\<newline>'') in min 1023 (if l < length t then l + 1 else l))"

lemma fgets_len_le: "fgets_len t \<le> length t"
proof -
  have "strcspn t (CHR ''\<newline>'') \<le> length t" by (simp add: strcspn_def length_takeWhile_le)
  then show ?thesis by (auto simp: fgets_len_def Let_def min_def)
qed

definition ends_in :: "string \<Rightarrow> string \<Rightarrow> bool" where
  "ends_in e b \<longleftrightarrow> length b \<ge> length e \<and> drop (length b - length e) b = e"

text \<open>The loop ends with the mark of the server, at the end of the stream, or waits for more input.\<close>

datatype client_end = Finished | Ended | Waiting

function client_loop :: "bool \<Rightarrow> string \<Rightarrow> 'a world_scheme \<Rightarrow> client_end \<times> 'a world_scheme" where
  "client_loop eof t s =
     (let n = fgets_len t; buf = cstr (take n t)
      in if n = 0 then (if eof then Ended else Waiting, s)
         else if \<not> eof \<and> n < 1023 \<and> t ! (n - 1) \<noteq> CHR ''\<newline>'' then (Waiting, s)
         else if ends_in ''done\<newline>'' buf then (Finished, s)
         else let s = emit [EPrint Stdout buf] s;
                  s = (if ends_in ''pong\<newline>'' buf then emit [EFlush Stdout] s else s)
              in client_loop eof (drop n t) s)"
  by pat_completeness auto

termination
proof (relation "measure (\<lambda>(eof, t, s). length t)")
  fix eof t and s s' s'' :: "'a world_scheme" and n buf
  assume "n = fgets_len t" "\<not> n = 0"
  then show "((eof, drop n t, s''), eof, t, s) \<in> measure (\<lambda>(eof, t, s). length t)" using fgets_len_le [of t] by simp
qed simp

declare client_loop.simps [simp del]

text \<open>\<open>srv\<close> is what happens on a path, cut to the room in the address, after a command. The result is false while the client waits.\<close>

definition ask_server :: "string \<Rightarrow> (string \<Rightarrow> string \<Rightarrow> answer) \<Rightarrow> 'a config_state_scheme \<Rightarrow> bool \<times> 'a config_state_scheme" where
  "ask_server command srv s =
     (let a = srv (take (SUN_PATH - 1) (socket_path s)) command
      in if \<not> ans_socket a then (True, SYSERRprintf ''client socket'' [] s)
      else if \<not> ans_connect a then (True, SYSERRprintf ''client connect'' [] s)
      else if \<not> ans_written a then (True, SYSERRprintf ''client command write'' [] s)
      else if \<not> ans_fdopen a then (True, SYSERRprintf ''client read'' [] s)
      else case client_loop (ans_eof a) (ans_text a) s of
             (Finished, s) \<Rightarrow> (True, s)
           | (Ended, s) \<Rightarrow> (True, SYSERRprintf ''client read'' [] s)
           | (Waiting, s) \<Rightarrow> (False, s))"

definition client_cleanup :: "'a server_state_scheme \<Rightarrow> 'a server_state_scheme" where
  "client_cleanup s = s\<lparr>net := net s @ [Unlinked (socket_path s)]\<rparr>"

section \<open>Reading an answer\<close>

definition printed :: "event list \<Rightarrow> string" where
  "printed es = concat (map (\<lambda>e. case e of EPrint Stdout t \<Rightarrow> t | _ \<Rightarrow> []) es)"

lemma printed_simps [simp]:
  "printed [] = []" "printed (EPrint Stdout t # es) = t @ printed es" "printed (EFlush f # es) = printed es" "printed (es @ fs) = printed es @ printed fs"
  by (simp_all add: printed_def)

text \<open>A line that the client prints: it does not end as the mark does.\<close>

definition clean :: "char \<Rightarrow> bool" where
  "clean c \<longleftrightarrow> c \<noteq> CHR ''\<newline>'' \<and> c \<noteq> CHR 0x00"

definition plain_line :: "string \<Rightarrow> bool" where
  "plain_line l \<longleftrightarrow> list_all clean l \<and> \<not> ends_in ''done'' l"

lemma cstr_plain: "CHR 0x00 \<notin> set s \<Longrightarrow> cstr s = s"
  by (auto simp: cstr_def takeWhile_eq_all_conv)

lemma ends_in_line: "ends_in ''done\<newline>'' (l @ ''\<newline>'') \<longleftrightarrow> ends_in ''done'' l"
  by (auto simp: ends_in_def)

lemma ends_in_newline: "ends_in (e @ ''\<newline>'') b \<Longrightarrow> CHR ''\<newline>'' \<in> set b"
proof -
  assume "ends_in (e @ ''\<newline>'') b"
  then have "set (e @ ''\<newline>'') \<subseteq> set b" using set_drop_subset [of "length b - length (e @ ''\<newline>'')" b] by (simp only: ends_in_def)
  then show ?thesis by simp
qed

lemma ends_in_drop: "ends_in e (drop n l) \<Longrightarrow> ends_in e l"
proof (cases "e = []")
  case False
  assume e: "ends_in e (drop n l)"
  then have "length e \<le> length l - n" by (simp add: ends_in_def)
  moreover have "length e > 0" using False by simp
  ultimately have l: "length l - n - length e + n = length l - length e" "length e \<le> length l" by linarith+
  have "drop (length l - n - length e + n) l = e" using e by (simp only: ends_in_def drop_drop length_drop)
  then show ?thesis by (simp only: l ends_in_def simp_thms)
qed (simp add: ends_in_def)

lemma strcspn_line: "c \<notin> set l \<Longrightarrow> strcspn (l @ c # r) c = length l"
  by (induction l) (auto simp: strcspn_def)

lemma client_reads_line:
  assumes "plain_line l"
  shows "\<exists>es. client_loop eof (l @ CHR ''\<newline>'' # r) s = client_loop eof r (emit es s) \<and> printed es = l @ ''\<newline>''"
  using assms
proof (induction "length l" arbitrary: l s rule: less_induct)
  case less
  let ?t = "l @ CHR ''\<newline>'' # r"
  have nl: "CHR ''\<newline>'' \<notin> set l" "CHR 0x00 \<notin> set l" "\<not> ends_in ''done'' l" using less.prems by (auto simp: plain_line_def clean_def list_all_iff)
  have n: "fgets_len ?t = min 1023 (length l + 1)" using strcspn_line [OF nl(1)] by (simp add: fgets_len_def)
  show ?case
  proof (cases "length l < 1023")
    case True
    then have fg: "fgets_len ?t = Suc (length l)" by (simp add: n)
    define es where "es = EPrint Stdout (l @ ''\<newline>'') # (if ends_in ''pong\<newline>'' (l @ ''\<newline>'') then [EFlush Stdout] else [])"
    have "cstr (l @ ''\<newline>'') = l @ ''\<newline>''" using nl(2) by (intro cstr_plain) simp
    moreover have "\<not> ends_in ''done\<newline>'' (l @ ''\<newline>'')" using nl(3) ends_in_line by simp
    ultimately have "client_loop eof ?t s = client_loop eof r (emit es s)"
      by (subst client_loop.simps) (simp add: fg Let_def es_def)
    moreover have "printed es = l @ ''\<newline>''" by (simp add: es_def)
    ultimately show ?thesis by blast
  next
    case False
    let ?b = "take 1023 l"
    have t: "take (fgets_len ?t) ?t = ?b" "drop (fgets_len ?t) ?t = drop 1023 l @ CHR ''\<newline>'' # r" "fgets_len ?t = 1023"
      using False by (simp_all add: n)
    have b: "CHR ''\<newline>'' \<notin> set ?b" "CHR 0x00 \<notin> set ?b" using nl(1,2) by (auto dest: in_set_takeD)
    have e: "\<not> ends_in ''done\<newline>'' ?b" "\<not> ends_in ''pong\<newline>'' ?b"
      using ends_in_newline [of "''done''" ?b] ends_in_newline [of "''pong''" ?b] b(1) by auto
    have "plain_line (drop 1023 l)" using less.prems by (auto simp: plain_line_def list_all_iff dest: in_set_dropD ends_in_drop)
    moreover have "length (drop 1023 l) < length l" using False by simp
    ultimately obtain es where "client_loop eof (drop 1023 l @ CHR ''\<newline>'' # r) (emit [EPrint Stdout ?b] s) =
        client_loop eof r (emit es (emit [EPrint Stdout ?b] s))" "printed es = drop 1023 l @ ''\<newline>''"
      using less.hyps by blast
    moreover have "client_loop eof ?t s = client_loop eof (drop 1023 l @ CHR ''\<newline>'' # r) (emit [EPrint Stdout ?b] s)"
      using t e cstr_plain [OF b(2)] by (subst client_loop.simps) (simp add: Let_def)
    ultimately show ?thesis by (intro exI [of _ "EPrint Stdout ?b # es"]) (simp flip: append_assoc)
  qed
qed

definition unlines :: "string list \<Rightarrow> string" where
  "unlines ls = concat (map (\<lambda>l. l @ ''\<newline>'') ls)"

lemma client_reads:
  assumes "list_all plain_line ls"
  shows "\<exists>es. client_loop eof (unlines ls @ ''done\<newline>'') s = (Finished, emit es s) \<and> printed es = unlines ls"
  using assms
proof (induction ls arbitrary: s)
  case Nil
  have "client_loop eof ''done\<newline>'' s = (Finished, s)"
    by (subst client_loop.simps) (simp add: fgets_len_def strcspn_def cstr_def ends_in_def)
  then show ?case by (intro exI [of _ "[]"]) (simp add: unlines_def)
next
  case (Cons l ls)
  obtain es where 1: "client_loop eof (l @ CHR ''\<newline>'' # unlines ls @ ''done\<newline>'') s = client_loop eof (unlines ls @ ''done\<newline>'') (emit es s)"
      "printed es = l @ ''\<newline>''" using client_reads_line Cons.prems by fastforce
  obtain fs where 2: "client_loop eof (unlines ls @ ''done\<newline>'') (emit es s) = (Finished, emit fs (emit es s))" "printed fs = unlines ls"
    using Cons by fastforce
  from 1 2 show ?case by (intro exI [of _ "es @ fs"]) (simp add: unlines_def)
qed

section \<open>The report of the pages\<close>

lemma not_done: "\<not> ends_in ''done'' (x @ ''online'')" "\<not> ends_in ''done'' (x @ ''offline'')" "\<not> ends_in ''done'' (x @ ''offline-failed'')"
  "\<not> ends_in ''done'' (x @ ''online triggered'')" "\<not> ends_in ''done'' (x @ ''offline triggered'')"
  "\<not> ends_in ''done'' (x @ ''offline-failed triggered'')"
  by (simp_all add: ends_in_def)

definition page_line :: "mempage \<Rightarrow> bucket_conf \<Rightarrow> string" where
  "page_line p bc = radix 16 (unat (mp_addr p)) @ '': total '' @ radix 10 (unat (et_count (mp_ce p))) @ '' seen '' @
     CHR 0x22 # bucket_output bc (et_bucket (mp_ce p)) @ CHR 0x22 # '' '' @ page_state_name (mp_offlined p) @ (if mp_triggered p then '' triggered'' else [])"

lemma dump_page_line: "dump_page p bc = unlines [page_line p bc, []]"
  by (simp add: dump_page_def page_line_def unlines_def printf_def isdigit_def pad_def)

lemma clean_radix [simp]: "list_all clean (radix 16 n)" "list_all clean (radix 10 n)"
proof -
  have "clean c" if "isxdigit c" for c using that by (auto simp: clean_def isxdigit_def isdigit_def tolower_def isupper_def split: if_splits)
  then show "list_all clean (radix 16 n)" using radix16_digits [of n] by (auto simp: list_all_iff)
  have "clean c" if "isdigit c" for c using that by (auto simp: clean_def isdigit_def)
  then show "list_all clean (radix 10 n)" using radix10_digits [of n] by (auto simp: list_all_iff)
qed

lemma clean_cstr: "list_all (\<lambda>c. c \<noteq> CHR ''\<newline>'') t \<Longrightarrow> list_all clean (cstr t)"
  by (auto simp: list_all_iff clean_def cstr_def dest: set_takeWhileD)

lemma clean_bucket_output: "bc_tunit bc \<noteq> CHR ''\<newline>'' \<Longrightarrow> list_all clean (bucket_output bc b)"
proof -
  assume u: "bc_tunit bc \<noteq> CHR ''\<newline>''"
  have r: "list_all (\<lambda>c. c \<noteq> CHR ''\<newline>'') (radix 10 n)" for n using clean_radix(2) [of n] by (auto simp: list_all_iff clean_def)
  then have "list_all (\<lambda>c. c \<noteq> CHR ''\<newline>'') (printf ''%u in %u%c'' [PU x, PU y, PN (int (of_char (bc_tunit bc) :: nat))])" for x y :: u32
    using u by (simp add: printf_def isdigit_def pad_def)
  then show ?thesis using clean_cstr by (simp add: bucket_output_def) (simp add: clean_def)
qed

lemma page_line_plain: "bc_tunit bc \<noteq> CHR ''\<newline>'' \<Longrightarrow> plain_line (page_line p bc)"
proof -
  assume u: "bc_tunit bc \<noteq> CHR ''\<newline>''"
  define x where "x = radix 16 (unat (mp_addr p)) @ '': total '' @ radix 10 (unat (et_count (mp_ce p))) @ '' seen '' @
    CHR 0x22 # bucket_output bc (et_bucket (mp_ce p)) @ CHR 0x22 # '' ''"
  have "list_all clean x" using clean_bucket_output [OF u] by (simp add: x_def clean_def)
  moreover have "page_line p bc = (if mp_triggered p then (x @ page_state_name (mp_offlined p)) @ '' triggered'' else x @ page_state_name (mp_offlined p))"
    by (simp add: page_line_def x_def)
  ultimately show ?thesis using not_done by (simp add: plain_line_def page_state_name_def clean_def split: page_status.split)
qed

lemma pages_lines:
  assumes "page_ok s" "bc_tunit (page_trigger_conf s) \<noteq> CHR ''\<newline>''"
  shows "\<exists>ls. dump_page_errors s = Some (unlines ls) \<and> list_all plain_line ls"
proof -
  let ?bc = "page_trigger_conf s"
  obtain xs where "dump_page_errors s = Some ((if xs = [] then [] else ''Per page corrected memory statistics:\<newline>'') @
      concat (map (\<lambda>p. dump_page (mp_at s p) ?bc) xs))" using page_report_list [OF assms(1)] by blast
  moreover define ls where "ls = (if xs = [] then [] else [''Per page corrected memory statistics:'']) @
      concat (map (\<lambda>p. [page_line (mp_at s p) ?bc, []]) xs)"
  moreover have "unlines (concat (map (\<lambda>p. [page_line (mp_at s p) ?bc, []]) xs)) = concat (map (\<lambda>p. dump_page (mp_at s p) ?bc) xs)"
    by (induction xs) (simp_all add: dump_page_line, simp_all add: unlines_def)
  moreover have "list_all plain_line ls"
    using page_line_plain [OF assms(2)] by (auto simp: ls_def list_all_iff plain_line_def ends_in_def clean_def)
  ultimately show ?thesis by (intro exI [of _ ls]) (simp add: unlines_def)
qed

text \<open>A connection on which the text arrives.\<close>

definition received :: "string \<Rightarrow> bool \<Rightarrow> answer" where
  "received t eof = \<lparr>ans_socket = True, ans_connect = True, ans_written = True, ans_fdopen = True, ans_text = t, ans_eof = eof\<rparr>"

lemma pages_dispatched: "dump_page_errors s = Some t \<Longrightarrow> dispatch_commands (Some ''pages\<newline>'') s = Ret (t @ ''done\<newline>'') s"
  by (simp add: dispatch_commands_def dispatch_command_def dispatch_pages_def cstr_def isspace_def strneq_def skipspace_def Let_def)

text \<open>
  C39: The daemon's answer to the question for the pages always ends for the client. Whatever has been counted, the server answers
  the command with a text from which the client prints exactly the report and then returns, without waiting for more and without an
  error message.
\<close>

theorem pages_answer_ends:
  assumes "page_ok s" "bc_tunit (page_trigger_conf s) \<noteq> CHR ''\<newline>''"
  shows "\<exists>report es. dump_page_errors s = Some report \<and> dispatch_commands (Some ''pages\<newline>'') s = Ret (report @ ''done\<newline>'') s \<and>
    ask_server ''pages\<newline>'' (\<lambda>_ _. received (report @ ''done\<newline>'') eof) c = (True, emit es c) \<and> printed es = report"
proof -
  obtain ls where ls: "dump_page_errors s = Some (unlines ls)" "list_all plain_line ls" using pages_lines [OF assms] by blast
  obtain es where "client_loop eof (unlines ls @ ''done\<newline>'') c = (Finished, emit es c)" "printed es = unlines ls"
    using client_reads [OF ls(2)] by blast
  with ls(1) show ?thesis by (auto simp: ask_server_def received_def pages_dispatched)
qed

theorem pages_answer_ends_witness:
  "\<exists>es. ask_server ''pages\<newline>'' (\<lambda>_ _. received ''done\<newline>'' False) example_config = (True, emit es example_config) \<and> printed es = []"
proof -
  have "dump_page_errors (no_pages ()) = Some []"
    using page_report_list [OF no_pages_ok [of "()"]] by (auto simp: no_pages_count)
  moreover have "bc_tunit (page_trigger_conf (no_pages ())) \<noteq> CHR ''\<newline>''" by (simp add: no_pages_defs no_conf_def)
  ultimately show ?thesis using pages_answer_ends [OF no_pages_ok [of "()"], of False example_config] by simp
qed

text \<open>The answer to a ping has no such mark: after it the client waits for the daemon to close the connection.\<close>

lemma ping_waits:
  "dispatch_commands (Some ''ping\<newline>'') s = Ret ''pong\<newline>'' s"
  "ask_server ''ping\<newline>'' (\<lambda>_ _. received ''pong\<newline>'' False) c = (False, emit [EPrint Stdout ''pong\<newline>'', EFlush Stdout] c)"
proof -
  show "dispatch_commands (Some ''ping\<newline>'') s = Ret ''pong\<newline>'' s"
    by (simp add: dispatch_commands_def dispatch_command_def cstr_def isspace_def strneq_def skipspace_def Let_def)
  have "client_loop False ''pong\<newline>'' c = client_loop False [] (emit [EPrint Stdout ''pong\<newline>'', EFlush Stdout] c)"
    by (subst client_loop.simps) (simp add: fgets_len_def strcspn_def cstr_def ends_in_def)
  also have "\<dots> = (Waiting, emit [EPrint Stdout ''pong\<newline>'', EFlush Stdout] c)"
    by (subst client_loop.simps) (simp add: fgets_len_def strcspn_def)
  finally show "ask_server ''ping\<newline>'' (\<lambda>_ _. received ''pong\<newline>'' False) c = (False, emit [EPrint Stdout ''pong\<newline>'', EFlush Stdout] c)"
    by (simp add: ask_server_def received_def)
qed

end
