(* ===== verification/Msr.thy ===== *)
theory Msr
  imports Server Sysfs
begin

text \<open>
  Model-specific registers, \<^verbatim>\<open>src/msr.c\<close>: the daemon asks the memory controllers of some processors to report the location of an error.
\<close>

section \<open>Operations\<close>

text \<open>How \<open>open\<close> of the device of a processor ends.\<close>

datatype msr_open = Msr_opened | Msr_noent | Msr_failed

record msr_state = server_state +
  msr_regs :: "int \<Rightarrow> nat \<Rightarrow> u64"             \<comment> \<open>by processor and number\<close>
  os_ncpus :: int                              \<comment> \<open>the configured processors\<close>
  os_msr_open :: "int \<Rightarrow> msr_open"
  os_msr_read :: "int \<Rightarrow> bool"                \<comment> \<open>the first pread succeeds\<close>
  os_msr_write :: "int \<Rightarrow> bool"
  os_msr_reread :: "int \<Rightarrow> bool"
  os_msr_hold :: "int \<Rightarrow> u64 \<Rightarrow> u64"         \<comment> \<open>what a register holds after a write\<close>

definition domsr :: "int \<Rightarrow> nat \<Rightarrow> u64 \<Rightarrow> 'a msr_state_scheme \<Rightarrow> 'a msr_state_scheme" where
  "domsr cpu msr b s =
     (let fpath = printf ''/dev/cpu/%d/msr'' [PN cpu]
      in case os_msr_open s cpu of
           Msr_noent \<Rightarrow> SYSERRprintf ''Warning: cpu %d offline?, imc_log not set'' [PN cpu] s
         | Msr_failed \<Rightarrow> SYSERRprintf ''Cannot open %s to set imc_log'' [PS fpath] s
         | Msr_opened \<Rightarrow>
             if \<not> os_msr_read s cpu then SYSERRprintf ''Cannot read MSR_ERROR_CONTROL from %s'' [PS fpath] s
             else
               let data = msr_regs s cpu msr OR b
               in if \<not> os_msr_write s cpu then SYSERRprintf ''Cannot write MSR_ERROR_CONTROL to %s'' [PS fpath] s
                  else
                    let s = s\<lparr>msr_regs := (msr_regs s)(cpu := (msr_regs s cpu)(msr := os_msr_hold s cpu data))\<rparr>
                    in if \<not> os_msr_reread s cpu then SYSERRprintf ''Cannot re-read MSR_ERROR_CONTROL from %s'' [PS fpath] s
                       else if msr_regs s cpu msr AND b = 0
                       then Lprintf ''No DIMM detection available on cpu %d (normal in virtual environments)\<newline>'' [PN cpu] s
                       else s)"

definition in_lockdown :: "'a config_state_scheme \<Rightarrow> bool \<times> 'a config_state_scheme" where
  "in_lockdown s =
     (if \<not> os_access s ''/sys/kernel/security/lockdown'' then (False, s)
      else let (lockdown, s) = read_field ''/sys/kernel/security'' ''lockdown'' s
           in (lockdown \<noteq> [] \<and> strstr lockdown ''[none]'' = None, s))"

definition imc_cputypes :: "cputype set" where
  "imc_cputypes = {CPU_SANDY_BRIDGE_EP, CPU_IVY_BRIDGE_EPEX, CPU_HASWELL_EPEX}"

definition MSR_ERROR_CONTROL :: nat where "MSR_ERROR_CONTROL = 0x17f"

definition set_imc_log :: "cputype \<Rightarrow> 'a msr_state_scheme \<Rightarrow> 'a msr_state_scheme" where
  "set_imc_log cpu s =
     (if cpu \<notin> imc_cputypes then s
      else let (locked, s) = in_lockdown s
           in if locked then Lprintf ''Kernel in lockdown. Cannot enable DIMM error location reporting'' [] s
              else fold (\<lambda>c. domsr c MSR_ERROR_CONTROL 0x2) [0..os_ncpus s - 1] s)"

section \<open>Only the enable bit is set\<close>

text \<open>Messages leave the registers and the answers of the system alone.\<close>

definition msr_part :: "'a msr_state_scheme \<Rightarrow> _" where
  "msr_part s = (os_ncpus s, os_msr_open s, os_msr_read s, os_msr_write s, os_msr_reread s, os_msr_hold s)"

lemma msg_msr:
  assumes "msg_step s s'"
  shows "msr_regs s' = msr_regs s" "msr_part s' = msr_part s"
  by (rule msg_frame [OF assms], simp add: msr_part_def)+

text \<open>What \<open>domsr\<close> does to a register when all calls on its device succeed.\<close>

definition msr_works :: "'a msr_state_scheme \<Rightarrow> int \<Rightarrow> bool" where
  "msr_works s c \<longleftrightarrow> os_msr_open s c = Msr_opened \<and> os_msr_read s c \<and> os_msr_write s c"

lemma domsr_regs:
  "msr_regs (domsr c r b s) = (if msr_works s c then (msr_regs s)(c := (msr_regs s c)(r := os_msr_hold s c (msr_regs s c r OR b))) else msr_regs s)"
  "msr_part (domsr c r b s) = msr_part s"
proof -
  have m: "msr_regs (SYSERRprintf f g t) = msr_regs t" "msr_regs (Lprintf f g t) = msr_regs t"
      "msr_part (SYSERRprintf f g t) = msr_part t" "msr_part (Lprintf f g t) = msr_part t" for f g and t :: "'a msr_state_scheme"
    by (intro msg_msr frame)+
  show "msr_regs (domsr c r b s) = (if msr_works s c then (msr_regs s)(c := (msr_regs s c)(r := os_msr_hold s c (msr_regs s c r OR b))) else msr_regs s)"
    by (auto simp: domsr_def msr_works_def m Let_def split: msr_open.split)
  show "msr_part (domsr c r b s) = msr_part s"
    by (auto simp: domsr_def m Let_def split: msr_open.split) (simp_all add: msr_part_def)
qed

lemma domsr_fold:
  assumes "distinct cs"
  shows "msr_regs (fold (\<lambda>c. domsr c r b) cs s) c n =
    (if c \<in> set cs \<and> n = r \<and> msr_works s c then os_msr_hold s c (msr_regs s c r OR b) else msr_regs s c n)"
  using assms
proof (induction cs arbitrary: s)
  case (Cons d cs)
  have "os_msr_hold (domsr d r b s) = os_msr_hold s" "msr_works (domsr d r b s) = msr_works s"
    using domsr_regs(2) [of d r b s] by (auto simp: msr_part_def msr_works_def)
  then show ?case using Cons by (auto simp: domsr_regs(1))
qed simp


text \<open>
  C40: Extended logging of memory errors is switched on, and nothing else. On the processors that have it, unless the kernel is locked down, the register that controls
  the reporting of errors gets its old value with the enable bit, on every processor whose device can be opened, read and written;
  every other register of every processor keeps its value.
\<close>

theorem imc_log_enabled:
  "msr_regs (set_imc_log cpu s) c n =
    (if cpu \<in> imc_cputypes \<and> \<not> fst (in_lockdown s) \<and> c \<in> {0..<os_ncpus s} \<and> n = MSR_ERROR_CONTROL \<and> msr_works s c
     then os_msr_hold s c (msr_regs s c n OR 0x2) else msr_regs s c n)"
proof -
  have m: "msr_regs (SYSERRprintf f g t) = msr_regs t" "msr_regs (Lprintf f g t) = msr_regs t" "msr_part (SYSERRprintf f g t) = msr_part t"
    for f g and t :: "'a msr_state_scheme" by (intro msg_msr frame)+
  have l: "msr_regs (snd (in_lockdown s)) = msr_regs s" "msr_part (snd (in_lockdown s)) = msr_part s"
    by (auto simp: in_lockdown_def read_field_def m split: option.split)
  then have w: "msr_works (snd (in_lockdown s)) = msr_works s" "os_msr_hold (snd (in_lockdown s)) = os_msr_hold s" "os_ncpus (snd (in_lockdown s)) = os_ncpus s"
    by (auto simp: msr_part_def msr_works_def)
  have "c \<in> set [0..os_ncpus s - 1] \<longleftrightarrow> c \<in> {0..<os_ncpus s}" by auto
  then show ?thesis by (auto simp: set_imc_log_def split_beta m l w domsr_fold)
qed

end
