(* ===== verification/Main_Program.thy ===== *)
theory Main_Program
  imports Client Msr Rounds
begin

text \<open>
  The main program, \<^verbatim>\<open>src/mcelog.c\<close>, last part: the options of the command line and of the configuration file, the commands, the setup of the
  daemon and its signal handlers, and \<open>main\<close>.
\<close>

section \<open>State\<close>

text \<open>Calls that change the credentials of the process.\<close>

datatype cred_call = Setgid u32 | Setuid u32

record main_state = msr_state +
  logfn :: string
  ignore_nodev :: bool
  daemon_mode :: bool
  inputfile :: "string option"
  foreground :: bool
  runcred :: config_cred_t
  pidfile :: "string option"
  pidfile_own :: bool                        \<comment> \<open>\<open>pidfile\<close> is not \<open>pidfile_default\<close>\<close>
  logfile :: "string option"
  check_only :: bool
  binary_file :: bool
  exit_handler :: bool                       \<comment> \<open>\<open>remove_pidfile\<close> runs at exit\<close>
  cred_calls :: "cred_call list"
  mcelog_version :: string                   \<comment> \<open>generated by the build\<close>
  os_getcwd :: "string option"
  os_getpid :: u32
  os_getpwuid :: "u32 \<Rightarrow> u32 option"       \<comment> \<open>the group of a user\<close>
  os_setcred :: "cred_call \<Rightarrow> bool"
  os_stdin :: string
  os_open :: "string \<Rightarrow> int"
  os_filesize :: nat
  os_record_len :: "nat option"              \<comment> \<open>\<open>MCE_GET_RECORD_LEN\<close>\<close>
  os_log_len :: "nat option"                 \<comment> \<open>\<open>MCE_GET_LOG_LEN\<close>\<close>
  os_daemon :: bool
  os_server :: "string \<Rightarrow> string \<Rightarrow> answer" \<comment> \<open>the daemon that a client talks to\<close>

section \<open>The pid file\<close>

definition PID_FILE :: string where "PID_FILE = ''/var/run/mcelog.pid''"
definition LOG_FILE :: string where "LOG_FILE = ''/var/log/mcelog''"
definition CONFIG_FILENAME :: string where "CONFIG_FILENAME = ''/etc/mcelog/mcelog.conf''"
definition LOG_DEV_FILENAME :: string where "LOG_DEV_FILENAME = ''/dev/mcelog''"

definition remove_pidfile :: "'a main_state_scheme \<Rightarrow> 'a main_state_scheme" where
  "remove_pidfile s =
     (let s = (case pidfile s of None \<Rightarrow> s | Some p \<Rightarrow> s\<lparr>net := net s @ [Unlinked p]\<rparr>)
      in if pidfile_own s then s\<lparr>pidfile := None\<rparr> else s)"

text \<open>\<open>_exit\<close> runs no exit handlers.\<close>

definition signal_exit :: "'a main_state_scheme \<Rightarrow> ('a main_state_scheme, unit) outcome" where
  "signal_exit s = Exit 0 ((client_cleanup (remove_pidfile s))\<lparr>exit_handler := False\<rparr>)"

definition setup_pidfile :: "string \<Rightarrow> 'a main_state_scheme \<Rightarrow> 'a main_state_scheme" where
  "setup_pidfile f s =
     (if take 1 f \<noteq> ''/''
      then (case os_getcwd s of
              None \<Rightarrow> s
            | Some cwd \<Rightarrow> s\<lparr>pidfile := Some (printf ''%s/%s'' [PS cwd, PS f]), pidfile_own := True\<rparr>)
      else s\<lparr>pidfile := Some f, pidfile_own := True\<rparr>)"

text \<open>The file is overwritten: what it holds is the text printed after its last opening.\<close>

definition write_pidfile :: "string \<Rightarrow> 'a main_state_scheme \<Rightarrow> 'a main_state_scheme" where
  "write_pidfile f s =
     (let s = s\<lparr>exit_handler := True\<rparr>
      in if \<not> os_fopen s f then Eprintf (''Cannot open pidfile `%s'' @ [CHR 0x27]) [PS f] s
         else emit [EPrint (Logfile f) (printf ''%u'' [PU (os_getpid s)]), EClose (Logfile f)] s)"

section \<open>Options\<close>

definition usage_text :: string where
  "usage_text = concat
     [''Usage:\<newline>'',
      ''\<newline>'',
      ''  mcelog [options]  [mcelogdevice]\<newline>'',
      ''Decode machine check error records from current kernel.\<newline>'',
      ''\<newline>'',
      ''  mcelog [options] --daemon\<newline>'',
      ''Run mcelog in daemon mode, waiting for errors from the kernel.\<newline>'',
      ''\<newline>'',
      ''  mcelog [options] --client\<newline>'',
      ''Query a currently running mcelog daemon for errors\<newline>'',
      ''\<newline>'',
      ''  mcelog [options] --ascii < log\<newline>'',
      ''  mcelog [options] --ascii --file log\<newline>'',
      ''Decode machine check ASCII output from kernel logs\<newline>'',
      ''\<newline>'',
      ''Options:\<newline>'',
      ''--version           Show the version of mcelog and exit\<newline>'',
      ''--cpu CPU           Set CPU type CPU to decode (see below for valid types)\<newline>'',
      ''--intel-cpu         FAMILY,MODEL  Set CPU type for an Intel CPU based on family and model from cpuid\<newline>'',
      ''--k8                Set the CPU to be an AMD K8\<newline>'',
      ''--p4                Set the CPU to be an Intel Pentium4\<newline>'',
      ''--core2             Set the CPU to be an Intel Core2\<newline>'',
      ''--generic           Set the CPU to a generic version\<newline>'',
      ''--cpumhz MHZ        Set CPU Mhz to decode time (output unreliable, not needed on new kernels)\<newline>'',
      ''--raw               (with --ascii) Dump in raw ASCII format for machine processing\<newline>'',
      ''--daemon            Run in background waiting for events (needs newer kernel)\<newline>'',
      ''--client            Query a currently running mcelog daemon for errors\<newline>'',
      ''--ping              Send ping command to the currently running mcelog daemon\<newline>'',
      ''--ignorenodev       Exit silently when the device cannot be opened\<newline>'',
      ''--file filename     With --ascii read machine check log from filename instead of stdin\<newline>'',
      ''--logfile filename  Log decoded machine checks in file filename\<newline>'',
      ''--syslog            Log decoded machine checks in syslog (default stdout or syslog for daemon)\<newline>'',
      ''--syslog-error      Log decoded machine checks in syslog with error level\<newline>'',
      ''--no-syslog         Never log anything to syslog\<newline>'',
      ''--logfile filename  Append log output to logfile instead of stdout\<newline>'',
      ''--dmi               Use SMBIOS information to decode DIMMs (needs root)\<newline>'',
      ''--no-dmi            Don'' @ [CHR 0x27] @ ''t use SMBIOS information\<newline>'',
      ''--dmi-verbose       Dump SMBIOS information (for debugging)\<newline>'',
      ''--filter            Inhibit known bogus events (default on)\<newline>'',
      ''--no-filter         Don'' @ [CHR 0x27] @ ''t inhibit known broken events\<newline>'',
      ''--config-file       filename Read config information from config file instead of /etc/mcelog/mcelog.conf\<newline>'',
      ''--foreground        Keep in foreground (for debugging)\<newline>'',
      ''--num-errors N      Only process N errors (for testing)\<newline>'',
      ''--pidfile file      Write pid of daemon into file\<newline>'',
      ''--no-imc-log        Disable extended iMC logging\<newline>'',
      ''--is-cpu-supported  Exit with return code indicating whether the CPU is supported\<newline>'',
      ''--max-corr-err-counters Max page correctable error counters\<newline>'',
      ''--binary            Input is binary (e.g. from pstore)\<newline>'',
      ''--help              Display this message.\<newline>'']"

definition usage :: "'a msg_state_scheme \<Rightarrow> 'a msg_state_scheme" where
  "usage s = print_cputypes (emit [EPrint Stderr usage_text, EPrint Stdout ''\<newline>''] s)"

definition O_COMMON :: int where "O_COMMON = 500"
definition O_LOGFILE :: int where "O_LOGFILE = O_COMMON"
definition O_K8 :: int where "O_K8 = O_COMMON + 1"
definition O_P4 :: int where "O_P4 = O_COMMON + 2"
definition O_GENERIC :: int where "O_GENERIC = O_COMMON + 3"
definition O_CORE2 :: int where "O_CORE2 = O_COMMON + 4"
definition O_INTEL_CPU :: int where "O_INTEL_CPU = O_COMMON + 5"
definition O_FILTER :: int where "O_FILTER = O_COMMON + 6"
definition O_DMI :: int where "O_DMI = O_COMMON + 7"
definition O_NO_DMI :: int where "O_NO_DMI = O_COMMON + 8"
definition O_DMI_VERBOSE :: int where "O_DMI_VERBOSE = O_COMMON + 9"
definition O_SYSLOG :: int where "O_SYSLOG = O_COMMON + 10"
definition O_NO_SYSLOG :: int where "O_NO_SYSLOG = O_COMMON + 11"
definition O_CPUMHZ :: int where "O_CPUMHZ = O_COMMON + 12"
definition O_SYSLOG_ERROR :: int where "O_SYSLOG_ERROR = O_COMMON + 13"
definition O_RAW :: int where "O_RAW = O_COMMON + 14"
definition O_DAEMON :: int where "O_DAEMON = O_COMMON + 15"
definition O_ASCII :: int where "O_ASCII = O_COMMON + 16"
definition O_CLIENT :: int where "O_CLIENT = O_COMMON + 17"
definition O_PING :: int where "O_PING = O_COMMON + 18"
definition O_VERSION :: int where "O_VERSION = O_COMMON + 19"
definition O_CONFIG_FILE :: int where "O_CONFIG_FILE = O_COMMON + 20"
definition O_CPU :: int where "O_CPU = O_COMMON + 21"
definition O_FILE :: int where "O_FILE = O_COMMON + 22"
definition O_FOREGROUND :: int where "O_FOREGROUND = O_COMMON + 23"
definition O_NUMERRORS :: int where "O_NUMERRORS = O_COMMON + 24"
definition O_PIDFILE :: int where "O_PIDFILE = O_COMMON + 25"
definition O_DEBUG_NUMERRORS :: int where "O_DEBUG_NUMERRORS = O_COMMON + 26"
definition O_NO_IMC_LOG :: int where "O_NO_IMC_LOG = O_COMMON + 27"
definition O_IS_CPU_SUPPORTED :: int where "O_IS_CPU_SUPPORTED = O_COMMON + 28"
definition O_MAX_CORR_ERR_COUNTERS :: int where "O_MAX_CORR_ERR_COUNTERS = O_COMMON + 29"
definition O_HELP :: int where "O_HELP = O_COMMON + 30"
definition O_BINARY :: int where "O_BINARY = O_COMMON + 31"

lemmas option_codes = O_COMMON_def O_LOGFILE_def O_K8_def O_P4_def O_GENERIC_def O_CORE2_def O_INTEL_CPU_def O_FILTER_def O_DMI_def O_NO_DMI_def O_DMI_VERBOSE_def O_SYSLOG_def O_NO_SYSLOG_def O_CPUMHZ_def O_SYSLOG_ERROR_def O_RAW_def O_DAEMON_def O_ASCII_def O_CLIENT_def O_PING_def O_VERSION_def O_CONFIG_FILE_def O_CPU_def O_FILE_def O_FOREGROUND_def O_NUMERRORS_def O_PIDFILE_def O_DEBUG_NUMERRORS_def O_NO_IMC_LOG_def O_IS_CPU_SUPPORTED_def O_MAX_CORR_ERR_COUNTERS_def O_HELP_def O_BINARY_def

definition long_option :: "string \<Rightarrow> bool \<Rightarrow> string option \<Rightarrow> int \<Rightarrow> option_t" where
  "long_option name arg flag v = \<lparr>opt_name = name, has_arg = arg, opt_flag = flag, opt_val = v\<rparr>"

definition options :: "option_t list" where
  "options =
     [long_option ''logfile'' True None O_LOGFILE,
      long_option ''k8'' False None O_K8,
      long_option ''p4'' False None O_P4,
      long_option ''generic'' False None O_GENERIC,
      long_option ''core2'' False None O_CORE2,
      long_option ''intel-cpu'' True None O_INTEL_CPU,
      long_option ''ignorenodev'' False (Some ''ignore_nodev'') 1,
      long_option ''filter'' False (Some ''filter_bogus'') 1,
      long_option ''no-filter'' False (Some ''filter_bogus'') 0,
      long_option ''dmi'' False None O_DMI,
      long_option ''no-dmi'' False None O_NO_DMI,
      long_option ''dmi-verbose'' True None O_DMI_VERBOSE,
      long_option ''syslog'' False None O_SYSLOG,
      long_option ''cpumhz'' True None O_CPUMHZ,
      long_option ''syslog-error'' False None O_SYSLOG_ERROR,
      long_option ''dump-raw-ascii'' False (Some ''dump_raw_ascii'') 1,
      long_option ''raw'' False (Some ''dump_raw_ascii'') 1,
      long_option ''no-syslog'' False None O_NO_SYSLOG,
      long_option ''daemon'' False None O_DAEMON,
      long_option ''ascii'' False None O_ASCII,
      long_option ''file'' True None O_FILE,
      long_option ''version'' False None O_VERSION,
      long_option ''config-file'' True None O_CONFIG_FILE,
      long_option ''cpu'' True None O_CPU,
      long_option ''foreground'' False None O_FOREGROUND,
      long_option ''client'' False None O_CLIENT,
      long_option ''ping'' False None O_PING,
      long_option ''num-errors'' True None O_NUMERRORS,
      long_option ''pidfile'' True None O_PIDFILE,
      long_option ''debug-numerrors'' False None O_DEBUG_NUMERRORS,
      long_option ''no-imc-log'' False None O_NO_IMC_LOG,
      long_option ''max-corr-err-counters'' True None O_MAX_CORR_ERR_COUNTERS,
      long_option ''help'' False None O_HELP,
      long_option ''binary'' False None O_BINARY,
      long_option ''is-cpu-supported'' False None O_IS_CPU_SUPPORTED]"

text \<open>\<open>getopt_long\<close> of the C library without short options. Arguments that are no options are passed over and end up behind all
  options. A name may be shortened as long as what it can stand for is the same. The messages of the library are left out.\<close>

datatype getopt_result = Opt_end | Opt_error | Opt_flag string int | Opt int "string option"

definition is_option :: "string \<Rightarrow> bool" where
  "is_option a \<longleftrightarrow> take 1 a = ''-'' \<and> a \<noteq> ''-''"

definition find_option :: "string \<Rightarrow> option_t list \<Rightarrow> option_t option" where
  "find_option name opts =
     (case find (\<lambda>p. opt_name p = name) opts of
        Some p \<Rightarrow> Some p
      | None \<Rightarrow>
          (case filter (\<lambda>p. take (length name) (opt_name p) = name) opts of
             [] \<Rightarrow> None
           | p # ps \<Rightarrow> if list_all (\<lambda>q. has_arg q = has_arg p \<and> opt_flag q = opt_flag p \<and> opt_val q = opt_val p) ps then Some p else None))"

definition found_option :: "option_t \<Rightarrow> string option \<Rightarrow> getopt_result" where
  "found_option p arg = (case opt_flag p of Some f \<Rightarrow> Opt_flag f (opt_val p) | None \<Rightarrow> Opt (opt_val p) arg)"

definition getopt_long :: "option_t list \<Rightarrow> string list \<Rightarrow> string list \<Rightarrow> getopt_result \<times> string list \<times> string list" where
  "getopt_long opts passed av =
     (let passed = passed @ takeWhile (\<lambda>a. \<not> is_option a) av
      in case dropWhile (\<lambda>a. \<not> is_option a) av of
           [] \<Rightarrow> (Opt_end, passed, [])
         | a # av \<Rightarrow>
             if a = ''--'' then (Opt_end, passed, av)
             else if take 2 a \<noteq> ''--'' then (Opt_error, passed, av)
             else
               let name = takeWhile (\<lambda>c. c \<noteq> CHR ''='') (drop 2 a);
                   val = (case dropWhile (\<lambda>c. c \<noteq> CHR ''='') (drop 2 a) of [] \<Rightarrow> None | _ # v \<Rightarrow> Some v)
               in case find_option name opts of
                    None \<Rightarrow> (Opt_error, passed, av)
                  | Some p \<Rightarrow>
                      if \<not> has_arg p
                      then if val \<noteq> None then (Opt_error, passed, av) else (found_option p None, passed, av)
                      else (case (val, av) of
                              (Some v, _) \<Rightarrow> (found_option p (Some v), passed, av)
                            | (None, v # av) \<Rightarrow> (found_option p (Some v), passed, av)
                            | (None, []) \<Rightarrow> (Opt_error, passed, av)))"

definition setflag :: "string \<Rightarrow> int \<Rightarrow> 'a main_state_scheme \<Rightarrow> 'a main_state_scheme" where
  "setflag f v s =
     (if f = ''ignore_nodev'' then s\<lparr>ignore_nodev := v \<noteq> 0\<rparr>
      else if f = ''filter_bogus'' then s\<lparr>filter_bogus := v \<noteq> 0\<rparr>
      else if f = ''dump_raw_ascii'' then s\<lparr>dump_raw_ascii := v \<noteq> 0\<rparr>
      else s)"

definition atoi :: "string \<Rightarrow> int" where
  "atoi t = (case sscanf t ''%d'' of (_, [v]) \<Rightarrow> sval_int v | _ \<Rightarrow> 0)"

definition set_cpu :: "cputype \<Rightarrow> 'a mcelog_state_scheme \<Rightarrow> 'a mcelog_state_scheme" where
  "set_cpu c s = s\<lparr>cpu_type := c, cpu_forced := True\<rparr>"

definition bad_usage :: "'a msg_state_scheme \<Rightarrow> ('a msg_state_scheme, 'r) outcome" where
  "bad_usage s = Exit 1 (usage s)"

text \<open>\<open>optarg\<close> is there for every option that takes an argument. \<open>openlog\<close> changes nothing that the model has.\<close>

definition modifier :: "int \<Rightarrow> string option \<Rightarrow> 'a main_state_scheme \<Rightarrow> ('a main_state_scheme, int) outcome" where
  "modifier opt optarg s =
     (let arg = (case optarg of None \<Rightarrow> [] | Some a \<Rightarrow> a)
      in if opt = O_LOGFILE then Ret 1 (s\<lparr>logfile := Some arg\<rparr>)
         else if opt = O_K8 then Ret 1 (set_cpu CPU_K8 s)
         else if opt = O_P4 then Ret 1 (set_cpu CPU_P4 s)
         else if opt = O_GENERIC then Ret 1 (set_cpu CPU_GENERIC s)
         else if opt = O_CORE2 then Ret 1 (set_cpu CPU_CORE2 s)
         else if opt = O_INTEL_CPU
         then (case sscanf arg ''%i,%i'' of
                 (_, [fam, model]) \<Rightarrow>
                   let (c, s) = select_intel_cputype (sval_int fam) (sval_int model) s; s = s\<lparr>cpu_type := c\<rparr>
                   in if c = CPU_GENERIC then bad_usage (emit [EPrint Stderr ''Unknown Intel CPU\<newline>''] s)
                      else Ret 1 (s\<lparr>cpu_forced := True\<rparr>)
               | _ \<Rightarrow> bad_usage s)
         else if opt = O_CPU
         then andthen (lookup_cputype arg s) (\<lambda>c s. Ret 1 (intel_cpu_init c (set_cpu c s)))
         else if opt = O_DMI then Ret 1 (s\<lparr>do_dmi := True, dmi_forced := True\<rparr>)
         else if opt = O_NO_DMI then Ret 1 (s\<lparr>dmi_forced := True, do_dmi := False\<rparr>)
         else if opt = O_DMI_VERBOSE then (case sscanf arg ''%i'' of (_, [v]) \<Rightarrow> Ret 1 s | _ \<Rightarrow> bad_usage s)
         else if opt = O_SYSLOG then Ret 1 (s\<lparr>syslog_opt := SYSLOG_ALL OR SYSLOG_FORCE\<rparr>)
         else if opt = O_NO_SYSLOG then Ret 1 (s\<lparr>syslog_opt := SYSLOG_FORCE\<rparr>)
         else if opt = O_CPUMHZ
         then let s = s\<lparr>cpumhz_forced := True\<rparr>
              in (case sscanf arg ''%lf'' of (_, [SF x]) \<Rightarrow> Ret 1 (s\<lparr>cpumhz := rnds x\<rparr>) | _ \<Rightarrow> bad_usage s)
         else if opt = O_SYSLOG_ERROR then Ret 1 (s\<lparr>syslog_level := LOG_ERR, syslog_opt := SYSLOG_ALL OR SYSLOG_FORCE\<rparr>)
         else if opt = O_DAEMON
         then let s = s\<lparr>daemon_mode := True\<rparr>
              in Ret 1 (if opt_set SYSLOG_FORCE s then s else s\<lparr>syslog_opt := SYSLOG_REMARK OR SYSLOG_ERROR\<rparr>)
         else if opt = O_FILE then Ret 1 (s\<lparr>inputfile := Some arg\<rparr>)
         else if opt = O_FOREGROUND
         then let s = s\<lparr>foreground := True\<rparr>
              in Ret 1 (if opt_set SYSLOG_FORCE s then s else s\<lparr>syslog_opt := SYSLOG_FORCE\<rparr>)
         else if opt = O_NUMERRORS then Ret 1 (s\<lparr>numerrors := atoi arg\<rparr>)
         else if opt = O_PIDFILE then Ret 1 (setup_pidfile arg s)
         else if opt = O_CONFIG_FILE then Ret 1 s
         else if opt = O_DEBUG_NUMERRORS then Ret 1 (s\<lparr>debug_numerrors := True\<rparr>)
         else if opt = O_NO_IMC_LOG then Ret 1 (s\<lparr>imc_log := 0\<rparr>)
         else if opt = O_MAX_CORR_ERR_COUNTERS then Ret 1 (s\<lparr>max_corr_err_counters := atoi arg\<rparr>)
         else if opt = O_IS_CPU_SUPPORTED then Ret 1 (s\<lparr>check_only := True\<rparr>)
         else if opt = O_HELP then Exit 0 (usage s)
         else if opt = O_BINARY then Ret 1 (s\<lparr>binary_file := True\<rparr>)
         else if opt = 0 then Ret 1 s
         else Ret 0 s)"

definition modifier_finish :: "'a main_state_scheme \<Rightarrow> ('a main_state_scheme, unit) outcome" where
  "modifier_finish s =
     (let s = (if \<not> foreground s \<and> daemon_mode s \<and> logfile s = None \<and> \<not> opt_set SYSLOG_LOG s
               then s\<lparr>logfile := Some LOG_FILE\<rparr> else s)
      in case logfile s of
           None \<Rightarrow> Ret () s
         | Some f \<Rightarrow>
             let (r, s) = open_logfile f s
             in if r \<ge> 0 then Ret () s
                else
                  let s = (if daemon_mode s \<and> \<not> opt_set SYSLOG_FORCE s then s\<lparr>syslog_opt := SYSLOG_ALL\<rparr> else s);
                      s = SYSERRprintf ''Cannot open logfile %s'' [PS f] s
                  in if \<not> daemon_mode s then Exit 1 s else Ret () s)"

text \<open>An option takes at least its own argument off the command line.\<close>

lemma getopt_shorter:
  assumes "getopt_long opts passed av = (r, passed', av')" "r \<noteq> Opt_end"
  shows "length av' < length av"
proof (cases "dropWhile (\<lambda>a. \<not> is_option a) av")
  case Nil
  show ?thesis using assms unfolding getopt_long_def Let_def Nil by simp
next
  case (Cons a as)
  have "length (dropWhile (\<lambda>a. \<not> is_option a) av) \<le> length av" by (rule length_dropWhile_le)
  then have l: "length as < length av" by (simp add: Cons)
  have "av' = as \<or> (\<exists>v. as = v # av')"
    using assms(1) unfolding getopt_long_def Let_def Cons list.case
    by (auto split: if_split_asm option.split_asm list.split_asm)
  then show ?thesis using l by auto
qed

lemma getopt_decreases:
  "x = getopt_long opts passed av \<Longrightarrow> (r, y) = x \<Longrightarrow> (passed', av') = y \<Longrightarrow> r \<noteq> Opt_end \<Longrightarrow> length av' < length av"
  using getopt_shorter [of opts passed av r passed' av'] by simp

text \<open>The options that follow a command: only modifiers. The arguments behind them are ignored.\<close>

function argsleft :: "string list \<Rightarrow> string list \<Rightarrow> 'a main_state_scheme \<Rightarrow> ('a main_state_scheme, unit) outcome" where
  "argsleft passed av s =
     (case getopt_long options passed av of
        (Opt_end, passed, av) \<Rightarrow> Ret () s
      | (Opt_error, passed, av) \<Rightarrow> bad_usage s
      | (Opt_flag f v, passed, av) \<Rightarrow> argsleft passed av (setflag f v s)
      | (Opt opt optarg, passed, av) \<Rightarrow>
          andthen (modifier opt optarg s) (\<lambda>r s. if r \<noteq> 1 then bad_usage s else argsleft passed av s))"
  by pat_completeness auto

termination
  by (relation "measure (\<lambda>(passed, av, s). length av)") (simp_all add: getopt_decreases)

declare argsleft.simps [simp del]

definition no_syslog :: "'a msg_state_scheme \<Rightarrow> 'a msg_state_scheme" where
  "no_syslog s = (if opt_set SYSLOG_FORCE s then s else s\<lparr>syslog_opt := 0\<rparr>)"


section \<open>Setup\<close>

text \<open>The numbers of the signals.\<close>

definition SIGUSR1_NO :: int where "SIGUSR1_NO = 10"
definition SIGCHLD_NO :: int where "SIGCHLD_NO = 17"

text \<open>\<open>trigger_setup\<close> first installs its handler of \<open>SIGCHLD\<close>.\<close>

definition general_setup :: "'a main_state_scheme \<Rightarrow> ('a main_state_scheme, unit) outcome" where
  "general_setup s =
     andthen (trigger_setup (snd (event_signal SIGCHLD_NO s))) (\<lambda>_ s.
     andthen (yellow_setup s) (\<lambda>_ s.
     andthen (bus_setup s) (\<lambda>_ s.
     andthen (unknown_setup s) (\<lambda>_ s.
     let (c, s) = config_cred ''global'' ''run-credentials'' (runcred s) s; s = s\<lparr>runcred := c\<rparr>
     in andthen (config_bool ''global'' ''filter-memory-errors'' s) (\<lambda>b s.
        Ret () (if b = 1 then s\<lparr>filter_memory_errors := True\<rparr> else s))))))"

definition change_cred :: "cred_call \<Rightarrow> string \<Rightarrow> u32 \<Rightarrow> 'a main_state_scheme \<Rightarrow> 'a main_state_scheme" where
  "change_cred c text n s =
     (let s = s\<lparr>cred_calls := cred_calls s @ [c]\<rparr> in if os_setcred s c then s else SYSERRprintf text [PN (sint n)] s)"

definition drop_cred :: "'a main_state_scheme \<Rightarrow> 'a main_state_scheme" where
  "drop_cred s =
     (let s = (if cred_uid (runcred s) \<noteq> - 1 \<and> cred_gid (runcred s) = - 1
               then (case os_getpwuid s (cred_uid (runcred s)) of
                       None \<Rightarrow> s
                     | Some g \<Rightarrow> s\<lparr>runcred := (runcred s)\<lparr>cred_gid := g\<rparr>\<rparr>)
               else s);
          s = (if cred_gid (runcred s) \<noteq> - 1
               then change_cred (Setgid (cred_gid (runcred s))) ''Cannot change group to %d'' (cred_gid (runcred s)) s else s)
      in if cred_uid (runcred s) \<noteq> - 1
         then change_cred (Setuid (cred_uid (runcred s))) ''Cannot change user to %d'' (cred_uid (runcred s)) s else s)"

definition parse_config :: "string list \<Rightarrow> 'a main_state_scheme \<Rightarrow> ('a main_state_scheme, unit) outcome" where
  "parse_config av s =
     (let (fn, s) = config_file usage av s
      in andthen (parse_config_file (case fn of None \<Rightarrow> CONFIG_FILENAME | Some f \<Rightarrow> f) s) (\<lambda>r s.
         if r < 0
         then (case fn of
                 None \<Rightarrow> Ret () s
               | Some f \<Rightarrow> Exit 1 (emit [EPrint Stderr (printf ''Cannot open config file %s\<newline>'' [PS f])] s))
         else andthen (config_options options modifier setflag None s) (\<lambda>_ s. Ret () s)))"

section \<open>Commands\<close>

text \<open>\<open>junk\<close>: what an uninitialised variable of \<open>decodefatal\<close> holds.\<close>

definition ascii_command :: "u32 \<Rightarrow> string list \<Rightarrow> string list \<Rightarrow> 'a main_state_scheme \<Rightarrow> ('a main_state_scheme, unit) outcome" where
  "ascii_command junk passed av s =
     andthen (argsleft passed av s) (\<lambda>_ s.
     case (case inputfile s of None \<Rightarrow> Some (os_stdin s) | Some f \<Rightarrow> os_read s f) of
       None \<Rightarrow> Exit 1 (emit [EPrint Stderr (printf (''Cannot open input file `%s'' @ CHR 0x27 # '': %s\<newline>'')
                [PS (case inputfile s of None \<Rightarrow> [] | Some f \<Rightarrow> f), PS (errno_msg s)])] s)
     | Some text \<Rightarrow> andthen (checkdmi (no_syslog s)) (\<lambda>_ s. decodefatal junk (getlines text) s))"

text \<open>The result is false while the client waits for the daemon.\<close>

definition client_command :: "string list \<Rightarrow> string list \<Rightarrow> 'a main_state_scheme \<Rightarrow> ('a main_state_scheme, bool) outcome" where
  "client_command passed av s =
     andthen (argsleft passed av s) (\<lambda>_ s.
     let (ok, s) = ask_server ''dump all bios\<newline>'' (os_server s) (no_syslog s)
     in if \<not> ok then Ret False s
        else let (ok, s) = ask_server ''pages\<newline>'' (os_server s) s in Ret ok s)"

definition ping_command :: "string list \<Rightarrow> string list \<Rightarrow> 'a main_state_scheme \<Rightarrow> ('a main_state_scheme, bool) outcome" where
  "ping_command passed av s =
     andthen (argsleft passed av s) (\<lambda>_ s. let (ok, s) = ask_server ''ping\<newline>'' (os_server s) (no_syslog s) in Ret ok s)"

definition noargs :: "string list \<Rightarrow> string list \<Rightarrow> 'a main_state_scheme \<Rightarrow> ('a main_state_scheme, unit) outcome" where
  "noargs passed av s =
     (case getopt_long options passed av of
        (Opt_end, _) \<Rightarrow> Ret () s
      | (Opt_flag f v, _) \<Rightarrow> bad_usage (setflag f v s)
      | _ \<Rightarrow> bad_usage s)"

section \<open>The daemon\<close>

definition handle_sigusr1 :: "'a msg_state_scheme \<Rightarrow> ('a msg_state_scheme, unit) outcome" where
  "handle_sigusr1 s = Ret () (reopenlog s)"

text \<open>The handlers that are installed when the event loop runs. \<open>SIGTERM\<close> stands for \<open>SIGINT\<close> and \<open>SIGQUIT\<close> too.\<close>

fun signal_handler :: "signal \<Rightarrow> 'a main_state_scheme \<Rightarrow> ('a main_state_scheme, unit) outcome" where
  "signal_handler (SIGCHLD child) s = child_handler child s"
| "signal_handler SIGUSR1 s = handle_sigusr1 s"
| "signal_handler SIGTERM s = signal_exit s"

text \<open>The strings of the memory devices that \<open>prefill_memdb\<close> reads, the device locator only for a bank locator that is
  understood. \<open>None\<close>: a read outside of the tables, or no device locator.\<close>

definition prefill_device :: "bytes \<Rightarrow> nat \<Rightarrow> dmi_dev option" where
  "prefill_device bs d = do {
     b \<leftarrow> md8 bs d ''bank_locator'';
     bl \<leftarrow> dmi_getstring bs d (unat b);
     if \<not> fst (parse_dimm_addr bl (0, 0, 0)) then Some (bl, [])
     else do {
       l \<leftarrow> md8 bs d ''device_locator'';
       dl \<leftarrow> dmi_getstring bs d (unat l);
       map_option (Pair bl) dl } }"

fun prefill_devices :: "bytes \<Rightarrow> nat list \<Rightarrow> dmi_dev list option" where
  "prefill_devices bs [] = Some []"
| "prefill_devices bs (d # ds) = Option.bind (prefill_device bs d) (\<lambda>x. map_option (Cons x) (prefill_devices bs ds))"

text \<open>With \<open>do_dmi\<close> the tables have been opened by \<open>checkdmi\<close>, so that \<open>opendmi\<close> just returns.\<close>

definition prefill :: "dimm_vars \<Rightarrow> 'a main_state_scheme \<Rightarrow> ('a main_state_scheme, unit) outcome" where
  "prefill junk s =
     (if \<not> do_dmi s then prefill_memdb False junk s
      else andthen (opendmi s) (\<lambda>r s.
        if r < 0 then prefill_memdb True junk (s\<lparr>os_dmi := None\<rparr>)
        else case prefill_devices (the (dmi_entries s)) (dmi_dimms s) of
               None \<Rightarrow> Abort s
             | Some ds \<Rightarrow> prefill_memdb True junk (s\<lparr>os_dmi := Some ds\<rparr>)))"

definition perror :: "string \<Rightarrow> 'a world_scheme \<Rightarrow> 'a world_scheme" where
  "perror t s = emit [EPrint Stderr (printf ''%s: %s\<newline>'' [PS t, PS (errno_msg s)])] s"

text \<open>Everything before the loop, in the process that goes on after \<open>daemon\<close>.\<close>

definition daemon_setup :: "dimm_vars \<Rightarrow> int \<Rightarrow> nat \<Rightarrow> nat \<Rightarrow> 'a main_state_scheme \<Rightarrow> ('a main_state_scheme, unit) outcome" where
  "daemon_setup junk fd recordlen loglen s =
     andthen (prefill junk s) (\<lambda>_ s.
     andthen (server_setup (if do_dmi s then s else closedmi s)) (\<lambda>_ s.
     andthen (page_setup s) (\<lambda>_ s.
     let s = (if imc_log s \<noteq> 0 then set_imc_log (cpu_type s) s else s);
         s = snd (register_pollcb fd POLLIN Process_mcefd (Mcefd_data loglen recordlen) (drop_cred s))
     in if \<not> foreground s \<and> \<not> os_daemon s then Exit 1 (perror ''daemon'' s)
        else let s = (case pidfile s of None \<Rightarrow> s | Some f \<Rightarrow> write_pidfile f s)
             in Ret () (snd (event_signal SIGUSR1_NO s)))))"

section \<open>Main\<close>

text \<open>How the loop over the options ends: with the arguments that are left, or with a client that waits for the daemon.\<close>

datatype command = Run "string list" | Wait

function main_options :: "u32 \<Rightarrow> string list \<Rightarrow> string list \<Rightarrow> 'a main_state_scheme \<Rightarrow> ('a main_state_scheme, command) outcome" where
  "main_options junk passed av s =
     (case getopt_long options passed av of
        (Opt_end, passed, av) \<Rightarrow> Ret (Run (passed @ av)) s
      | (Opt_error, passed, av) \<Rightarrow> bad_usage s
      | (Opt_flag f v, passed, av) \<Rightarrow> main_options junk passed av (setflag f v s)
      | (Opt opt optarg, passed, av) \<Rightarrow>
          andthen (modifier opt optarg s) (\<lambda>r s.
            if r > 0 then main_options junk passed av s
            else if opt = O_ASCII then andthen (ascii_command junk passed av s) (\<lambda>_ s. Exit 0 s)
            else if opt = O_CLIENT then andthen (client_command passed av s) (\<lambda>ok s. if ok then Exit 0 s else Ret Wait s)
            else if opt = O_PING then andthen (ping_command passed av s) (\<lambda>ok s. if ok then Exit 0 s else Ret Wait s)
            else if opt = O_VERSION
            then andthen (noargs passed av s) (\<lambda>_ s.
                   Exit 0 (emit [EPrint Stderr (printf ''mcelog %s\<newline>'' [PS (mcelog_version s)])] s))
            else main_options junk passed av s))"
  by pat_completeness auto

termination
  by (relation "measure (\<lambda>(junk, passed, av, s). length av)") (simp_all add: getopt_decreases)

declare main_options.simps [simp del]

definition check_cpu :: "'a main_state_scheme \<Rightarrow> ('a main_state_scheme, unit) outcome" where
  "check_cpu s =
     (let (ok, s) = (if cpu_forced s then (True, s) else is_cpu_supported s)
      in if \<not> ok then Exit 1 (if check_only s then s else emit [EPrint Stderr ''CPU is unsupported\<newline>''] s)
         else if check_only s then Exit 0 s
         else Ret () (if imc_log s = - 1 then s\<lparr>imc_log := (if cpu_type s \<in> imc_cputypes then 1 else 0)\<rparr> else s))"

definition open_device :: "'a main_state_scheme \<Rightarrow> ('a main_state_scheme, int \<times> nat \<times> nat) outcome" where
  "open_device s =
     (let fd = os_open s (logfn s)
      in if fd < 0
         then if ignore_nodev s then Exit 0 s
              else Exit 1 (SYSERRprintf ''Is your kernel built with CONFIG_X86_MCELOG_LEGACY=y?'' []
                     (SYSERRprintf (''Cannot open `%s'' @ [CHR 0x27]) [PS (logfn s)] s))
         else if binary_file s then Ret (fd, os_filesize s, 1) s
         else case (os_record_len s, os_log_len s) of
                (None, _) \<Rightarrow> Exit 1 (perror ''MCE_GET_RECORD_LEN'' s)
              | (Some _, None) \<Rightarrow> Exit 1 (perror ''MCE_GET_LOG_LEN'' s)
              | (Some rl, Some ll) \<Rightarrow> Ret (fd, rl, ll) s)"

definition process_once :: "nat \<Rightarrow> nat \<Rightarrow> 'a server_state_scheme \<Rightarrow> ('a server_state_scheme, unit) outcome" where
  "process_once recordlen loglen s =
     (case os_mce s of
        [] \<Rightarrow> process None None recordlen loglen s
      | (rd, fl) # rs \<Rightarrow> process rd fl recordlen loglen (s\<lparr>os_mce := rs\<rparr>))"

definition main_run :: "dimm_vars \<Rightarrow> string list \<Rightarrow> wakeup list \<Rightarrow> 'a main_state_scheme \<Rightarrow> ('a main_state_scheme, unit) outcome" where
  "main_run dvars args ws s =
     andthen (check_cpu s) (\<lambda>_ s.
     andthen (modifier_finish s) (\<lambda>_ s.
     if length args > 1 then bad_usage (s\<lparr>logfn := hd args\<rparr>)
     else
       let s = (case args of [] \<Rightarrow> s | f # _ \<Rightarrow> s\<lparr>logfn := f\<rparr>)
       in andthen (checkdmi s) (\<lambda>_ s.
          andthen (general_setup s) (\<lambda>_ s.
          andthen (open_device s) (\<lambda>(fd, recordlen, loglen) s.
          if daemon_mode s
          then andthen (daemon_setup dvars fd recordlen loglen s) (\<lambda>_ s. eventloop run_callback signal_handler ws s)
          else andthen (process_once recordlen loglen s) (\<lambda>_ s.
               andthen (trigger_wait s) (\<lambda>_ s. Exit 0 s)))))))"

definition at_exit :: "('a main_state_scheme, unit) outcome \<Rightarrow> ('a main_state_scheme, unit) outcome" where
  "at_exit r = (case r of Exit c s \<Rightarrow> Exit c (if exit_handler s then remove_pidfile s else s) | _ \<Rightarrow> r)"

text \<open>\<open>Ret\<close> is a process that still runs after the wakeups \<open>ws\<close>, or waits.\<close>

definition main :: "u32 \<Rightarrow> dimm_vars \<Rightarrow> string list \<Rightarrow> wakeup list \<Rightarrow> 'a main_state_scheme \<Rightarrow> ('a main_state_scheme, unit) outcome" where
  "main junk dvars av ws s =
     at_exit (andthen (parse_config av s) (\<lambda>_ s.
              andthen (main_options junk [] (tl av) s) (\<lambda>r s.
              case r of Wait \<Rightarrow> Ret () s | Run args \<Rightarrow> main_run dvars args ws s)))"

end
