(* ===== verification/Startup.thy ===== *)
theory Startup
  imports Main_Program
begin

text \<open>
  From the command line to the event loop: a daemon that is started without a configuration file reaches its loop with the table of
  descriptors and the settings that \<open>Rounds\<close> starts from.
\<close>

section \<open>What the setup leaves alone\<close>

text \<open>Everything that the loop depends on and that messages and log files do not touch.\<close>

definition core :: "'a main_state_scheme \<Rightarrow> _" where
  "core s =
     ((hlist s, md_dimms s, md_numdimms s, memdb_enabled s, sockdb_enabled s, memory_error_support s, prefill_initialized s),
      (mp_at s, mempage_root s, corr_err_counters s, max_corr_err_counters s, mp_cluster s, mp_used s, mp_clusters s,
       cluster_lru_list s, os_mmap s, offline s),
      (cpu_type s, cpu_forced s, imc_log s, filter_memory_errors s, filter_bogus s, numerrors s, cpumhz_forced s,
       debug_numerrors s, now s),
      (dmi_forced s, do_dmi s, dmi_checked s, dmi_entries s, os_devmem s, os_access s),
      (pollfds s, pollcbs s, max_pollfd s, os_cloexec s, conns s, conn_next s, client_path s, net s, acc s, os_recv s, os_memstream s, os_mce s,
       os_socket s, os_bind s, os_listen s),
      (logfn s, daemon_mode s, foreground s, runcred s, pidfile s, binary_file s, os_open s, os_record_len s, os_log_len s, os_daemon s))"

lemma core_msg: "msg_step s s' \<Longrightarrow> core s' = core s"
  by (rule msg_frame) (simp_all add: core_def)

lemma core_prints:
  "core (emit es s) = core s" "core (Eprintf f a s) = core s" "core (SYSERRprintf f a s) = core s" "core (Lprintf f a s) = core s"
  by (intro core_msg frame)+

lemma core_log [simp]:
  "core (s\<lparr>syslog_opt := a\<rparr>) = core s" "core (s\<lparr>output_fh := b\<rparr>) = core s" "core (s\<lparr>output_fn := c\<rparr>) = core s"
  "core (s\<lparr>logfile := d\<rparr>) = core s" "core (s\<lparr>sigmask := g\<rparr>) = core s" "core (s\<lparr>event_sigs := h\<rparr>) = core s"
  "core (s\<lparr>event_first := i\<rparr>) = core s" "core (s\<lparr>exit_handler := j\<rparr>) = core s" "core (s\<lparr>dimms := k\<rparr>) = core s" "core (s\<lparr>sockets := l\<rparr>) = core s"
  "core (s\<lparr>yellow_trigger := m\<rparr>) = core s" "core (s\<lparr>bus_trigger := m\<rparr>) = core s" "core (s\<lparr>iomca_trigger := m\<rparr>) = core s"
  "core (s\<lparr>unknown_trigger := m\<rparr>) = core s" "core (s\<lparr>page_trigger_conf := n\<rparr>) = core s" "core (s\<lparr>mp_replacement_trigger_conf := n\<rparr>) = core s"
  "core (s\<lparr>page_error_pre_soft_trigger := m\<rparr>) = core s" "core (s\<lparr>page_error_post_soft_trigger := m\<rparr>) = core s"
  "core (s\<lparr>mr_bucket := p\<rparr>) = core s" "core (s\<lparr>msr_regs := q\<rparr>) = core s"
  by (simp_all add: core_def)

lemma core_cong:
  "core t = core s \<Longrightarrow> core (t\<lparr>do_dmi := b\<rparr>) = core (s\<lparr>do_dmi := b\<rparr>)"
  "core t = core s \<Longrightarrow> core (t\<lparr>offline := f\<rparr>) = core (s\<lparr>offline := f\<rparr>)"
  "core t = core s \<Longrightarrow> core (t\<lparr>imc_log := i\<rparr>) = core (s\<lparr>imc_log := i\<rparr>)"
  by (simp_all add: core_def)

lemma core_signal: "core (snd (event_signal n s)) = core s"
  by (simp add: event_signal_def Let_def)

lemma core_domsr: "core (domsr c r b s) = core s"
  by (auto simp: domsr_def core_prints Let_def split: msr_open.split)

lemma core_set_imc_log: "core (set_imc_log c s) = core s"
proof -
  have f: "core (fold (\<lambda>c. domsr c r b) cs t) = core t" for r b cs and t :: "'a main_state_scheme"
    by (induction cs arbitrary: t) (simp_all add: core_domsr)
  have "core (snd (in_lockdown s)) = core s"
    by (auto simp: in_lockdown_def read_field_def core_prints split: option.split)
  then show ?thesis by (auto simp: set_imc_log_def f core_prints split_beta Let_def)
qed

section \<open>Without a configuration file\<close>

lemma config_empty:
  assumes "hlist s = []"
  shows "config_string h n s = None" "config_number h n f s = Ret None s" "config_choice h n c s = Ret (- 1) s" "config_bool h n s = Ret (- 1) s"
    "config_trigger h n bc s = Ret (bc\<lparr>bc_log := 0\<rparr>) s" "config_cred h n cr s = (cr, s)"
proof -
  show "config_string h n s = None" for h n using assms by (simp add: config_string_def)
  then show "config_number h n f s = Ret None s" "config_choice h n c s = Ret (- 1) s" "config_bool h n s = Ret (- 1) s"
    "config_trigger h n bc s = Ret (bc\<lparr>bc_log := 0\<rparr>) s" "config_cred h n cr s = (cr, s)"
    by (simp_all add: config_number_def config_choice_def config_bool_def config_trigger_def config_cred_def Let_def)
qed

lemma core_hlist: "core s' = core s \<Longrightarrow> hlist s' = hlist s"
  by (simp add: core_def)

lemma modifier_finish_step:
  assumes "daemon_mode s"
  shows "\<exists>s'. modifier_finish s = Ret () s' \<and> core s' = core s"
proof -
  define s1 where "s1 = (if \<not> foreground s \<and> daemon_mode s \<and> logfile s = None \<and> \<not> opt_set SYSLOG_LOG s then s\<lparr>logfile := Some LOG_FILE\<rparr> else s)"
  have c: "core s1 = core s" and d: "daemon_mode s1" using assms by (simp_all add: s1_def)
  have "core (snd (open_logfile f t)) = core t" "daemon_mode (snd (open_logfile f t)) = daemon_mode t" for f and t :: "'a main_state_scheme"
    by (simp_all add: open_logfile_def)
  moreover have "daemon_mode (SYSERRprintf f a t) = daemon_mode t" for f a and t :: "'a main_state_scheme"
    using core_prints(3) [of f a t] by (simp add: core_def)
  ultimately show ?thesis using c d
    by (auto simp: modifier_finish_def s1_def [symmetric] split_beta Let_def core_prints split: option.split)
qed

lemma general_setup_step:
  assumes "hlist s = []"
  shows "\<exists>s'. general_setup s = Ret () s' \<and> core s' = core s"
proof -
  let ?s = "snd (event_signal SIGCHLD_NO s)"
  have h: "hlist ?s = []" using core_hlist [OF core_signal] assms by metis
  show ?thesis
    using h by (simp add: general_setup_def trigger_setup_def yellow_setup_def bus_setup_def unknown_setup_def check_trigger_def
        config_empty Let_def core_signal)
qed

text \<open>No SMBIOS tables: the system has neither the files in sysfs nor \<open>/dev/mem\<close>.\<close>

definition no_dmi :: "'a dmi_state_scheme \<Rightarrow> bool" where
  "no_dmi s \<longleftrightarrow> \<not> dmi_forced s \<and> \<not> dmi_checked s \<and> dmi_entries s = None \<and> \<not> os_access s ''/sys/firmware/dmi/entries/0-0/raw'' \<and> \<not> os_devmem s"

lemma checkdmi_step:
  assumes "no_dmi s"
  shows "\<exists>s'. checkdmi s = Ret () s' \<and> core s' = core (s\<lparr>dmi_checked := True, do_dmi := False\<rparr>)"
proof -
  let ?e = "\<lambda>f a. Eprintf f a (s\<lparr>dmi_checked := True\<rparr>)"
  have c: "core (?e f a) = core (s\<lparr>dmi_checked := True\<rparr>)" for f a by (rule core_prints)
  then have "\<not> dmi_forced (?e f a)" for f a using assms c [of f a] by (simp add: core_def no_dmi_def)
  then show ?thesis using assms core_cong(1) [OF c] by (auto simp: checkdmi_def opendmi_def no_dmi_def Let_def)
qed

lemma prefill_step:
  assumes "\<not> do_dmi s" "hlist s = []" "\<not> prefill_initialized s" "memory_error_support s"
  shows "\<exists>s'. prefill junk s = Ret () s' \<and> core s' = core (s\<lparr>memdb_enabled := True, sockdb_enabled := True, prefill_initialized := True\<rparr>)"
proof -
  let ?d = "(dimms s)\<lparr>ce_bucket_conf := (ce_bucket_conf (dimms s))\<lparr>bc_log := 0\<rparr>, uc_bucket_conf := (uc_bucket_conf (dimms s))\<lparr>bc_log := 0\<rparr>\<rparr>"
  let ?e = "(sockets s)\<lparr>ce_bucket_conf := (ce_bucket_conf (sockets s))\<lparr>bc_log := 0\<rparr>, uc_bucket_conf := (uc_bucket_conf (sockets s))\<lparr>bc_log := 0\<rparr>\<rparr>"
  have "prefill junk s = Ret () (s\<lparr>memdb_enabled := True, dimms := ?d, sockdb_enabled := True, sockets := ?e, prefill_initialized := True\<rparr>)"
    using assms by (simp add: prefill_def prefill_memdb_def memdb_config_def config_empty Let_def)
  then show ?thesis by (simp add: core_def)
qed

lemma page_setup_step:
  assumes "hlist s = []" "offline s = OFFLINE_SOFT" "max_corr_err_counters s = 4158"
  shows "\<exists>s' f. page_setup s = Ret () s' \<and> core s' = core (s\<lparr>offline := f\<rparr>) \<and> f \<noteq> OFFLINE_OFF"
proof -
  define s1 where "s1 = s\<lparr>page_trigger_conf := (page_trigger_conf s)\<lparr>bc_log := 0\<rparr>, mp_replacement_trigger_conf := (mp_replacement_trigger_conf s)\<lparr>bc_log := 0\<rparr>\<rparr>"
  define f s2 where "f = (if sysfs_available (kernel_offline OFFLINE_SOFT) s1 then OFFLINE_SOFT else OFFLINE_ACCOUNT)"
    and "s2 = (if sysfs_available (kernel_offline OFFLINE_SOFT) s1 then s1
               else (Lprintf ''Kernel does not support page offline interface\<newline>'' [] s1)\<lparr>offline := OFFLINE_ACCOUNT\<rparr>)"
  have c: "core s1 = core s" by (simp add: s1_def)
  then have h1: "hlist s1 = []" "offline s1 = OFFLINE_SOFT" using assms by (simp_all add: core_def)
  have "core s2 = core (s1\<lparr>offline := f\<rparr>)"
  proof (cases "sysfs_available (kernel_offline OFFLINE_SOFT) s1")
    case True
    moreover have "offline s1 = OFFLINE_SOFT" using assms(2) by (simp add: s1_def)
    then have "core s1 = core (s1\<lparr>offline := OFFLINE_SOFT\<rparr>)" by (simp add: core_def)
    ultimately show ?thesis by (simp add: s2_def f_def)
  qed (simp add: s2_def f_def core_cong(2) [OF core_prints(4)])
  then have c2: "core s2 = core (s\<lparr>offline := f\<rparr>)" using core_cong(2) [OF c] by simp
  then have h: "hlist s2 = []" "max_corr_err_counters s2 = 4158" using assms by (simp_all add: core_def)
  have r: "roundup_counters 4158 = 4158" by code_simp
  have "page_setup s = Ret () (s2\<lparr>page_error_pre_soft_trigger := None, page_error_post_soft_trigger := None,
      max_corr_err_counters := 4158, mr_bucket := bucket_init (now s2) (mr_bucket s2)\<rparr>)"
    using assms(1) h h1 by (cases "sysfs_available (kernel_offline OFFLINE_SOFT) s1")
      (simp_all add: page_setup_def config_empty Let_def s1_def [symmetric] s2_def check_trigger_def r)
  then show ?thesis using c2 h(2) by (auto simp: f_def core_def)
qed


section \<open>The table of descriptors\<close>

definition added :: "int \<Rightarrow> poll_cb_t \<Rightarrow> poll_data \<Rightarrow> 'a poll_state_scheme \<Rightarrow> 'a poll_state_scheme" where
  "added fd cb d s =
     (let i = max_pollfd s
      in s\<lparr>max_pollfd := i + 1, pollfds := (pollfds s)[i := (pollfds s ! i)\<lparr>pf_fd := fd, pf_events := POLLIN\<rparr>],
           pollcbs := (pollcbs s)[i := (pollcbs s ! i)\<lparr>pc_cb := cb, pc_data := d\<rparr>]\<rparr>)"

lemma register_added:
  "os_cloexec s fd \<Longrightarrow> max_pollfd s < MAX_POLLFD \<Longrightarrow> register_pollcb fd POLLIN cb d s = (0, added fd cb d s)"
  by (simp add: register_pollcb_def closeonexec_def added_def Let_def)

lemma core_added: "core t = core s \<Longrightarrow> core (added fd cb d t) = core (added fd cb d s)"
  by (simp add: core_def added_def Let_def)

text \<open>A socket for clients can be made, and no other daemon has left one.\<close>

definition socket_free :: "int \<Rightarrow> 'a server_state_scheme \<Rightarrow> bool" where
  "socket_free fd s \<longleftrightarrow> client_path s = SOCKET_PATH \<and> \<not> os_access s SOCKET_PATH \<and> os_socket s = [fd] \<and> 0 \<le> fd \<and> os_bind s \<and> os_listen s \<and>
     (\<forall>fd. os_cloexec s fd) \<and> max_pollfd s = 0"

lemma server_setup_step:
  assumes "hlist s = []" "socket_free fd s"
  shows "server_setup s = Ret () (added fd Client_accept No_data (s\<lparr>os_socket := []\<rparr>))"
proof -
  have c: "server_config s = Ret () s" using assms(1) by (simp add: server_config_def config_empty Let_def)
  have "length SOCKET_PATH < SUN_PATH - 1" "SOCKET_PATH \<noteq> []" by (simp_all add: SOCKET_PATH_def SUN_PATH_def)
  moreover have "register_pollcb fd POLLIN Client_accept No_data (s\<lparr>os_socket := []\<rparr>) = (0, added fd Client_accept No_data (s\<lparr>os_socket := []\<rparr>))"
    using assms(2) by (intro register_added) (simp_all add: socket_free_def MAX_POLLFD_def)
  ultimately show ?thesis
    using assms(2) by (simp add: server_setup_def c sock_open_def socket_free_def not_le)
qed

lemma drop_cred_none: "runcred s = \<lparr>cred_uid = - 1, cred_gid = - 1\<rparr> \<Longrightarrow> drop_cred s = s"
  by (simp add: drop_cred_def Let_def)

lemma core_pidfile: "core (case pidfile s of None \<Rightarrow> s | Some f \<Rightarrow> write_pidfile f s) = core s"
  by (auto simp: write_pidfile_def Let_def core_prints split: option.split)

text \<open>The static variables that the setup of the daemon depends on, before it runs.\<close>

definition before_daemon :: "'a main_state_scheme \<Rightarrow> bool" where
  "before_daemon s \<longleftrightarrow> hlist s = [] \<and> \<not> do_dmi s \<and> dmi_entries s = None \<and> \<not> prefill_initialized s \<and> memory_error_support s \<and>
     offline s = OFFLINE_SOFT \<and> max_corr_err_counters s = 4158 \<and> runcred s = \<lparr>cred_uid = - 1, cred_gid = - 1\<rparr> \<and> os_daemon s"

definition listening :: "int \<Rightarrow> int \<Rightarrow> nat \<Rightarrow> nat \<Rightarrow> 'a poll_state_scheme \<Rightarrow> 'a poll_state_scheme" where
  "listening sfd fd recordlen loglen s = added fd Process_mcefd (Mcefd_data loglen recordlen) (added sfd Client_accept No_data s)"

lemma daemon_setup_step:
  assumes b: "before_daemon s" and so: "socket_free sfd s"
  shows "\<exists>s' f. daemon_setup junk fd recordlen loglen s = Ret () s' \<and> f \<noteq> OFFLINE_OFF \<and>
    core s' = core (listening sfd fd recordlen loglen
      (s\<lparr>memdb_enabled := True, sockdb_enabled := True, prefill_initialized := True, os_socket := [], offline := f\<rparr>))"
proof -
  let ?u = "s\<lparr>memdb_enabled := True, sockdb_enabled := True, prefill_initialized := True\<rparr>"
  let ?v = "added sfd Client_accept No_data (?u\<lparr>os_socket := []\<rparr>)"
  obtain s1 where 1: "prefill junk s = Ret () s1" "core s1 = core ?u" using prefill_step [of s junk] b by (auto simp: before_daemon_def)
  have f1: "hlist s1 = []" "\<not> do_dmi s1" "dmi_entries s1 = None" "socket_free sfd s1"
    using 1(2) b so by (simp_all add: core_def before_daemon_def socket_free_def)
  let ?s2 = "added sfd Client_accept No_data (s1\<lparr>os_socket := []\<rparr>)"
  have 2: "server_setup (if do_dmi s1 then s1 else closedmi s1) = Ret () ?s2"
    using server_setup_step [OF f1(1,4)] f1(2,3) by (simp add: closedmi_def)
  have "core (s1\<lparr>os_socket := []\<rparr>) = core (?u\<lparr>os_socket := []\<rparr>)" using 1(2) by (simp add: core_def)
  then have c2: "core ?s2 = core ?v" by (rule core_added)
  then have f2: "hlist ?s2 = []" "offline ?s2 = OFFLINE_SOFT" "max_corr_err_counters ?s2 = 4158"
    using b by (simp_all add: core_def before_daemon_def added_def Let_def)
  obtain s3 f where 3: "page_setup ?s2 = Ret () s3" "core s3 = core (?s2\<lparr>offline := f\<rparr>)" "f \<noteq> OFFLINE_OFF"
    using page_setup_step [OF f2] by blast
  have c3: "core s3 = core (?v\<lparr>offline := f\<rparr>)" using 3(2) core_cong(2) [OF c2] by simp
  define s4 where "s4 = (if imc_log s3 \<noteq> 0 then set_imc_log (cpu_type s3) s3 else s3)"
  have c4: "core s4 = core (?v\<lparr>offline := f\<rparr>)" using c3 core_set_imc_log [of "cpu_type s3" s3] by (simp add: s4_def)
  then have f4: "drop_cred s4 = s4" "os_cloexec s4 fd" "max_pollfd s4 < MAX_POLLFD" "os_daemon s4"
    using b so by (simp_all add: drop_cred_none core_def before_daemon_def socket_free_def added_def Let_def MAX_POLLFD_def)
  define s5 where "s5 = added fd Process_mcefd (Mcefd_data loglen recordlen) s4"
  have c5: "core s5 = core (added fd Process_mcefd (Mcefd_data loglen recordlen) (?v\<lparr>offline := f\<rparr>))"
    unfolding s5_def by (rule core_added [OF c4])
  have d5: "os_daemon s5" using f4(4) by (simp add: s5_def added_def Let_def)
  have r: "snd (register_pollcb fd POLLIN Process_mcefd (Mcefd_data loglen recordlen) (drop_cred s4)) = s5"
    using register_added [OF f4(2,3)] by (simp add: f4(1) s5_def)
  have "daemon_setup junk fd recordlen loglen s =
      Ret () (snd (event_signal SIGUSR1_NO (case pidfile s5 of None \<Rightarrow> s5 | Some g \<Rightarrow> write_pidfile g s5)))"
    using r d5 by (cases "imc_log s3 = 0") (simp_all add: daemon_setup_def 1(1) 2 3(1) s4_def Let_def cong: option.case_cong)
  moreover have "core (snd (event_signal SIGUSR1_NO (case pidfile s5 of None \<Rightarrow> s5 | Some g \<Rightarrow> write_pidfile g s5))) = core s5"
    using core_signal core_pidfile by metis
  moreover have "core s5 = core (listening sfd fd recordlen loglen (?u\<lparr>os_socket := [], offline := f\<rparr>))"
    using c5 by (simp add: listening_def added_def Let_def core_def)
  ultimately show ?thesis using 3(3) by fastforce
qed


section \<open>The command line\<close>

lemma find_daemon: "find_option ''daemon'' options = Some (long_option ''daemon'' False None O_DAEMON)"
  by code_simp

lemma find_cpu: "find_option ''cpu'' options = Some (long_option ''cpu'' True None O_CPU)"
  by code_simp

lemma modifier_daemon:
  "modifier O_DAEMON arg s = Ret 1 ((if opt_set SYSLOG_FORCE s then s else s\<lparr>syslog_opt := SYSLOG_REMARK OR SYSLOG_ERROR\<rparr>)\<lparr>daemon_mode := True\<rparr>)"
  by (simp add: modifier_def option_codes Let_def opt_set_def)

lemma modifier_cpu:
  assumes "find_cputype name cpu_choices = Some c"
  shows "modifier O_CPU (Some name) s = Ret 1 (intel_cpu_init c (set_cpu c s))"
  using assms by (simp add: modifier_def option_codes Let_def lookup_cputype_def)

lemma getopt_daemon: "getopt_long options [] (''--daemon'' # av) = (Opt O_DAEMON None, [], av)"
  by (simp add: getopt_long_def is_option_def find_daemon long_option_def found_option_def Let_def)

lemma getopt_cpu: "getopt_long options [] ((''--cpu='' @ name) # av) = (Opt O_CPU (Some name), [], av)"
  by (simp add: getopt_long_def is_option_def find_cpu long_option_def found_option_def Let_def)

lemma getopt_end: "getopt_long options [] [] = (Opt_end, [], [])"
  by (simp add: getopt_long_def)

lemma options_step:
  assumes "find_cputype name cpu_choices = Some c"
  shows "\<exists>s'. main_options junk [] [''--daemon'', ''--cpu='' @ name] s = Ret (Run []) s' \<and>
    core s' = core (intel_cpu_init c (set_cpu c (s\<lparr>daemon_mode := True\<rparr>))) \<and> check_only s' = check_only s"
proof -
  define s1 where "s1 = (if opt_set SYSLOG_FORCE s then s else s\<lparr>syslog_opt := SYSLOG_REMARK OR SYSLOG_ERROR\<rparr>)\<lparr>daemon_mode := True\<rparr>"
  have "main_options junk [] [''--daemon'', ''--cpu='' @ name] s = Ret (Run []) (intel_cpu_init c (set_cpu c s1))"
    by (simp add: modifier_cpu [OF assms] main_options.simps getopt_daemon getopt_cpu [simplified] getopt_end modifier_daemon s1_def [symmetric])
  moreover have "core (intel_cpu_init c (set_cpu c s1)) = core (intel_cpu_init c (set_cpu c (s\<lparr>daemon_mode := True\<rparr>)))"
    by (simp add: s1_def core_def intel_cpu_init_def set_cpu_def)
  moreover have "check_only (intel_cpu_init c (set_cpu c s1)) = check_only s" by (simp add: s1_def intel_cpu_init_def set_cpu_def)
  ultimately show ?thesis by blast
qed

lemma parse_config_step:
  assumes "os_read s CONFIG_FILENAME = None"
  shows "parse_config [prog, ''--daemon'', ''--cpu='' @ name] s = Ret () s"
  using assms by (simp add: parse_config_def config_file_def match_arg_def strneq_def parse_config_file_def)


section \<open>The daemon reaches its loop\<close>

text \<open>The initial values of the static variables, a clock that has been set, and tables in order.\<close>

definition initial :: "'a main_state_scheme \<Rightarrow> bool" where
  "initial s \<longleftrightarrow> hlist s = [] \<and> \<not> check_only s \<and> \<not> binary_file s \<and> imc_log s = - 1 \<and> filter_bogus s \<and> numerrors s = 0 \<and> \<not> cpumhz_forced s \<and>
     \<not> debug_numerrors s \<and> \<not> filter_memory_errors s \<and> \<not> dmi_forced s \<and> \<not> dmi_checked s \<and> dmi_entries s = None \<and> \<not> prefill_initialized s \<and>
     offline s = OFFLINE_SOFT \<and> max_corr_err_counters s = 4158 \<and> runcred s = \<lparr>cred_uid = - 1, cred_gid = - 1\<rparr> \<and> logfn s = LOG_DEV_FILENAME \<and>
     client_path s = SOCKET_PATH \<and> max_pollfd s = 0 \<and> length (pollfds s) = MAX_POLLFD \<and> length (pollcbs s) = MAX_POLLFD \<and>
     conns s = Map.empty \<and> net s = [] \<and> (word_of_int (now s) :: u64) \<noteq> 0 \<and> tables_ok s"

text \<open>A machine with the device and no configuration file, SMBIOS tables or other daemon.\<close>

definition plain_host :: "int \<Rightarrow> int \<Rightarrow> nat \<Rightarrow> nat \<Rightarrow> 'a main_state_scheme \<Rightarrow> bool" where
  "plain_host sfd fd recordlen loglen s \<longleftrightarrow> os_read s CONFIG_FILENAME = None \<and> \<not> os_access s ''/sys/firmware/dmi/entries/0-0/raw'' \<and>
     \<not> os_devmem s \<and> \<not> os_access s SOCKET_PATH \<and> os_socket s = [sfd] \<and> 0 \<le> sfd \<and> os_bind s \<and> os_listen s \<and> (\<forall>fd. os_cloexec s fd) \<and>
     os_open s LOG_DEV_FILENAME = fd \<and> 0 \<le> fd \<and> os_record_len s = Some recordlen \<and> os_log_len s = Some loglen \<and> os_daemon s \<and> os_memstream s"

text \<open>Processors whose memory errors are accounted by default, and whose errors are located without extended logging.\<close>

definition accounting_cpu :: "cputype \<Rightarrow> bool" where
  "accounting_cpu c \<longleftrightarrow> c \<ge> CPU_INTEL \<and>
     c \<notin> {CPU_ATOM, CPU_CORE2, CPU_DUNNINGTON, CPU_GENERIC, CPU_K8, CPU_P4, CPU_P6OLD, CPU_TULSA, CPU_SANDY_BRIDGE_EP, CPU_IVY_BRIDGE_EPEX}"

lemma accounting_support: "accounting_cpu c \<Longrightarrow> memory_error_support (intel_cpu_init c s)"
  by (simp add: accounting_cpu_def intel_cpu_init_def)

definition configured :: "cputype \<Rightarrow> otype \<Rightarrow> 'a main_state_scheme \<Rightarrow> 'a main_state_scheme" where
  "configured c f s = s\<lparr>daemon_mode := True, cpu_type := c, cpu_forced := True, memory_error_support := True,
     imc_log := (if c \<in> imc_cputypes then 1 else 0), dmi_checked := True, do_dmi := False, memdb_enabled := True, sockdb_enabled := True,
     prefill_initialized := True, os_socket := [], offline := f\<rparr>"

lemma open_device_step:
  "\<not> binary_file s \<Longrightarrow> os_open s (logfn s) = fd \<Longrightarrow> 0 \<le> fd \<Longrightarrow> os_record_len s = Some rl \<Longrightarrow> os_log_len s = Some ll \<Longrightarrow>
    open_device s = Ret (fd, rl, ll) s"
  by (simp add: open_device_def)

lemma main_run_step:
  assumes i: "daemon_mode s" "cpu_forced s" "\<not> check_only s" "imc_log s = - 1" "hlist s = []" "no_dmi s" "\<not> prefill_initialized s" "memory_error_support s"
      "offline s = OFFLINE_SOFT" "max_corr_err_counters s = 4158" "runcred s = \<lparr>cred_uid = - 1, cred_gid = - 1\<rparr>" "os_daemon s" "socket_free sfd s"
    and d: "\<not> binary_file s" "os_open s (logfn s) = fd" "0 \<le> fd" "os_record_len s = Some rl" "os_log_len s = Some ll"
  shows "\<exists>s1 f. main_run dvars [] ws s = eventloop run_callback signal_handler ws s1 \<and> f \<noteq> OFFLINE_OFF \<and>
    core s1 = core (listening sfd fd rl ll (s\<lparr>imc_log := (if cpu_type s \<in> imc_cputypes then 1 else 0), dmi_checked := True, do_dmi := False,
      memdb_enabled := True, sockdb_enabled := True, prefill_initialized := True, os_socket := [], offline := f\<rparr>))"
proof -
  let ?s1 = "s\<lparr>imc_log := (if cpu_type s \<in> imc_cputypes then 1 else 0)\<rparr>"
  let ?s2 = "?s1\<lparr>dmi_checked := True, do_dmi := False\<rparr>"
  have 1: "check_cpu s = Ret () ?s1" using i by (simp add: check_cpu_def)
  obtain s2 where 2: "modifier_finish ?s1 = Ret () s2" "core s2 = core ?s1" using modifier_finish_step [of ?s1] i(1) by auto
  have "no_dmi s2" using 2(2) i(6) by (simp add: core_def no_dmi_def)
  then obtain s3 where 3: "checkdmi s2 = Ret () s3" "core s3 = core (s2\<lparr>dmi_checked := True, do_dmi := False\<rparr>)" using checkdmi_step by blast
  have c3: "core s3 = core ?s2" using 2(2) 3(2) by (simp add: core_def)
  then have "hlist s3 = []" using i(5) by (simp add: core_def)
  then obtain s4 where 4: "general_setup s3 = Ret () s4" "core s4 = core s3" using general_setup_step by blast
  have c4: "core s4 = core ?s2" using 4(2) c3 by simp
  then have dm: "daemon_mode s4" using i(1) by (simp add: core_def)
  have 5: "open_device s4 = Ret (fd, rl, ll) s4" using c4 d by (intro open_device_step) (simp_all add: core_def)
  have b: "before_daemon s4" "socket_free sfd s4" using c4 i by (simp_all add: core_def before_daemon_def socket_free_def no_dmi_def)
  obtain s5 f where 6: "daemon_setup dvars fd rl ll s4 = Ret () s5" "f \<noteq> OFFLINE_OFF"
      "core s5 = core (listening sfd fd rl ll (s4\<lparr>memdb_enabled := True, sockdb_enabled := True, prefill_initialized := True, os_socket := [], offline := f\<rparr>))"
    using daemon_setup_step [OF b] by blast
  have "main_run dvars [] ws s = eventloop run_callback signal_handler ws s5"
    using 1 2(1) 3(1) 4(1) 5 6(1) dm by (simp add: main_run_def)
  moreover have "core s5 = core (listening sfd fd rl ll (?s2\<lparr>memdb_enabled := True, sockdb_enabled := True, prefill_initialized := True, os_socket := [], offline := f\<rparr>))"
    using 6(3) c4 by (simp add: core_def listening_def added_def Let_def)
  ultimately show ?thesis using 6(2) by fastforce
qed

lemma main_step:
  assumes i: "initial s" and h: "plain_host sfd fd rl ll s" and c: "find_cputype name cpu_choices = Some c" "accounting_cpu c"
  shows "\<exists>s1 f. main junk dvars [prog, ''--daemon'', ''--cpu='' @ name] ws s = at_exit (eventloop run_callback signal_handler ws s1) \<and>
    f \<noteq> OFFLINE_OFF \<and> core s1 = core (listening sfd fd rl ll (configured c f s))"
proof -
  have 1: "parse_config [prog, ''--daemon'', ''--cpu='' @ name] s = Ret () s" using h by (intro parse_config_step) (simp add: plain_host_def)
  obtain s2 where 2: "main_options junk [] [''--daemon'', ''--cpu='' @ name] s = Ret (Run []) s2"
      "core s2 = core (intel_cpu_init c (set_cpu c (s\<lparr>daemon_mode := True\<rparr>)))" "check_only s2 = check_only s"
    using options_step [OF c(1)] by blast
  have m: "memory_error_support (intel_cpu_init c (set_cpu c (s\<lparr>daemon_mode := True\<rparr>)))" by (rule accounting_support [OF c(2)])
  have f: "daemon_mode s2" "cpu_forced s2" "cpu_type s2 = c" "memory_error_support s2" "imc_log s2 = - 1" "hlist s2 = []" "no_dmi s2" "\<not> prefill_initialized s2"
      "offline s2 = OFFLINE_SOFT" "max_corr_err_counters s2 = 4158" "runcred s2 = \<lparr>cred_uid = - 1, cred_gid = - 1\<rparr>" "os_daemon s2" "socket_free sfd s2"
      "\<not> binary_file s2" "os_open s2 (logfn s2) = fd" "0 \<le> fd" "os_record_len s2 = Some rl" "os_log_len s2 = Some ll" "\<not> check_only s2"
    using 2(2,3) m i h by (simp_all add: core_def initial_def plain_host_def no_dmi_def socket_free_def intel_cpu_init_def set_cpu_def)
  obtain s3 g where 3: "main_run dvars [] ws s2 = eventloop run_callback signal_handler ws s3" "g \<noteq> OFFLINE_OFF"
      "core s3 = core (listening sfd fd rl ll (s2\<lparr>imc_log := (if cpu_type s2 \<in> imc_cputypes then 1 else 0), dmi_checked := True, do_dmi := False,
      memdb_enabled := True, sockdb_enabled := True, prefill_initialized := True, os_socket := [], offline := g\<rparr>))"
    using main_run_step [of s2 sfd fd rl ll dvars ws] f by blast
  have "core s3 = core (listening sfd fd rl ll (configured c g s))"
    using 3(3) 2(2) f(3) m by (simp add: core_def listening_def added_def Let_def configured_def intel_cpu_init_def set_cpu_def)
  moreover have "main junk dvars [prog, ''--daemon'', ''--cpu='' @ name] ws s = at_exit (main_run dvars [] ws s2)"
    by (simp only: main_def 1 andthen.simps list.sel 2(1) command.case)
  ultimately show ?thesis using 3(1,2) by auto
qed


section \<open>The loop starts in order\<close>

text \<open>The parts of the state that hold the tables.\<close>

definition tables_part :: "'a page_state_scheme \<Rightarrow> _" where
  "tables_part s = (md_dimms s, md_numdimms s, mp_at s, mempage_root s, corr_err_counters s, max_corr_err_counters s, mp_cluster s, mp_used s,
     mp_clusters s, cluster_lru_list s, os_mmap s)"

lemma tables_part_ok:
  fixes s :: "'a page_state_scheme" and s' :: "'b page_state_scheme"
  assumes "tables_part s' = tables_part s"
  shows "tables_ok s' = tables_ok s" "all_counts s' = all_counts s"
proof -
  have k: "key_at s' = key_at s" using assms by (simp add: fun_eq_iff key_at_def tables_part_def)
  have p: "page_ok s' = page_ok s"
    using assms k by (simp add: page_ok_def slots_ok_def fresh_ok_def tables_part_def cong: option.case_cong)
  have "page_count s' = page_count s"
    using assms k by (intro ext) (simp add: page_count_def mempage_lookup_def tables_part_def cong: option.case_cong if_cong)
  moreover have "counts s' = counts s" using assms by (simp add: fun_eq_iff counts_def md_at_def tables_part_def)
  ultimately show "all_counts s' = all_counts s" by (simp add: all_counts_def)
  show "tables_ok s' = tables_ok s" using assms p by (simp add: tables_ok_def db_ok_def tables_part_def)
qed

lemma finite_pages_of_reads: "finite (pages_of_reads len rds)"
  by (induction rds rule: pages_of_reads.induct) (auto split: option.split)

lemma started_table:
  assumes "initial s" "core s1 = core (listening sfd fd rl ll (configured c f s))"
  shows "table_ok 2 s1" "daemon_slots 2 1 fd ll rl s1"
proof -
  have p: "max_pollfd s1 = 2" "conns s1 = Map.empty"
      "pollfds s1 = (pollfds s)[0 := (pollfds s ! 0)\<lparr>pf_fd := sfd, pf_events := POLLIN\<rparr>, 1 := (pollfds s ! 1)\<lparr>pf_fd := fd, pf_events := POLLIN\<rparr>]"
      "pollcbs s1 = (pollcbs s)[0 := (pollcbs s ! 0)\<lparr>pc_cb := Client_accept, pc_data := No_data\<rparr>,
         1 := (pollcbs s ! 1)\<lparr>pc_cb := Process_mcefd, pc_data := Mcefd_data ll rl\<rparr>]"
    using assms by (simp_all add: core_def listening_def added_def configured_def initial_def Let_def)
  have l: "length (pollfds s) = 10" "length (pollcbs s) = 10" using assms(1) by (simp_all add: initial_def MAX_POLLFD_def)
  have two: "i < 2 \<longleftrightarrow> i = 0 \<or> i = 1" for i :: nat by auto
  show "table_ok 2 s1" using p l by (auto simp: table_ok_def MAX_POLLFD_def two)
  show "daemon_slots 2 1 fd ll rl s1" using p l by (auto simp: daemon_slots_def two)
qed

lemma started_running:
  assumes i: "initial s" and h: "plain_host sfd fd rl ll s" and c: "accounting_cpu c"
    and s1: "core s1 = core (listening sfd fd rl ll (configured c f s))" and len: "endof_field ''socketid'' \<le> rl"
    and room: "card (dom (page_count s) \<union> pages_of_reads rl (os_mce s)) \<le> 4158" and sh: "shut \<longrightarrow> (\<forall>r\<in>set (os_recv s). denied (acc s) r)"
  defines "U \<equiv> dom (page_count s) \<union> pages_of_reads rl (os_mce s)"
  shows "running 2 1 fd ll rl s1 U shut (os_mce s) (all_counts s) s1" "run_setup rl s1 U"
proof -
  have t: "tables_part s1 = tables_part s" using s1 by (simp add: core_def listening_def added_def configured_def tables_part_def Let_def)
  have ok: "tables_ok s1" "all_counts s1 = all_counts s" using tables_part_ok [OF t] i by (simp_all add: initial_def)
  have e: "os_memstream s1" "os_mce s1 = os_mce s" "os_recv s1 = os_recv s" "acc s1 = acc s" "conns s1 = Map.empty" "net s1 = []"
      "max_corr_err_counters s1 = 4158" "cpu_type s1 = c" "cpu_forced s1" "filter_bogus s1" "numerrors s1 = 0" "\<not> cpumhz_forced s1"
      "\<not> debug_numerrors s1" "\<not> dmi_forced s1" "now s1 = now s"
    using s1 i h by (simp_all add: core_def listening_def added_def configured_def initial_def plain_host_def Let_def)
  have "kept s1 s1" using ok(1) by (simp add: kept_def same_conf_def)
  moreover have "shut \<longrightarrow> silent s1" using sh e by (simp add: silent_def)
  moreover have "dom (snd (all_counts s)) \<subseteq> U" by (simp add: U_def all_counts_def)
  ultimately show "running 2 1 fd ll rl s1 U shut (os_mce s) (all_counts s) s1"
    using started_table [OF i s1] ok e by (simp add: running_def U_def)
  have "finite (dom (page_count s))" using i page_count_dom by (auto simp: initial_def tables_ok_def)
  moreover have "fixed_locations s1" using c e by (simp add: accounting_cpu_def fixed_locations_def)
  ultimately show "run_setup rl s1 U"
    using e c i len room by (simp add: run_setup_def plain_intel_def accounting_cpu_def initial_def U_def finite_pages_of_reads)
qed


text \<open>The theorems about the running daemon rest on this: after any wakeups it still runs, with the counters of the specification.\<close>

lemma main_loop:
  fixes s :: "'a main_state_scheme"
  assumes "initial s" "plain_host sfd fd rl ll s" "find_cputype name cpu_choices = Some c" "accounting_cpu c" "endof_field ''socketid'' \<le> rl"
    "card (dom (page_count s) \<union> pages_of_reads rl (os_mce s)) \<le> 4158" "list_all (wakeup_ok fd) ws"
    and "shut \<longrightarrow> (\<forall>r\<in>set (os_recv s). denied (acc s) r)"
  shows "\<exists>(s0 :: 'a main_state_scheme) s'.
    main junk dvars [prog, ''--daemon'', ''--cpu='' @ name] (ws @ vs) s = at_exit (eventloop run_callback signal_handler vs s') \<and>
    cpu_type s0 = c \<and> memdb_enabled s0 \<and> sockdb_enabled s0 \<and> offline s0 \<noteq> OFFLINE_OFF \<and> pidfile s' = pidfile s \<and>
    running 2 1 fd ll rl s0 (dom (page_count s) \<union> pages_of_reads rl (os_mce s)) shut
       (fst (fold (spec_wake fd rl s0) ws (os_mce s, all_counts s))) (snd (fold (spec_wake fd rl s0) ws (os_mce s, all_counts s))) s'"
proof -
  obtain s1 f where 1: "main junk dvars [prog, ''--daemon'', ''--cpu='' @ name] (ws @ vs) s = at_exit (eventloop run_callback signal_handler (ws @ vs) s1)"
      "f \<noteq> OFFLINE_OFF" "core s1 = core (listening sfd fd rl ll (configured c f s))"
    using main_step [OF assms(1-4)] by blast
  note r = started_running [OF assms(1,2,4) 1(3) assms(5,6,8)]
  obtain s' where s': "eventloop run_callback signal_handler ws s1 = Ret () s'"
      "running 2 1 fd ll rl s1 (dom (page_count s) \<union> pages_of_reads rl (os_mce s)) shut
        (fst (fold (spec_wake fd rl s1) ws (os_mce s, all_counts s))) (snd (fold (spec_wake fd rl s1) ws (os_mce s, all_counts s))) s'"
    using eventloop_step [OF r assms(7), where handler = signal_handler] by (auto simp: handle_sigusr1_def)
  have "cpu_type s1 = c" "memdb_enabled s1" "sockdb_enabled s1" "offline s1 = f" "pidfile s1 = pidfile s"
    using 1(3) by (simp_all add: core_def listening_def added_def configured_def Let_def)
  moreover have "server_state.more s' = server_state.more s1" using s'(2) by (simp add: running_def)
  then have "pidfile s' = pidfile s1" by (cases s'; cases s1; simp)
  moreover have "eventloop run_callback signal_handler (ws @ vs) s1 = eventloop run_callback signal_handler vs s'"
    using s'(1) by (simp add: eventloop_append)
  ultimately show ?thesis using 1(1,2) s'(2) by (intro exI [of _ s1] exI [of _ s']) simp
qed

section \<open>A machine to start on\<close>

definition host_start :: main_state where
  "host_start = msr_state.extend (server_state.extend (poll_state.extend (mcelog_state.extend
       (mcelog_start\<lparr>max_corr_err_counters := 4158, imc_log := - 1, offline := OFFLINE_SOFT, dmi_entries := None, hlist := [], prefill_initialized := False,
          os_access := (\<lambda>_. False), os_read := (\<lambda>_. None)\<rparr>)
     (poll_state.fields (replicate MAX_POLLFD \<lparr>pf_fd = 0, pf_events = 0, pf_revents = 0\<rparr>)
        (replicate MAX_POLLFD \<lparr>pc_cb = Client_accept, pc_fd = 0, pc_data = No_data\<rparr>) 0 True {} {} (\<lambda>_. True) True))
     (server_state.fields Map.empty 0 SOCKET_PATH 2 10 \<lparr>cred_uid = 0, cred_gid = - 1\<rparr> [] [] (\<lambda>_. True) [] [] [] True
        [(Some one_record, None)] [4] (False, False, False, None) True True))
     (msr_state.fields (\<lambda>_ _. 0) 1 (\<lambda>_. Msr_failed) (\<lambda>_. False) (\<lambda>_. False) (\<lambda>_. False) (\<lambda>_ v. v)))
     (main_state.fields LOG_DEV_FILENAME False False None False \<lparr>cred_uid = - 1, cred_gid = - 1\<rparr> (Some PID_FILE) False None False False False []
        ''1'' None 1 (\<lambda>_. None) (\<lambda>_. True) [] (\<lambda>_. 5) 0 (Some 128) (Some 32) True (\<lambda>_ _. received [] True))"

lemma host_start_more:
  "mcelog_state.truncate host_start = mcelog_start\<lparr>max_corr_err_counters := 4158, imc_log := - 1, offline := OFFLINE_SOFT, dmi_entries := None, hlist := [],
     prefill_initialized := False, os_access := (\<lambda>_. False), os_read := (\<lambda>_. None)\<rparr>"
  by (simp add: host_start_def mcelog_state.defs poll_state.defs server_state.defs msr_state.defs)

lemma page_ok_max: "page_ok s \<Longrightarrow> corr_err_counters s = 0 \<Longrightarrow> page_ok (s\<lparr>max_corr_err_counters := 4158\<rparr>)"
proof -
  assume ok: "page_ok s" "corr_err_counters s = 0"
  have "key_at (s\<lparr>max_corr_err_counters := 4158\<rparr>) = key_at s" by (simp add: fun_eq_iff key_at_def)
  then show ?thesis using ok by (auto simp: page_ok_def slots_ok_def fresh_ok_def Let_def cong: option.case_cong)
qed


lemma host_start_tables: "tables_ok host_start" "all_counts host_start = all_counts mcelog_start"
proof -
  have c: "corr_err_counters mcelog_start = 0"
    unfolding mcelog_start_def by (simp, subst mcelog_boot_pages, simp add: no_pages_sel)
  have "page_ok mcelog_start" "db_ok mcelog_start" "\<forall>c. os_mmap mcelog_start c" using mcelog_start_ok(1) by (simp_all add: tables_ok_def)
  then have t: "tables_ok (mcelog_start\<lparr>max_corr_err_counters := 4158\<rparr>)" using page_ok_max [OF _ c] by (simp add: tables_ok_def db_ok_def)
  have p: "tables_part host_start = tables_part (mcelog_start\<lparr>max_corr_err_counters := 4158\<rparr>)"
    by (simp add: tables_part_def host_start_def mcelog_state.defs poll_state.defs server_state.defs msr_state.defs)
  show "tables_ok host_start" using tables_part_ok(1) [OF p] t by simp
  have k: "key_at (mcelog_start\<lparr>max_corr_err_counters := 4158\<rparr>) = key_at mcelog_start" by (simp add: fun_eq_iff key_at_def)
  have "page_count (mcelog_start\<lparr>max_corr_err_counters := 4158\<rparr>) = page_count mcelog_start"
    by (intro ext) (simp add: page_count_def mempage_lookup_def k cong: option.case_cong if_cong)
  then have "all_counts (mcelog_start\<lparr>max_corr_err_counters := 4158\<rparr>) = all_counts mcelog_start"
    by (simp add: all_counts_def fun_eq_iff counts_def md_at_def)
  then show "all_counts host_start = all_counts mcelog_start" using tables_part_ok(2) [OF p] by simp
qed

lemma host_start_sel:
  "initial host_start" "plain_host 4 5 128 32 host_start" "os_mce host_start = [(Some one_record, None)]" "os_recv host_start = []"
proof -
  have m: "filter_bogus mcelog_start" "numerrors mcelog_start = 0" "\<not> cpumhz_forced mcelog_start" "\<not> debug_numerrors mcelog_start"
      "\<not> filter_memory_errors mcelog_start" "\<not> dmi_forced mcelog_start" "\<not> dmi_checked mcelog_start" "now mcelog_start = 1700000000" "\<not> os_devmem mcelog_start"
    by (simp_all add: mcelog_start_def mcelog_boot_def mcelog_state.defs tsc_state.defs dmi_state.defs dmi_start_def intel_state.defs intel_start_def no_pages_defs)
  note d = host_start_def mcelog_state.defs poll_state.defs server_state.defs msr_state.defs main_state.defs
  show "initial host_start" unfolding initial_def using m by (intro conjI host_start_tables(1)) (simp_all add: d)
  show "plain_host 4 5 128 32 host_start" using m by (simp add: plain_host_def d)
  show "os_mce host_start = [(Some one_record, None)]" "os_recv host_start = []" by (simp_all add: d)
qed

end
