(* ===== verification/Spec2Isabelle.thy ===== *)
theory Spec2Isabelle
  imports LeakyBucket Msg Bitfield HashChain Config Trigger Mce MemDb Report Caches DecodeOld DecodeXeon
    DecodeScalable MemErr P4 RbTree RbErase Sysfs ListHead Page PageCount Intel ZhaoxinModel Zhaoxin K8 Dmi Tsc
    Mcelog Process Ascii EventLoop Server Daemon Rounds Client
    Msr Main_Program Startup
begin

text \<open>
  A verification library for mcelog, the Linux daemon that reads machine check events from the kernel,
  decodes them, accounts memory errors per DIMM, socket and page, and runs user triggers when an error rate
  is exceeded. All sources named here are under \<^verbatim>\<open>src/\<close>.

  \<^bold>\<open>The program.\<close> \<^verbatim>\<open>mcelog.c\<close> reads the configuration (\<^verbatim>\<open>config.c\<close>) and the command line, and then decodes a log, asks a running daemon, reads the
  device once, or becomes the daemon: an event loop (\<^verbatim>\<open>eventloop.c\<close>) over the machine check device, a socket and its clients
  (\<^verbatim>\<open>server.c\<close>, \<^verbatim>\<open>client.c\<close>). A record of type \<^verbatim>\<open>struct mce\<close> (\<^verbatim>\<open>mcelog.h\<close>) first passes the filter of its processor
  (\<^verbatim>\<open>intel.c\<close>, \<^verbatim>\<open>k8.c\<close>, \<^verbatim>\<open>zhaoxin.c\<close>), which accounts memory errors: the functions \<open>*_memerr_misc\<close> locate an error on a channel and a
  DIMM, \<^verbatim>\<open>memdb.c\<close> counts it there and on the socket, \<^verbatim>\<open>page.c\<close> for its page, with a leaky bucket (\<^verbatim>\<open>leaky-bucket.c\<close>) per
  counter. A bucket that overflows logs a message (\<^verbatim>\<open>msg.c\<close>), starts a trigger process (\<^verbatim>\<open>trigger.c\<close>) or takes the page offline through
  \<^verbatim>\<open>sysfs.c\<close>. Then the record is printed by a decoder (\<^verbatim>\<open>p4.c\<close> for the architectural part, one file per processor family for
  the rest, all on top of the table decoder \<^verbatim>\<open>bitfield.c\<close>), with the time (\<^verbatim>\<open>tsc.c\<close>) and the memory device at the address
  (\<^verbatim>\<open>dmi.c\<close>). Cache thresholds, bus errors and unknown errors have triggers of their own (\<^verbatim>\<open>yellow.c\<close>, \<^verbatim>\<open>bus.c\<close>, \<^verbatim>\<open>unknown.c\<close>).

  \<^bold>\<open>State.\<close> One record per layer, each extending the one below: \<open>world\<close> (output and the answers of the operating system), \<open>msg_state\<close>,
  \<open>config_state\<close>, \<open>trigger_state\<close>, \<open>memdb_state\<close>, \<open>report_state\<close>, \<open>page_state\<close>, \<open>intel_state\<close>, \<open>dmi_state\<close>, \<open>tsc_state\<close>,
  \<open>mcelog_state\<close>, \<open>poll_state\<close>, \<open>server_state\<close>, \<open>msr_state\<close> and \<open>main_state\<close>. Operations pass the state explicitly. A function that may end
  the process returns an \<open>outcome\<close>: \<open>Ret\<close> with the state and a result, \<open>Exit\<close> or \<open>Abort\<close> (a failed assertion or a read outside of an array).
  Output is the list of events that reach standard output, a log file, syslog or a trigger process; what sockets carry is the list \<open>net\<close>. Answers of the
  operating system (process ids, children, the contents of files, users and groups, memory, sockets, the device) are fields of
  the state, so that theorems hold for all answers.

  \<^bold>\<open>Theories.\<close>
  \<^item> \<open>Prelude\<close>: types of machine integers, C's character classes, \<open>printf\<close>, and shared lemmas;
    \<open>Sscanf\<close>: the conversions of \<open>sscanf\<close> the program uses; \<open>CDouble\<close>: IEEE double arithmetic on
    non-negative numbers with round to nearest even; \<open>World\<close>: events, outcomes.
  \<^item> \<open>LeakyBucket\<close> (\<^verbatim>\<open>leaky-bucket.c\<close>): ageing, accounting, the parser of rates. The lemmas show exact
    thresholds within a period, conservation of events, emptying after a period, and where the
    conversion to 32 bits breaks ageing.
  \<^item> \<open>Msg\<close> (\<^verbatim>\<open>msg.c\<close>): all printing functions. \<open>msg_step\<close> is the frame relation of everything that only
    prints; \<open>trig_step\<close> and \<open>rep_step\<close> extend it to triggers and to the cache table. The collection
    \<open>frame\<close> composes them, so that a decoder's frame lemma is one line.
  \<^item> \<open>Bitfield\<close> (\<^verbatim>\<open>bitfield.c\<close>): the table decoder; which bits a field reads.
  \<^item> \<open>HashChain\<close>: the locale \<open>hash_chains\<close>, a table of chains under a hash function, with the laws of
    lookup and of change. \<open>Config\<close> interprets it for options, \<open>MemDb\<close> for DIMMs.
  \<^item> \<open>Config\<close> (\<^verbatim>\<open>config.c\<close>): parser and readers. Lookup after parsing is the first assignment of the
    section, option lines are read back, and the command line form with \<open>=\<close> goes wrong.
  \<^item> \<open>Trigger\<close> (\<^verbatim>\<open>trigger.c\<close>, \<open>config_trigger\<close>): processes started and reaped. The inductive relation \<open>life\<close>
    interleaves starting triggers, exiting processes and the signal handler; its invariant is
    proved by rule induction.
  \<^item> \<open>Mce\<close> (\<^verbatim>\<open>mcelog.h\<close>, \<^verbatim>\<open>cputype.table\<close>, CPUID in \<^verbatim>\<open>mcelog.c\<close>): the record with its C layout, register
    bits, processor types. The build turns the table into C with \<^verbatim>\<open>mkcputype\<close>; the model reads the table.
  \<^item> \<open>MemDb\<close> (\<^verbatim>\<open>memdb.c\<close>): the DIMM table. \<open>memory_error\<close> refines an abstract table of counters; the
    environment of triggers fits its array; reports are sorted and complete; firmware names of DIMMs
    are read back.
  \<^item> \<open>Report\<close> (\<^verbatim>\<open>cache.c\<close>, \<^verbatim>\<open>yellow.c\<close>, \<^verbatim>\<open>bus.c\<close>, \<^verbatim>\<open>unknown.c\<close>): triggers for single events. \<open>Sysfs\<close> (\<^verbatim>\<open>sysfs.c\<close>): fields of sysfs.
    \<open>Caches\<close> (\<^verbatim>\<open>cache.c\<close>): the walk over the cache directories; its assertions hold.
  \<^item> \<open>DecodeOld\<close>, \<open>DecodeXeon\<close>, \<open>DecodeScalable\<close>: tables and decoders of the processor families.
    Table entries have the text of the source; each decoder has a frame lemma.
  \<^item> \<open>MemErr\<close>: the functions \<open>*_memerr_misc\<close>. The locale \<open>bank_channels\<close> states the contract of a
    memory controller numbering (bank and channel to a global channel); it is interpreted for Haswell,
    Skylake, Sapphire Rapids and Granite Rapids.
  \<^item> \<open>P4\<close> (\<^verbatim>\<open>p4.c\<close>): the architectural decoder and its dispatch: the verdict on every error code, and that
    decoding never touches the counters.
  \<^item> \<open>RbTree\<close>, \<open>RbErase\<close> (\<^verbatim>\<open>rbtree.c\<close>) and \<open>ListHead\<close> (\<^verbatim>\<open>list.h\<close>): the pointer algorithms on a store. Insertion and removal return,
    keep the red-black invariant and the order; list operations refine those of sequences.
  \<^item> \<open>Page\<close>, \<open>PageCount\<close> (\<^verbatim>\<open>page.c\<close>): counters of pages in clusters, indexed by the tree. The invariant \<open>page_ok\<close> ties clusters, tree and list
    together; after any errors every page has been counted as often as it occurred; the report is complete.
  \<^item> \<open>Intel\<close> (\<^verbatim>\<open>intel.c\<close>), \<open>ZhaoxinModel\<close>, \<open>Zhaoxin\<close> (\<^verbatim>\<open>zhaoxin*.c\<close>), \<open>K8\<close> (\<^verbatim>\<open>k8.c\<close>): processor selection, filters and accounting, decoders. A memory
    error is accounted for its DIMM, its socket and its page (\<open>spec_intel\<close>).
  \<^item> \<open>Dmi\<close> (\<^verbatim>\<open>dmi.c\<close>) reads the SMBIOS tables inside of their bounds; \<open>Tsc\<close> (\<^verbatim>\<open>tsc.c\<close>) computes uptimes.
  \<^item> \<open>Mcelog\<close>, \<open>Process\<close> (\<^verbatim>\<open>mcelog.c\<close>): output of a record and the loop over the kernel's buffer; decoding and output keep the counters, the
    loop accounts every record. \<open>Ascii\<close>: the decoder of logs, which reads back what the program prints.
  \<^item> \<open>EventLoop\<close> (\<^verbatim>\<open>eventloop.c\<close>): the table of descriptors; the locale \<open>poll_rounds\<close> is the contract of the callbacks of a round. \<open>Server\<close>
    (\<^verbatim>\<open>server.c\<close>), \<open>Client\<close> (\<^verbatim>\<open>client.c\<close>). \<open>Daemon\<close>: the invariant \<open>table_ok\<close> of table and connections, kept by every event of a client. \<open>Rounds\<close>
    interprets \<open>poll_rounds\<close> for the daemon's callbacks and follows the counters through the loop.
  \<^item> \<open>Msr\<close> (\<^verbatim>\<open>msr.c\<close>); \<open>Main_Program\<close> (\<^verbatim>\<open>mcelog.c\<close>): options, commands, setup, signal handlers and \<open>main\<close>. \<open>Startup\<close> follows \<open>main\<close> from the
    command line to the loop. This theory has the theorems about the whole program.

  \<^bold>\<open>Integers.\<close> Registers and unsigned fields are words of their C width, so shifts and overflow are those of
  the program; \<open>int\<close> values of C that cannot overflow are \<open>int\<close>.

  \<^bold>\<open>Bounds and fuel.\<close> \<open>bitmask_loop\<close> counts rounds: it shifts in one bit per round and 64 rounds
  fill the word. Loops along the pointers of trees and lists are partial functions whose value \<open>None\<close> is a loop that does not end; the theorems show that
  they return on well-formed trees and lists. The walk over SMBIOS entries counts the entries, as the code does. The event loop runs over a given list of wakeups, of any
  length. All other loops are recursion on the data or have a termination proof.

  \<^bold>\<open>Not modelled.\<close> When \<open>cache_to_cpus\<close> of \<^verbatim>\<open>cache.c\<close> walks the cache directories (\<open>read_caches\<close> is modelled alone; \<open>cache_to_cpus\<close> takes its result from the field \<open>os_caches\<close>); the verbose output of \<^verbatim>\<open>dmi.c\<close>;
  \<open>ppoll_fallback\<close> of \<^verbatim>\<open>eventloop.c\<close>; the messages of \<open>getopt_long\<close>; allocation failures apart from those of page clusters and answer buffers
  (\<^verbatim>\<open>memutil.c\<close>); the test programs under \<open>#ifdef TEST\<close>; the trigger scripts.
\<close>

section \<open>The whole program\<close>


definition intel_name :: string where "intel_name = ''intel''"

definition one_event :: "wakeup list" where
  "one_event = [Interrupted 1700000001 SIGUSR1, Ready 1700000002 (\<lambda>fd. if fd = 5 then POLLIN else 0)]"

lemma one_event_ok: "find_cputype intel_name cpu_choices = Some CPU_INTEL" "accounting_cpu CPU_INTEL" "list_all (wakeup_ok 5) one_event"
  "page_count host_start = Map.empty" "pages_of_reads 128 (os_mce host_start) = {0x5000}"
proof -
  show "find_cputype intel_name cpu_choices = Some CPU_INTEL" "accounting_cpu CPU_INTEL" by code_simp+
  show "list_all (wakeup_ok 5) one_event" by (simp add: one_event_def device_ok_def POLLIN_def POLLERR_def POLLHUP_def POLLNVAL_def)
  show "page_count host_start = Map.empty" using host_start_tables(2) mcelog_start_ok(2) by (simp add: all_counts_def)
  show "pages_of_reads 128 (os_mce host_start) = {0x5000}" by (simp add: host_start_sel one_record_read memory_mce_sel)
qed


text \<open>
  C2: Strangers learn nothing from the daemon. If nobody who sends a command has credentials that the configuration accepts, then whatever clients do and
  in whatever order, the daemon sends nothing but (a part of) the two refusals, and keeps running.
\<close>

theorem strangers_refused:
  fixes s :: "'a main_state_scheme"
  assumes "initial s" "plain_host sfd fd recordlen loglen s" "find_cputype name cpu_choices = Some c" "accounting_cpu c"
    and "endof_field ''socketid'' \<le> recordlen" "card (dom (page_count s) \<union> pages_of_reads recordlen (os_mce s)) \<le> 4158"
    and "list_all (wakeup_ok fd) ws"
    and "\<forall>bytes uc. Some (bytes, Cmsg_cred uc) \<in> set (os_recv s) \<longrightarrow> \<not> permitted (acc s) uc"
  shows "\<exists>s'. main junk dvars [prog, ''--daemon'', ''--cpu='' @ name] ws s = Ret () s' \<and>
    (\<forall>to m. Sent to m \<in> set (net s') \<longrightarrow> (\<exists>n. m = take n ''permission denied\<newline>'' \<or> m = take n ''mcelog server too busy\<newline>''))"
proof -
  have "True \<longrightarrow> (\<forall>r\<in>set (os_recv s). denied (acc s) r)" using assms(8) by (auto simp: denied_def)
  from main_loop [OF assms(1-7) this, of junk dvars prog "[]"] obtain s' where
    "main junk dvars [prog, ''--daemon'', ''--cpu='' @ name] (ws @ []) s = at_exit (Ret () s')" "silent s'"
    unfolding running_def eventloop.simps by blast
  then show ?thesis by (auto simp: silent_def list_all_iff refusal_def at_exit_def)
qed

text \<open>A user without privileges connects, asks for the pages and is refused.\<close>

definition stranger :: main_state where
  "stranger = host_start\<lparr>os_accept := [7], os_fionread := [6], os_send := [100],
     os_recv := [Some (''pages\<newline>'', Cmsg_cred \<lparr>uc_pid = 99, uc_uid = 1000, uc_gid = 1000\<rparr>)]\<rparr>"

definition two_events :: "wakeup list" where
  "two_events = [Ready 1700000001 (\<lambda>fd. if fd = 4 then POLLIN else 0), Ready 1700000002 (\<lambda>fd. if fd = 7 then POLLIN else 0)]"

lemma stranger_ok: "initial stranger" "plain_host 4 5 128 32 stranger" "page_count stranger = Map.empty" "os_mce stranger = os_mce host_start"
  "\<not> permitted (acc stranger) \<lparr>uc_pid = 99, uc_uid = 1000, uc_gid = 1000\<rparr>" "list_all (wakeup_ok 5) two_events"
proof -
  have t: "tables_part stranger = tables_part host_start" by (simp add: tables_part_def stranger_def)
  have "tables_ok stranger" using tables_part_ok(1) [OF t] host_start_tables(1) by simp
  then show "initial stranger" using host_start_sel(1) unfolding initial_def by (simp add: stranger_def)
  show "plain_host 4 5 128 32 stranger" using host_start_sel(2) by (simp add: plain_host_def stranger_def)
  show "page_count stranger = Map.empty" using tables_part_ok(2) [OF t] one_event_ok(4) by (simp add: all_counts_def)
  show "os_mce stranger = os_mce host_start" by (simp add: stranger_def)
  have "acc stranger = \<lparr>cred_uid = 0, cred_gid = - 1\<rparr>"
    by (simp add: stranger_def host_start_def mcelog_state.defs poll_state.defs server_state.defs msr_state.defs main_state.defs)
  then show "\<not> permitted (acc stranger) \<lparr>uc_pid = 99, uc_uid = 1000, uc_gid = 1000\<rparr>" by (simp add: permitted_def)
  show "list_all (wakeup_ok 5) two_events" by (simp add: two_events_def device_ok_def)
qed

theorem strangers_refused_witness:
  "\<exists>s'. main 0 (0, 0, 0) [''mcelog'', ''--daemon'', ''--cpu='' @ intel_name] two_events stranger = Ret () s' \<and> Sent 7 ''done\<newline>'' \<notin> set (net s')"
proof -
  have c: "card (dom (page_count stranger) \<union> pages_of_reads 128 (os_mce stranger)) \<le> 4158" by (simp add: stranger_ok one_event_ok)
  have n: "\<forall>bytes uc. Some (bytes, Cmsg_cred uc) \<in> set (os_recv stranger) \<longrightarrow> \<not> permitted (acc stranger) uc"
    using stranger_ok(5) by (auto simp: stranger_def)
  from strangers_refused [where junk = 0 and dvars = "(0, 0, 0)" and prog = "''mcelog''", OF stranger_ok(1,2) one_event_ok(1,2) _ c stranger_ok(6) n]
  obtain s' where s': "main 0 (0, 0, 0) [''mcelog'', ''--daemon'', ''--cpu='' @ intel_name] two_events stranger = Ret () s'"
      "\<And>to m. Sent to m \<in> set (net s') \<Longrightarrow> \<exists>n. m = take n ''permission denied\<newline>'' \<or> m = take n ''mcelog server too busy\<newline>''"
    by (auto simp: mce_offsets)
  have "''done\<newline>'' \<noteq> take n ''permission denied\<newline>''" "''done\<newline>'' \<noteq> take n ''mcelog server too busy\<newline>''" for n by (cases n; simp)+
  then show ?thesis using s' by metis
qed



end
